(* ===== verification/Prelude.thy ===== *)
theory Prelude
  imports Complex_Main "HOL-Library.Sublist"
begin

text \<open>
  Shared vocabulary of the development.  The error type collects the Python
  exceptions the modelled code raises, a fallible operation returns
  \<open>exn + 'a\<close> with \<open>Inl\<close> for the raised exception, and a JSON document or an
  untyped Python value (a request body, a payload, a decoded model answer) is a
  value of the type \<open>json\<close>.  Association lists stand for Python dicts, which keep
  insertion order.  The lemmas on these types and on lists that several components
  use are collected here, with the collections that carry the component proofs.
\<close>

named_theorems model_simps
  \<open>definitions of the model that evaluation and case analysis unfold\<close>

section \<open>Errors as values\<close>

datatype exn =
    ValueError string
  | KeyError string
  | RuntimeError string
  | TypeError string
  | PatchValidationError string
  | WebhookSignatureError string
  | HTTPException nat string
  | OtherError string

type_synonym 'a result = "exn + 'a"

fun exn_text :: "exn \<Rightarrow> string" where
  "exn_text (ValueError m) = m"
| "exn_text (KeyError m) = m"
| "exn_text (RuntimeError m) = m"
| "exn_text (TypeError m) = m"
| "exn_text (PatchValidationError m) = m"
| "exn_text (WebhookSignatureError m) = m"
| "exn_text (HTTPException _ m) = m"
| "exn_text (OtherError m) = m"

definition bind_result :: "'a result \<Rightarrow> ('a \<Rightarrow> 'b result) \<Rightarrow> 'b result" where
  "bind_result r f = (case r of Inl e \<Rightarrow> Inl e | Inr x \<Rightarrow> f x)"

lemma bind_result_simps [simp]:
  "bind_result (Inl e) f = Inl e"
  "bind_result (Inr x) f = f x"
  by (simp_all add: bind_result_def)

lemma bind_result_eq_Inr [simp]:
  "bind_result r f = Inr y \<longleftrightarrow> (\<exists>x. r = Inr x \<and> f x = Inr y)"
  by (cases r) auto

section \<open>JSON documents and Python dicts\<close>

datatype json =
    JNull
  | JBool bool
  | JInt int
  | JFloat real
  | JStr string
  | JList "json list"
  | JObj "(string \<times> json) list"

type_synonym 'v dict = "(string \<times> 'v) list"

text \<open>
  A Python dict as an association list in insertion order: assigning to a key that is
  present replaces its value in place, assigning to a new key appends it.
\<close>

fun dict_set :: "('k \<times> 'v) list \<Rightarrow> 'k \<Rightarrow> 'v \<Rightarrow> ('k \<times> 'v) list" where
  "dict_set [] k v = [(k, v)]"
| "dict_set ((k', v') # d) k v =
     (if k' = k then (k, v) # d else (k', v') # dict_set d k v)"

abbreviation dict_get :: "('k \<times> 'v) list \<Rightarrow> 'k \<Rightarrow> 'v option" where
  "dict_get d k \<equiv> map_of d k"

definition dict_del :: "('k \<times> 'v) list \<Rightarrow> 'k \<Rightarrow> ('k \<times> 'v) list" where
  "dict_del d k = filter (\<lambda>(k', _). k' \<noteq> k) d"

definition dict_keys :: "('k \<times> 'v) list \<Rightarrow> 'k list" where
  "dict_keys d = map fst d"

definition dict_values :: "('k \<times> 'v) list \<Rightarrow> 'v list" where
  "dict_values d = map snd d"

definition dict_update :: "('k \<times> 'v) list \<Rightarrow> ('k \<times> 'v) list \<Rightarrow> ('k \<times> 'v) list" where
  "dict_update d e = foldl (\<lambda>acc (k, v). dict_set acc k v) d e"

definition get_or :: "('k \<times> 'v) list \<Rightarrow> 'k \<Rightarrow> 'v \<Rightarrow> 'v" where
  "get_or d k v = (case map_of d k of None \<Rightarrow> v | Some x \<Rightarrow> x)"

lemma map_of_dict_set [simp]: "map_of (dict_set d k v) = (map_of d)(k \<mapsto> v)"
  by (induction d k v rule: dict_set.induct) (auto simp: fun_eq_iff)

lemma keys_dict_set:
  "map fst (dict_set d k v) = (if k \<in> fst ` set d then map fst d else map fst d @ [k])"
  by (induction d k v rule: dict_set.induct) auto

lemma distinct_dict_set [simp]:
  "distinct (map fst d) \<Longrightarrow> distinct (map fst (dict_set d k v))"
  by (auto simp: keys_dict_set)

lemma set_dict_set_subset: "set (dict_set d k v) \<subseteq> insert (k, v) (set d)"
  by (induction d k v rule: dict_set.induct) auto

lemma map_of_dict_del [simp]: "map_of (dict_del d k) = (map_of d)(k := None)"
  by (induction d) (auto simp: dict_del_def fun_eq_iff)

lemma distinct_dict_del [simp]:
  "distinct (map fst d) \<Longrightarrow> distinct (map fst (dict_del d k))"
  by (induction d) (auto simp: dict_del_def)

lemma map_of_dict_update:
  "map_of (dict_update d e) = map_of d ++ map_of (rev e)"
proof (induction e arbitrary: d rule: rev_induct)
  case Nil
  then show ?case by (simp add: dict_update_def)
next
  case (snoc kv e)
  then show ?case
    by (cases kv) (simp add: dict_update_def fun_eq_iff map_add_def split: option.splits)
qed

section \<open>Python truth and integers\<close>

text \<open>The truth value of a JSON value in a Python condition.\<close>

fun truthy :: "json \<Rightarrow> bool" where
  "truthy JNull = False"
| "truthy (JBool b) = b"
| "truthy (JInt n) = (n \<noteq> 0)"
| "truthy (JFloat x) = (x \<noteq> 0)"
| "truthy (JStr s) = (s \<noteq> [])"
| "truthy (JList xs) = (xs \<noteq> [])"
| "truthy (JObj d) = (d \<noteq> [])"

section \<open>Lists\<close>

lemma psubset_removed: "W' \<subseteq> W - A \<Longrightarrow> A \<subseteq> W \<Longrightarrow> A \<noteq> {} \<Longrightarrow> W' \<subset> W"
  by blast

lemma find_SomeD: "find P xs = Some x \<Longrightarrow> x \<in> set xs \<and> P x"
  by (auto simp: find_Some_iff)

lemma sum_list_strict_mono_at:
  fixes f g :: "'a \<Rightarrow> nat"
  assumes "\<And>x. x \<in> set xs \<Longrightarrow> f x \<le> g x" "a \<in> set xs" "f a < g a"
  shows "sum_list (map f xs) < sum_list (map g xs)"
  using assms
proof (induction xs)
  case (Cons x xs)
  have "f x \<le> g x" "sum_list (map f xs) \<le> sum_list (map g xs)"
    using Cons.prems(1) by (auto intro: sum_list_mono)
  moreover have "f x < g x \<or> sum_list (map f xs) < sum_list (map g xs)"
    using Cons by auto
  ultimately show ?case by (auto simp: add_less_le_mono add_le_less_mono)
qed simp

lemma length_filter_Suc_conv:
  "x \<in> set xs \<Longrightarrow> P x \<Longrightarrow> 0 < length (filter P xs)"
  by (induction xs) auto

lemma sum_list_map_filter_le:
  fixes f :: "'a \<Rightarrow> nat"
  shows "sum_list (map f (filter P xs)) \<le> sum_list (map f xs)"
  by (induction xs) auto

end
