(* ===== verification/Py_Str.thy ===== *)
theory Py_Str
  imports Prelude
begin

text \<open>
  The operations of Python's \<open>str\<close> that the program uses.  A string is a list of
  characters, one per code point; code points above 255 occur in the sources only
  inside fixed labels, where each is written as one character of the C1 control block
  (\<open>em_dash\<close>, \<open>warn_sign\<close> below), so that lengths count code points as Python does.
\<close>

section \<open>Characters\<close>

definition nl :: char where "nl = CHR 0x0A"
definition cr :: char where "cr = CHR 0x0D"

definition em_dash :: string where "em_dash = [CHR 0x97]"
definition warn_sign :: string where "warn_sign = [CHR 0x8E, CHR 0x8F]"

text \<open>\<open>str.isspace\<close> of one character: what \<open>strip\<close>, \<open>split\<close> and \<open>\s\<close> remove.\<close>

definition py_space :: "char \<Rightarrow> bool" where
  "py_space c \<longleftrightarrow> c \<in> {CHR 0x09, CHR 0x0A, CHR 0x0B, CHR 0x0C, CHR 0x0D,
     CHR 0x1C, CHR 0x1D, CHR 0x1E, CHR 0x1F, CHR 0x20, CHR 0x85, CHR 0xA0}"

text \<open>The line boundaries of \<open>str.splitlines\<close> among these characters.\<close>

definition line_sep :: "char \<Rightarrow> bool" where
  "line_sep c \<longleftrightarrow> c \<in> {CHR 0x0A, CHR 0x0B, CHR 0x0C, CHR 0x0D,
     CHR 0x1C, CHR 0x1D, CHR 0x1E, CHR 0x85}"

definition is_digit :: "char \<Rightarrow> bool" where
  "is_digit c \<longleftrightarrow> c \<in> set ''0123456789''"

text \<open>
  \<open>str.lower\<close> and \<open>str.upper\<close> on one character, for the ASCII letters and the Latin-1
  letters that have a Latin-1 counterpart.  The cases of a letter differ in bit 5; the
  low five bits number the letter, so the letters are 1 to 26 in the ASCII block and 0
  to 30 without 23 (the multiplication and division signs) in the Latin-1 block.
\<close>

definition letter_bits :: "bool \<Rightarrow> bool \<Rightarrow> bool \<Rightarrow> bool \<Rightarrow> bool \<Rightarrow> bool \<Rightarrow> bool" where
  "letter_bits b0 b1 b2 b3 b4 b7 =
     (if b7 then \<not> (b0 \<and> b1 \<and> b2 \<and> b4) \<comment> \<open>neither 23 nor 31\<close>
      else (b0 \<or> b1 \<or> b2 \<or> b3 \<or> b4) \<and> \<not> (b4 \<and> b3 \<and> (b2 \<or> (b1 \<and> b0))))"

fun lower_char :: "char \<Rightarrow> char" where
  "lower_char (Char b0 b1 b2 b3 b4 b5 b6 b7) =
     Char b0 b1 b2 b3 b4 (b5 \<or> (b6 \<and> letter_bits b0 b1 b2 b3 b4 b7)) b6 b7"

fun upper_char :: "char \<Rightarrow> char" where
  "upper_char (Char b0 b1 b2 b3 b4 b5 b6 b7) =
     Char b0 b1 b2 b3 b4 (b5 \<and> \<not> (b6 \<and> letter_bits b0 b1 b2 b3 b4 b7)) b6 b7"

lemma lower_char_idem [simp]: "lower_char (lower_char c) = lower_char c"
  by (cases c) auto

lemma lower_upper_char [simp]: "lower_char (upper_char c) = lower_char c"
  by (cases c) auto

lemma lower_upper_examples:
  "map lower_char ''AZ@[az`{'' = ''az@[az`{''" "map upper_char ''AZ@[az`{'' = ''AZ@[AZ`{''"
  by (simp_all add: letter_bits_def)

definition lower :: "string \<Rightarrow> string" where "lower s = map lower_char s"
definition upper :: "string \<Rightarrow> string" where "upper s = map upper_char s"

section \<open>Trimming, prefixes and containment\<close>

definition lstrip :: "string \<Rightarrow> string" where "lstrip s = dropWhile py_space s"
definition rstrip :: "string \<Rightarrow> string" where "rstrip s = rev (dropWhile py_space (rev s))"
definition strip :: "string \<Rightarrow> string" where "strip s = rstrip (lstrip s)"

definition rstrip_char :: "char \<Rightarrow> string \<Rightarrow> string" where
  "rstrip_char c s = rev (dropWhile (\<lambda>x. x = c) (rev s))"

abbreviation startswith :: "string \<Rightarrow> string \<Rightarrow> bool" where
  "startswith s p \<equiv> prefix p s"

text \<open>\<open>p in s\<close> on strings.\<close>

fun contains :: "string \<Rightarrow> string \<Rightarrow> bool" where
  "contains p [] = (p = [])"
| "contains p (c # s) = (prefix p (c # s) \<or> contains p s)"

lemma contains_sublist: "contains p s \<longleftrightarrow> sublist p s"
  by (induction s) (auto simp: sublist_Cons_right)

section \<open>Splitting and joining\<close>

text \<open>
  \<open>str.splitlines\<close>: \<open>\r\n\<close> is one boundary, and a final boundary opens no further
  line.  \<open>splitlines_keep\<close> is \<open>splitlines(keepends=True)\<close>.
\<close>

fun splitlines_aux :: "bool \<Rightarrow> string \<Rightarrow> string \<Rightarrow> string list" where
  "splitlines_aux keep acc [] = (if acc = [] then [] else [rev acc])"
| "splitlines_aux keep acc [c] =
     (if line_sep c then [rev (if keep then c # acc else acc)] else [rev (c # acc)])"
| "splitlines_aux keep acc (c # d # s) =
     (if c = CHR 0x0D \<and> d = CHR 0x0A
      then rev (if keep then d # c # acc else acc) # splitlines_aux keep [] s
      else if line_sep c
      then rev (if keep then c # acc else acc) # splitlines_aux keep [] (d # s)
      else splitlines_aux keep (c # acc) (d # s))"

definition splitlines :: "string \<Rightarrow> string list" where
  "splitlines s = splitlines_aux False [] s"

definition splitlines_keep :: "string \<Rightarrow> string list" where
  "splitlines_keep s = splitlines_aux True [] s"

lemma concat_splitlines_aux: "concat (splitlines_aux True acc s) = rev acc @ s"
  by (induction True acc s rule: splitlines_aux.induct) auto

lemma concat_splitlines_keep [simp]: "concat (splitlines_keep s) = s"
  by (simp add: splitlines_keep_def concat_splitlines_aux)

text \<open>\<open>str.split(sep)\<close> with a one-character separator, and \<open>str.split()\<close> on white space.\<close>

fun split_char :: "char \<Rightarrow> string \<Rightarrow> string list" where
  "split_char c [] = [[]]"
| "split_char c (x # s) =
     (if x = c then [] # split_char c s
      else case split_char c s of [] \<Rightarrow> [[x]] | w # ws \<Rightarrow> (x # w) # ws)"

fun words_aux :: "string \<Rightarrow> string \<Rightarrow> string list" where
  "words_aux acc [] = (if acc = [] then [] else [rev acc])"
| "words_aux acc (c # s) =
     (if py_space c then (if acc = [] then words_aux [] s else rev acc # words_aux [] s)
      else words_aux (c # acc) s)"

definition split_ws :: "string \<Rightarrow> string list" where "split_ws s = words_aux [] s"

fun join :: "string \<Rightarrow> string list \<Rightarrow> string" where
  "join sep [] = []"
| "join sep [w] = w"
| "join sep (w # v # ws) = w @ sep @ join sep (v # ws)"

lemma split_char_nonempty [simp]: "split_char c s \<noteq> []"
  by (induction s) (auto split: list.splits)

lemma join_Cons_char [simp]: "join sep ((x # w) # ws) = x # join sep (w # ws)"
  by (cases ws) auto

lemma join_Nil_word: "ws \<noteq> [] \<Longrightarrow> join sep ([] # ws) = sep @ join sep ws"
  by (cases ws) auto

lemma join_split_char: "join [c] (split_char c s) = s"
proof (induction s)
  case Nil
  then show ?case by simp
next
  case (Cons x s)
  then show ?case
    by (cases "split_char c s") (auto simp: join_Nil_word simp del: join.simps)
qed

section \<open>Replacement\<close>

text \<open>\<open>s.replace(old, new)\<close> for a non-empty \<open>old\<close>: left to right, without overlap.\<close>

function replace :: "string \<Rightarrow> string \<Rightarrow> string \<Rightarrow> string" where
  "replace old new [] = []"
| "replace old new (c # s) =
     (if old \<noteq> [] \<and> prefix old (c # s)
      then new @ replace old new (drop (length old) (c # s))
      else c # replace old new s)"
  by pat_completeness auto
termination
  by (relation "measure (\<lambda>(old, new, s). length s)") (auto simp: Suc_diff_le neq_Nil_conv)

section \<open>Decimal numbers\<close>

fun nat_str :: "nat \<Rightarrow> string" where
  "nat_str n = (if n < 10 then [char_of (48 + n)]
                else nat_str (n div 10) @ [char_of (48 + n mod 10)])"

declare nat_str.simps [simp del]

definition int_str :: "int \<Rightarrow> string" where
  "int_str i = (if i < 0 then CHR ''-'' # nat_str (nat (- i)) else nat_str (nat i))"

text \<open>
  \<open>repr\<close> of a string: single quotes unless the text holds a single quote and no double
  quote; the quote, the backslash and the unprintable characters are escaped.
\<close>

definition hex_digit :: "nat \<Rightarrow> char" where
  "hex_digit n = ''0123456789abcdef'' ! (n mod 16)"

definition py_printable :: "char \<Rightarrow> bool" where
  "py_printable c \<longleftrightarrow> (let n = of_char c :: nat in
     32 \<le> n \<and> n < 127 \<or> 160 < n \<and> n \<noteq> 173)"

definition repr_char :: "char \<Rightarrow> char \<Rightarrow> string" where
  "repr_char q c =
     (if c = q \<or> c = CHR 0x5C then [CHR 0x5C, c]
      else if c = CHR 0x0A then [CHR 0x5C, CHR ''n'']
      else if c = CHR 0x0D then [CHR 0x5C, CHR ''r'']
      else if c = CHR 0x09 then [CHR 0x5C, CHR ''t'']
      else if py_printable c then [c]
      else [CHR 0x5C, CHR ''x'', hex_digit (of_char c div 16), hex_digit (of_char c)])"

definition py_repr :: "string \<Rightarrow> string" where
  "py_repr s =
     (let q = (if CHR 0x27 \<in> set s \<and> CHR 0x22 \<notin> set s then CHR 0x22 else CHR 0x27)
      in q # concat (map (repr_char q) s) @ [q])"

section \<open>Facts on trimming\<close>

lemma strip_Nil [simp]: "strip [] = []"
  by (simp add: strip_def rstrip_def lstrip_def)

lemma set_strip_subset: "set (strip s) \<subseteq> set s"
  by (auto simp: strip_def rstrip_def lstrip_def dest!: set_dropWhileD)

lemma strip_eq_Nil_iff: "strip s = [] \<longleftrightarrow> (\<forall>c\<in>set s. py_space c)"
proof -
  have "strip s = [] \<longleftrightarrow> (\<forall>c\<in>set (dropWhile py_space s). py_space c)"
    by (simp add: strip_def rstrip_def lstrip_def dropWhile_eq_Nil_conv)
  also have "\<dots> \<longleftrightarrow> (\<forall>c\<in>set s. py_space c)"
    by (induction s) auto
  finally show ?thesis .
qed

lemma sublist_strip: "sublist (strip s) s"
proof -
  have "sublist (rstrip t) t" for t
    unfolding rstrip_def by (metis rev_rev_ident sublist_dropWhile sublist_rev)
  moreover have "sublist (lstrip s) s"
    unfolding lstrip_def by (rule sublist_dropWhile)
  ultimately show ?thesis
    unfolding strip_def by (metis sublist_order.dual_order.trans)
qed

lemma rstrip_decomp: "\<exists>ws. s = rstrip s @ ws \<and> (\<forall>c\<in>set ws. py_space c)"
proof -
  have "rev s = takeWhile py_space (rev s) @ dropWhile py_space (rev s)" by simp
  then have "s = rstrip s @ rev (takeWhile py_space (rev s))"
    unfolding rstrip_def by (metis rev_append rev_rev_ident)
  then show ?thesis by (metis set_rev set_takeWhileD)
qed

lemma strip_hd: "strip s \<noteq> [] \<Longrightarrow> \<not> py_space (hd (strip s))"
proof -
  assume ne: "strip s \<noteq> []"
  obtain ws where "lstrip s = strip s @ ws"
    using rstrip_decomp [of "lstrip s"] by (auto simp: strip_def)
  with ne have "hd (strip s) = hd (lstrip s)" and "lstrip s \<noteq> []" by auto
  then show ?thesis by (simp add: lstrip_def hd_dropWhile)
qed

lemma strip_last: "strip s \<noteq> [] \<Longrightarrow> \<not> py_space (last (strip s))"
  by (simp add: strip_def rstrip_def last_rev hd_dropWhile)

lemma strip_idem [simp]: "strip (strip s) = strip s"
proof (cases "strip s = []")
  case False
  then have "lstrip (strip s) = strip s"
    using strip_hd [of s] by (cases "strip s") (auto simp: lstrip_def)
  moreover have "rstrip (strip s) = strip s"
    using False strip_last [of s]
    by (cases "strip s" rule: rev_cases) (auto simp: rstrip_def)
  ultimately show ?thesis by (simp add: strip_def [of "strip s"])
qed simp

end
