(* ===== verification/Py_Re.thy ===== *)
theory Py_Re
  imports Py_Str
begin

text \<open>
  The part of Python's \<open>re\<close> module the program uses, as a backtracking matcher.
  \<open>rmatch r st\<close> lists the states in which the pattern can leave off, in the order in
  which the backtracking engine would try them, so its head is the match Python
  reports.  A state holds the character before the current position, the rest of the
  subject and the captured groups.  The second half gives anchor-free patterns their
  language and proves the matcher exact for it.
\<close>

section \<open>Patterns and the matcher\<close>

datatype rx =
    Eps
  | Cls "char \<Rightarrow> bool"      \<comment> \<open>one character of a class\<close>
  | Seq rx rx
  | Alt rx rx
  | Star rx                  \<comment> \<open>greedy repetition\<close>
  | LazyStar rx              \<comment> \<open>\<open>*?\<close>\<close>
  | Bol                      \<comment> \<open>\<open>^\<close> under \<open>re.MULTILINE\<close>\<close>
  | Bos                      \<comment> \<open>\<open>^\<close> without it\<close>
  | Eos                      \<comment> \<open>\<open>$\<close> without it: the end, or before a final line feed\<close>
  | NotAhead rx              \<comment> \<open>\<open>(?!r)\<close>\<close>
  | Grp nat rx               \<comment> \<open>capturing group\<close>

type_synonym rstate = "char option \<times> string \<times> (nat \<times> string) list"

abbreviation st_rest :: "rstate \<Rightarrow> string" where "st_rest st \<equiv> fst (snd st)"
abbreviation st_caps :: "rstate \<Rightarrow> (nat \<times> string) list" where "st_caps st \<equiv> snd (snd st)"

definition add_cap :: "nat \<Rightarrow> string \<Rightarrow> rstate \<Rightarrow> rstate" where
  "add_cap n s0 st =
     (fst st, st_rest st, (n, take (length s0 - length (st_rest st)) s0) # st_caps st)"

function rmatch :: "rx \<Rightarrow> rstate \<Rightarrow> rstate list" where
  "rmatch Eps st = [st]"
| "rmatch (Cls P) st =
     (case st_rest st of [] \<Rightarrow> []
      | c # s \<Rightarrow> if P c then [(Some c, s, st_caps st)] else [])"
| "rmatch (Seq a b) st = concat (map (rmatch b) (rmatch a st))"
| "rmatch (Alt a b) st = rmatch a st @ rmatch b st"
| "rmatch (Star a) (p, s, cs) =
     concat (map (\<lambda>st'. if length (st_rest st') < length s
                        then rmatch (Star a) st' else []) (rmatch a (p, s, cs))) @ [(p, s, cs)]"
| "rmatch (LazyStar a) (p, s, cs) =
     (p, s, cs) # concat (map (\<lambda>st'. if length (st_rest st') < length s
                              then rmatch (LazyStar a) st' else []) (rmatch a (p, s, cs)))"
| "rmatch Bol st = (if fst st = None \<or> fst st = Some nl then [st] else [])"
| "rmatch Bos st = (if fst st = None then [st] else [])"
| "rmatch Eos st = (if st_rest st = [] \<or> st_rest st = [nl] then [st] else [])"
| "rmatch (NotAhead a) st = (if rmatch a st = [] then [st] else [])"
| "rmatch (Grp n a) st = map (add_cap n (st_rest st)) (rmatch a st)"
  by pat_completeness auto
termination
  by (relation "measures [\<lambda>(r, st). size r, \<lambda>(r, st). length (st_rest st)]") auto

text \<open>
  The equations of the repetitions unfold themselves under the guard, so they leave the
  simpset; the code equations still evaluate them.
\<close>

lemmas rmatch_Star = rmatch.simps(5)
lemmas rmatch_LazyStar = rmatch.simps(6)
declare rmatch.simps(5,6) [simp del]

section \<open>Pattern syntax\<close>

definition chr_i :: "char \<Rightarrow> rx" where
  "chr_i c = Cls (\<lambda>x. lower_char x = lower_char c)"

definition chr_x :: "char \<Rightarrow> rx" where "chr_x c = Cls (\<lambda>x. x = c)"

fun lit :: "string \<Rightarrow> rx" where
  "lit [] = Eps" | "lit (c # s) = Seq (chr_x c) (lit s)"

text \<open>A literal under \<open>re.IGNORECASE\<close>.\<close>

fun lit_i :: "string \<Rightarrow> rx" where
  "lit_i [] = Eps" | "lit_i (c # s) = Seq (chr_i c) (lit_i s)"

definition rplus :: "rx \<Rightarrow> rx" where "rplus r = Seq r (Star r)"
definition ropt :: "rx \<Rightarrow> rx" where "ropt r = Alt r Eps"
definition space_x :: rx where "space_x = Cls py_space"
definition non_space_x :: rx where "non_space_x = Cls (\<lambda>c. \<not> py_space c)"
definition any_char :: rx where "any_char = Cls (\<lambda>_. True)"
definition any_but_nl :: rx where "any_but_nl = Cls (\<lambda>c. c \<noteq> nl)"
definition digit :: rx where "digit = Cls is_digit"
definition blank :: rx where "blank = Cls (\<lambda>c. c = CHR '' '' \<or> c = CHR 0x09)"

fun seqs :: "rx list \<Rightarrow> rx" where
  "seqs [] = Eps" | "seqs [r] = r" | "seqs (r # q # rs) = Seq r (seqs (q # rs))"

fun alts :: "rx list \<Rightarrow> rx" where
  "alts [] = Cls (\<lambda>_. False)" | "alts [r] = r" | "alts (r # q # rs) = Alt r (alts (q # rs))"

section \<open>match, search, finditer and sub\<close>

text \<open>\<open>pattern.match(s)\<close>: a match at the start of the subject.\<close>

definition re_match :: "rx \<Rightarrow> string \<Rightarrow> rstate option" where
  "re_match r s = (case rmatch r (None, s, []) of [] \<Rightarrow> None | st # _ \<Rightarrow> Some st)"

definition group :: "rstate \<Rightarrow> nat \<Rightarrow> string" where
  "group st n = (case map_of (st_caps st) n of None \<Rightarrow> [] | Some s \<Rightarrow> s)"

fun search_from :: "rx \<Rightarrow> char option \<Rightarrow> string \<Rightarrow> rstate option" where
  "search_from r p [] =
     (case rmatch r (p, [], []) of [] \<Rightarrow> None | st # _ \<Rightarrow> Some st)"
| "search_from r p (c # s) =
     (case rmatch r (p, c # s, []) of
        [] \<Rightarrow> search_from r (Some c) s
      | st # _ \<Rightarrow> Some st)"

definition re_search :: "rx \<Rightarrow> string \<Rightarrow> rstate option" where
  "re_search r s = search_from r None s"

text \<open>
  \<open>pattern.sub(new, s)\<close>: non-overlapping matches from the left are replaced; after an
  empty match the next character is copied.
\<close>

function sub_from :: "rx \<Rightarrow> string \<Rightarrow> char option \<Rightarrow> string \<Rightarrow> string" where
  "sub_from r new p s =
     (case rmatch r (p, s, []) of
        [] \<Rightarrow> (case s of [] \<Rightarrow> [] | c # s' \<Rightarrow> c # sub_from r new (Some c) s')
      | st # _ \<Rightarrow>
          (if length (st_rest st) < length s
           then new @ sub_from r new (fst st) (st_rest st)
           else new @ (case s of [] \<Rightarrow> [] | c # s' \<Rightarrow> c # sub_from r new (Some c) s')))"
  by pat_completeness auto
termination
  by (relation "measure (\<lambda>(r, new, p, s). length s)") auto

declare sub_from.simps [simp del]

definition re_sub :: "rx \<Rightarrow> string \<Rightarrow> string \<Rightarrow> string" where
  "re_sub r new s = sub_from r new None s"

text \<open>\<open>pattern.finditer(s)\<close>: the final states of the successive matches.\<close>

function finditer_from :: "rx \<Rightarrow> char option \<Rightarrow> string \<Rightarrow> rstate list" where
  "finditer_from r p s =
     (case rmatch r (p, s, []) of
        [] \<Rightarrow> (case s of [] \<Rightarrow> [] | c # s' \<Rightarrow> finditer_from r (Some c) s')
      | st # _ \<Rightarrow>
          (if length (st_rest st) < length s
           then st # finditer_from r (fst st) (st_rest st)
           else st # (case s of [] \<Rightarrow> [] | c # s' \<Rightarrow> finditer_from r (Some c) s')))"
  by pat_completeness auto
termination
  by (relation "measure (\<lambda>(r, p, s). length s)") auto

declare finditer_from.simps [simp del]

definition finditer :: "rx \<Rightarrow> string \<Rightarrow> rstate list" where
  "finditer r s = finditer_from r None s"

section \<open>The language of an anchor-free pattern\<close>

inductive_set kstar :: "string set \<Rightarrow> string set" for A where
  kstar_Nil: "[] \<in> kstar A"
| kstar_Cons: "w \<in> A \<Longrightarrow> w \<noteq> [] \<Longrightarrow> v \<in> kstar A \<Longrightarrow> w @ v \<in> kstar A"

fun plain :: "rx \<Rightarrow> bool" where
  "plain Eps = True"
| "plain (Cls P) = True"
| "plain (Seq a b) = (plain a \<and> plain b)"
| "plain (Alt a b) = (plain a \<and> plain b)"
| "plain (Star a) = plain a"
| "plain (LazyStar a) = plain a"
| "plain (Grp n a) = plain a"
| "plain r = False"

fun lang :: "rx \<Rightarrow> string set" where
  "lang Eps = {[]}"
| "lang (Cls P) = {[c] | c. P c}"
| "lang (Seq a b) = {w @ v | w v. w \<in> lang a \<and> v \<in> lang b}"
| "lang (Alt a b) = lang a \<union> lang b"
| "lang (Star a) = kstar (lang a)"
| "lang (LazyStar a) = kstar (lang a)"
| "lang (Grp n a) = lang a"
| "lang r = {}"

text \<open>The matcher only consumes a prefix of its subject.\<close>

lemma rmatch_suffix: "st' \<in> set (rmatch r st) \<Longrightarrow> suffix (st_rest st') (st_rest st)"
proof (induction r st arbitrary: st' rule: rmatch.induct)
  case (2 P st)
  then show ?case by (cases "st_rest st") (auto split: if_splits simp: suffix_ConsI)
next
  case (3 a b st)
  then obtain x where "x \<in> set (rmatch a st)" "st' \<in> set (rmatch b x)" by auto
  with 3 show ?case using suffix_order.trans by blast
next
  case (5 a p s cs)
  then consider "st' = (p, s, cs)" | x where "x \<in> set (rmatch a (p, s, cs))"
    "length (st_rest x) < length s" "st' \<in> set (rmatch (Star a) x)"
    by (auto simp: rmatch_Star split: if_splits)
  then show ?case
  proof cases
    case (2 x)
    have "suffix (st_rest st') (st_rest x)" using 2 "5.IH"(2) by blast
    moreover have "suffix (st_rest x) s" using 2(1) "5.IH"(1) by fastforce
    ultimately show ?thesis by (simp add: suffix_order.trans)
  qed simp
next
  case (6 a p s cs)
  then consider "st' = (p, s, cs)" | x where "x \<in> set (rmatch a (p, s, cs))"
    "length (st_rest x) < length s" "st' \<in> set (rmatch (LazyStar a) x)"
    by (auto simp: rmatch_LazyStar split: if_splits)
  then show ?case
  proof cases
    case (2 x)
    have "suffix (st_rest st') (st_rest x)" using 2 "6.IH"(2) by blast
    moreover have "suffix (st_rest x) s" using 2(1) "6.IH"(1) by fastforce
    ultimately show ?thesis by (simp add: suffix_order.trans)
  qed simp
next
  case (11 n a st)
  then show ?case by (auto simp: add_cap_def)
qed (auto split: if_splits)

text \<open>What the pattern can leave unread, and what it should leave unread.\<close>

definition rests :: "rx \<Rightarrow> rstate \<Rightarrow> string set" where
  "rests r st = st_rest ` set (rmatch r st)"

definition after :: "string set \<Rightarrow> string \<Rightarrow> string set" where
  "after A s = {v. \<exists>w\<in>A. s = w @ v}"

lemma after_Seq: "after {w @ v | w v. w \<in> A \<and> v \<in> B} s = (\<Union>u\<in>after A s. after B u)"
  unfolding after_def by (auto, metis append.assoc, blast)

lemma rests_Seq: "rests (Seq a b) st = (\<Union>st'\<in>set (rmatch a st). rests b st')"
  by (auto simp: rests_def)

lemma rests_Star:
  "rests (Star a) st = insert (st_rest st)
     (\<Union>st'\<in>{x \<in> set (rmatch a st). length (st_rest x) < length (st_rest st)}. rests (Star a) st')"
  unfolding rests_def by (cases st) (auto simp: rmatch_Star image_Union split: if_splits)

lemma rests_LazyStar:
  "rests (LazyStar a) st = insert (st_rest st)
     (\<Union>st'\<in>{x \<in> set (rmatch a st). length (st_rest x) < length (st_rest st)}. rests (LazyStar a) st')"
  unfolding rests_def by (cases st) (auto simp: rmatch_LazyStar image_Union split: if_splits)

lemma after_kstar:
  "after (kstar A) s = insert s (\<Union>u\<in>{u \<in> after A s. length u < length s}. after (kstar A) u)"
proof (intro equalityI subsetI)
  fix v assume "v \<in> after (kstar A) s"
  then obtain x where x: "x \<in> kstar A" "s = x @ v" by (auto simp: after_def)
  from x(1) show "v \<in> insert s (\<Union>u\<in>{u \<in> after A s. length u < length s}. after (kstar A) u)"
  proof cases
    case kstar_Nil
    with x(2) show ?thesis by simp
  next
    case (kstar_Cons w y)
    then have "y @ v \<in> {u \<in> after A s. length u < length s}" "v \<in> after (kstar A) (y @ v)"
      using x(2) by (auto simp: after_def)
    then show ?thesis by blast
  qed
next
  fix v assume "v \<in> insert s (\<Union>u\<in>{u \<in> after A s. length u < length s}. after (kstar A) u)"
  then consider "v = s" | u where "u \<in> after A s" "length u < length s" "v \<in> after (kstar A) u"
    by auto
  then show "v \<in> after (kstar A) s"
  proof cases
    case 1
    then show ?thesis by (auto simp: after_def intro: kstar.kstar_Nil)
  next
    case (2 u)
    then obtain w x where "w \<in> A" "s = w @ x @ v" "x \<in> kstar A" "w \<noteq> []"
      by (auto simp: after_def)
    then have "w @ x \<in> kstar A" "s = (w @ x) @ v" by (auto intro: kstar.kstar_Cons)
    then show ?thesis unfolding after_def by blast
  qed
qed

text \<open>The matcher is exact: it leaves precisely the rests the language allows.\<close>

lemma rests_exact: "plain r \<Longrightarrow> rests r st = after (lang r) (st_rest st)"
proof (induction r st rule: rmatch.induct)
  case (1 st)
  then show ?case by (auto simp: rests_def after_def)
next
  case (2 P st)
  then show ?case by (cases "st_rest st") (auto simp: rests_def after_def)
next
  case (3 a b st)
  then have a: "rests a st = after (lang a) (st_rest st)" by simp
  have "rests (Seq a b) st = (\<Union>st'\<in>set (rmatch a st). after (lang b) (st_rest st'))"
    using 3 by (simp add: rests_Seq)
  also have "\<dots> = (\<Union>u\<in>rests a st. after (lang b) u)" by (auto simp: rests_def)
  finally show ?case by (simp add: a after_Seq)
next
  case (4 a b st)
  then show ?case by (auto simp: rests_def after_def)
next
  case (5 a p s cs)
  then have a: "st_rest ` set (rmatch a (p, s, cs)) = after (lang a) s"
    by (simp add: rests_def)
  have "rests (Star a) (p, s, cs) = insert s
     (\<Union>x\<in>{x \<in> set (rmatch a (p, s, cs)). length (st_rest x) < length s}.
        after (kstar (lang a)) (st_rest x))"
    using 5 by (subst rests_Star) simp
  also have "\<dots> = insert s
     (\<Union>u\<in>{u \<in> st_rest ` set (rmatch a (p, s, cs)). length u < length s}.
        after (kstar (lang a)) u)" by blast
  finally show ?case by (simp add: a after_kstar [symmetric])
next
  case (6 a p s cs)
  then have a: "st_rest ` set (rmatch a (p, s, cs)) = after (lang a) s"
    by (simp add: rests_def)
  have "rests (LazyStar a) (p, s, cs) = insert s
     (\<Union>x\<in>{x \<in> set (rmatch a (p, s, cs)). length (st_rest x) < length s}.
        after (kstar (lang a)) (st_rest x))"
    using 6 by (subst rests_LazyStar) simp
  also have "\<dots> = insert s
     (\<Union>u\<in>{u \<in> st_rest ` set (rmatch a (p, s, cs)). length u < length s}.
        after (kstar (lang a)) u)" by blast
  finally show ?case by (simp add: a after_kstar [symmetric])
next
  case (11 n a st)
  then show ?case by (auto simp: rests_def add_cap_def image_image)
qed auto

lemma rmatch_empty_iff:
  "plain r \<Longrightarrow> rmatch r st = [] \<longleftrightarrow> (\<forall>w\<in>lang r. \<not> prefix w (st_rest st))"
  using rests_exact [of r st] by (auto simp: rests_def after_def prefix_def)

lemma rmatch_hd_prefix:
  assumes "plain r" "rmatch r st = st' # xs"
  shows "\<exists>w\<in>lang r. st_rest st = w @ st_rest st'"
  using rests_exact [of r st] assms by (auto simp: rests_def after_def)

text \<open>A search fails exactly when no word of the language occurs in the subject.\<close>

lemma search_from_None_iff:
  assumes "plain r"
  shows "search_from r p s = None \<longleftrightarrow> (\<forall>w\<in>lang r. \<not> sublist w s)"
proof (induction s arbitrary: p)
  case Nil
  then show ?case using rmatch_empty_iff [OF assms, of "(p, [], [])"]
    by (auto split: list.splits)
next
  case (Cons c s)
  then show ?case using rmatch_empty_iff [OF assms, of "(p, c # s, [])"]
    by (auto split: list.splits simp: sublist_Cons_right)
qed

lemma re_search_None_iff:
  "plain r \<Longrightarrow> re_search r s = None \<longleftrightarrow> (\<forall>w\<in>lang r. \<not> sublist w s)"
  by (simp add: re_search_def search_from_None_iff)

lemma lang_lit [simp]: "lang (lit s) = {s}"
  by (induction s) (auto simp: chr_x_def)

lemma plain_lit [simp]: "plain (lit s)"
  by (induction s) (auto simp: chr_x_def)

lemma plain_lit_i [simp]: "plain (lit_i s)"
  by (induction s) (auto simp: chr_i_def)

lemma lang_lit_i: "lang (lit_i s) = {w. map lower_char w = map lower_char s}"
proof (induction s)
  case (Cons c s)
  have "lang (lit_i (c # s)) = {x # v | x v. lower_char x = lower_char c \<and> v \<in> lang (lit_i s)}"
    by (auto simp: chr_i_def) (metis append_Cons append_Nil)
  with Cons show ?case by (auto simp: map_eq_Cons_conv)
qed simp

section \<open>Substitution leaves no match behind\<close>

text \<open>
  \<open>avoids c r\<close>: no word of the pattern holds the character.  \<open>needs cs r\<close>: every word
  holds a character outside \<open>cs\<close>.  Both are decided on the character classes alone.
\<close>

fun avoids :: "char \<Rightarrow> rx \<Rightarrow> bool" where
  "avoids c (Cls P) = (\<not> P c)"
| "avoids c (Seq a b) = (avoids c a \<and> avoids c b)"
| "avoids c (Alt a b) = (avoids c a \<and> avoids c b)"
| "avoids c (Star a) = avoids c a"
| "avoids c (LazyStar a) = avoids c a"
| "avoids c (Grp n a) = avoids c a"
| "avoids c r = True"

fun needs :: "char list \<Rightarrow> rx \<Rightarrow> bool" where
  "needs cs (Cls P) = list_all (\<lambda>c. \<not> P c) cs"
| "needs cs (Seq a b) = (needs cs a \<or> needs cs b)"
| "needs cs (Alt a b) = (needs cs a \<and> needs cs b)"
| "needs cs (Grp n a) = needs cs a"
| "needs cs r = False"

lemma kstar_set: "w \<in> kstar A \<Longrightarrow> (\<And>v. v \<in> A \<Longrightarrow> c \<notin> set v) \<Longrightarrow> c \<notin> set w"
  by (induction rule: kstar.induct) auto

lemma avoids_lang: "avoids c r \<Longrightarrow> w \<in> lang r \<Longrightarrow> c \<notin> set w"
  by (induction c r arbitrary: w rule: avoids.induct) (auto dest: kstar_set)

lemma needs_lang: "needs cs r \<Longrightarrow> w \<in> lang r \<Longrightarrow> \<exists>c\<in>set w. c \<notin> set cs"
proof (induction cs r arbitrary: w rule: needs.induct)
  case (1 cs P)
  then show ?case by (auto simp: list_all_iff)
next
  case (2 cs a b)
  then obtain u v where w: "w = u @ v" "u \<in> lang a" "v \<in> lang b" by auto
  from 2(3) consider "needs cs a" | "needs cs b" by auto
  then show ?case using 2(1,2) w by cases fastforce+
qed auto

text \<open>
  The text \<open>new\<close> is inert for a language when a word found across an occurrence of
  \<open>new\<close> already lies wholly before or wholly behind it.
\<close>

definition inert :: "string \<Rightarrow> string set \<Rightarrow> bool" where
  "inert new A \<longleftrightarrow>
     (\<forall>w\<in>A. \<forall>x y. sublist w (x @ new @ y) \<longrightarrow> sublist w x \<or> sublist w y)"

lemma sublist_imp_prefix_suffix:
  "sublist w x \<Longrightarrow> w \<noteq> [] \<Longrightarrow> \<exists>x1 x2. x = x1 @ x2 \<and> x2 \<noteq> [] \<and> prefix w x2"
  by (auto simp: sublist_def prefix_def)

text \<open>
  The unmatched stretch \<open>x\<close> read so far holds no start of a word that continues into
  the rest \<open>s\<close>; this is what the scan keeps true.
\<close>

definition no_start :: "string set \<Rightarrow> string \<Rightarrow> string \<Rightarrow> bool" where
  "no_start A x s \<longleftrightarrow> (\<forall>w\<in>A. \<forall>x1 x2. x = x1 @ x2 \<longrightarrow> x2 \<noteq> [] \<longrightarrow> \<not> prefix w (x2 @ s))"

lemma no_start_sublist:
  assumes "no_start A x s" "[] \<notin> A" "w \<in> A"
  shows "\<not> sublist w x"
proof
  assume "sublist w x"
  moreover have "w \<noteq> []" using assms by auto
  ultimately obtain x1 x2 where "x = x1 @ x2" "x2 \<noteq> []" "prefix w x2"
    using sublist_imp_prefix_suffix by blast
  then show False using assms by (auto simp: no_start_def intro: prefix_prefix)
qed

lemma no_start_snoc:
  assumes "no_start A x (c # s)" "\<forall>w\<in>A. \<not> prefix w (c # s)"
  shows "no_start A (x @ [c]) s"
  unfolding no_start_def
proof (intro ballI allI impI)
  fix w x1 x2
  assume w: "w \<in> A" and eq: "x @ [c] = x1 @ x2" and ne: "x2 \<noteq> []"
  from eq ne obtain y where y: "x2 = y @ [c]" "x = x1 @ y"
    by (cases x2 rule: rev_cases) auto
  show "\<not> prefix w (x2 @ s)"
  proof (cases "y = []")
    case True
    with y assms(2) w show ?thesis by simp
  next
    case False
    with y assms(1) w show ?thesis by (auto simp: no_start_def)
  qed
qed

lemma sub_from_clean:
  assumes "plain r" "[] \<notin> lang r" "inert new (lang r)" "no_start (lang r) x s" "w \<in> lang r"
  shows "\<not> sublist w (x @ sub_from r new p s)"
  using assms
proof (induction r new p s arbitrary: x w rule: sub_from.induct)
  case (1 r new p s)
  show ?case
  proof (cases "rmatch r (p, s, [])")
    case Nil
    then have none: "\<forall>w\<in>lang r. \<not> prefix w s"
      using rmatch_empty_iff [of r "(p, s, [])"] 1 by simp
    show ?thesis
    proof (cases s)
      case Nil
      with \<open>rmatch r (p, s, []) = []\<close> show ?thesis
        using 1 by (simp add: sub_from.simps no_start_sublist)
    next
      case (Cons c s')
      then have "no_start (lang r) (x @ [c]) s'"
        using 1 none by (intro no_start_snoc) auto
      then have "\<not> sublist w ((x @ [c]) @ sub_from r new (Some c) s')"
        using "1.IH"(1) "1.prems" \<open>rmatch r (p, s, []) = []\<close> Cons by blast
      with \<open>rmatch r (p, s, []) = []\<close> Cons show ?thesis by (simp add: sub_from.simps [of r new p])
    qed
  next
    case (Cons st sts)
    then obtain u where u: "u \<in> lang r" "s = u @ st_rest st"
      using rmatch_hd_prefix [of r "(p, s, [])" st sts] 1 by auto
    then have shorter: "length (st_rest st) < length s" using 1 by (cases u) auto
    have IH: "\<not> sublist w ([] @ sub_from r new (fst st) (st_rest st))"
      using "1.prems" by (intro "1.IH"(2) [OF Cons shorter]) (auto simp: no_start_def)
    have "\<not> sublist w x" using 1 no_start_sublist by blast
    with IH have "\<not> sublist w (x @ new @ sub_from r new (fst st) (st_rest st))"
      using "1.prems"(3,5) unfolding inert_def by (metis append_Nil)
    with Cons shorter show ?thesis by (simp add: sub_from.simps [of r new p])
  qed
qed

lemma re_sub_clean:
  assumes "plain r" "[] \<notin> lang r" "inert new (lang r)"
  shows "re_search r (re_sub r new s) = None"
proof -
  have "no_start (lang r) [] s" by (simp add: no_start_def)
  then show ?thesis
    using sub_from_clean [OF assms] by (force simp: re_search_None_iff assms re_sub_def)
qed

lemma re_sub_id:
  assumes "plain r" "re_search r s = None"
  shows "re_sub r new s = s"
proof -
  have "\<forall>w\<in>lang r. \<not> sublist w s \<Longrightarrow> sub_from r new p s = s" for p
  proof (induction s arbitrary: p)
    case Nil
    then show ?case using rmatch_empty_iff [OF assms(1), of "(p, [], [])"]
      by (simp add: sub_from.simps)
  next
    case (Cons c s)
    then have "rmatch r (p, c # s, []) = []"
      using rmatch_empty_iff [OF assms(1), of "(p, c # s, [])"] by (auto simp: sublist_Cons_right)
    with Cons show ?case
      by (simp add: sub_from.simps [of r new p "c # s"] sublist_Cons_right)
  qed
  then show ?thesis using assms by (simp add: re_sub_def re_search_None_iff)
qed

section \<open>Captured groups are pieces of the subject\<close>

lemma rmatch_caps:
  "st' \<in> set (rmatch r st) \<Longrightarrow> (n, t) \<in> set (st_caps st') \<Longrightarrow>
   (n, t) \<in> set (st_caps st) \<or> sublist t (st_rest st)"
proof (induction r st arbitrary: st' rule: rmatch.induct)
  case (2 P st)
  then show ?case by (cases "st_rest st") (auto split: if_splits)
next
  case (3 a b st)
  then obtain x where x: "x \<in> set (rmatch a st)" "st' \<in> set (rmatch b x)" by auto
  then have "(n, t) \<in> set (st_caps x) \<or> sublist t (st_rest x)"
    using "3.IH"(2) "3.prems" by blast
  moreover have "suffix (st_rest x) (st_rest st)" using x rmatch_suffix by blast
  ultimately show ?case
    using "3.IH"(1) [OF x(1)] sublist_order.order_trans suffix_imp_sublist by blast
next
  case (5 a p s cs)
  then consider "st' = (p, s, cs)" | x where "x \<in> set (rmatch a (p, s, cs))"
    "length (st_rest x) < length s" "st' \<in> set (rmatch (Star a) x)"
    by (auto simp: rmatch_Star split: if_splits)
  then show ?case
  proof cases
    case (2 x)
    have "(n, t) \<in> set (st_caps x) \<or> sublist t (st_rest x)"
      using "5.IH"(2) [OF 2(1) _ 2(3) "5.prems"(2)] 2(2) by simp
    moreover have "sublist (st_rest x) s"
      using rmatch_suffix [OF 2(1)] by (simp add: suffix_imp_sublist)
    moreover have "(n, t) \<in> set (st_caps x) \<Longrightarrow> ?thesis" by (rule "5.IH"(1) [OF 2(1)])
    ultimately show ?thesis using sublist_order.order_trans by (metis fst_conv snd_conv)
  qed (use 5 in simp)
next
  case (6 a p s cs)
  then consider "st' = (p, s, cs)" | x where "x \<in> set (rmatch a (p, s, cs))"
    "length (st_rest x) < length s" "st' \<in> set (rmatch (LazyStar a) x)"
    by (auto simp: rmatch_LazyStar split: if_splits)
  then show ?case
  proof cases
    case (2 x)
    have "(n, t) \<in> set (st_caps x) \<or> sublist t (st_rest x)"
      using "6.IH"(2) [OF 2(1) _ 2(3) "6.prems"(2)] 2(2) by simp
    moreover have "sublist (st_rest x) s"
      using rmatch_suffix [OF 2(1)] by (simp add: suffix_imp_sublist)
    moreover have "(n, t) \<in> set (st_caps x) \<Longrightarrow> ?thesis" by (rule "6.IH"(1) [OF 2(1)])
    ultimately show ?thesis using sublist_order.order_trans by (metis fst_conv snd_conv)
  qed (use 6 in simp)
next
  case (11 k a st)
  then obtain x where x: "x \<in> set (rmatch a st)" "st' = add_cap k (st_rest st) x" by auto
  then consider "t = take (length (st_rest st) - length (st_rest x)) (st_rest st)"
    | "(n, t) \<in> set (st_caps x)"
    using "11.prems"(2) by (auto simp: add_cap_def)
  then show ?case
    using "11.IH" [OF x(1)] by cases (auto intro: prefix_imp_sublist take_is_prefix)
qed (auto split: if_splits)

lemma finditer_from_caps:
  "st \<in> set (finditer_from r p s) \<Longrightarrow> (n, t) \<in> set (st_caps st) \<Longrightarrow> sublist t s"
proof (induction r p s rule: finditer_from.induct)
  case (1 r p s)
  show ?case
  proof (cases "rmatch r (p, s, [])")
    case Nil
    with 1 show ?thesis
      by (cases s) (auto simp: finditer_from.simps [of r p] intro: sublist_Cons_right [THEN iffD2])
  next
    case (Cons x xs)
    have x: "suffix (st_rest x) s" and cap: "(n, t) \<in> set (st_caps x) \<Longrightarrow> sublist t s"
      using rmatch_suffix [of x r "(p, s, [])"] rmatch_caps [of x r "(p, s, [])" n t] Cons by auto
    consider "st = x" | "length (st_rest x) < length s" "st \<in> set (finditer_from r (fst x) (st_rest x))"
      | c s' where "s = c # s'" "\<not> length (st_rest x) < length s" "st \<in> set (finditer_from r (Some c) s')"
      using 1(4) Cons by (cases s) (auto simp: finditer_from.simps [of r p] split: if_splits)
    then show ?thesis
    proof cases
      case 2
      then have "sublist t (st_rest x)" using 1 Cons by blast
      with x show ?thesis by (meson sublist_order.order_trans suffix_imp_sublist)
    next
      case (3 c s')
      then have "sublist t s'" using 1 Cons by blast
      with 3 show ?thesis by (simp add: sublist_Cons_right)
    qed (use cap 1 in blast)
  qed
qed

lemma finditer_group_sublist: "st \<in> set (finditer r s) \<Longrightarrow> sublist (group st n) s"
  unfolding finditer_def group_def
  by (auto split: option.splits dest!: map_of_SomeD intro: finditer_from_caps)

end
