(* ===== verification/Utils.thy ===== *)
theory Utils
  imports Py_Re
begin

text \<open>
  \<open>orchestrator/utils.py\<close>: token estimates, the prompt-injection filter and the diff
  helpers.  Chat messages are the records of \<open>models.Message\<close>.
\<close>

section \<open>Messages (models.Message)\<close>

text \<open>The content is a string, a list of content blocks, or absent.\<close>

datatype block = BText string | BDict "string option"

datatype content = CNone | CText string | CBlocks "block list"

record message =
  msg_role :: string
  msg_content :: content
  msg_name :: "string option"

section \<open>Token counting\<close>

definition count_tokens :: "string \<Rightarrow> nat" where
  "count_tokens text = max 1 (length text div 4)"

text \<open>\<open>content or ""\<close>, and for a list the texts of its dict blocks joined by spaces.\<close>

fun message_text :: "content \<Rightarrow> string" where
  "message_text CNone = []"
| "message_text (CText s) = s"
| "message_text (CBlocks bs) =
     join '' '' (concat (map (\<lambda>b. case b of BText _ \<Rightarrow> []
        | BDict None \<Rightarrow> [[]] | BDict (Some t) \<Rightarrow> [t]) bs))"

fun count_messages_tokens :: "message list \<Rightarrow> nat" where
  "count_messages_tokens [] = 0"
| "count_messages_tokens (m # ms) =
     count_tokens (message_text (msg_content m)) + 4 + count_messages_tokens ms"

lemma count_tokens_pos [simp]: "0 < count_tokens s"
  by (simp add: count_tokens_def)

lemma count_messages_tokens_append [simp]:
  "count_messages_tokens (xs @ ys) = count_messages_tokens xs + count_messages_tokens ys"
  by (induction xs) auto

section \<open>Prompt injection sanitization\<close>

definition injection_patterns :: "rx list" where
  "injection_patterns =
    [ seqs [lit_i ''ignore'', rplus space_x, ropt (seqs [lit_i ''all'', rplus space_x]),
            alts [lit_i ''previous'', lit_i ''prior'', lit_i ''above''], rplus space_x,
            lit_i ''instruction'', ropt (lit_i ''s'')],
      seqs [lit_i ''disregard'', rplus space_x, ropt (seqs [lit_i ''all'', rplus space_x]),
            alts [lit_i ''previous'', lit_i ''prior'', lit_i ''above''], rplus space_x,
            lit_i ''instruction'', ropt (lit_i ''s'')],
      seqs [lit_i ''forget'', rplus space_x, alts [lit_i ''everything'', lit_i ''all''], rplus space_x,
            alts [seqs [lit_i ''you'', ropt (lit_i [CHR 0x27, CHR ''v'', CHR ''e'']), rplus space_x,
                        lit_i ''been'', rplus space_x, lit_i ''told''],
                  lit_i ''above'']],
      seqs [lit_i ''you'', rplus space_x, lit_i ''are'', rplus space_x, lit_i ''now'', rplus space_x,
            ropt (seqs [lit_i ''a'', rplus space_x]),
            alts [lit_i ''DAN'', lit_i ''jailbreak'', lit_i ''unrestricted'']],
      seqs [lit_i ''system'', Star space_x, lit_i ''prompt'', Star space_x, lit_i '':'', Star space_x],
      seqs [lit_i ''<'', Star space_x, lit_i ''system'', Star space_x, lit_i ''>''],
      Alt (lit_i ''[INST]'') (lit_i ''[/INST]''),
      seqs [lit_i ''###'', Star space_x, lit_i ''instruction''],
      seqs [lit_i ''act'', rplus space_x, lit_i ''as'', rplus space_x, lit_i ''if'', rplus space_x,
            lit_i ''you'', rplus space_x, lit_i ''have'', rplus space_x, lit_i ''no'', rplus space_x,
            lit_i ''restrictions''],
      seqs [lit_i ''pretend'', rplus space_x,
            alts [seqs [lit_i ''you'', rplus space_x, lit_i ''are''],
                  seqs [lit_i ''to'', rplus space_x, lit_i ''be'']], rplus space_x,
            ropt (seqs [lit_i ''a'', ropt (lit_i ''n''), rplus space_x]),
            alts [lit_i ''evil'', lit_i ''unrestricted'', lit_i ''jailbroken'']] ]"

definition injection_re :: rx where
  "injection_re = alts injection_patterns"

definition redacted :: string where "redacted = ''[REDACTED]''"

definition sanitize_context :: "string \<Rightarrow> string" where
  "sanitize_context text = re_sub injection_re redacted text"

section \<open>Diff and patch helpers\<close>

definition changed_line :: "string \<Rightarrow> bool" where
  "changed_line line \<longleftrightarrow>
     (startswith line ''+'' \<or> startswith line ''-'') \<and>
     \<not> (startswith line ''+++'' \<or> startswith line ''---'')"

definition count_diff_lines :: "string \<Rightarrow> nat" where
  "count_diff_lines diff = length (filter changed_line (splitlines diff))"

definition extract_file_paths_from_diff :: "string \<Rightarrow> string list" where
  "extract_file_paths_from_diff diff =
     map (\<lambda>line. strip (drop 6 line))
       (filter (\<lambda>line. startswith line ''+++ b/'') (splitlines diff))"

definition fenced_diff_re :: rx where
  "fenced_diff_re =
     seqs [lit ''```'', Star blank, alts [lit_i ''diff'', lit_i ''patch'', lit_i ''udiff''],
           ropt (chr_x cr), chr_x nl, Grp 1 (LazyStar any_char), lit ''```'']"

definition bare_diff_re :: rx where
  "bare_diff_re =
     Grp 1 (seqs [lit ''---'', rplus blank, non_space_x, Star any_but_nl, chr_x nl,
                  lit ''+++'', rplus blank, non_space_x, Star any_but_nl,
                  Star (seqs [chr_x nl, NotAhead (lit ''```''), Star any_but_nl])])"

text \<open>
  One pass of \<open>extract_diffs_from_result\<close> over the matches of a pattern: the stripped
  group is kept when it holds a hunk marker and was not seen before.
\<close>

fun collect_diffs :: "rstate list \<Rightarrow> string list \<Rightarrow> string list" where
  "collect_diffs [] results = results"
| "collect_diffs (m # ms) results =
     (let diff = strip (group m 1) in
      if contains ''@@'' diff \<and> diff \<notin> set results
      then collect_diffs ms (results @ [diff])
      else collect_diffs ms results)"

definition extract_diffs_from_result :: "string \<Rightarrow> string list" where
  "extract_diffs_from_result text =
     (let results = collect_diffs (finditer fenced_diff_re text) [] in
      if results = [] then collect_diffs (finditer bare_diff_re text) [] else results)"

section \<open>The sanitizer leaves no injection pattern\<close>

text \<open>
  The bracketed marker of the last-but-three pattern is the only place where a pattern
  reads a bracket; every other pattern avoids both brackets and needs a character the
  replacement text does not have.
\<close>

definition bracket_re :: rx where
  "bracket_re = Alt (lit_i ''[INST]'') (lit_i ''[/INST]'')"

definition others_re :: rx where
  "others_re = alts (take 6 injection_patterns @ drop 7 injection_patterns)"

lemmas pattern_defs = injection_patterns_def rplus_def ropt_def space_x_def

lemma lang_alts: "lang (alts rs) = (\<Union>r\<in>set rs. lang r)"
  by (induction rs rule: alts.induct) auto

lemma plain_alts: "plain (alts rs) = list_all plain rs"
  by (induction rs rule: alts.induct) auto

lemma plain_injection_re: "plain injection_re"
  by code_simp

lemma set_nth_split: "k < length xs \<Longrightarrow> set xs = insert (xs ! k) (set (take k xs @ drop (Suc k) xs))"
  by (subst id_take_nth_drop [of k xs]) auto

lemma lang_injection_re: "lang injection_re = lang bracket_re \<union> lang others_re"
proof -
  have "set injection_patterns = insert (injection_patterns ! 6)
      (set (take 6 injection_patterns @ drop 7 injection_patterns))"
    using set_nth_split [of 6 injection_patterns] by (simp add: injection_patterns_def)
  moreover have "injection_patterns ! 6 = bracket_re"
    by (simp add: injection_patterns_def bracket_re_def)
  ultimately show ?thesis
    by (simp add: injection_re_def others_re_def lang_alts)
qed

lemma others_avoid: "avoids (CHR ''['') others_re" "avoids (CHR '']'') others_re"
  by code_simp+

lemma others_need: "needs redacted others_re"
  by code_simp

lemma bracket_need: "needs redacted bracket_re"
  by code_simp

lemma lower_char_bracket:
  "lower_char c = CHR ''['' \<longleftrightarrow> c = CHR ''[''"
  "lower_char c = CHR '']'' \<longleftrightarrow> c = CHR '']''"
  by (cases c; auto simp: letter_bits_def)+

text \<open>The two bracketed markers: an opening bracket only at the front, a closing one only at the end.\<close>

lemma bracket_words:
  assumes "w \<in> lang bracket_re"
  shows "\<exists>c u. w = CHR ''['' # c # u @ [CHR '']''] \<and> c \<noteq> CHR ''R'' \<and>
           CHR ''['' \<notin> set (c # u) \<and> CHR '']'' \<notin> set (c # u)"
proof -
  have "map lower_char w = ''[inst]'' \<or> map lower_char w = ''[/inst]''"
    using assms by (auto simp: bracket_re_def lang_lit_i letter_bits_def simp del: lit_i.simps)
  then obtain v where v: "w = CHR ''['' # v @ [CHR '']'']"
      "map lower_char v = ''inst'' \<or> map lower_char v = ''/inst''"
    by (auto simp: map_eq_Cons_conv lower_char_bracket)
  then obtain c u where "v = c # u" "lower_char c = CHR ''i'' \<or> lower_char c = CHR ''/''"
    by (cases v) auto
  moreover have "CHR ''['' \<notin> set v" "CHR '']'' \<notin> set v"
    using v(2) by (auto simp: map_eq_Cons_conv letter_bits_def)
  ultimately show ?thesis using v(1) by (auto simp: letter_bits_def)
qed

lemma needs_not_sublist: "needs cs r \<Longrightarrow> w \<in> lang r \<Longrightarrow> \<not> sublist w cs"
  using needs_lang set_mono_sublist by blast

lemma injection_words:
  assumes "w \<in> lang injection_re"
  shows "CHR ''['' \<notin> set (tl w)" "CHR '']'' \<notin> set (butlast w)" "\<not> sublist w redacted"
    "\<And>c v. w = CHR ''['' # v \<Longrightarrow> v \<noteq> [] \<and> hd v \<noteq> CHR ''R''"
proof -
  consider "w \<in> lang bracket_re" | "w \<in> lang others_re"
    using assms by (auto simp: lang_injection_re)
  then have "CHR ''['' \<notin> set (tl w) \<and> CHR '']'' \<notin> set (butlast w) \<and> \<not> sublist w redacted \<and>
      (\<forall>v. w = CHR ''['' # v \<longrightarrow> v \<noteq> [] \<and> hd v \<noteq> CHR ''R'')"
  proof cases
    case 1
    then show ?thesis
      using bracket_words [OF 1] needs_not_sublist [OF bracket_need 1] by (auto simp: butlast_append)
  next
    case 2
    then have "CHR ''['' \<notin> set w" "CHR '']'' \<notin> set w"
      using avoids_lang others_avoid by blast+
    then show ?thesis
      using needs_not_sublist [OF others_need 2] by (cases w) (auto dest: in_set_butlastD)
  qed
  then show "CHR ''['' \<notin> set (tl w)" "CHR '']'' \<notin> set (butlast w)" "\<not> sublist w redacted"
    "\<And>c v. w = CHR ''['' # v \<Longrightarrow> v \<noteq> [] \<and> hd v \<noteq> CHR ''R''" by auto
qed

text \<open>
  A word cannot straddle a border of the replacement text: it has no opening bracket
  behind its first character and no closing bracket before its last one.
\<close>

lemma inert_redacted: "inert redacted (lang injection_re)"
  unfolding inert_def
proof (intro ballI allI impI)
  fix w x y
  assume w: "w \<in> lang injection_re" and sub: "sublist w (x @ redacted @ y)"
  note facts = injection_words [OF w]
  have red: "redacted = CHR ''['' # ''REDACTED'' @ [CHR '']'']" by (simp add: redacted_def)
  have before: "sublist w x" if "w = u @ v" "suffix u x" "prefix v (redacted @ y)" for u v
  proof (cases "v = []")
    case True
    with that show ?thesis by (simp add: suffix_imp_sublist)
  next
    case False
    with that(3) obtain v' where v: "v = CHR ''['' # v'" "prefix v' (''REDACTED'' @ '']'' @ y)"
      by (cases v) (auto simp: red)
    with that(1) facts(1,4) show ?thesis
      by (cases u; cases v') auto
  qed
  have behind: "sublist w y" if "w = u @ v" "suffix u redacted" "prefix v y" for u v
  proof (cases "u = []")
    case True
    with that show ?thesis by (simp add: prefix_imp_sublist)
  next
    case False
    from that(2) obtain zs where "redacted = zs @ u" by (auto simp: suffix_def)
    with False have "last u = last redacted" by (metis last_appendR)
    then have "last u = CHR '']''" by (simp add: redacted_def)
    then have "v = []"
      using False that(1) facts(2)
      by (cases u rule: rev_cases) (auto simp: butlast_append split: if_splits)
    with that facts(3) show ?thesis by (simp add: suffix_imp_sublist)
  qed
  show "sublist w x \<or> sublist w y"
    using sub before behind facts(3) unfolding sublist_append by blast
qed

lemma injection_nonempty: "[] \<notin> lang injection_re"
  using needs_lang [OF bracket_need, of "[]"] needs_lang [OF others_need, of "[]"]
  by (auto simp: lang_injection_re)

lemma sanitized_clean: "re_search injection_re (sanitize_context t) = None"
  unfolding sanitize_context_def
  by (rule re_sub_clean [OF plain_injection_re injection_nonempty inert_redacted])

lemma sanitize_context_id: "re_search injection_re t = None \<Longrightarrow> sanitize_context t = t"
  by (simp add: sanitize_context_def re_sub_id plain_injection_re)

text \<open>C20: whatever the input, no injection pattern is found in the sanitized text: the
  substitution is complete, and neither \<open>[REDACTED]\<close> itself nor its concatenation with
  the surrounding text brings a new match.\<close>

theorem sanitize_context_clean: "re_search injection_re (sanitize_context t) = None"
  by (rule sanitized_clean)

section \<open>Extracted diffs\<close>

lemma collect_diffs_props:
  assumes "distinct results"
    and "\<forall>d\<in>set results. P d"
    and "\<forall>m\<in>set ms. contains ''@@'' (strip (group m 1)) \<longrightarrow> P (strip (group m 1))"
  shows "distinct (collect_diffs ms results) \<and> (\<forall>d\<in>set (collect_diffs ms results). P d)"
  using assms by (induction ms results rule: collect_diffs.induct) (auto simp: Let_def)

lemma sublist_strip_trans: "sublist s t \<Longrightarrow> sublist (strip s) t"
  using sublist_strip sublist_order.order_trans by blast

text \<open>C21: every diff extracted from an agent's answer is a contiguous piece of that answer,
  holds a hunk marker, has no white space at either end, and no diff is returned twice.\<close>

theorem extract_diffs_sound:
  "distinct (extract_diffs_from_result t) \<and>
   set (extract_diffs_from_result t) \<subseteq> {d. sublist d t \<and> sublist ''@@'' d \<and> strip d = d}"
proof -
  have "distinct (collect_diffs (finditer r t) []) \<and>
    (\<forall>d\<in>set (collect_diffs (finditer r t) []).
      sublist d t \<and> sublist ''@@'' d \<and> strip d = d)" for r
    by (rule collect_diffs_props)
      (auto simp: contains_sublist intro: sublist_strip_trans finditer_group_sublist)
  then show ?thesis by (auto simp: extract_diffs_from_result_def Let_def)
qed

end
