(* ===== verification/Task_Dag.thy ===== *)
theory Task_Dag
  imports Utils
begin

text \<open>
  The task plan of \<open>orchestrator/task_queue.py\<close> and its validation \<open>_validate_dag\<close>:
  the check of the dependency references and Kahn's algorithm on the dependency counts,
  with the stack, the dicts and the counter of the source.  The main result is that the
  validation accepts exactly the plans with distinct ids, existing dependencies and no
  cycle.
\<close>

section \<open>Tasks\<close>

datatype task_status = Pending | Running | Complete | Failed | Blocked

text \<open>A missing \<open>deps\<close> entry is read as the empty list, as \<open>t.get("deps", [])\<close> does.\<close>

record task =
  task_id :: string
  task_role :: string
  task_desc :: string
  task_deps :: "string list"
  task_status :: task_status
  task_result :: "string option"

definition task_ids :: "task list \<Rightarrow> string list" where
  "task_ids ts = map task_id ts"

section \<open>Validation\<close>

definition missing_dep_msg :: "string \<Rightarrow> string \<Rightarrow> string" where
  "missing_dep_msg t d = ''Task '' @ py_repr t @ '' depends on '' @ py_repr d
     @ '' which doesn'' @ [CHR 0x27] @ ''t exist''"

fun check_deps :: "string list \<Rightarrow> task list \<Rightarrow> unit result" where
  "check_deps ids [] = Inr ()"
| "check_deps ids (t # ts) =
     (case find (\<lambda>d. d \<notin> set ids) (task_deps t) of
        Some d \<Rightarrow> Inl (ValueError (missing_dep_msg (task_id t) d))
      | None \<Rightarrow> check_deps ids ts)"

fun init_degree :: "task list \<Rightarrow> (string \<times> int) list \<Rightarrow> (string \<times> int) list" where
  "init_degree [] deg = deg"
| "init_degree (t # ts) deg = init_degree ts (dict_set deg (task_id t) 0)"

fun init_adj :: "task list \<Rightarrow> (string \<times> string list) list \<Rightarrow> (string \<times> string list) list" where
  "init_adj [] adj = adj"
| "init_adj (t # ts) adj = init_adj ts (dict_set adj (task_id t) [])"

fun add_edges :: "string \<Rightarrow> string list \<Rightarrow> (string \<times> int) list \<times> (string \<times> string list) list
    \<Rightarrow> (string \<times> int) list \<times> (string \<times> string list) list" where
  "add_edges t [] (deg, adj) = (deg, adj)"
| "add_edges t (d # ds) (deg, adj) =
     add_edges t ds (dict_set deg t (get_or deg t 0 + 1), dict_set adj d (get_or adj d [] @ [t]))"

fun build_graph :: "task list \<Rightarrow> (string \<times> int) list \<times> (string \<times> string list) list
    \<Rightarrow> (string \<times> int) list \<times> (string \<times> string list) list" where
  "build_graph [] g = g"
| "build_graph (t # ts) g = build_graph ts (add_edges (task_id t) (task_deps t) g)"

text \<open>The inner loop over the dependents of the popped node.\<close>

fun relax :: "string list \<Rightarrow> (string \<times> int) list \<Rightarrow> string list \<Rightarrow> (string \<times> int) list \<times> string list" where
  "relax [] deg queue = (deg, queue)"
| "relax (nb # nbs) deg queue =
     (let d = get_or deg nb 0 - 1; deg' = dict_set deg nb d in
      relax nbs deg' (if d = 0 then queue @ [nb] else queue))"

definition open_degree :: "(string \<times> int) list \<Rightarrow> nat" where
  "open_degree deg = sum_list (map (\<lambda>(_, d). nat d) deg)"

lemma open_degree_dict_set:
  "open_degree (dict_set deg k v) + nat (get_or deg k 0) = open_degree deg + nat v"
  by (induction deg k v rule: dict_set.induct) (auto simp: open_degree_def get_or_def)

lemma relax_measure:
  "relax nbs deg queue = (deg', queue') \<Longrightarrow>
   open_degree deg' + length queue' \<le> open_degree deg + length queue"
proof (induction nbs deg queue rule: relax.induct)
  case (2 nb nbs deg queue)
  let ?d = "get_or deg nb 0 - 1"
  have "open_degree (dict_set deg nb ?d) + nat (get_or deg nb 0) = open_degree deg + nat ?d"
    by (rule open_degree_dict_set)
  moreover have "open_degree deg' + length queue' \<le> open_degree (dict_set deg nb ?d)
      + length (if ?d = 0 then queue @ [nb] else queue)"
    using 2 by (simp add: Let_def)
  ultimately show ?case by (auto split: if_splits)
qed simp

text \<open>The \<open>while queue\<close> loop; \<open>queue.pop()\<close> takes the last entry.\<close>

function kahn :: "(string \<times> string list) list \<Rightarrow> (string \<times> int) list \<Rightarrow> string list \<Rightarrow> nat \<Rightarrow> nat" where
  "kahn adj deg queue visited =
     (if queue = [] then visited
      else case relax (get_or adj (last queue) []) deg (butlast queue) of
             (deg', queue') \<Rightarrow> kahn adj deg' queue' (visited + 1))"
  by pat_completeness auto
termination
proof (relation "measure (\<lambda>(adj, deg, queue, visited). open_degree deg + length queue)", goal_cases)
  case (2 adj deg queue visited deg' queue')
  then have "open_degree deg' + length queue' \<le> open_degree deg + (length queue - 1)"
    using relax_measure [of "get_or adj (last queue) []" deg "butlast queue" deg' queue'] by simp
  moreover have "0 < length queue" using 2 by simp
  ultimately show ?case by (simp del: length_greater_0_conv)
qed simp

declare kahn.simps [simp del]

definition validate_dag :: "task list \<Rightarrow> unit result" where
  "validate_dag ts =
     bind_result (check_deps (task_ids ts) ts) (\<lambda>_.
       case build_graph ts (init_degree ts [], init_adj ts []) of
         (deg, adj) \<Rightarrow>
           if kahn adj deg (map fst (filter (\<lambda>(_, d). d = 0) deg)) 0 \<noteq> length ts
           then Inl (ValueError ''Task DAG contains a cycle'')
           else Inr ())"

section \<open>The plan as a graph\<close>

definition deps_closed :: "task list \<Rightarrow> bool" where
  "deps_closed ts \<longleftrightarrow> (\<forall>t\<in>set ts. set (task_deps t) \<subseteq> set (task_ids ts))"

definition dep_rel :: "task list \<Rightarrow> (string \<times> string) set" where
  "dep_rel ts = {(d, task_id t) | d t. t \<in> set ts \<and> d \<in> set (task_deps t)}"

text \<open>How often \<open>n\<close> occurs as a dependency of the tasks with id \<open>m\<close>.\<close>

fun edges :: "task list \<Rightarrow> string \<Rightarrow> string \<Rightarrow> nat" where
  "edges [] n m = 0"
| "edges (t # ts) n m = (if task_id t = m then count_list (task_deps t) n else 0) + edges ts n m"

lemma edges_pos: "0 < edges ts n m \<longleftrightarrow> (n, m) \<in> dep_rel ts"
  by (induction ts) (auto simp: dep_rel_def count_list_0_iff neq0_conv [symmetric] simp del: neq0_conv)

lemma check_deps_ok: "check_deps ids ts = Inr () \<longleftrightarrow> (\<forall>t\<in>set ts. set (task_deps t) \<subseteq> set ids)"
  by (induction ts) (auto split: option.splits simp: find_None_iff dest!: find_SomeD)

lemma check_deps_closed: "check_deps (task_ids ts) ts = Inr () \<longleftrightarrow> deps_closed ts"
  by (simp add: check_deps_ok deps_closed_def)

section \<open>The built graph\<close>

lemma get_or_dict_set [simp]: "get_or (dict_set d k v) k' x = (if k' = k then v else get_or d k' x)"
  by (simp add: get_or_def)

lemma init_degree_keys: "set (map fst (init_degree ts d)) = set (map fst d) \<union> set (task_ids ts)"
  by (induction ts d rule: init_degree.induct) (auto simp: task_ids_def keys_dict_set)

lemma init_degree_distinct: "distinct (map fst d) \<Longrightarrow> distinct (map fst (init_degree ts d))"
  by (induction ts d rule: init_degree.induct) auto

lemma init_degree_zero: "(\<And>m. get_or d m 0 = 0) \<Longrightarrow> get_or (init_degree ts d) m 0 = 0"
  by (induction ts d rule: init_degree.induct) auto

lemma init_adj_nil: "(\<And>m. get_or d m [] = []) \<Longrightarrow> get_or (init_adj ts d) m [] = []"
  by (induction ts d rule: init_adj.induct) auto

lemma add_edges_degree:
  "get_or (fst (add_edges t ds g)) m 0 = get_or (fst g) m 0 + (if m = t then int (length ds) else 0)"
  by (induction t ds g rule: add_edges.induct) auto

lemma add_edges_adj:
  "count_list (get_or (snd (add_edges t ds g)) n []) m =
     count_list (get_or (snd g) n []) m + (if m = t then count_list ds n else 0)"
  by (induction t ds g rule: add_edges.induct) auto

lemma add_edges_keys:
  "distinct (map fst (fst g)) \<Longrightarrow> t \<in> fst ` set (fst g) \<Longrightarrow>
   distinct (map fst (fst (add_edges t ds g))) \<and>
   set (map fst (fst (add_edges t ds g))) = set (map fst (fst g))"
proof (induction t ds g rule: add_edges.induct)
  case (2 t d ds deg adj)
  then show ?case by (simp add: keys_dict_set flip: set_map)
qed simp

lemma build_graph_adj:
  "count_list (get_or (snd (build_graph ts g)) n []) m = count_list (get_or (snd g) n []) m + edges ts n m"
  by (induction ts g rule: build_graph.induct) (auto simp: add_edges_adj)

lemma build_graph_degree:
  assumes "finite N" "\<forall>t\<in>set ts. set (task_deps t) \<subseteq> N"
  shows "get_or (fst (build_graph ts g)) m 0 = get_or (fst g) m 0 + int (\<Sum>n\<in>N. edges ts n m)"
  using assms
proof (induction ts g rule: build_graph.induct)
  case (2 t ts g)
  then have "(\<Sum>n\<in>N. count_list (task_deps t) n) = length (task_deps t)"
    by (intro sum_count_set) auto
  then have "(\<Sum>n\<in>N. int (count_list (task_deps t) n)) = int (length (task_deps t))"
    by (metis of_nat_sum)
  with 2 show ?case by (auto simp: add_edges_degree sum.distrib)
qed simp

lemma build_graph_keys:
  "distinct (map fst (fst g)) \<Longrightarrow> set (task_ids ts) \<subseteq> fst ` set (fst g) \<Longrightarrow>
   distinct (map fst (fst (build_graph ts g))) \<and>
   set (map fst (fst (build_graph ts g))) = set (map fst (fst g))"
proof (induction ts g rule: build_graph.induct)
  case (2 t ts g)
  then have "distinct (map fst (fst (add_edges (task_id t) (task_deps t) g)))"
    and "set (map fst (fst (add_edges (task_id t) (task_deps t) g))) = set (map fst (fst g))"
    using add_edges_keys by (auto simp: task_ids_def)
  with 2 show ?case by (simp add: task_ids_def)
qed simp

section \<open>The loop\<close>

lemma relax_spec:
  assumes "relax nbs deg queue = (deg', queue')" "\<And>m. int (count_list nbs m) \<le> get_or deg m 0"
  shows "(\<forall>m. get_or deg' m 0 = get_or deg m 0 - int (count_list nbs m)) \<and>
    (\<exists>ys. queue' = queue @ ys \<and> distinct ys \<and>
       set ys = {m \<in> set nbs. get_or deg m 0 = int (count_list nbs m)})"
  using assms
proof (induction nbs deg queue rule: relax.induct)
  case (2 nb nbs deg queue)
  let ?d = "get_or deg nb 0 - 1"
  let ?deg = "dict_set deg nb ?d" and ?queue = "if ?d = 0 then queue @ [nb] else queue"
  have prem: "int (count_list nbs m) \<le> get_or ?deg m 0" for m
    using "2.prems"(2) [of m] by (cases "m = nb") auto
  then have nb: "?d = 0 \<Longrightarrow> nb \<notin> set nbs"
    using prem [of nb] by (simp add: count_list_0_iff)
  from 2 prem obtain ys where
    deg: "\<And>m. get_or deg' m 0 = get_or ?deg m 0 - int (count_list nbs m)" and
    ys: "queue' = ?queue @ ys" "distinct ys"
      "set ys = {m \<in> set nbs. get_or ?deg m 0 = int (count_list nbs m)}"
    by (force simp: Let_def)
  let ?ys = "if ?d = 0 then nb # ys else ys"
  have "queue' = queue @ ?ys" "distinct ?ys" using ys nb by auto
  moreover have "set ?ys = {m \<in> set (nb # nbs). get_or deg m 0 = int (count_list (nb # nbs) m)}"
  proof (cases "?d = 0")
    case True
    with nb have "count_list nbs nb = 0" by (simp add: count_list_0_iff)
    with True nb ys(3) show ?thesis by auto
  next
    case False
    have eq: "m \<in> set ys \<longleftrightarrow> m \<in> set (nb # nbs) \<and> get_or deg m 0 = int (count_list (nb # nbs) m)" for m
      using False by (cases "m = nb"; cases "nb \<in> set nbs") (auto simp: ys(3))
    show ?thesis using False by (intro set_eqI) (simp only: mem_Collect_eq eq if_False)
  qed
  moreover have "get_or deg' m 0 = get_or deg m 0 - int (count_list (nb # nbs) m)" for m
    using deg by auto
  ultimately show ?case by blast
qed auto

definition preds :: "task list \<Rightarrow> string \<Rightarrow> string set" where
  "preds ts m = {n. (n, m) \<in> dep_rel ts}"

text \<open>A list in which every task stands behind all its dependencies.\<close>

definition topological :: "task list \<Rightarrow> string list \<Rightarrow> bool" where
  "topological ts V \<longleftrightarrow> (\<forall>i<length V. preds ts (V ! i) \<subseteq> set (take i V))"

definition kahn_inv :: "task list \<Rightarrow> string list \<Rightarrow> string list \<Rightarrow> (string \<Rightarrow> int) \<Rightarrow> bool" where
  "kahn_inv ts V queue D \<longleftrightarrow>
     distinct (V @ queue) \<and> set (V @ queue) \<subseteq> set (task_ids ts) \<and>
     (\<forall>m. D m = int (\<Sum>n\<in>set (task_ids ts) - set V. edges ts n m)) \<and>
     (\<forall>m\<in>set (task_ids ts). D m = 0 \<longleftrightarrow> m \<in> set (V @ queue)) \<and>
     topological ts V"

lemma topological_snoc:
  "topological ts V \<Longrightarrow> preds ts x \<subseteq> set V \<Longrightarrow> topological ts (V @ [x])"
  by (auto simp: topological_def nth_append less_Suc_eq)

lemma kahn_inv_preds:
  assumes "kahn_inv ts V queue D" "deps_closed ts" "m \<in> set queue"
  shows "preds ts m \<subseteq> set V"
proof
  fix n
  assume n: "n \<in> preds ts m"
  then have "n \<in> set (task_ids ts)" "0 < edges ts n m"
    using assms(2) by (auto simp: preds_def edges_pos dep_rel_def deps_closed_def)
  moreover have "(\<Sum>n\<in>set (task_ids ts) - set V. edges ts n m) = 0"
    using assms(1,3) by (auto simp: kahn_inv_def simp del: of_nat_sum)
  ultimately show "n \<in> set V" by (force simp: sum_eq_0_iff)
qed

lemma kahn_inv_step:
  assumes inv: "kahn_inv ts V (queue @ [x]) (\<lambda>m. get_or deg m 0)" and closed: "deps_closed ts"
    and adj: "\<And>m. count_list nbs m = edges ts x m"
    and relax: "relax nbs deg queue = (deg', queue')"
  shows "kahn_inv ts (V @ [x]) queue' (\<lambda>m. get_or deg' m 0)"
proof -
  let ?N = "set (task_ids ts)" and ?D = "\<lambda>m. get_or deg m 0"
  note I = inv [unfolded kahn_inv_def]
  have D: "?D m = int (\<Sum>n\<in>?N - set V. edges ts n m)" for m using I by blast
  have x: "x \<in> ?N - set V" using I by auto
  then have sum_x: "(\<Sum>n\<in>?N - set V. edges ts n m) =
      edges ts x m + (\<Sum>n\<in>?N - set (V @ [x]). edges ts n m)" for m
    by (subst sum.remove [of _ x]) (auto intro: sum.cong)
  have le: "int (count_list nbs m) \<le> ?D m" for m by (simp add: D sum_x adj del: of_nat_sum)
  obtain ys where deg': "\<And>m. get_or deg' m 0 = ?D m - int (edges ts x m)"
    and ys: "queue' = queue @ ys" "distinct ys" "set ys = {m \<in> set nbs. ?D m = int (edges ts x m)}"
    using relax_spec [OF relax le] by (auto simp: adj)
  have nbs: "m \<in> set nbs \<longleftrightarrow> 0 < edges ts x m" for m
    using adj [of m] by (metis count_list_0_iff neq0_conv)
  have zero: "m \<in> ?N \<Longrightarrow> ?D m = 0 \<longleftrightarrow> m \<in> set (V @ queue @ [x])" for m using I by blast
  have ysN: "m \<in> set ys \<Longrightarrow> m \<in> ?N \<and> ?D m \<noteq> 0" for m
    using ys(3) nbs by (auto simp: edges_pos dep_rel_def task_ids_def)
  have "m \<notin> set (V @ queue @ [x])" if "m \<in> set ys" for m
    using ysN [OF that] zero by blast
  then have "distinct ((V @ [x]) @ queue')" "set ((V @ [x]) @ queue') \<subseteq> ?N"
    using I ys(1,2) ysN by auto
  moreover have "get_or deg' m 0 = int (\<Sum>n\<in>?N - set (V @ [x]). edges ts n m)" for m
    by (simp add: deg' D sum_x del: of_nat_sum)
  moreover have "get_or deg' m 0 = 0 \<longleftrightarrow> m \<in> set ((V @ [x]) @ queue')" if "m \<in> ?N" for m
    using le [of m] zero [OF that] by (auto simp: deg' adj ys nbs)
  moreover have "topological ts (V @ [x])"
    using I kahn_inv_preds [OF inv closed, of x] by (intro topological_snoc) auto
  ultimately show ?thesis unfolding kahn_inv_def by blast
qed

lemma kahn_visits:
  assumes "\<And>n m. count_list (get_or adj n []) m = edges ts n m" "deps_closed ts"
    and "kahn_inv ts V queue (\<lambda>m. get_or deg m 0)"
  shows "\<exists>V' D. kahn adj deg queue (length V) = length V' \<and> kahn_inv ts V' [] D"
  using assms
proof (induction adj deg queue "length V" arbitrary: V rule: kahn.induct)
  case (1 adj deg queue V)
  show ?case
  proof (cases queue rule: rev_cases)
    case Nil
    with 1 show ?thesis by (auto simp: kahn.simps [of adj])
  next
    case (snoc q x)
    obtain deg' queue' where relax: "relax (get_or adj x []) deg q = (deg', queue')"
      by (metis prod.exhaust)
    then have "kahn_inv ts (V @ [x]) queue' (\<lambda>m. get_or deg' m 0)"
      using 1 snoc by (intro kahn_inv_step) auto
    with 1 snoc relax have "\<exists>V' D. kahn adj deg' queue' (length (V @ [x])) = length V' \<and> kahn_inv ts V' [] D"
      by (intro "1.hyps" [where V = "V @ [x]"]) auto
    with snoc relax show ?thesis by (simp add: kahn.simps [of adj deg])
  qed
qed

section \<open>Validation accepts exactly the acyclic plans\<close>

lemma topological_acyclic:
  assumes "topological ts V" "distinct V" "dep_rel ts \<subseteq> UNIV \<times> set V"
  shows "acyclic (dep_rel ts)"
proof -
  define pos where "pos = the_inv_into {..<length V} (\<lambda>i. V ! i)"
  have pos_nth: "pos (V ! i) = i" if "i < length V" for i
    using that assms(2) unfolding pos_def by (intro the_inv_into_f_f) (auto intro: inj_on_nth)
  have "pos n < pos m" if "(n, m) \<in> dep_rel ts" for n m
  proof -
    have "m \<in> set V" using that assms(3) by blast
    then obtain j where j: "j < length V" "V ! j = m" by (auto simp: in_set_conv_nth)
    then have "n \<in> set (take j V)" using that assms(1) by (auto simp: topological_def preds_def)
    then obtain i where "i < j" "V ! i = n" using j by (auto simp: in_set_conv_nth)
    with j pos_nth [of i] pos_nth [of j] show ?thesis by simp
  qed
  then have "dep_rel ts \<subseteq> measure pos" by auto
  then show ?thesis using wf_acyclic wf_measure acyclic_subset by blast
qed

lemma kahn_final:
  assumes "kahn_inv ts V [] D" "deps_closed ts"
  shows "length V = length ts \<longleftrightarrow> distinct (task_ids ts) \<and> acyclic (dep_rel ts)"
proof -
  let ?N = "set (task_ids ts)"
  note I = assms(1) [unfolded kahn_inv_def]
  have len: "length V = card (set V)" "set V \<subseteq> ?N" using I by (auto simp: distinct_card)
  have cardN: "card ?N \<le> length ts" "distinct (task_ids ts) \<longleftrightarrow> card ?N = length ts"
    using card_length [of "task_ids ts"] distinct_card [of "task_ids ts"] card_distinct [of "task_ids ts"]
    by (auto simp: task_ids_def simp del: set_map)
  have rel: "dep_rel ts \<subseteq> ?N \<times> ?N"
    using assms(2) by (auto simp: dep_rel_def deps_closed_def task_ids_def)
  have "set V = ?N" if "acyclic (dep_rel ts)"
  proof (rule ccontr)
    assume "set V \<noteq> ?N"
    then obtain m where m: "m \<in> ?N - set V" using len by auto
    have step: "\<exists>n \<in> ?N - set V. (n, m) \<in> dep_rel ts" if "m \<in> ?N - set V" for m
    proof -
      have "(\<Sum>n\<in>?N - set V. edges ts n m) \<noteq> 0" using I that by (auto simp del: of_nat_sum)
      then show ?thesis by (auto simp: sum_eq_0_iff simp flip: edges_pos)
    qed
    have "finite (dep_rel ts)" using rel finite_subset by fastforce
    with that have "wf (dep_rel ts)" by (simp add: finite_acyclic_wf)
    then obtain z where "z \<in> ?N - set V" "\<And>y. (y, z) \<in> dep_rel ts \<Longrightarrow> y \<notin> ?N - set V"
      using m by (metis wfE_min)
    with step show False by blast
  qed
  moreover have "acyclic (dep_rel ts)" if "set V = ?N"
    using I rel that by (intro topological_acyclic [of ts V]) auto
  moreover have "card (set V) = length ts \<longleftrightarrow> set V = ?N \<and> card ?N = length ts"
    using len cardN card_mono [of ?N "set V"] by (metis List.finite_set antisym card_subset_eq)
  ultimately show ?thesis using len cardN by metis
qed

lemma kahn_inv_init:
  assumes "deps_closed ts"
    and "build_graph ts (init_degree ts [], init_adj ts []) = (deg, adj)"
  shows "kahn_inv ts [] (map fst (filter (\<lambda>(_, d). d = 0) deg)) (\<lambda>m. get_or deg m 0)"
proof -
  let ?g = "(init_degree ts [], init_adj ts [])"
  have keys: "distinct (map fst deg)" "set (map fst deg) = set (task_ids ts)"
    using build_graph_keys [of ?g ts] init_degree_keys [of ts "[]"] init_degree_distinct [of "[]" ts] assms(2)
    by auto
  have D: "get_or deg m 0 = int (\<Sum>n\<in>set (task_ids ts). edges ts n m)" for m
    using build_graph_degree [of "set (task_ids ts)" ts ?g m] init_degree_zero [of "[]" ts m] assms
    by (simp add: deps_closed_def get_or_def)
  have mem: "m \<in> set (map fst (filter (\<lambda>(_, d). d = 0) deg)) \<longleftrightarrow> get_or deg m 0 = 0"
    if "m \<in> set (task_ids ts)" for m
  proof -
    have "m \<in> set (map fst deg)" using that keys(2) by blast
    then obtain d where d: "(m, d) \<in> set deg" by auto
    then have "map_of deg m = Some d" using keys(1) by simp
    moreover from d have "(m, d') \<in> set deg \<longleftrightarrow> d' = d" for d'
      using keys(1) eq_key_imp_eq_value by fast
    ultimately show ?thesis by (simp add: get_or_def image_iff split_beta Bex_def)
  qed
  have "distinct (map fst (filter (\<lambda>(_, d). d = 0) deg))"
    using keys(1) by (rule distinct_map_filter)
  moreover have "set (map fst (filter (\<lambda>(_, d). d = 0) deg)) \<subseteq> set (task_ids ts)"
    using keys(2) by auto
  moreover note D mem
  ultimately show ?thesis unfolding kahn_inv_def topological_def by simp
qed

lemma validate_dag_accepts:
  "validate_dag ts = Inr () \<longleftrightarrow>
     distinct (task_ids ts) \<and> deps_closed ts \<and> acyclic (dep_rel ts)"
proof (cases "deps_closed ts")
  case True
  obtain deg adj where g: "build_graph ts (init_degree ts [], init_adj ts []) = (deg, adj)"
    by fastforce
  have "count_list (get_or adj n []) m = edges ts n m" for n m
    using build_graph_adj [of ts "(init_degree ts [], init_adj ts [])" n m] g init_adj_nil [of "[]" ts n]
    by (simp add: get_or_def)
  from kahn_visits [OF this True kahn_inv_init [OF True g]]
  obtain V D where "kahn adj deg (map fst (filter (\<lambda>(_, d). d = 0) deg)) 0 = length V"
    "kahn_inv ts V [] D" by auto
  with True show ?thesis
    using kahn_final [of ts V D] check_deps_closed [of ts] by (simp add: validate_dag_def g)
next
  case False
  then show ?thesis using check_deps_closed [of ts] by (auto simp: validate_dag_def)
qed

text \<open>C4: \<open>_validate_dag\<close> accepts a plan exactly when its task ids are distinct, every
  dependency names a task of the plan, and the dependency relation has no cycle.\<close>

theorem validate_dag_correct:
  "validate_dag ts = Inr () \<longleftrightarrow>
     distinct (task_ids ts) \<and> deps_closed ts \<and> acyclic (dep_rel ts)"
  by (rule validate_dag_accepts)

end
