(* ===== verification/Redis.thy ===== *)
theory Redis
  imports Py_Str
begin

text \<open>
  The interface to the Redis server.  The server is outside the repository, so its
  commands are a parameter of the model: a record of functions on the state \<open>'w\<close> of the
  outside world.  What the program relies on is stated once, as a locale that gives each
  command its documented effect on a view of the key space.  A value is stored as the
  document that \<open>json.dumps\<close> was given, or as a string.  \<open>mem_redis\<close> is a reference
  server over which the contract is interpreted and on which witnesses evaluate.
\<close>

section \<open>Commands\<close>

datatype rval = RStr json | RList "string list" | RHash "(string \<times> string) list"

record 'w redis =
  r_get :: "string \<Rightarrow> 'w \<Rightarrow> json option"
  r_set :: "string \<Rightarrow> json \<Rightarrow> 'w \<Rightarrow> 'w"
  r_setex :: "string \<Rightarrow> nat \<Rightarrow> json \<Rightarrow> 'w \<Rightarrow> 'w"
  r_setnx :: "string \<Rightarrow> nat \<Rightarrow> json \<Rightarrow> 'w \<Rightarrow> bool \<times> 'w"
  r_delete :: "string \<Rightarrow> 'w \<Rightarrow> 'w"
  r_lrange :: "string \<Rightarrow> 'w \<Rightarrow> string list"
  r_rpush :: "string \<Rightarrow> string \<Rightarrow> 'w \<Rightarrow> 'w"
  r_hget :: "string \<Rightarrow> string \<Rightarrow> 'w \<Rightarrow> string option"
  r_hgetall :: "string \<Rightarrow> 'w \<Rightarrow> (string \<times> string) list"
  r_hset :: "string \<Rightarrow> string \<Rightarrow> string \<Rightarrow> 'w \<Rightarrow> 'w"
  r_hdel :: "string \<Rightarrow> string \<Rightarrow> 'w \<Rightarrow> 'w"
  r_expire :: "string \<Rightarrow> nat \<Rightarrow> 'w \<Rightarrow> 'w"
  r_keys :: "string \<Rightarrow> 'w \<Rightarrow> string list" \<comment> \<open>the keys with the given prefix: \<open>KEYS p*\<close>, \<open>SCAN MATCH p*\<close>\<close>

type_synonym db = "string \<Rightarrow> rval option"

definition list_at :: "db \<Rightarrow> string \<Rightarrow> string list option" where
  "list_at d k = (case d k of None \<Rightarrow> Some [] | Some (RList xs) \<Rightarrow> Some xs | _ \<Rightarrow> None)"

definition hash_at :: "db \<Rightarrow> string \<Rightarrow> (string \<times> string) list option" where
  "hash_at d k = (case d k of None \<Rightarrow> Some [] | Some (RHash h) \<Rightarrow> Some h | _ \<Rightarrow> None)"

lemma list_at_simps [simp]:
  "d k = None \<Longrightarrow> list_at d k = Some []"
  "d k = Some (RList xs) \<Longrightarrow> list_at d k = Some xs"
  by (simp_all add: list_at_def)

lemma hash_at_simps [simp]:
  "d k = None \<Longrightarrow> hash_at d k = Some []"
  "d k = Some (RHash h) \<Longrightarrow> hash_at d k = Some h"
  by (simp_all add: hash_at_def)

section \<open>The documented behaviour\<close>

text \<open>
  Commands on a key of another type raise in Redis; the laws say nothing of them, so
  every property has to show that the program keeps to one type per key.  \<open>ttl\<close> is the
  remaining life of a key, \<open>None\<close> for a key that does not expire.
\<close>

locale redis_server =
  fixes R :: "'w redis" and db :: "'w \<Rightarrow> db" and ttl :: "'w \<Rightarrow> string \<Rightarrow> nat option"
  assumes get_str: "db w k = Some (RStr v) \<Longrightarrow> r_get R k w = Some v"
    and get_none: "db w k = None \<Longrightarrow> r_get R k w = None"
    and set_db: "db (r_set R k v w) = (db w)(k \<mapsto> RStr v)"
    and set_ttl: "ttl (r_set R k v w) = (ttl w)(k := None)"
    and setex_db: "db (r_setex R k n v w) = (db w)(k \<mapsto> RStr v)"
    and setex_ttl: "ttl (r_setex R k n v w) = (ttl w)(k := Some n)"
    and setnx_free: "db w k = None \<Longrightarrow> fst (r_setnx R k n v w) \<and>
          db (snd (r_setnx R k n v w)) = (db w)(k \<mapsto> RStr v)"
    and setnx_held: "db w k \<noteq> None \<Longrightarrow> r_setnx R k n v w = (False, w)"
    and delete_db: "db (r_delete R k w) = (db w)(k := None)"
    and lrange_all: "list_at (db w) k = Some xs \<Longrightarrow> r_lrange R k w = xs"
    and rpush_db: "list_at (db w) k = Some xs \<Longrightarrow>
          db (r_rpush R k x w) = (db w)(k \<mapsto> RList (xs @ [x]))"
    and hget_field: "hash_at (db w) k = Some h \<Longrightarrow> r_hget R k f w = map_of h f"
    and hgetall_map: "hash_at (db w) k = Some h \<Longrightarrow> map_of (r_hgetall R k w) = map_of h"
    and hset_db: "hash_at (db w) k = Some h \<Longrightarrow>
          db (r_hset R k f s w) = (db w)(k \<mapsto> RHash (dict_set h f s))"
    and hset_ttl: "ttl (r_hset R k f s w) = ttl w"
    and hdel_db: "hash_at (db w) k = Some h \<Longrightarrow> db (r_hdel R k f w) =
          (db w)(k := (if dict_del h f = [] then None else Some (RHash (dict_del h f))))"
    and expire_db: "db (r_expire R k n w) = db w"
    and expire_ttl: "ttl (r_expire R k n w) = (if db w k = None then ttl w else (ttl w)(k := Some n))"
    and keys_prefix: "set (r_keys R p w) = {k. prefix p k \<and> db w k \<noteq> None}"
begin

lemmas db_laws [simp] = set_db setex_db delete_db expire_db
lemmas ttl_laws [simp] = set_ttl setex_ttl expire_ttl hset_ttl

lemma get_def: "(\<And>v. db w k = Some v \<Longrightarrow> \<exists>j. v = RStr j) \<Longrightarrow>
    r_get R k w = (case db w k of Some (RStr j) \<Rightarrow> Some j | _ \<Rightarrow> None)"
  by (cases "db w k") (auto simp: get_str get_none)

lemma get_frame: "k \<noteq> k' \<Longrightarrow> db w k' = Some (RStr j) \<Longrightarrow> r_get R k' (r_set R k v w) = Some j"
  by (simp add: get_str)

end

section \<open>A reference server\<close>

text \<open>The key space as a finite dict from keys to a value and its remaining life.\<close>

type_synonym mem = "(string \<times> rval \<times> nat option) list"

definition mem_db :: "mem \<Rightarrow> db" where
  "mem_db m k = map_option fst (map_of m k)"

definition mem_ttl :: "mem \<Rightarrow> string \<Rightarrow> nat option" where
  "mem_ttl m k = Option.bind (map_of m k) snd"

definition mem_list :: "string \<Rightarrow> mem \<Rightarrow> string list" where
  "mem_list k m = (case mem_db m k of Some (RList xs) \<Rightarrow> xs | _ \<Rightarrow> [])"

definition mem_hash :: "string \<Rightarrow> mem \<Rightarrow> (string \<times> string) list" where
  "mem_hash k m = (case mem_db m k of Some (RHash h) \<Rightarrow> h | _ \<Rightarrow> [])"

definition mem_redis :: "mem redis" where
  "mem_redis = \<lparr>
     r_get = (\<lambda>k m. case mem_db m k of Some (RStr v) \<Rightarrow> Some v | _ \<Rightarrow> None),
     r_set = (\<lambda>k v m. dict_set m k (RStr v, None)),
     r_setex = (\<lambda>k n v m. dict_set m k (RStr v, Some n)),
     r_setnx = (\<lambda>k n v m. if mem_db m k = None then (True, dict_set m k (RStr v, Some n)) else (False, m)),
     r_delete = (\<lambda>k m. dict_del m k),
     r_lrange = mem_list,
     r_rpush = (\<lambda>k x m. dict_set m k (RList (mem_list k m @ [x]), mem_ttl m k)),
     r_hget = (\<lambda>k f m. map_of (mem_hash k m) f),
     r_hgetall = mem_hash,
     r_hset = (\<lambda>k f s m. dict_set m k (RHash (dict_set (mem_hash k m) f s), mem_ttl m k)),
     r_hdel = (\<lambda>k f m. if dict_del (mem_hash k m) f = [] then dict_del m k
                else dict_set m k (RHash (dict_del (mem_hash k m) f), mem_ttl m k)),
     r_expire = (\<lambda>k n m. case mem_db m k of None \<Rightarrow> m | Some v \<Rightarrow> dict_set m k (v, Some n)),
     r_keys = (\<lambda>p m. filter (\<lambda>k. prefix p k) (map fst m)) \<rparr>"

lemma mem_views [simp]:
  "mem_db (dict_set m k (v, t)) = (mem_db m)(k \<mapsto> v)"
  "mem_ttl (dict_set m k (v, t)) = (mem_ttl m)(k := t)"
  "mem_db (dict_del m k) = (mem_db m)(k := None)"
  "mem_ttl (dict_del m k) = (mem_ttl m)(k := None)"
  by (auto simp: mem_db_def mem_ttl_def fun_eq_iff)

lemma mem_list_at [simp]: "list_at (mem_db m) k = Some xs \<Longrightarrow> mem_list k m = xs"
  by (auto simp: list_at_def mem_list_def split: option.splits rval.splits)

lemma mem_hash_at [simp]: "hash_at (mem_db m) k = Some h \<Longrightarrow> mem_hash k m = h"
  by (auto simp: hash_at_def mem_hash_def split: option.splits rval.splits)

lemma mem_db_keys: "k \<in> fst ` set m \<longleftrightarrow> mem_db m k \<noteq> None"
  by (auto simp: mem_db_def map_of_eq_None_iff)

interpretation memr: redis_server mem_redis mem_db mem_ttl
proof unfold_locales
  fix p :: string and m :: mem
  show "set (r_keys mem_redis p m) = {k. prefix p k \<and> mem_db m k \<noteq> None}"
    using mem_db_keys by (auto simp: mem_redis_def simp flip: mem_db_keys)
next
  fix k n and m :: mem
  show "mem_db (r_expire mem_redis k n m) = mem_db m"
    by (auto simp: mem_redis_def fun_eq_iff split: option.splits)
qed (auto simp: mem_redis_def split: option.splits)

end
