(* ===== verification/Task_Queue.thy ===== *)
theory Task_Queue
  imports Task_Dag Redis
begin

text \<open>
  \<open>TaskQueue\<close> of \<open>orchestrator/task_queue.py\<close> up to the scheduling of single tasks: the
  Redis keys, the task records, leases, loading a plan, the ready set, the status counts
  and the propagation of failures.  Every operation is a function of the Redis commands
  \<open>R\<close> and of the world.  An abstract plan is the list of its tasks; \<open>plan_at\<close> says that
  the key space represents it, and each operation is shown to implement its counterpart
  on plans.
\<close>

section \<open>Keys and records\<close>

definition task_key :: "string \<Rightarrow> string \<Rightarrow> string" where
  "task_key sid tid = ''tasks:'' @ sid @ '':'' @ tid"

definition list_key :: "string \<Rightarrow> string" where
  "list_key sid = ''tasklist:'' @ sid"

definition lease_key :: "string \<Rightarrow> string \<Rightarrow> string" where
  "lease_key sid tid = ''task:'' @ sid @ '':'' @ tid @ '':lease''"

fun status_str :: "task_status \<Rightarrow> string" where
  "status_str Pending = ''pending''"
| "status_str Running = ''running''"
| "status_str Complete = ''complete''"
| "status_str Failed = ''failed''"
| "status_str Blocked = ''blocked''"

definition parse_status :: "string \<Rightarrow> task_status option" where
  "parse_status s = find (\<lambda>st. status_str st = s) [Pending, Running, Complete, Failed, Blocked]"

definition task_json :: "task \<Rightarrow> json" where
  "task_json t = JObj (
     [(''id'', JStr (task_id t)), (''role'', JStr (task_role t)), (''desc'', JStr (task_desc t)),
      (''deps'', JList (map JStr (task_deps t))), (''status'', JStr (status_str (task_status t)))]
     @ (case task_result t of None \<Rightarrow> [] | Some r \<Rightarrow> [(''result'', JStr r)]))"

fun jstr :: "json \<Rightarrow> string option" where
  "jstr (JStr s) = Some s" | "jstr _ = None"

definition obj_str :: "json dict \<Rightarrow> string \<Rightarrow> string option" where
  "obj_str d k = Option.bind (map_of d k) jstr"

fun json_strs :: "json list \<Rightarrow> string list option" where
  "json_strs [] = Some []"
| "json_strs (JStr s # js) = map_option ((#) s) (json_strs js)"
| "json_strs (_ # js) = None"

definition task_of_json :: "json \<Rightarrow> task option" where
  "task_of_json j = (case j of
     JObj d \<Rightarrow>
       (case (obj_str d ''id'', obj_str d ''role'', obj_str d ''desc'',
              map_of d ''deps'', Option.bind (obj_str d ''status'') parse_status) of
          (Some i, Some r, Some s, Some (JList ds), Some st) \<Rightarrow>
            (case json_strs ds of
               Some deps \<Rightarrow> Some \<lparr>task_id = i, task_role = r, task_desc = s, task_deps = deps,
                              task_status = st, task_result = obj_str d ''result''\<rparr>
             | None \<Rightarrow> None)
        | _ \<Rightarrow> None)
   | _ \<Rightarrow> None)"

definition save_task :: "'w redis \<Rightarrow> string \<Rightarrow> task \<Rightarrow> 'w \<Rightarrow> 'w" where
  "save_task R sid t w = r_set R (task_key sid (task_id t)) (task_json t) w"

definition load_task :: "'w redis \<Rightarrow> string \<Rightarrow> string \<Rightarrow> 'w \<Rightarrow> task option" where
  "load_task R sid tid w = Option.bind (r_get R (task_key sid tid) w) task_of_json"

definition all_task_ids :: "'w redis \<Rightarrow> string \<Rightarrow> 'w \<Rightarrow> string list" where
  "all_task_ids R sid w = r_lrange R (list_key sid) w"

definition all_tasks :: "'w redis \<Rightarrow> string \<Rightarrow> 'w \<Rightarrow> task list" where
  "all_tasks R sid w = List.map_filter (\<lambda>tid. load_task R sid tid w) (all_task_ids R sid w)"

section \<open>Leases\<close>

definition acquire_task_lease ::
    "'w redis \<Rightarrow> nat \<Rightarrow> string \<Rightarrow> string \<Rightarrow> string \<Rightarrow> 'w \<Rightarrow> bool \<times> 'w" where
  "acquire_task_lease R lease_ttl sid tid worker w =
     r_setnx R (lease_key sid tid) lease_ttl (JStr worker) w"

definition release_task_lease :: "'w redis \<Rightarrow> string \<Rightarrow> string \<Rightarrow> 'w \<Rightarrow> 'w" where
  "release_task_lease R sid tid w = r_delete R (lease_key sid tid) w"

section \<open>Loading a plan\<close>

fun clear_tasks :: "'w redis \<Rightarrow> string \<Rightarrow> string list \<Rightarrow> 'w \<Rightarrow> 'w" where
  "clear_tasks R sid [] w = w"
| "clear_tasks R sid (tid # tids) w =
     clear_tasks R sid tids (r_delete R (lease_key sid tid) (r_delete R (task_key sid tid) w))"

fun store_tasks :: "'w redis \<Rightarrow> string \<Rightarrow> task list \<Rightarrow> 'w \<Rightarrow> 'w" where
  "store_tasks R sid [] w = w"
| "store_tasks R sid (t # ts) w =
     store_tasks R sid ts
       (r_rpush R (list_key sid) (task_id t) (save_task R sid (t\<lparr>task_status := Pending\<rparr>) w))"

text \<open>The result is the number of loaded tasks; a validation error leaves the old plan cleared.\<close>

definition load_plan :: "'w redis \<Rightarrow> string \<Rightarrow> task list \<Rightarrow> 'w \<Rightarrow> nat result \<times> 'w" where
  "load_plan R sid tasks w =
     (let old_ids = all_task_ids R sid w;
          w1 = r_delete R (list_key sid) (clear_tasks R sid old_ids w)
      in case validate_dag tasks of
           Inl e \<Rightarrow> (Inl e, w1)
         | Inr _ \<Rightarrow> (Inr (length tasks), store_tasks R sid tasks w1))"

section \<open>Scheduling\<close>

definition done_ids :: "task list \<Rightarrow> string set" where
  "done_ids ts = {task_id t | t. t \<in> set ts \<and> task_status t = Complete}"

definition ready_of :: "task list \<Rightarrow> task list" where
  "ready_of ts =
     (let done = map task_id (filter (\<lambda>t. task_status t = Complete) ts)
      in filter (\<lambda>t. task_status t = Pending \<and> list_all (\<lambda>d. d \<in> set done) (task_deps t)) ts)"

definition get_ready_tasks :: "'w redis \<Rightarrow> string \<Rightarrow> 'w \<Rightarrow> task list" where
  "get_ready_tasks R sid w = ready_of (all_tasks R sid w)"

record session_status =
  ss_total :: nat
  ss_pending :: nat
  ss_running :: nat
  ss_complete :: nat
  ss_failed :: nat
  ss_blocked :: nat
  ss_tasks :: "task list"

fun status_counts :: "task list \<Rightarrow> (task_status \<times> nat) list \<Rightarrow> (task_status \<times> nat) list" where
  "status_counts [] counts = counts"
| "status_counts (t # ts) counts =
     status_counts ts (dict_set counts (task_status t) (get_or counts (task_status t) 0 + 1))"

definition get_session_status :: "'w redis \<Rightarrow> string \<Rightarrow> 'w \<Rightarrow> session_status" where
  "get_session_status R sid w =
     (let tasks = all_tasks R sid w; counts = status_counts tasks [] in
      \<lparr>ss_total = length tasks,
       ss_pending = get_or counts Pending 0, ss_running = get_or counts Running 0,
       ss_complete = get_or counts Complete 0, ss_failed = get_or counts Failed 0,
       ss_blocked = get_or counts Blocked 0, ss_tasks = tasks\<rparr>)"

text \<open>One pass of the \<open>for\<close> loop of \<open>_propagate_blocked\<close>: the tasks are changed in place.\<close>

fun block_pass :: "'w redis \<Rightarrow> string \<Rightarrow> task list \<Rightarrow> string list \<Rightarrow> 'w
    \<Rightarrow> task list \<times> string list \<times> bool \<times> 'w" where
  "block_pass R sid [] blocked w = ([], blocked, False, w)"
| "block_pass R sid (t # ts) blocked w =
     (if task_status t \<in> {Pending, Running} \<and> task_id t \<notin> set blocked
         \<and> list_ex (\<lambda>d. d \<in> set blocked) (task_deps t)
      then let t' = t\<lparr>task_status := Blocked\<rparr> in
           case block_pass R sid ts (task_id t # blocked) (save_task R sid t' w) of
             (ts', blocked', _, w') \<Rightarrow> (t' # ts', blocked', True, w')
      else case block_pass R sid ts blocked w of
             (ts', blocked', changed, w') \<Rightarrow> (t # ts', blocked', changed, w'))"

definition is_open :: "task \<Rightarrow> bool" where
  "is_open t \<longleftrightarrow> task_status t \<in> {Pending, Running}"

lemma block_pass_open:
  "block_pass R sid ts blocked w = (ts', blocked', changed, w') \<Longrightarrow>
   length (filter is_open ts') \<le> length (filter is_open ts) \<and>
   (changed \<longrightarrow> length (filter is_open ts') < length (filter is_open ts))"
  by (induction R sid ts blocked w arbitrary: ts' blocked' changed w' rule: block_pass.induct)
    (force simp: Let_def is_open_def split: if_splits prod.splits)+

function block_loop :: "'w redis \<Rightarrow> string \<Rightarrow> task list \<Rightarrow> string list \<Rightarrow> 'w \<Rightarrow> 'w" where
  "block_loop R sid ts blocked w =
     (case block_pass R sid ts blocked w of
        (ts', blocked', changed, w') \<Rightarrow>
          if changed then block_loop R sid ts' blocked' w' else w')"
  by pat_completeness auto
termination
  by (relation "measure (\<lambda>(R, sid, ts, blocked, w). length (filter is_open ts))")
    (auto dest: block_pass_open [OF sym])

declare block_loop.simps [simp del]

definition propagate_blocked :: "'w redis \<Rightarrow> string \<Rightarrow> string \<Rightarrow> 'w \<Rightarrow> 'w" where
  "propagate_blocked R sid failed_id w =
     block_loop R sid (all_tasks R sid w) [failed_id] w"

definition update_status ::
    "'w redis \<Rightarrow> string \<Rightarrow> string \<Rightarrow> task_status \<Rightarrow> string \<Rightarrow> 'w \<Rightarrow> 'w" where
  "update_status R sid tid status result w =
     (case load_task R sid tid w of
        None \<Rightarrow> w
      | Some t \<Rightarrow>
          (let t1 = t\<lparr>task_status := status\<rparr>;
               t2 = (if result \<noteq> [] then t1\<lparr>task_result := Some result\<rparr> else t1);
               w1 = save_task R sid t2 w
           in if status = Failed then propagate_blocked R sid tid w1 else w1))"

section \<open>Keys never collide, records survive the store\<close>

lemma key_simps [simp]:
  "task_key sid a = task_key sid b \<longleftrightarrow> a = b"
  "lease_key sid a = lease_key sid b \<longleftrightarrow> a = b"
  "task_key sid a \<noteq> list_key sid'" "list_key sid' \<noteq> task_key sid a"
  "task_key sid a \<noteq> lease_key sid' b" "lease_key sid' b \<noteq> task_key sid a"
  "list_key sid \<noteq> lease_key sid' b" "lease_key sid' b \<noteq> list_key sid"
  by (auto simp: task_key_def list_key_def lease_key_def)

lemma append_colon_cancel:
  "CHR '':'' \<notin> set s \<Longrightarrow> CHR '':'' \<notin> set s' \<Longrightarrow>
   s @ CHR '':'' # a = s' @ CHR '':'' # b \<longleftrightarrow> s = s' \<and> a = b"
proof (induction s arbitrary: s')
  case Nil
  then show ?case by (cases s') auto
next
  case (Cons c s)
  then show ?case by (cases s') auto
qed

text \<open>Two sessions share no key unless an id holds a colon.\<close>

lemma task_key_sessions:
  "CHR '':'' \<notin> set s \<Longrightarrow> CHR '':'' \<notin> set s' \<Longrightarrow> task_key s a = task_key s' b \<longleftrightarrow> s = s' \<and> a = b"
  by (simp add: task_key_def append_colon_cancel)

lemma json_strs_map [simp]: "json_strs (map JStr xs) = Some xs"
  by (induction xs) auto

lemma parse_status_str [simp]: "parse_status (status_str st) = Some st"
  by (cases st) (simp_all add: parse_status_def)

lemma task_roundtrip [simp]: "task_of_json (task_json t) = Some t"
  by (cases "task_result t") (simp_all add: task_of_json_def task_json_def obj_str_def)

section \<open>Plans as lists of tasks\<close>

text \<open>What \<open>update_status\<close> does to a plan.\<close>

definition set_status :: "task_status \<Rightarrow> string \<Rightarrow> task \<Rightarrow> task" where
  "set_status st result t =
     (let t1 = t\<lparr>task_status := st\<rparr> in
      if result \<noteq> [] then t1\<lparr>task_result := Some result\<rparr> else t1)"

text \<open>\<open>put_task\<close> replaces the task with the same id; \<open>mark S\<close> blocks the tasks with an id in \<open>S\<close>.\<close>

definition put_task :: "task \<Rightarrow> task list \<Rightarrow> task list" where
  "put_task t ts = map (\<lambda>u. if task_id u = task_id t then t else u) ts"

definition mark :: "string set \<Rightarrow> task list \<Rightarrow> task list" where
  "mark S ts = map (\<lambda>t. if task_id t \<in> S then t\<lparr>task_status := Blocked\<rparr> else t) ts"

definition plan_at :: "db \<Rightarrow> string \<Rightarrow> task list \<Rightarrow> bool" where
  "plan_at d sid ts \<longleftrightarrow>
     distinct (task_ids ts) \<and> list_at d (list_key sid) = Some (task_ids ts) \<and>
     (\<forall>t\<in>set ts. d (task_key sid (task_id t)) = Some (RStr (task_json t)))"

text \<open>The only keys of the store that may differ are the task records of the session.\<close>

definition same_but_tasks :: "string \<Rightarrow> db \<Rightarrow> db \<Rightarrow> bool" where
  "same_but_tasks sid d d' \<longleftrightarrow> (\<forall>k. k \<notin> range (task_key sid) \<longrightarrow> d' k = d k)"

lemma same_but_tasks_refl [simp]: "same_but_tasks sid d d"
  by (simp add: same_but_tasks_def)

lemma same_but_tasks_trans:
  "same_but_tasks sid d d' \<Longrightarrow> same_but_tasks sid d' d'' \<Longrightarrow> same_but_tasks sid d d''"
  by (simp add: same_but_tasks_def)

lemma same_but_tasks_lease:
  "same_but_tasks sid d d' \<Longrightarrow> d' (lease_key sid' tid) = d (lease_key sid' tid)"
  by (metis key_simps(6) rangeE same_but_tasks_def)

lemma put_task_ids [simp]: "task_ids (put_task t ts) = task_ids ts"
  by (simp add: task_ids_def put_task_def)

lemma mark_ids [simp]: "task_ids (mark S ts) = task_ids ts"
  by (simp add: task_ids_def mark_def)

lemma mark_mark [simp]: "mark S (mark T ts) = mark (S \<union> T) ts"
  by (simp add: mark_def)

lemma mark_empty [simp]: "mark {} ts = ts"
  by (simp add: mark_def)

lemma mark_Nil [simp]: "mark S [] = []"
  by (simp add: mark_def)

lemma mark_Cons: "mark S (t # ts) =
    (if task_id t \<in> S then t\<lparr>task_status := Blocked\<rparr> else t) # mark S ts"
  by (simp add: mark_def)

lemma mark_cong: "(\<And>t. t \<in> set ts \<Longrightarrow> task_id t \<in> S \<longleftrightarrow> task_id t \<in> T) \<Longrightarrow> mark S ts = mark T ts"
  by (auto simp: mark_def)

lemma put_task_mark:
  assumes "distinct (task_ids ts)" "t \<in> set ts"
  shows "put_task (t\<lparr>task_status := Blocked\<rparr>) ts = mark {task_id t} ts"
proof -
  have "u = t" if "u \<in> set ts" "task_id u = task_id t" for u
    using assms that by (auto simp: task_ids_def distinct_map inj_on_def)
  then show ?thesis by (auto simp: put_task_def mark_def)
qed

text \<open>
  \<open>blocks ts f\<close>: the failed task and the open tasks that depend on it, directly or through
  other open tasks.
\<close>

inductive_set blocks :: "task list \<Rightarrow> string \<Rightarrow> string set" for ts f where
  blocks_self: "f \<in> blocks ts f"
| blocks_dep: "t \<in> set ts \<Longrightarrow> is_open t \<Longrightarrow> d \<in> set (task_deps t) \<Longrightarrow> d \<in> blocks ts f
     \<Longrightarrow> task_id t \<in> blocks ts f"

text \<open>A set of ids that a further pass cannot extend.\<close>

definition dep_closed :: "task list \<Rightarrow> string set \<Rightarrow> bool" where
  "dep_closed ts C \<longleftrightarrow>
     (\<forall>t\<in>set ts. is_open t \<and> set (task_deps t) \<inter> C \<noteq> {} \<longrightarrow> task_id t \<in> C)"

lemma blocks_least: "dep_closed ts C \<Longrightarrow> f \<in> C \<Longrightarrow> blocks ts f \<subseteq> C"
proof
  fix x
  assume "x \<in> blocks ts f" "dep_closed ts C" "f \<in> C"
  then show "x \<in> C" by (induction rule: blocks.induct) (auto simp: dep_closed_def)
qed

lemma blocks_closed: "dep_closed ts (blocks ts f)"
  by (auto simp: dep_closed_def intro: blocks_dep)

text \<open>What one pass does: the ids it adds, and that it only adds ids it must.\<close>

lemma block_pass_spec:
  assumes "block_pass R sid ts b w = (ts', b', changed, w')" "distinct (task_ids ts)"
  shows "set b \<subseteq> set b' \<and> ts' = mark (set b' - set b) ts \<and>
    set b' - set b \<subseteq> {task_id t | t. t \<in> set ts \<and> is_open t} \<and>
    (\<forall>C. dep_closed ts C \<longrightarrow> set b \<subseteq> C \<longrightarrow> set b' \<subseteq> C) \<and>
    (\<not> changed \<longrightarrow> b' = b \<and> dep_closed ts (set b))"
  using assms
proof (induction R sid ts b w arbitrary: ts' b' changed w' rule: block_pass.induct)
  case (1 R sid b w)
  then show ?case by (auto simp: dep_closed_def)
next
  case (2 R sid t ts b w)
  show ?case
  proof (cases "task_status t \<in> {Pending, Running} \<and> task_id t \<notin> set b \<and> list_ex (\<lambda>d. d \<in> set b) (task_deps t)")
    case True
    let ?t = "t\<lparr>task_status := Blocked\<rparr>"
    obtain ts1 b1 c1 w1 where rec:
      "block_pass R sid ts (task_id t # b) (save_task R sid ?t w) = (ts1, b1, c1, w1)"
      by (metis prod_cases4)
    have eqs: "ts' = ?t # ts1" "b' = b1" "changed"
      using "2.prems"(1) True rec by (auto simp: Let_def)
    have dis: "distinct (task_ids ts)" "task_id t \<notin> set (task_ids ts)"
      using "2.prems"(2) by (auto simp: task_ids_def)
    note IH = "2.IH"(1) [OF True refl rec dis(1)]
    have "task_id u \<noteq> task_id t" if "u \<in> set ts" for u
      using dis(2) that by (auto simp: task_ids_def image_iff)
    then have "mark (set b1 - set (task_id t # b)) ts = mark (set b1 - set b) ts"
      by (intro mark_cong) auto
    moreover have "set b' \<subseteq> C" if "dep_closed (t # ts) C" "set b \<subseteq> C" for C
    proof -
      have "task_id t \<in> C" using that True by (auto simp: dep_closed_def is_open_def list_ex_iff)
      then show ?thesis using that IH eqs by (auto simp: dep_closed_def)
    qed
    ultimately show ?thesis using IH eqs True by (auto simp: mark_Cons is_open_def)
  next
    case False
    obtain ts1 b1 c1 w1 where rec: "block_pass R sid ts b w = (ts1, b1, c1, w1)"
      by (metis prod_cases4)
    have eqs: "ts' = t # ts1" "b' = b1" "changed = c1"
      using "2.prems"(1) False rec by (auto simp: Let_def split: if_splits)
    have dis: "distinct (task_ids ts)" "task_id t \<notin> set (task_ids ts)"
      using "2.prems"(2) by (auto simp: task_ids_def)
    note IH = "2.IH"(2) [OF False rec dis(1)]
    have "task_id t \<notin> set b1 - set b" using IH dis(2) by (auto simp: task_ids_def)
    moreover have "dep_closed (t # ts) (set b)" if "\<not> c1"
      using IH that False by (auto simp: dep_closed_def is_open_def list_ex_iff)
    moreover have "dep_closed ts C" if "dep_closed (t # ts) C" for C
      using that by (simp add: dep_closed_def)
    moreover have "{task_id u | u. u \<in> set ts \<and> is_open u} \<subseteq> {task_id u | u. u \<in> set (t # ts) \<and> is_open u}"
      by auto
    ultimately show ?thesis using IH eqs(1,2,3) by (simp only: mark_Cons if_False) blast
  qed
qed

definition plan_update :: "string \<Rightarrow> task_status \<Rightarrow> string \<Rightarrow> task list \<Rightarrow> task list" where
  "plan_update tid st result ts =
     (let ts1 = map (\<lambda>t. if task_id t = tid then set_status st result t else t) ts in
      if st = Failed then mark (blocks ts1 tid - {tid}) ts1 else ts1)"

lemma set_status_id [simp]: "task_id (set_status st r t) = task_id t"
  by (simp add: set_status_def Let_def)

lemma set_status_status [simp]: "task_status (set_status st r t) = st"
  by (simp add: set_status_def Let_def)

lemma set_status_deps [simp]: "task_deps (set_status st r t) = task_deps t"
  by (simp add: set_status_def Let_def)

lemma plan_update_ids [simp]: "task_ids (plan_update tid st r ts) = task_ids ts"
proof -
  have "task_ids (map (\<lambda>t. if task_id t = tid then set_status st r t else t) ts) = task_ids ts"
    by (simp add: task_ids_def)
  then show ?thesis unfolding plan_update_def Let_def by simp
qed

lemma set_status_closes:
  assumes "u \<in> set (map (\<lambda>u. if task_id u = tid then set_status st r u else u) ts)"
    and "task_id u = tid" "st = Failed"
  shows "\<not> is_open u"
proof -
  from assms(1) obtain v where u: "u = (if task_id v = tid then set_status st r v else v)"
    unfolding set_map by (rule imageE)
  show ?thesis
  proof (cases "task_id v = tid")
    case True
    with u have "u = set_status st r v" by simp
    with assms(3) show ?thesis by (simp add: is_open_def)
  next
    case False
    with u assms(2) show ?thesis by simp
  qed
qed

lemma put_set_status:
  assumes "distinct (task_ids ts)" "t \<in> set ts"
  shows "put_task (set_status st r t) ts =
    map (\<lambda>u. if task_id u = task_id t then set_status st r u else u) ts"
proof -
  have "u = t" if "u \<in> set ts" "task_id u = task_id t" for u
    using assms that by (auto simp: task_ids_def distinct_map inj_on_def)
  then show ?thesis by (auto simp: put_task_def)
qed

section \<open>The store implements plans\<close>

context redis_server
begin

lemma load_task_at: "db w (task_key sid tid) = Some (RStr (task_json t)) \<Longrightarrow> load_task R sid tid w = Some t"
  by (simp add: load_task_def get_str)

lemma load_task_plan: "plan_at (db w) sid ts \<Longrightarrow> t \<in> set ts \<Longrightarrow> load_task R sid (task_id t) w = Some t"
  by (simp add: plan_at_def load_task_at)

lemma all_tasks_plan:
  assumes "plan_at (db w) sid ts"
  shows "all_tasks R sid w = ts"
proof -
  have "List.map_filter (\<lambda>tid. load_task R sid tid w) (task_ids us) = us" if "set us \<subseteq> set ts" for us
    using that by (induction us) (auto simp: task_ids_def List.map_filter_simps load_task_plan [OF assms])
  moreover have "all_task_ids R sid w = task_ids ts"
    using assms by (simp add: all_task_ids_def plan_at_def lrange_all)
  ultimately show ?thesis by (simp add: all_tasks_def)
qed

lemma save_task_plan:
  assumes "plan_at (db w) sid ts"
  shows "plan_at (db (save_task R sid t w)) sid (put_task t ts)"
    and "same_but_tasks sid (db w) (db (save_task R sid t w))"
proof -
  have "u = t \<or> u \<in> set ts \<and> task_id u \<noteq> task_id t" if "u \<in> set (put_task t ts)" for u
    using that by (auto simp: put_task_def split: if_splits)
  then show "plan_at (db (save_task R sid t w)) sid (put_task t ts)"
    using assms by (force simp: plan_at_def save_task_def list_at_def)
qed (auto simp: save_task_def same_but_tasks_def)

lemma block_pass_plan:
  assumes "block_pass R sid ts b w = (ts', b', changed, w')" "distinct (task_ids ts)"
    and "plan_at (db w) sid us" "set ts \<subseteq> set us"
  shows "plan_at (db w') sid (mark (set b' - set b) us) \<and> same_but_tasks sid (db w) (db w')"
  using assms
proof (induction ts arbitrary: b w ts' b' changed w' us)
  case (Cons t ts)
  have dis: "distinct (task_ids ts)" "task_id t \<notin> set (task_ids ts)" "distinct (task_ids us)"
    using Cons.prems by (auto simp: task_ids_def plan_at_def)
  show ?case
  proof (cases "task_status t \<in> {Pending, Running} \<and> task_id t \<notin> set b \<and> list_ex (\<lambda>d. d \<in> set b) (task_deps t)")
    case True
    let ?t = "t\<lparr>task_status := Blocked\<rparr>" and ?us = "mark {task_id t} us"
    obtain ts1 b1 c1 w1 where rec:
      "block_pass R sid ts (task_id t # b) (save_task R sid ?t w) = (ts1, b1, c1, w1)"
      by (metis prod_cases4)
    have eqs: "b' = b1" "w' = w1" using Cons.prems(1) True rec by (auto simp: Let_def)
    have put: "plan_at (db (save_task R sid ?t w)) sid ?us" "same_but_tasks sid (db w) (db (save_task R sid ?t w))"
      using save_task_plan [OF Cons.prems(3), of ?t] Cons.prems(4) dis(3) by (simp_all add: put_task_mark)
    have "set ts \<subseteq> set ?us"
      using Cons.prems(4) dis(2) by (force simp: mark_def task_ids_def image_iff)
    then have IH: "plan_at (db w1) sid (mark (set b1 - set (task_id t # b)) ?us)"
        "same_but_tasks sid (db (save_task R sid ?t w)) (db w1)"
      using Cons.IH [OF rec dis(1) put(1)] by auto
    have "set (task_id t # b) \<subseteq> set b1" using block_pass_spec [OF rec dis(1)] by blast
    then have "set b1 - set (task_id t # b) \<union> {task_id t} = set b1 - set b" using True by auto
    with IH put(2) eqs show ?thesis by (auto intro: same_but_tasks_trans)
  next
    case False
    obtain ts1 b1 c1 w1 where rec: "block_pass R sid ts b w = (ts1, b1, c1, w1)"
      by (metis prod_cases4)
    have "b' = b1" "w' = w1"
      using Cons.prems(1) False rec by (auto simp: Let_def split: if_splits)
    with Cons.IH [OF rec dis(1) Cons.prems(3)] Cons.prems(4) show ?thesis by simp
  qed
qed simp

lemma block_loop_plan:
  assumes "plan_at (db w) sid ts" "f \<in> set b" "set b \<subseteq> blocks ts0 f"
    and "ts = mark (set b - {f}) ts0" "\<forall>t\<in>set ts0. task_id t = f \<longrightarrow> \<not> is_open t"
    and "set b - {f} \<subseteq> {task_id t | t. t \<in> set ts0 \<and> is_open t}"
  shows "plan_at (db (block_loop R sid ts b w)) sid (mark (blocks ts0 f - {f}) ts0) \<and>
    same_but_tasks sid (db w) (db (block_loop R sid ts b w))"
  using assms
proof (induction "length (filter is_open ts)" arbitrary: ts b w rule: less_induct)
  case less
  obtain ts' b' changed w' where pass: "block_pass R sid ts b w = (ts', b', changed, w')"
    by (metis prod_cases4)
  have dis: "distinct (task_ids ts)" using less.prems by (simp add: plan_at_def)
  note spec = block_pass_spec [OF pass dis]
  note plan = block_pass_plan [OF pass dis less.prems(1) order_refl]
  have open_ts: "t \<in> set ts0 \<and> task_id t \<notin> set b - {f}" if "t \<in> set ts" "is_open t" for t
    using that less.prems(4) by (auto simp: mark_def is_open_def split: if_splits)
  have opened: "t \<in> set ts" if "t \<in> set ts0" "is_open t" "task_id t \<notin> set b" for t
    using that less.prems(4) by (force simp: mark_def)
  have "dep_closed ts (blocks ts0 f)"
    using open_ts blocks_closed [of ts0 f] by (auto simp: dep_closed_def)
  then have sub: "set b' \<subseteq> blocks ts0 f" using spec less.prems(3) by blast
  show ?case
  proof (cases changed)
    case True
    have "set b' - set b \<union> (set b - {f}) = set b' - {f}" using spec less.prems(2) by auto
    then have ts': "ts' = mark (set b' - {f}) ts0" using spec less.prems(4) by simp
    moreover have "set b' - {f} \<subseteq> {task_id t | t. t \<in> set ts0 \<and> is_open t}"
      using spec less.prems(6) open_ts by blast
    moreover have "plan_at (db w') sid ts'" using plan spec by simp
    moreover have "length (filter is_open ts') < length (filter is_open ts)"
      using block_pass_open [OF pass] True by blast
    moreover have "f \<in> set b'" using spec less.prems(2) by blast
    ultimately have "plan_at (db (block_loop R sid ts' b' w')) sid (mark (blocks ts0 f - {f}) ts0) \<and>
        same_but_tasks sid (db w') (db (block_loop R sid ts' b' w'))"
      using sub less.prems(5) by (intro less.hyps) simp_all
    then show ?thesis
      using plan True pass same_but_tasks_trans by (simp add: block_loop.simps [of R sid ts]) blast
  next
    case False
    have closed: "dep_closed ts (set b)" using spec False by blast
    have "dep_closed ts0 (set b)"
      unfolding dep_closed_def
    proof (intro ballI impI)
      fix t
      assume "t \<in> set ts0" "is_open t \<and> set (task_deps t) \<inter> set b \<noteq> {}"
      with opened [of t] closed show "task_id t \<in> set b" unfolding dep_closed_def by blast
    qed
    then have "set b = blocks ts0 f" using blocks_least [of ts0 "set b" f] less.prems by auto
    moreover have "block_loop R sid ts b w = w'" "mark (set b' - set b) ts = ts"
      using False pass spec by (simp_all add: block_loop.simps [of R sid ts])
    ultimately show ?thesis using plan unfolding less.prems(4) by simp
  qed
qed

lemma propagate_blocked_plan:
  assumes "plan_at (db w) sid ts" "\<forall>t\<in>set ts. task_id t = f \<longrightarrow> \<not> is_open t"
  shows "plan_at (db (propagate_blocked R sid f w)) sid (mark (blocks ts f - {f}) ts) \<and>
    same_but_tasks sid (db w) (db (propagate_blocked R sid f w))"
  using block_loop_plan [OF assms(1), of f "[f]" ts] assms
  by (simp add: propagate_blocked_def all_tasks_plan [OF assms(1)] blocks_self)

lemma update_status_plan:
  assumes "plan_at (db w) sid ts" "tid \<in> set (task_ids ts)"
  shows "plan_at (db (update_status R sid tid st r w)) sid (plan_update tid st r ts) \<and>
    same_but_tasks sid (db w) (db (update_status R sid tid st r w))"
proof -
  obtain t where t: "t \<in> set ts" "task_id t = tid" using assms(2) by (auto simp: task_ids_def)
  let ?w = "save_task R sid (set_status st r t) w"
  let ?ts = "map (\<lambda>u. if task_id u = tid then set_status st r u else u) ts"
  have dis: "distinct (task_ids ts)" using assms(1) by (simp add: plan_at_def)
  have step: "plan_at (db ?w) sid ?ts" "same_but_tasks sid (db w) (db ?w)"
    using save_task_plan [OF assms(1), of "set_status st r t"] put_set_status [OF dis t(1)] t(2)
    by simp_all
  have upd: "update_status R sid tid st r w = (if st = Failed then propagate_blocked R sid tid ?w else ?w)"
    using load_task_plan [OF assms(1) t(1)] t(2)
    by (simp add: update_status_def set_status_def Let_def)
  show ?thesis
  proof (cases "st = Failed")
    case True
    then have "\<forall>u\<in>set ?ts. task_id u = tid \<longrightarrow> \<not> is_open u" using set_status_closes by blast
    note plan = propagate_blocked_plan [OF step(1) this]
    have "plan_update tid st r ts = mark (blocks ?ts tid - {tid}) ?ts"
      unfolding plan_update_def Let_def using True by (rule if_P)
    with plan have "plan_at (db (propagate_blocked R sid tid ?w)) sid (plan_update tid st r ts)"
      "same_but_tasks sid (db ?w) (db (propagate_blocked R sid tid ?w))"
      by (simp_all only:)
    with step(2) upd True show ?thesis using same_but_tasks_trans by metis
  next
    case False
    with step upd show ?thesis by (simp add: plan_update_def)
  qed
qed

lemma clear_tasks_db:
  "db (clear_tasks R sid tids w) =
     (\<lambda>k. if k \<in> task_key sid ` set tids \<union> lease_key sid ` set tids then None else db w k)"
  by (induction tids arbitrary: w) (auto simp: fun_eq_iff)

lemma store_tasks_plan:
  assumes "plan_at (db w) sid us" "distinct (task_ids (us @ ts))"
  shows "plan_at (db (store_tasks R sid ts w)) sid (us @ map (\<lambda>t. t\<lparr>task_status := Pending\<rparr>) ts) \<and>
    (\<forall>k. k \<noteq> list_key sid \<longrightarrow> k \<notin> range (task_key sid) \<longrightarrow> db (store_tasks R sid ts w) k = db w k)"
  using assms
proof (induction ts arbitrary: us w)
  case (Cons t ts)
  let ?t = "t\<lparr>task_status := Pending\<rparr>"
  let ?w = "r_rpush R (list_key sid) (task_id t) (save_task R sid ?t w)"
  have "list_at (db (save_task R sid ?t w)) (list_key sid) = Some (task_ids us)"
    using Cons.prems(1) by (simp add: plan_at_def save_task_def list_at_def)
  then have d: "db ?w = (db w)(task_key sid (task_id t) \<mapsto> RStr (task_json ?t),
      list_key sid \<mapsto> RList (task_ids us @ [task_id t]))"
    by (simp add: rpush_db) (simp add: save_task_def)
  have "plan_at (db ?w) sid (us @ [?t])"
    using Cons.prems by (auto simp: d plan_at_def task_ids_def image_iff)
  from Cons.IH [OF this] Cons.prems(2) show ?case
    by (auto simp: task_ids_def d)
qed simp

text \<open>Loading: on success the plan is there and pending and no lease is left; on an error it is gone.\<close>

lemma load_plan_ok:
  assumes "list_at (db w) (list_key sid) = Some ids" "validate_dag ts = Inr ()"
  shows "fst (load_plan R sid ts w) = Inr (length ts) \<and>
    plan_at (db (snd (load_plan R sid ts w))) sid (map (\<lambda>t. t\<lparr>task_status := Pending\<rparr>) ts)"
proof -
  let ?w = "r_delete R (list_key sid) (clear_tasks R sid ids w)"
  have ids: "all_task_ids R sid w = ids" using assms(1) by (simp add: all_task_ids_def lrange_all)
  have "plan_at (db ?w) sid []" by (simp add: plan_at_def task_ids_def)
  moreover have "distinct (task_ids ts)" using assms(2) validate_dag_accepts by blast
  ultimately show ?thesis
    using store_tasks_plan [of ?w sid "[]" ts] ids assms(2)
    by (simp add: load_plan_def Let_def)
qed

lemma load_plan_leases:
  assumes "list_at (db w) (list_key sid) = Some ids" "validate_dag ts = Inr ()" "db w (lease_key sid x) = None"
  shows "db (snd (load_plan R sid ts w)) (lease_key sid x) = None"
proof -
  let ?w = "r_delete R (list_key sid) (clear_tasks R sid ids w)"
  have ids: "all_task_ids R sid w = ids" using assms(1) by (simp add: all_task_ids_def lrange_all)
  have "plan_at (db ?w) sid []" by (simp add: plan_at_def task_ids_def)
  moreover have "distinct (task_ids ts)" using assms(2) validate_dag_accepts by blast
  ultimately have "db (store_tasks R sid ts ?w) (lease_key sid x) = db ?w (lease_key sid x)"
    using store_tasks_plan [of ?w sid "[]" ts] by (simp add: image_iff)
  also have "\<dots> = None" using assms(3) by (simp add: clear_tasks_db)
  finally show ?thesis using assms(2) ids by (simp add: load_plan_def Let_def)
qed

lemma load_plan_error:
  assumes "list_at (db w) (list_key sid) = Some ids" "validate_dag ts = Inl e"
  shows "fst (load_plan R sid ts w) = Inl e \<and>
    plan_at (db (snd (load_plan R sid ts w))) sid [] \<and>
    all_tasks R sid (snd (load_plan R sid ts w)) = []"
proof -
  let ?w = "r_delete R (list_key sid) (clear_tasks R sid ids w)"
  have ids: "all_task_ids R sid w = ids" using assms(1) by (simp add: all_task_ids_def lrange_all)
  have "plan_at (db ?w) sid []" by (simp add: plan_at_def task_ids_def)
  then show ?thesis using assms(2) ids all_tasks_plan [of ?w sid "[]"]
    by (simp add: load_plan_def Let_def)
qed

end

end
