(* ===== verification/Task_Plan.thy ===== *)
theory Task_Plan
  imports Task_Queue
begin

text \<open>
  The life of a plan: the invariant of the statuses that loading establishes and that
  starting, completing and failing a task keep, the exact effect of a failure on the
  dependents, and the progress result: a plan in which nothing runs and nothing is ready
  has no pending task left.
\<close>

section \<open>The invariant\<close>

definition status_of :: "task list \<Rightarrow> string \<Rightarrow> task_status option" where
  "status_of ts tid = map_option task_status (find (\<lambda>t. task_id t = tid) ts)"

text \<open>
  Started tasks have only complete dependencies, and the dependents of a failed or
  blocked task are exactly the blocked ones.
\<close>

definition plan_ok :: "task list \<Rightarrow> bool" where
  "plan_ok ts \<longleftrightarrow>
     distinct (task_ids ts) \<and> deps_closed ts \<and> acyclic (dep_rel ts) \<and>
     (\<forall>t\<in>set ts. task_status t \<in> {Running, Complete, Failed} \<longrightarrow>
        (\<forall>d\<in>set (task_deps t). status_of ts d = Some Complete)) \<and>
     (\<forall>t\<in>set ts. task_status t = Blocked \<longleftrightarrow>
        (\<exists>d\<in>set (task_deps t). status_of ts d \<in> {Some Failed, Some Blocked}))"

lemma status_of_mem:
  "distinct (task_ids ts) \<Longrightarrow> t \<in> set ts \<Longrightarrow> status_of ts (task_id t) = Some (task_status t)"
  by (induction ts) (auto simp: status_of_def task_ids_def)

lemma status_of_cases:
  assumes "d \<in> set (task_ids ts)" "distinct (task_ids ts)"
  obtains t where "t \<in> set ts" "task_id t = d" "status_of ts d = Some (task_status t)"
  using assms status_of_mem by (auto simp: task_ids_def)

lemma find_map_task:
  "(\<And>t. task_id (f t) = task_id t) \<Longrightarrow>
   find (\<lambda>t. task_id t = tid) (map f ts) = map_option f (find (\<lambda>t. task_id t = tid) ts)"
  by (induction ts) auto

lemma find_task_id: "find (\<lambda>t. task_id t = tid) ts = Some t \<Longrightarrow> task_id t = tid"
  by (auto dest: find_SomeD)

lemma status_of_map_set:
  "status_of (map (\<lambda>t. if task_id t = tid then set_status st r t else t) ts) x =
     (if x = tid \<and> status_of ts x \<noteq> None then Some st else status_of ts x)"
proof (cases "find (\<lambda>t. task_id t = x) ts")
  case (Some t)
  then show ?thesis using find_task_id [OF Some] unfolding status_of_def by (subst find_map_task) auto
qed (simp add: status_of_def find_map_task)

lemma status_of_mark:
  "status_of (mark S ts) x = (if x \<in> S \<and> status_of ts x \<noteq> None then Some Blocked else status_of ts x)"
proof (cases "find (\<lambda>t. task_id t = x) ts")
  case (Some t)
  then show ?thesis using find_task_id [OF Some] unfolding status_of_def mark_def by (subst find_map_task) auto
qed (simp add: status_of_def mark_def find_map_task)

lemma status_of_None: "status_of ts x = None \<longleftrightarrow> x \<notin> set (task_ids ts)"
  by (auto simp: status_of_def find_None_iff task_ids_def)

text \<open>The structure of the plan is kept by every change of status.\<close>

definition same_shape :: "task list \<Rightarrow> task list \<Rightarrow> bool" where
  "same_shape ts ts' \<longleftrightarrow> map (\<lambda>t. (task_id t, task_role t, task_desc t, task_deps t)) ts' =
     map (\<lambda>t. (task_id t, task_role t, task_desc t, task_deps t)) ts"

lemma same_shape_map:
  assumes "\<And>t. task_id (f t) = task_id t" "\<And>t. task_deps (f t) = task_deps t"
    "\<And>t. task_role (f t) = task_role t" "\<And>t. task_desc (f t) = task_desc t"
  shows "same_shape ts (map f ts)"
  using assms by (simp add: same_shape_def)

lemma set_status_shape [simp]:
  "task_role (set_status st r t) = task_role t" "task_desc (set_status st r t) = task_desc t"
  by (simp_all add: set_status_def Let_def)

lemma same_shape_refl [simp]: "same_shape ts ts" by (simp add: same_shape_def)

lemma same_shape_trans: "same_shape a b \<Longrightarrow> same_shape b c \<Longrightarrow> same_shape a c"
  by (simp add: same_shape_def)

lemma plan_update_shape: "same_shape ts (plan_update tid st r ts)"
proof -
  have a: "same_shape us (map (\<lambda>t. if task_id t = tid then set_status st r t else t) us)" for us
    by (rule same_shape_map) auto
  have b: "same_shape us (mark S us)" for S us
    unfolding mark_def by (rule same_shape_map) auto
  show ?thesis unfolding plan_update_def Let_def
    using a [of ts] same_shape_trans [OF a [of ts] b] by (simp only: split: if_split) blast
qed

lemma same_shape_graph:
  assumes "same_shape ts ts'"
  shows "task_ids ts' = task_ids ts" "dep_rel ts' = dep_rel ts" "deps_closed ts' = deps_closed ts"
proof -
  let ?g = "\<lambda>t. (task_id t, task_role t, task_desc t, task_deps t)"
  have eq: "map ?g ts' = map ?g ts" using assms by (simp add: same_shape_def)
  have "map fst (map ?g ts') = map fst (map ?g ts)" by (simp only: eq)
  then show ids: "task_ids ts' = task_ids ts" by (simp add: task_ids_def comp_def)
  have g: "(\<exists>t\<in>set us. task_id t = i \<and> task_deps t = ds) \<longleftrightarrow> (\<exists>a b. (i, a, b, ds) \<in> set (map ?g us))" for us i ds
    by (auto simp: image_iff)
  have *: "(\<exists>t\<in>set ts'. task_id t = i \<and> task_deps t = ds) \<longleftrightarrow>
      (\<exists>t\<in>set ts. task_id t = i \<and> task_deps t = ds)" for i ds
    by (simp only: g eq)
  have rel: "dep_rel us = {(d, i). \<exists>ds. d \<in> set ds \<and> (\<exists>t\<in>set us. task_id t = i \<and> task_deps t = ds)}" for us
    by (auto simp: dep_rel_def)
  show "dep_rel ts' = dep_rel ts" unfolding rel by (simp only: *)
  have cl: "deps_closed us \<longleftrightarrow> (\<forall>i ds. (\<exists>t\<in>set us. task_id t = i \<and> task_deps t = ds) \<longrightarrow>
      set ds \<subseteq> set (task_ids us))" for us
    by (auto simp: deps_closed_def)
  show "deps_closed ts' = deps_closed ts" unfolding cl ids by (simp only: *)
qed

section \<open>Loading, starting, completing and failing keep the invariant\<close>

lemma plan_ok_load:
  assumes "validate_dag ts = Inr ()"
  shows "plan_ok (map (\<lambda>t. t\<lparr>task_status := Pending\<rparr>) ts)"
proof -
  let ?ts = "map (\<lambda>t. t\<lparr>task_status := Pending\<rparr>) ts"
  have shape: "same_shape ts ?ts" by (rule same_shape_map) auto
  have graph: "distinct (task_ids ts)" "deps_closed ts" "acyclic (dep_rel ts)"
    using assms validate_dag_accepts by blast+
  have "status_of ?ts x \<noteq> Some Failed \<and> status_of ?ts x \<noteq> Some Blocked" for x
    unfolding status_of_def by (auto dest!: find_SomeD)
  with graph show ?thesis
    unfolding plan_ok_def same_shape_graph [OF shape] by simp
qed

lemma plan_okD:
  assumes "plan_ok ts"
  shows "distinct (task_ids ts)" "deps_closed ts" "acyclic (dep_rel ts)"
    and "t \<in> set ts \<Longrightarrow> task_status t \<in> {Running, Complete, Failed} \<Longrightarrow> d \<in> set (task_deps t) \<Longrightarrow>
      status_of ts d = Some Complete"
    and "t \<in> set ts \<Longrightarrow> task_status t = Blocked \<longleftrightarrow>
        (\<exists>d\<in>set (task_deps t). status_of ts d \<in> {Some Failed, Some Blocked})"
  using assms unfolding plan_ok_def by blast+

lemma plan_ok_map:
  assumes shape: "same_shape ts (map f ts)" and ok: "plan_ok ts"
    and deps: "\<And>t. task_deps (f t) = task_deps t"
    and started: "\<And>t d. t \<in> set ts \<Longrightarrow> task_status (f t) \<in> {Running, Complete, Failed} \<Longrightarrow> d \<in> set (task_deps t)
      \<Longrightarrow> status_of (map f ts) d = Some Complete"
    and blocked: "\<And>t. t \<in> set ts \<Longrightarrow> task_status (f t) = Blocked \<longleftrightarrow>
      (\<exists>d\<in>set (task_deps t). status_of (map f ts) d \<in> {Some Failed, Some Blocked})"
  shows "plan_ok (map f ts)"
  unfolding plan_ok_def same_shape_graph [OF shape]
  using plan_okD(1,2,3) [OF ok] started blocked by (simp add: deps)

text \<open>Changing the status of one task to \<open>Running\<close> or \<open>Complete\<close>.\<close>

lemma plan_ok_advance:
  assumes "plan_ok ts" "st \<in> {Running, Complete}" "status_of ts tid \<in> {Some Pending, Some Running}"
    and "\<And>t d. t \<in> set ts \<Longrightarrow> task_id t = tid \<Longrightarrow> d \<in> set (task_deps t) \<Longrightarrow> status_of ts d = Some Complete"
  shows "plan_ok (plan_update tid st r ts)"
proof -
  define f where "f t = (if task_id t = tid then set_status st r t else t)" for t
  have pu: "plan_update tid st r ts = map f ts" using assms(2) by (auto simp: plan_update_def f_def)
  note ok = plan_okD [OF assms(1)]
  have st: "status_of (map f ts) x = (if x = tid then Some st else status_of ts x)" for x
    using assms(3) unfolding f_def by (auto simp: status_of_map_set)
  have complete: "status_of (map f ts) d = Some Complete" if "status_of ts d = Some Complete" for d
    using that assms(3) by (auto simp: st)
  have bad: "status_of (map f ts) d \<in> {Some Failed, Some Blocked} \<longleftrightarrow> status_of ts d \<in> {Some Failed, Some Blocked}" for d
    using assms(2,3) by (auto simp: st)
  show ?thesis unfolding pu
  proof (rule plan_ok_map [OF _ assms(1)])
    show "same_shape ts (map f ts)" by (rule same_shape_map) (auto simp: f_def)
  next
    fix t d
    assume "t \<in> set ts" "task_status (f t) \<in> {Running, Complete, Failed}" "d \<in> set (task_deps t)"
    then show "status_of (map f ts) d = Some Complete"
      using assms(4) ok(4) by (intro complete) (cases "task_id t = tid"; simp add: f_def)
  next
    fix t
    assume t: "t \<in> set ts"
    show "task_status (f t) = Blocked \<longleftrightarrow> (\<exists>d\<in>set (task_deps t). status_of (map f ts) d \<in> {Some Failed, Some Blocked})"
    proof (cases "task_id t = tid")
      case True
      then have "\<forall>d\<in>set (task_deps t). status_of ts d = Some Complete" using t assms(4) by blast
      then show ?thesis unfolding bad using True assms(2) by (auto simp: f_def)
    next
      case False
      then show ?thesis unfolding bad using ok(5) [OF t] by (simp add: f_def)
    qed
  qed (simp add: f_def)
qed

text \<open>The tasks a failure blocks were pending: nothing that runs or has run depends on it.\<close>

lemma blocks_cases:
  "x \<in> blocks us f \<Longrightarrow> x \<noteq> f \<Longrightarrow>
   \<exists>t\<in>set us. task_id t = x \<and> is_open t \<and> (\<exists>d\<in>set (task_deps t). d \<in> blocks us f)"
  by (erule blocks.cases) auto

lemma blocks_pending:
  assumes ok: "plan_ok ts" and run: "status_of ts tid = Some Running"
    and us: "us = map (\<lambda>t. if task_id t = tid then set_status Failed r t else t) ts"
    and x: "x \<in> blocks us tid" "x \<noteq> tid"
  shows "status_of ts x = Some Pending \<and>
    (\<exists>t\<in>set ts. task_id t = x \<and> (\<exists>d\<in>set (task_deps t). d \<in> blocks us tid))"
proof -
  have opened: "\<exists>t\<in>set ts. task_id t = y \<and> is_open t \<and> (\<exists>d\<in>set (task_deps t). d \<in> blocks us tid)"
    if "y \<in> blocks us tid" "y \<noteq> tid" for y
    using blocks_cases [OF that] that(2) unfolding us by (auto split: if_splits)
  have incomplete: "status_of ts d \<noteq> Some Complete" if "d \<in> blocks us tid" for d
  proof (cases "d = tid")
    case False
    with opened [OF that] obtain t where "t \<in> set ts" "task_id t = d" "is_open t" by blast
    then show ?thesis using status_of_mem [OF plan_okD(1) [OF ok]] by (auto simp: is_open_def)
  qed (use run in simp)
  from opened [OF x] obtain t d where t: "t \<in> set ts" "task_id t = x" "is_open t"
    "d \<in> set (task_deps t)" "d \<in> blocks us tid" by blast
  then have "task_status t \<noteq> Running" using incomplete plan_okD(4) [OF ok t(1)] by blast
  then have "task_status t = Pending" using t(3) by (auto simp: is_open_def)
  then show ?thesis using t status_of_mem [OF plan_okD(1) [OF ok] t(1)] by auto
qed

lemma plan_ok_fail:
  assumes ok: "plan_ok ts" and run: "status_of ts tid = Some Running"
  shows "plan_ok (plan_update tid Failed r ts)"
proof -
  define us where "us = map (\<lambda>t. if task_id t = tid then set_status Failed r t else t) ts"
  define B where "B = blocks us tid"
  define f where "f t = (if task_id t = tid then set_status Failed r t
      else if task_id t \<in> B then t\<lparr>task_status := Blocked\<rparr> else t)" for t
  have marked: "mark (B - {tid}) us = map f ts" by (auto simp: mark_def us_def f_def)
  then have pu: "plan_update tid Failed r ts = map f ts"
    unfolding plan_update_def Let_def us_def [symmetric] B_def [symmetric] by simp
  note okD = plan_okD [OF ok] and pend = blocks_pending [OF ok run us_def, folded B_def]
  have tid: "tid \<in> B" by (simp add: B_def blocks_self)
  have st: "status_of (map f ts) x =
      (if x = tid then Some Failed else if x \<in> B then Some Blocked else status_of ts x)" for x
  proof -
    have "status_of (map f ts) x = status_of (mark (B - {tid}) us) x"
      by (simp only: marked)
    also have "\<dots> = (if x = tid then Some Failed else if x \<in> B then Some Blocked else status_of ts x)"
      using run pend [of x] unfolding status_of_mark us_def status_of_map_set by auto
    finally show ?thesis .
  qed
  have complete: "status_of (map f ts) d = Some Complete" if "status_of ts d = Some Complete" for d
    using that run pend [of d] by (cases "d = tid") (auto simp: st)
  have bad: "status_of (map f ts) d \<in> {Some Failed, Some Blocked} \<longleftrightarrow>
      d \<in> B \<or> status_of ts d \<in> {Some Failed, Some Blocked}" for d
    using tid by (auto simp: st)
  have notin: "d \<notin> B" if "status_of ts d = Some Complete" for d
    using that run pend [of d] by (cases "d = tid") auto
  show ?thesis unfolding pu
  proof (rule plan_ok_map [OF _ ok])
    show "same_shape ts (map f ts)" by (rule same_shape_map) (auto simp: f_def)
  next
    fix t d
    assume t: "t \<in> set ts" "task_status (f t) \<in> {Running, Complete, Failed}" "d \<in> set (task_deps t)"
    have "task_status t \<in> {Running, Complete, Failed}"
      using t(1,2) run status_of_mem [OF okD(1)] by (cases "task_id t = tid") (auto simp: f_def split: if_splits)
    then show "status_of (map f ts) d = Some Complete" using okD(4) t by (intro complete) blast
  next
    fix t
    assume t: "t \<in> set ts"
    show "task_status (f t) = Blocked \<longleftrightarrow> (\<exists>d\<in>set (task_deps t). status_of (map f ts) d \<in> {Some Failed, Some Blocked})"
    proof (cases "task_id t \<in> B")
      case True
      show ?thesis
      proof (cases "task_id t = tid")
        case True
        then have "task_status t = Running" using run t status_of_mem [OF okD(1) t] by simp
        then have "\<forall>d\<in>set (task_deps t). status_of ts d = Some Complete" using okD(4) [OF t] by blast
        then show ?thesis unfolding bad using True notin by (auto simp: f_def)
      next
        case False
        obtain u where u: "u \<in> set ts" "task_id u = task_id t" "\<exists>d\<in>set (task_deps u). d \<in> B"
          using pend [OF True False] by blast
        then have "u = t" using t okD(1) by (auto simp: task_ids_def distinct_map inj_on_def)
        then show ?thesis unfolding bad using u(3) True False by (auto simp: f_def)
      qed
    next
      case False
      have "d \<notin> B" if "task_status t \<noteq> Blocked" "d \<in> set (task_deps t)" for d
      proof (cases "is_open t")
        case True
        have "task_id t \<noteq> tid" using False tid by auto
        with t have "t \<in> set us" unfolding us_def by (force simp: image_iff)
        then show ?thesis using True False that(2) unfolding B_def by (auto intro: blocks_dep)
      next
        case False
        then show ?thesis using that okD(4) [OF t] notin by (cases "task_status t") (auto simp: is_open_def)
      qed
      moreover have "f t = t" using False tid by (auto simp: f_def)
      ultimately show ?thesis unfolding bad using okD(5) [OF t] by auto
    qed
  qed (simp add: f_def)
qed

section \<open>Progress\<close>

lemma ready_iff:
  "t \<in> set (ready_of ts) \<longleftrightarrow> t \<in> set ts \<and> task_status t = Pending \<and>
     (\<forall>d\<in>set (task_deps t). \<exists>u\<in>set ts. task_id u = d \<and> task_status u = Complete)"
  by (auto simp: ready_of_def Let_def list_all_iff image_iff)

lemma progress_aux:
  assumes ok: "plan_ok ts" and idle: "\<forall>t\<in>set ts. task_status t \<noteq> Running" and none: "ready_of ts = []"
  shows "\<forall>t\<in>set ts. task_status t \<noteq> Pending"
proof (rule ccontr)
  assume "\<not> ?thesis"
  then have ne: "{x. status_of ts x = Some Pending} \<noteq> {}"
    using status_of_mem [OF plan_okD(1) [OF ok]] by fastforce
  have "finite (dep_rel ts)"
    by (rule finite_subset [of _ "(\<Union>t\<in>set ts. set (task_deps t)) \<times> task_id ` set ts"]) (auto simp: dep_rel_def)
  then have "wf (dep_rel ts)" using plan_okD(3) [OF ok] by (simp add: finite_acyclic_wf)
  then obtain x where x: "status_of ts x = Some Pending"
    and min: "\<And>y. (y, x) \<in> dep_rel ts \<Longrightarrow> status_of ts y \<noteq> Some Pending"
    using ne by (metis (mono_tags, lifting) mem_Collect_eq wfE_min')
  then obtain t where t: "t \<in> set ts" "task_id t = x" "task_status t = Pending"
    using find_SomeD by (fastforce simp: status_of_def)
  have "\<exists>u\<in>set ts. task_id u = d \<and> task_status u = Complete" if d: "d \<in> set (task_deps t)" for d
  proof -
    have "d \<in> set (task_ids ts)" using d t plan_okD(2) [OF ok] by (auto simp: deps_closed_def)
    then obtain u where u: "u \<in> set ts" "task_id u = d" "status_of ts d = Some (task_status u)"
      using status_of_cases plan_okD(1) [OF ok] by blast
    have "status_of ts d \<notin> {Some Failed, Some Blocked}"
      using plan_okD(5) [OF ok t(1)] t(3) d by auto
    moreover have "status_of ts d \<noteq> Some Pending" using min d t by (auto simp: dep_rel_def)
    moreover have "task_status u \<noteq> Running" using idle u by blast
    ultimately show ?thesis using u by (cases "task_status u") auto
  qed
  then have "t \<in> set (ready_of ts)" using t by (simp add: ready_iff)
  then show False using none by simp
qed

section \<open>Status counts\<close>

lemma status_counts_get:
  "get_or (status_counts ts c) st 0 = get_or c st 0 + length (filter (\<lambda>t. task_status t = st) ts)"
  by (induction ts c rule: status_counts.induct) (auto simp: get_or_def split: option.splits)

text \<open>The session status counts every task of the session exactly once: each counter is
  the number of stored tasks with that status, and the five counters add up to the total.\<close>

theorem session_status_counts:
  "ss_pending (get_session_status R sid w) = length (filter (\<lambda>t. task_status t = Pending) (all_tasks R sid w)) \<and>
   ss_failed (get_session_status R sid w) = length (filter (\<lambda>t. task_status t = Failed) (all_tasks R sid w)) \<and>
   ss_total (get_session_status R sid w) =
     ss_pending (get_session_status R sid w) + ss_running (get_session_status R sid w)
     + ss_complete (get_session_status R sid w) + ss_failed (get_session_status R sid w)
     + ss_blocked (get_session_status R sid w)"
proof -
  have "length ts = (\<Sum>st\<leftarrow>[Pending, Running, Complete, Failed, Blocked]. length (filter (\<lambda>t. task_status t = st) ts))"
    for ts
  proof (induction ts)
    case (Cons t ts)
    then show ?case by (cases "task_status t") auto
  qed simp
  from this [of "all_tasks R sid w"] show ?thesis
    by (simp add: get_session_status_def Let_def status_counts_get) (simp add: get_or_def)
qed

section \<open>Properties of the stored plan\<close>

text \<open>The witness plan: \<open>b\<close> and \<open>c\<close> depend on \<open>a\<close>, \<open>d\<close> on \<open>b\<close>, and \<open>e\<close> on nothing.\<close>

definition demo_task :: "string \<Rightarrow> string list \<Rightarrow> task" where
  "demo_task i ds = \<lparr>task_id = i, task_role = ''coder'', task_desc = ''do '' @ i, task_deps = ds,
     task_status = Running, task_result = None\<rparr>"

definition demo_plan :: "task list" where
  "demo_plan = [demo_task ''a'' [], demo_task ''b'' [''a''], demo_task ''c'' [''a''],
     demo_task ''d'' [''b''], demo_task ''e'' []]"

text \<open>C6: loading a plan.  A plan that validates is stored with every task pending, in the
  order given, and the stored statuses satisfy the plan invariant; a plan that does not
  validate raises the validation error and leaves the session without any task.\<close>

theorem load_plan_spec:
  assumes "redis_server R db ttl" "list_at (db w) (list_key sid) = Some ids"
  shows "case validate_dag ts of
      Inr _ \<Rightarrow> fst (load_plan R sid ts w) = Inr (length ts) \<and>
        all_tasks R sid (snd (load_plan R sid ts w)) = map (\<lambda>t. t\<lparr>task_status := Pending\<rparr>) ts \<and>
        plan_ok (all_tasks R sid (snd (load_plan R sid ts w)))
    | Inl e \<Rightarrow> fst (load_plan R sid ts w) = Inl e \<and> all_tasks R sid (snd (load_plan R sid ts w)) = []"
proof (cases "validate_dag ts")
  case (Inl e)
  then show ?thesis using redis_server.load_plan_error [OF assms] by simp
next
  case (Inr u)
  then have "validate_dag ts = Inr ()" by simp
  note ok = redis_server.load_plan_ok [OF assms this] plan_ok_load [OF this]
  have "all_tasks R sid (snd (load_plan R sid ts w)) = map (\<lambda>t. t\<lparr>task_status := Pending\<rparr>) ts"
    using redis_server.all_tasks_plan [OF assms(1)] ok(1) by blast
  with ok Inr show ?thesis by simp
qed

theorem load_plan_spec_witness:
  "validate_dag demo_plan = Inr () \<and>
   all_tasks mem_redis ''s'' (snd (load_plan mem_redis ''s'' demo_plan [])) =
     map (\<lambda>t. t\<lparr>task_status := Pending\<rparr>) demo_plan"
proof -
  have v: "validate_dag demo_plan = Inr ()" by code_simp
  have "list_at (mem_db []) (list_key ''s'') = Some []" by (simp add: mem_db_def)
  from load_plan_spec [OF memr.redis_server_axioms this, of demo_plan] v show ?thesis by simp
qed

text \<open>C5: updating a status.  In the stored plan exactly the named task gets the new status
  (and the result, when there is one); with the status \<open>failed\<close>, exactly the open tasks
  that depend on it directly or through other open tasks become blocked, and nothing
  else in the plan changes.\<close>

theorem update_status_refines:
  assumes "redis_server R db ttl" "plan_at (db w) sid ts" "tid \<in> set (task_ids ts)"
  shows "all_tasks R sid (update_status R sid tid st r w) = plan_update tid st r ts \<and>
    plan_at (db (update_status R sid tid st r w)) sid (plan_update tid st r ts)"
  using redis_server.update_status_plan [OF assms] redis_server.all_tasks_plan [OF assms(1)] by blast

theorem update_status_refines_witness:
  "map task_status (all_tasks mem_redis ''s''
      (update_status mem_redis ''s'' ''b'' Failed ''boom'' (snd (load_plan mem_redis ''s'' demo_plan []))))
   = [Pending, Failed, Pending, Blocked, Pending] \<and>
   plan_update ''b'' Failed ''boom'' (map (\<lambda>t. t\<lparr>task_status := Pending\<rparr>) demo_plan) =
   all_tasks mem_redis ''s''
      (update_status mem_redis ''s'' ''b'' Failed ''boom'' (snd (load_plan mem_redis ''s'' demo_plan [])))"
proof -
  let ?w = "snd (load_plan mem_redis ''s'' demo_plan [])"
  have v: "validate_dag demo_plan = Inr ()" by code_simp
  have "list_at (mem_db []) (list_key ''s'') = Some []" by (simp add: mem_db_def)
  then have "plan_at (mem_db ?w) ''s'' (map (\<lambda>t. t\<lparr>task_status := Pending\<rparr>) demo_plan)"
    using memr.load_plan_ok v by blast
  from update_status_refines [OF memr.redis_server_axioms this, of "''b''" Failed "''boom''"]
  have "all_tasks mem_redis ''s'' (update_status mem_redis ''s'' ''b'' Failed ''boom'' ?w) =
      plan_update ''b'' Failed ''boom'' (map (\<lambda>t. t\<lparr>task_status := Pending\<rparr>) demo_plan)"
    by (simp add: demo_plan_def demo_task_def task_ids_def)
  moreover have "map task_status (all_tasks mem_redis ''s'' (update_status mem_redis ''s'' ''b'' Failed ''boom'' ?w))
      = [Pending, Failed, Pending, Blocked, Pending]" by code_simp
  ultimately show ?thesis by simp
qed

text \<open>C9: a plan never gets stuck.  When nothing is running and no task is ready, no task is
  pending: every task of a valid plan is complete, failed or blocked.\<close>

theorem plan_progress:
  assumes "plan_ok ts" "\<forall>t\<in>set ts. task_status t \<noteq> Running" "ready_of ts = []"
  shows "list_all (\<lambda>t. task_status t \<in> {Complete, Failed, Blocked}) ts"
  unfolding list_all_iff
proof
  fix t
  assume "t \<in> set ts"
  then show "task_status t \<in> {Complete, Failed, Blocked}"
    using progress_aux [OF assms] assms(2) by (cases "task_status t") auto
qed

theorem plan_progress_witness:
  "list_all (\<lambda>t. task_status t \<in> {Complete, Failed, Blocked})
     [demo_task ''a'' []\<lparr>task_status := Failed\<rparr>, demo_task ''b'' [''a'']\<lparr>task_status := Blocked\<rparr>]"
proof (rule plan_progress)
  let ?ts = "[demo_task ''a'' []\<lparr>task_status := Failed\<rparr>, demo_task ''b'' [''a'']\<lparr>task_status := Blocked\<rparr>]"
  have "validate_dag ?ts = Inr ()" by code_simp
  then show "plan_ok ?ts"
    using validate_dag_accepts [of ?ts] by (simp add: plan_ok_def) (simp add: demo_task_def status_of_def)
qed (auto simp: demo_task_def ready_of_def)

end
