(* ===== verification/Task_Exec.thy ===== *)
theory Task_Exec
  imports Task_Plan
begin

text \<open>
  The execution half of \<open>TaskQueue\<close>: \<open>_auto_apply_patches\<close>, \<open>_run_single_task\<close> and
  \<open>execute_plan\<close>.  The agent manager and the patch queue are reached through the
  operations \<open>te_spawn\<close> and \<open>te_enqueue\<close> on the shared world; the locale \<open>task_host\<close>
  states what the scheduler relies on.  \<open>asyncio.gather\<close> interleaves the coroutines of a
  batch: at every point where a coroutine waits, an arbitrary function \<open>te_sched\<close> picks
  the one that is resumed.
\<close>

section \<open>The environment of the scheduler\<close>

text \<open>The dict that \<open>spawn_and_run\<close> returns; \<open>error\<close> is absent when the agent is done.\<close>

record agent_result =
  res_status :: string
  res_result :: "string option"
  res_error :: "string option"

datatype run_status = RComplete | RFailed | RSkipped

record task_run =
  run_task :: task
  run_outcome :: run_status
  run_patches :: "(nat \<times> nat) option" \<comment> \<open>patches applied and failed\<close>

text \<open>
  The coroutine of a task, cut at the points where it gives up control: taking the lease,
  running the agent, enqueueing the patches, writing the status, releasing the lease.
\<close>

datatype worker =
    WStart task
  | WLeased task
  | WAnswered task agent_result
  | WPatched task agent_result "json dict list"
  | WUpdated task "task_run result" \<comment> \<open>the \<open>finally\<close> block is still to run\<close>
  | WDone task "task_run result"

record 'w task_env =
  te_redis :: "'w redis"
  te_spawn :: "string \<Rightarrow> string \<Rightarrow> string \<Rightarrow> 'w \<Rightarrow> agent_result result \<times> 'w"
    \<comment> \<open>role, task, session id\<close>
  te_enqueue :: "(string \<Rightarrow> string \<Rightarrow> string \<Rightarrow> string \<Rightarrow> string \<Rightarrow> 'w \<Rightarrow> json dict result \<times> 'w) option"
    \<comment> \<open>diff, agent id, task id, session id, description; \<open>None\<close> when no queue is wired\<close>
  te_uuid :: "'w \<Rightarrow> string"
  te_lease_ttl :: nat
  te_max_parallel :: nat
  te_sched :: "worker list \<Rightarrow> 'w \<Rightarrow> nat"
    \<comment> \<open>which of the unfinished coroutines the event loop resumes next\<close>

section \<open>Patches found in the output of a task\<close>

definition patch_roles :: "string list" where
  "patch_roles = [''coder'', ''tester'']"

fun enqueue_diffs :: "(string \<Rightarrow> string \<Rightarrow> string \<Rightarrow> string \<Rightarrow> string \<Rightarrow> 'w \<Rightarrow> json dict result \<times> 'w)
    \<Rightarrow> string \<Rightarrow> task \<Rightarrow> string list \<Rightarrow> 'w \<Rightarrow> json dict list \<times> 'w" where
  "enqueue_diffs enq sid t [] w = ([], w)"
| "enqueue_diffs enq sid t (diff # rest) w =
     (case enq diff (task_id t) (task_id t) sid
             (''Auto-patch from task '' @ task_id t @ '' ('' @ task_role t @ '')'') w of
        (r, w1) \<Rightarrow>
          let d = (case r of Inr d \<Rightarrow> d | Inl e \<Rightarrow> [(''error'', JStr (exn_text e))]) in
          (case enqueue_diffs enq sid t rest w1 of (ds, w2) \<Rightarrow> (d # ds, w2)))"

definition auto_apply_patches ::
    "'w task_env \<Rightarrow> string \<Rightarrow> task \<Rightarrow> string \<Rightarrow> 'w \<Rightarrow> json dict list \<times> 'w" where
  "auto_apply_patches E sid t output w =
     (case te_enqueue E of
        None \<Rightarrow> ([], w)
      | Some enq \<Rightarrow>
          if task_role t \<notin> set patch_roles then ([], w)
          else let found = extract_diffs_from_result output in
               if found = [] then ([], w) else enqueue_diffs enq sid t found w)"

definition patches_ok :: "json dict list \<Rightarrow> nat" where
  "patches_ok rs = length (filter (\<lambda>r. ''error'' \<notin> fst ` set r) rs)"

section \<open>One task\<close>

fun worker_step :: "'w task_env \<Rightarrow> string \<Rightarrow> worker \<Rightarrow> 'w \<Rightarrow> worker \<times> 'w" where
  "worker_step E sid (WStart t) w =
     (case acquire_task_lease (te_redis E) (te_lease_ttl E) sid (task_id t) (te_uuid E w) w of
        (True, w1) \<Rightarrow> (WLeased t, w1)
      | (False, w1) \<Rightarrow> (WDone t (Inr \<lparr>run_task = t, run_outcome = RSkipped, run_patches = None\<rparr>), w1))"
| "worker_step E sid (WLeased t) w =
     (case te_spawn E (task_role t) (task_desc t) sid w of
        (Inl e, w1) \<Rightarrow> (WUpdated t (Inl e), w1)
      | (Inr res, w1) \<Rightarrow> (WAnswered t res, w1))"
| "worker_step E sid (WAnswered t res) w =
     (case auto_apply_patches E sid t (case res_result res of None \<Rightarrow> [] | Some s \<Rightarrow> s) w of
        (prs, w1) \<Rightarrow> (WPatched t res prs, w1))"
| "worker_step E sid (WPatched t res prs) w =
     (let ok = patches_ok prs; bad = length prs - ok in
      if res_status res = ''done''
      then (WUpdated t (Inr \<lparr>run_task = t, run_outcome = RComplete, run_patches = Some (ok, bad)\<rparr>),
            update_status (te_redis E) sid (task_id t) Complete
              (case res_result res of None \<Rightarrow> [] | Some s \<Rightarrow> s) w)
      else (WUpdated t (Inr \<lparr>run_task = t, run_outcome = RFailed, run_patches = Some (ok, bad)\<rparr>),
            update_status (te_redis E) sid (task_id t) Failed
              (case res_error res of None \<Rightarrow> ''unknown error'' | Some e \<Rightarrow> e) w))"
| "worker_step E sid (WUpdated t r) w =
     (WDone t r, release_task_lease (te_redis E) sid (task_id t) w)"
| "worker_step E sid (WDone t r) w = (WDone t r, w)"

fun worker_task :: "worker \<Rightarrow> task" where
  "worker_task (WStart t) = t"
| "worker_task (WLeased t) = t"
| "worker_task (WAnswered t _) = t"
| "worker_task (WPatched t _ _) = t"
| "worker_task (WUpdated t _) = t"
| "worker_task (WDone t _) = t"

text \<open>\<open>_run_single_task\<close>: the coroutine run to its end.\<close>

definition run_single_task :: "'w task_env \<Rightarrow> string \<Rightarrow> task \<Rightarrow> 'w \<Rightarrow> task_run result \<times> 'w" where
  "run_single_task E sid t w =
     (case acquire_task_lease (te_redis E) (te_lease_ttl E) sid (task_id t) (te_uuid E w) w of
        (False, w1) \<Rightarrow> (Inr \<lparr>run_task = t, run_outcome = RSkipped, run_patches = None\<rparr>, w1)
      | (True, w1) \<Rightarrow>
          (case te_spawn E (task_role t) (task_desc t) sid w1 of
             (Inl e, w2) \<Rightarrow> (Inl e, release_task_lease (te_redis E) sid (task_id t) w2)
           | (Inr res, w2) \<Rightarrow>
               (let output = (case res_result res of None \<Rightarrow> [] | Some s \<Rightarrow> s) in
                case auto_apply_patches E sid t output w2 of
                  (prs, w3) \<Rightarrow>
                    let ok = patches_ok prs; bad = length prs - ok;
                        fin = (\<lambda>st r w. release_task_lease (te_redis E) sid (task_id t)
                                 (update_status (te_redis E) sid (task_id t) st r w))
                    in if res_status res = ''done''
                       then (Inr \<lparr>run_task = t, run_outcome = RComplete, run_patches = Some (ok, bad)\<rparr>,
                             fin Complete output w3)
                       else (Inr \<lparr>run_task = t, run_outcome = RFailed, run_patches = Some (ok, bad)\<rparr>,
                             fin Failed (case res_error res of None \<Rightarrow> ''unknown error'' | Some e \<Rightarrow> e) w3))))"

lemma run_single_task_steps:
  "\<exists>n\<le>5. ((\<lambda>(p, w). worker_step E sid p w) ^^ n) (WStart t, w) =
     (WDone t (fst (run_single_task E sid t w)), snd (run_single_task E sid t w))"
proof (cases "acquire_task_lease (te_redis E) (te_lease_ttl E) sid (task_id t) (te_uuid E w) w")
  case (Pair b w1)
  show ?thesis
  proof (cases b)
    case False
    with Pair show ?thesis by (intro exI [of _ 1]) (simp add: run_single_task_def)
  next
    case True
    obtain sp w2 where sp: "te_spawn E (task_role t) (task_desc t) sid w1 = (sp, w2)" by fastforce
    show ?thesis
    proof (cases sp)
      case (Inl e)
      with Pair True sp show ?thesis
        by (intro exI [of _ 3]) (simp add: run_single_task_def numeral_3_eq_3)
    next
      case (Inr res)
      obtain prs w3 where "auto_apply_patches E sid t (case res_result res of None \<Rightarrow> [] | Some s \<Rightarrow> s) w2 = (prs, w3)"
        by fastforce
      with Pair True sp Inr show ?thesis
        by (intro exI [of _ 5]) (simp add: run_single_task_def eval_nat_numeral Let_def)
    qed
  qed
qed

section \<open>The plan\<close>

fun start_batch :: "'w redis \<Rightarrow> string \<Rightarrow> task list \<Rightarrow> 'w \<Rightarrow> 'w" where
  "start_batch R sid [] w = w"
| "start_batch R sid (t # ts) w = start_batch R sid ts (update_status R sid (task_id t) Running [] w)"

text \<open>
  \<open>gather\<close>: as long as a coroutine is unfinished, one of them is resumed up to its next
  waiting point.  Every step moves a coroutine forward, so the loop ends.
\<close>

fun is_done :: "worker \<Rightarrow> bool" where
  "is_done (WDone _ _) = True" | "is_done _ = False"

fun worker_result :: "worker \<Rightarrow> task_run result" where
  "worker_result (WDone _ r) = r" | "worker_result p = Inl (RuntimeError [])"

definition unfinished :: "worker list \<Rightarrow> nat list" where
  "unfinished ws = filter (\<lambda>i. \<not> is_done (ws ! i)) [0..<length ws]"

definition gather_step :: "'w task_env \<Rightarrow> string \<Rightarrow> worker list \<Rightarrow> 'w \<Rightarrow> worker list \<times> 'w" where
  "gather_step E sid ws w =
     (let todo = unfinished ws; i = todo ! (te_sched E ws w mod length todo)
      in case worker_step E sid (ws ! i) w of (p, w') \<Rightarrow> (ws[i := p], w'))"

fun steps_left :: "worker \<Rightarrow> nat" where
  "steps_left (WStart _) = 5"
| "steps_left (WLeased _) = 4"
| "steps_left (WAnswered _ _) = 3"
| "steps_left (WPatched _ _ _) = 2"
| "steps_left (WUpdated _ _) = 1"
| "steps_left (WDone _ _) = 0"

lemma worker_step_left: "worker_step E sid p w = (p', w') \<Longrightarrow> \<not> is_done p \<Longrightarrow> steps_left p' < steps_left p"
  by (cases p) (auto simp: Let_def split: prod.splits bool.splits sum.splits if_splits)

lemma unfinished_pick: "unfinished ws \<noteq> [] \<Longrightarrow> i = unfinished ws ! (k mod length (unfinished ws)) \<Longrightarrow>
    i < length ws \<and> \<not> is_done (ws ! i)"
proof -
  assume "unfinished ws \<noteq> []" and i: "i = unfinished ws ! (k mod length (unfinished ws))"
  then have "i \<in> set (unfinished ws)" by simp
  then show ?thesis by (auto simp: unfinished_def)
qed

lemma gather_step_left:
  assumes "gather_step E sid ws w = (ws', w')" "unfinished ws \<noteq> []"
  shows "sum_list (map steps_left ws') < sum_list (map steps_left ws)"
proof -
  define i where "i = unfinished ws ! (te_sched E ws w mod length (unfinished ws))"
  obtain p where p: "worker_step E sid (ws ! i) w = (p, w')" "ws' = ws[i := p]"
    using assms(1) by (auto simp: gather_step_def i_def Let_def split: prod.splits)
  have i: "i < length ws" "\<not> is_done (ws ! i)" using unfinished_pick [OF assms(2)] i_def by auto
  have less: "steps_left p < steps_left (ws ! i)" by (rule worker_step_left [OF p(1) i(2)])
  have "sum_list (map steps_left ws') + steps_left (ws ! i) = sum_list (map steps_left ws) + steps_left p"
    using i(1) member_le_sum_list [of "steps_left (ws ! i)" "map steps_left ws"]
    by (simp add: p(2) map_update sum_list_update)
  with less show ?thesis by linarith
qed

function gather_tasks :: "'w task_env \<Rightarrow> string \<Rightarrow> worker list \<Rightarrow> 'w \<Rightarrow> worker list \<times> 'w" where
  "gather_tasks E sid ws w =
     (if unfinished ws = [] then (ws, w)
      else case gather_step E sid ws w of (ws', w') \<Rightarrow> gather_tasks E sid ws' w')"
  by pat_completeness auto
termination
  by (relation "measure (\<lambda>(E, sid, ws, w). sum_list (map steps_left ws))")
    (auto dest!: sym [of "(_, _)"] dest: gather_step_left)

declare gather_tasks.simps [simp del]

text \<open>The loop over the results: an exception marks the task failed.\<close>

fun collect_results :: "'w redis \<Rightarrow> string \<Rightarrow> (task \<times> task_run result) list \<Rightarrow> 'w \<Rightarrow> task_run list \<times> 'w" where
  "collect_results R sid [] w = ([], w)"
| "collect_results R sid ((t, Inl e) # rs) w =
     (case collect_results R sid rs (update_status R sid (task_id t) Failed (exn_text e) w) of
        (xs, w') \<Rightarrow> (\<lparr>run_task = t, run_outcome = RFailed, run_patches = None\<rparr> # xs, w'))"
| "collect_results R sid ((t, Inr x) # rs) w =
     (case collect_results R sid rs w of (xs, w') \<Rightarrow> (x # xs, w'))"

definition run_batch :: "'w task_env \<Rightarrow> string \<Rightarrow> task list \<Rightarrow> 'w \<Rightarrow> task_run list \<times> 'w" where
  "run_batch E sid batch w =
     (case gather_tasks E sid (map WStart batch) (start_batch (te_redis E) sid batch w) of
        (ws, w1) \<Rightarrow> collect_results (te_redis E) sid (zip batch (map worker_result ws)) w1)"

text \<open>The \<open>while True\<close> loop, with a bound on the rounds; \<open>None\<close> when the bound is reached.\<close>

fun execute_loop :: "nat \<Rightarrow> 'w task_env \<Rightarrow> string \<Rightarrow> task_run list \<Rightarrow> 'w \<Rightarrow> (task_run list \<times> 'w) option" where
  "execute_loop 0 E sid executed w = None"
| "execute_loop (Suc n) E sid executed w =
     (let ready = get_ready_tasks (te_redis E) sid w in
      if ready = [] then Some (executed, w)
      else case run_batch E sid (take (te_max_parallel E) ready) w of
             (xs, w1) \<Rightarrow> execute_loop n E sid (executed @ xs) w1)"

record plan_report =
  pr_executed :: nat
  pr_complete :: nat
  pr_failed :: nat
  pr_blocked :: nat
  pr_remaining :: nat
  pr_tasks :: "task_run list"

definition execute_plan :: "nat \<Rightarrow> 'w task_env \<Rightarrow> string \<Rightarrow> 'w \<Rightarrow> (plan_report \<times> 'w) option" where
  "execute_plan n E sid w =
     (case execute_loop n E sid [] w of
        None \<Rightarrow> None
      | Some (executed, w1) \<Rightarrow>
          (let final = get_session_status (te_redis E) sid w1 in
           Some (\<lparr>pr_executed = length executed, pr_complete = ss_complete final,
                  pr_failed = ss_failed final, pr_blocked = ss_blocked final,
                  pr_remaining = ss_pending final, pr_tasks = executed\<rparr>, w1)))"

section \<open>What the scheduler relies on\<close>

text \<open>
  Agents and the patch queue share the Redis server with the scheduler; they leave every
  key of the scheduler (all start with \<open>task\<close>) alone.
\<close>

definition same_sched :: "db \<Rightarrow> db \<Rightarrow> bool" where
  "same_sched d d' \<longleftrightarrow> (\<forall>k. prefix ''task'' k \<longrightarrow> d' k = d k)"

lemma sched_keys [simp]:
  "prefix ''task'' (task_key sid tid)" "prefix ''task'' (list_key sid)" "prefix ''task'' (lease_key sid tid)"
  by (simp_all add: task_key_def list_key_def lease_key_def)

lemma same_sched_refl [simp]: "same_sched d d" by (simp add: same_sched_def)

lemma same_sched_trans: "same_sched d d' \<Longrightarrow> same_sched d' d'' \<Longrightarrow> same_sched d d''"
  by (simp add: same_sched_def)

locale task_host = redis_server R db ttl
  for R :: "'w redis" and db :: "'w \<Rightarrow> db" and ttl :: "'w \<Rightarrow> string \<Rightarrow> nat option" +
  fixes E :: "'w task_env"
  assumes env_redis: "te_redis E = R"
    and spawn_frame: "same_sched (db w) (db (snd (te_spawn E role desc sid w)))"
    and enqueue_frame: "te_enqueue E = Some enq \<Longrightarrow>
          same_sched (db w) (db (snd (enq diff agent tid sid descr w)))"

section \<open>The invariant of a batch\<close>

fun outcome_status :: "task_run result \<Rightarrow> task_status" where
  "outcome_status (Inl e) = Running"
| "outcome_status (Inr x) = (case run_outcome x of RComplete \<Rightarrow> Complete | RFailed \<Rightarrow> Failed | RSkipped \<Rightarrow> Running)"

definition ran_task :: "task \<Rightarrow> task_run result \<Rightarrow> bool" where
  "ran_task t r \<longleftrightarrow> (\<forall>x. r = Inr x \<longrightarrow> run_task x = t \<and> run_outcome x \<noteq> RSkipped)"

text \<open>
  The stored status and the lease of the task of a coroutine, by its position: the lease
  is held exactly between taking and releasing it.
\<close>

fun worker_ok :: "db \<Rightarrow> string \<Rightarrow> task list \<Rightarrow> worker \<Rightarrow> bool" where
  "worker_ok d sid ts (WStart t) \<longleftrightarrow>
     status_of ts (task_id t) = Some Running \<and> d (lease_key sid (task_id t)) = None"
| "worker_ok d sid ts (WLeased t) \<longleftrightarrow>
     status_of ts (task_id t) = Some Running \<and> d (lease_key sid (task_id t)) \<noteq> None"
| "worker_ok d sid ts (WAnswered t _) \<longleftrightarrow>
     status_of ts (task_id t) = Some Running \<and> d (lease_key sid (task_id t)) \<noteq> None"
| "worker_ok d sid ts (WPatched t _ _) \<longleftrightarrow>
     status_of ts (task_id t) = Some Running \<and> d (lease_key sid (task_id t)) \<noteq> None"
| "worker_ok d sid ts (WUpdated t r) \<longleftrightarrow>
     status_of ts (task_id t) = Some (outcome_status r) \<and> ran_task t r \<and> d (lease_key sid (task_id t)) \<noteq> None"
| "worker_ok d sid ts (WDone t r) \<longleftrightarrow>
     status_of ts (task_id t) = Some (outcome_status r) \<and> ran_task t r \<and> d (lease_key sid (task_id t)) = None"

definition worker_id :: "worker \<Rightarrow> string" where
  "worker_id p = task_id (worker_task p)"

lemma worker_ids_of_tasks:
  "map worker_task xs = map worker_task ys \<Longrightarrow> worker_id ` set xs = worker_id ` set ys"
proof -
  assume "map worker_task xs = map worker_task ys"
  then have "worker_task ` set xs = worker_task ` set ys" by (metis list.set_map)
  then show ?thesis by (simp add: worker_id_def flip: image_image)
qed

definition no_lease :: "db \<Rightarrow> string \<Rightarrow> task list \<Rightarrow> string set \<Rightarrow> bool" where
  "no_lease d sid ts busy \<longleftrightarrow> (\<forall>x\<in>set (task_ids ts) - busy. d (lease_key sid x) = None)"

definition batch_inv :: "db \<Rightarrow> string \<Rightarrow> task list \<Rightarrow> worker list \<Rightarrow> bool" where
  "batch_inv d sid ts ws \<longleftrightarrow>
     plan_at d sid ts \<and> plan_ok ts \<and> distinct (map worker_id ws) \<and>
     (\<forall>p\<in>set ws. worker_ok d sid ts p) \<and>
     (\<forall>x. status_of ts x = Some Running \<longrightarrow> x \<in> worker_id ` set ws) \<and>
     no_lease d sid ts (worker_id ` set ws)"

text \<open>A change that leaves what a coroutine is judged by.\<close>

lemma worker_ok_cong:
  assumes "worker_ok d sid ts p"
    and "status_of ts (worker_id p) \<noteq> Some Pending \<Longrightarrow> status_of ts' (worker_id p) = status_of ts (worker_id p)"
    and "d' (lease_key sid (worker_id p)) = d (lease_key sid (worker_id p))"
  shows "worker_ok d' sid ts' p"
proof -
  have "outcome_status r \<noteq> Pending" for r by (cases r) (auto split: run_status.splits)
  then have "status_of ts (worker_id p) \<noteq> Some Pending"
    using assms(1) by (cases p) (auto simp: worker_id_def)
  with assms show ?thesis by (cases p) (auto simp: worker_id_def)
qed

lemma plan_at_cong:
  assumes "plan_at d sid ts" "d' (list_key sid) = d (list_key sid)"
    and "\<And>x. d' (task_key sid x) = d (task_key sid x)"
  shows "plan_at d' sid ts"
  using assms by (simp add: plan_at_def list_at_def)

text \<open>Outside \<open>A\<close> a status changes at most from pending to blocked.\<close>

definition stays :: "task list \<Rightarrow> task list \<Rightarrow> string set \<Rightarrow> bool" where
  "stays ts ts' A \<longleftrightarrow> (\<forall>x. x \<notin> A \<longrightarrow> status_of ts' x = status_of ts x \<or>
     status_of ts x = Some Pending \<and> status_of ts' x = Some Blocked)"

lemma stays_refl [simp]: "stays ts ts A" by (simp add: stays_def)

lemma stays_trans: "stays a b A \<Longrightarrow> stays b c A \<Longrightarrow> stays a c A"
  unfolding stays_def by force

lemma stays_mono: "stays a b A \<Longrightarrow> A \<subseteq> B \<Longrightarrow> stays a b B"
  unfolding stays_def by blast

lemma stays_frame: "stays ts ts' A \<Longrightarrow> x \<notin> A \<Longrightarrow> status_of ts x \<noteq> Some Pending \<Longrightarrow> status_of ts' x = status_of ts x"
  unfolding stays_def by blast

lemma plan_update_stays:
  assumes "plan_ok ts" "status_of ts tid = Some Running" "st \<in> {Complete, Failed}"
  shows "stays ts (plan_update tid st r ts) {tid}"
proof (cases "st = Failed")
  case True
  show ?thesis
    unfolding stays_def True plan_update_def Let_def
    using blocks_pending [OF assms(1,2) refl, of _ r] by (auto simp: status_of_mark status_of_map_set)
next
  case False
  then show ?thesis by (simp add: stays_def plan_update_def status_of_map_set)
qed

lemma plan_update_self:
  assumes "status_of ts tid \<noteq> None"
  shows "status_of (plan_update tid st r ts) tid = Some st"
  using assms unfolding plan_update_def Let_def by (simp add: status_of_mark status_of_map_set)

lemma plan_update_not_running:
  assumes "plan_ok ts" "status_of ts tid = Some Running" "st \<in> {Complete, Failed}"
    and "status_of (plan_update tid st r ts) x = Some Running"
  shows "status_of ts x = Some Running \<and> x \<noteq> tid"
  using plan_update_stays [OF assms(1-3), of r] plan_update_self [of ts tid st r] assms(2-4)
  by (cases "x = tid") (auto simp: stays_def)

text \<open>Replacing one coroutine keeps the invariant when the rest of the batch is not disturbed.\<close>

lemma batch_inv_update:
  assumes inv: "batch_inv d sid ts ws" and i: "i < length ws" and same: "worker_id p = worker_id (ws ! i)"
    and plan: "plan_at d' sid ts'" "plan_ok ts'" "task_ids ts' = task_ids ts"
    and ok: "worker_ok d' sid ts' p"
    and frame: "\<And>x. x \<noteq> worker_id p \<Longrightarrow> status_of ts x \<noteq> Some Pending \<Longrightarrow> status_of ts' x = status_of ts x"
    and running: "\<And>x. status_of ts' x = Some Running \<Longrightarrow> status_of ts x = Some Running"
    and lease: "\<And>x. x \<noteq> worker_id p \<Longrightarrow> d' (lease_key sid x) = d (lease_key sid x)"
  shows "batch_inv d' sid ts' (ws[i := p])"
proof -
  note I = inv [unfolded batch_inv_def]
  have ids: "map worker_id (ws[i := p]) = map worker_id ws"
    using i same by (simp add: map_update list_update_same_conv)
  have others: "worker_ok d' sid ts' q" if "q \<in> set (ws[i := p])" for q
  proof (cases "q = p")
    case False
    from that obtain j where j: "j < length ws" "ws[i := p] ! j = q" by (auto simp: in_set_conv_nth)
    with False have "j \<noteq> i" by (metis nth_list_update_eq)
    with j have "q = ws ! j" by simp
    have "distinct (map worker_id ws)" using I by blast
    then have "map worker_id ws ! j \<noteq> map worker_id ws ! i"
      using i j(1) \<open>j \<noteq> i\<close> by (simp only: nth_eq_iff_index_eq length_map) simp
    then have ne: "worker_id q \<noteq> worker_id p" using \<open>q = ws ! j\<close> i j(1) same by simp
    have "worker_ok d sid ts q" using I j(1) \<open>q = ws ! j\<close> nth_mem by blast
    then show ?thesis by (rule worker_ok_cong) (rule frame [OF ne], assumption, rule lease [OF ne])
  qed (use ok in simp)
  have set_ids: "worker_id ` set (ws[i := p]) = worker_id ` set ws"
    using ids by (metis list.set_map)
  have mem: "worker_id p \<in> worker_id ` set ws" using i same by simp
  have "no_lease d' sid ts' (worker_id ` set ws)"
    unfolding no_lease_def plan(3)
  proof
    fix x
    assume x: "x \<in> set (task_ids ts) - worker_id ` set ws"
    then have "x \<noteq> worker_id p" using mem by blast
    then show "d' (lease_key sid x) = None" using lease I x by (simp add: no_lease_def)
  qed
  moreover have "\<forall>x. status_of ts' x = Some Running \<longrightarrow> x \<in> worker_id ` set ws" using I running by blast
  ultimately show ?thesis
    unfolding batch_inv_def set_ids ids using I plan(1,2) others by blast
qed

text \<open>Between two rounds nothing runs and no lease is held.\<close>

definition idle_plan :: "db \<Rightarrow> string \<Rightarrow> task list \<Rightarrow> bool" where
  "idle_plan d sid ts \<longleftrightarrow> plan_at d sid ts \<and> plan_ok ts \<and>
     (\<forall>x. status_of ts x \<noteq> Some Running) \<and> no_lease d sid ts {}"

context task_host
begin

lemma auto_apply_frame: "same_sched (db w) (db (snd (auto_apply_patches E sid t out w)))"
proof -
  have enq: "same_sched (db w) (db (snd (enqueue_diffs enq sid t ds w)))" if "te_enqueue E = Some enq" for enq ds w
  proof (induction ds arbitrary: w)
    case (Cons x ds)
    obtain r w1 where r: "enq x (task_id t) (task_id t) sid
        (''Auto-patch from task '' @ task_id t @ '' ('' @ task_role t @ '')'') w = (r, w1)" by fastforce
    then have "same_sched (db w) (db w1)" using enqueue_frame [OF that] by (metis snd_conv)
    with Cons [of w1] r show ?case by (auto simp: Let_def split: prod.splits intro: same_sched_trans)
  qed simp
  then show ?thesis by (auto simp: auto_apply_patches_def Let_def split: option.splits)
qed

lemma plan_at_sched: "plan_at (db w) sid ts \<Longrightarrow> same_sched (db w) (db w') \<Longrightarrow> plan_at (db w') sid ts"
  by (rule plan_at_cong) (auto simp: same_sched_def)

text \<open>A step that leaves the plan and the leases alone.\<close>

lemma quiet_step:
  assumes inv: "batch_inv (db w) sid ts ws" and i: "i < length ws" and same: "worker_id p = worker_id (ws ! i)"
    and sched: "same_sched (db w) (db w')"
    and ok: "worker_ok (db w') sid ts p"
  shows "batch_inv (db w') sid ts (ws[i := p])"
proof (rule batch_inv_update [OF inv i same])
  show "plan_at (db w') sid ts" using inv sched plan_at_sched by (auto simp: batch_inv_def)
qed (use inv sched ok in \<open>auto simp: batch_inv_def same_sched_def\<close>)

lemma finish_step:
  assumes inv: "batch_inv (db w) sid ts ws" and i: "i < length ws"
    and p: "ws ! i = WPatched t res prs" and st: "st \<in> {Complete, Failed}" "outcome_status r = st" "ran_task t r"
  shows "batch_inv (db (update_status R sid (task_id t) st res' w)) sid (plan_update (task_id t) st res' ts)
    (ws[i := WUpdated t r])"
proof -
  note I = inv [unfolded batch_inv_def]
  have "worker_ok (db w) sid ts (ws ! i)" using I i by simp
  then have run: "status_of ts (task_id t) = Some Running" and lease: "db w (lease_key sid (task_id t)) \<noteq> None"
    by (simp_all add: p)
  have ok: "plan_ok ts" "plan_at (db w) sid ts" using I by auto
  have tid: "task_id t \<in> set (task_ids ts)" using run status_of_None [of ts "task_id t"] by auto
  note upd = update_status_plan [OF ok(2) tid, of st res']
  have okst: "plan_ok (plan_update (task_id t) st res' ts)"
  proof (cases "st = Failed")
    case True
    then show ?thesis using plan_ok_fail [OF ok(1) run] by simp
  next
    case False
    have "status_of ts d = Some Complete" if "u \<in> set ts" "task_id u = task_id t" "d \<in> set (task_deps u)" for u d
      using plan_okD(4) [OF ok(1) that(1)] status_of_mem [OF plan_okD(1) [OF ok(1)] that(1)] that run by auto
    with False show ?thesis using st(1) run by (intro plan_ok_advance [OF ok(1)]) auto
  qed
  have leases: "db (update_status R sid (task_id t) st res' w) (lease_key sid x) = db w (lease_key sid x)" for x
    using upd same_but_tasks_lease by blast
  show ?thesis
  proof (rule batch_inv_update [OF inv i])
    show "worker_ok (db (update_status R sid (task_id t) st res' w)) sid (plan_update (task_id t) st res' ts) (WUpdated t r)"
      using st run lease plan_update_self [of ts "task_id t" st res'] by (simp add: leases)
  next
    fix x assume "x \<noteq> worker_id (WUpdated t r)" "status_of ts x \<noteq> Some Pending"
    then show "status_of (plan_update (task_id t) st res' ts) x = status_of ts x"
      by (intro stays_frame [OF plan_update_stays [OF ok(1) run st(1)]]) (auto simp: worker_id_def)
  next
    fix x assume "status_of (plan_update (task_id t) st res' ts) x = Some Running"
    then show "status_of ts x = Some Running" using plan_update_not_running [OF ok(1) run st(1)] by blast
  qed (use upd okst leases p in \<open>auto simp: worker_id_def\<close>)
qed

text \<open>Every step of every coroutine of the batch keeps the invariant, and the shape of the plan.\<close>

lemma worker_step_inv:
  assumes inv: "batch_inv (db w) sid ts ws" and i: "i < length ws"
    and step: "worker_step E sid (ws ! i) w = (p, w')"
  shows "\<exists>ts'. batch_inv (db w') sid ts' (ws[i := p]) \<and> same_shape ts ts' \<and>
    worker_task p = worker_task (ws ! i) \<and> stays ts ts' (worker_id ` set ws)"
proof -
  have ok: "worker_ok (db w) sid ts (ws ! i)" using inv i by (simp add: batch_inv_def)
  show ?thesis
  proof (cases "ws ! i")
    case (WStart t)
    let ?k = "lease_key sid (task_id t)"
    have free: "db w ?k = None" using ok WStart by simp
    then have p: "p = WLeased t" and d: "db w' = (db w)(?k \<mapsto> RStr (JStr (te_uuid E w)))"
      using step setnx_free [OF free, of "te_lease_ttl E" "JStr (te_uuid E w)"] WStart
      by (auto simp: acquire_task_lease_def env_redis split: prod.splits bool.splits)
    have "batch_inv (db w') sid ts (ws[i := p])"
    proof (rule batch_inv_update [OF inv i])
      show "plan_at (db w') sid ts"
        using inv by (auto simp: batch_inv_def d intro: plan_at_cong)
    qed (use inv ok WStart p in \<open>auto simp: batch_inv_def worker_id_def d\<close>)
    then show ?thesis using WStart p by auto
  next
    case (WLeased t)
    obtain r w1 where sp: "te_spawn E (task_role t) (task_desc t) sid w = (r, w1)" by fastforce
    then have "same_sched (db w) (db w1)" using spawn_frame by (metis snd_conv)
    moreover from this have "db w1 (lease_key sid (task_id t)) = db w (lease_key sid (task_id t))"
      by (simp add: same_sched_def)
    moreover have "w' = w1" using step WLeased sp by (auto split: sum.splits)
    ultimately have "batch_inv (db w') sid ts (ws[i := p])"
      using step WLeased sp ok by (intro quiet_step [OF inv i]) (auto simp: worker_id_def ran_task_def split: sum.splits)
    then show ?thesis using step WLeased sp by (auto split: sum.splits)
  next
    case (WAnswered t res)
    have sched: "same_sched (db w) (db w')" using step WAnswered auto_apply_frame
      by (auto split: prod.splits) (metis snd_conv)
    then have "db w' (lease_key sid (task_id t)) = db w (lease_key sid (task_id t))"
      by (simp add: same_sched_def)
    with sched have "batch_inv (db w') sid ts (ws[i := p])"
      using step WAnswered ok by (intro quiet_step [OF inv i]) (auto simp: worker_id_def split: prod.splits)
    then show ?thesis using step WAnswered by (auto split: prod.splits)
  next
    case (WPatched t res prs)
    then obtain st r res' where up: "p = WUpdated t r" "w' = update_status R sid (task_id t) st res' w"
      "st \<in> {Complete, Failed}" "outcome_status r = st" "ran_task t r"
      using step by (auto simp: Let_def env_redis ran_task_def split: if_splits)
    have "batch_inv (db w') sid (plan_update (task_id t) st res' ts) (ws[i := p])"
      unfolding up(1,2) by (rule finish_step [OF inv i WPatched up(3-5)])
    moreover have "stays ts (plan_update (task_id t) st res' ts) {task_id t}"
      using WPatched ok inv up(3) by (intro plan_update_stays) (simp_all add: batch_inv_def)
    moreover have "task_id t \<in> worker_id ` set ws"
      using WPatched i by (metis image_eqI nth_mem worker_id_def worker_task.simps(4))
    ultimately show ?thesis
      using WPatched up(1) plan_update_shape
      by (intro exI [of _ "plan_update (task_id t) st res' ts"] conjI) (simp_all add: stays_mono)
  next
    case (WUpdated t r)
    let ?k = "lease_key sid (task_id t)"
    have p: "p = WDone t r" and d: "db w' = (db w)(?k := None)"
      using step WUpdated by (auto simp: release_task_lease_def env_redis)
    have "batch_inv (db w') sid ts (ws[i := p])"
    proof (rule batch_inv_update [OF inv i])
      show "plan_at (db w') sid ts"
        using inv by (auto simp: batch_inv_def d intro: plan_at_cong)
    qed (use inv ok WUpdated p in \<open>auto simp: batch_inv_def worker_id_def d\<close>)
    then show ?thesis using WUpdated p by auto
  next
    case (WDone t r)
    then have "p = ws ! i" "w' = w" using step by auto
    then show ?thesis using inv by (intro exI [of _ ts]) simp
  qed
qed

lemma gather_inv:
  assumes "batch_inv (db w) sid ts ws" "gather_tasks E sid ws w = (ws', w')"
  shows "\<exists>ts'. batch_inv (db w') sid ts' ws' \<and> same_shape ts ts' \<and>
    map worker_task ws' = map worker_task ws \<and> list_all is_done ws' \<and> stays ts ts' (worker_id ` set ws)"
  using assms
proof (induction "sum_list (map steps_left ws)" arbitrary: ws w ts rule: less_induct)
  case less
  show ?case
  proof (cases "unfinished ws = []")
    case True
    then have "list_all is_done ws" by (simp add: unfinished_def list_all_length filter_empty_conv)
    then show ?thesis using less.prems True by (auto simp: gather_tasks.simps [of E sid ws])
  next
    case False
    define i where "i = unfinished ws ! (te_sched E ws w mod length (unfinished ws))"
    obtain p w1 where p: "worker_step E sid (ws ! i) w = (p, w1)" by fastforce
    then have gs: "gather_step E sid ws w = (ws[i := p], w1)"
      by (simp add: gather_step_def i_def Let_def)
    have i: "i < length ws" using unfinished_pick [OF False] i_def by auto
    from worker_step_inv [OF less.prems(1) i p] obtain ts1 where
      ts1: "batch_inv (db w1) sid ts1 (ws[i := p])" "same_shape ts ts1" "worker_task p = worker_task (ws ! i)"
        "stays ts ts1 (worker_id ` set ws)"
      by blast
    moreover have "gather_tasks E sid (ws[i := p]) w1 = (ws', w')"
      using less.prems(2) False gs by (simp add: gather_tasks.simps [of E sid ws])
    ultimately obtain ts2 where "batch_inv (db w') sid ts2 ws'" "same_shape ts1 ts2"
      "map worker_task ws' = map worker_task (ws[i := p])" "list_all is_done ws'"
      "stays ts1 ts2 (worker_id ` set (ws[i := p]))"
      using less.hyps [OF gather_step_left [OF gs False] ts1(1)] by blast
    moreover have "map worker_task (ws[i := p]) = map worker_task ws"
      using ts1(3) i by (simp add: map_update list_update_same_conv)
    moreover have "worker_id ` set (ws[i := p]) = worker_id ` set ws"
      using calculation(6) by (rule worker_ids_of_tasks)
    ultimately show ?thesis using ts1(2,4) same_shape_trans stays_trans by metis
  qed
qed

text \<open>Starting the batch: the ready tasks become running, nothing else changes.\<close>

lemma start_batch_inv:
  assumes "plan_at (db w) sid ts" "plan_ok ts" "distinct (map task_id batch)"
    and "\<And>t. t \<in> set batch \<Longrightarrow> status_of ts (task_id t) = Some Pending"
    and "\<And>t u d. t \<in> set batch \<Longrightarrow> u \<in> set ts \<Longrightarrow> task_id u = task_id t \<Longrightarrow> d \<in> set (task_deps u) \<Longrightarrow>
      status_of ts d = Some Complete"
  shows "\<exists>ts'. plan_at (db (start_batch R sid batch w)) sid ts' \<and> plan_ok ts' \<and> same_shape ts ts' \<and>
    (\<forall>x. status_of ts' x = (if x \<in> task_id ` set batch then Some Running else status_of ts x)) \<and>
    (\<forall>x. db (start_batch R sid batch w) (lease_key sid x) = db w (lease_key sid x))"
  using assms
proof (induction batch arbitrary: w ts)
  case (Cons t batch)
  let ?w = "update_status R sid (task_id t) Running [] w" and ?ts = "plan_update (task_id t) Running [] ts"
  have tid: "task_id t \<in> set (task_ids ts)"
    using Cons.prems(4) [of t] status_of_None [of ts "task_id t"] by auto
  note upd = update_status_plan [OF Cons.prems(1) tid, of Running "[]"]
  have ok: "plan_ok ?ts"
    using Cons.prems(4,5) by (intro plan_ok_advance [OF Cons.prems(2)]) auto
  have st: "status_of ?ts x = (if x = task_id t then Some Running else status_of ts x)" for x
    using Cons.prems(4) [of t] by (simp add: plan_update_def status_of_map_set)
  have shape: "same_shape ts ?ts" by (rule plan_update_shape)
  have pre: "status_of ?ts (task_id u) = Some Pending" if "u \<in> set batch" for u
  proof -
    have "task_id u \<in> set (map task_id batch)" using that by simp
    then have "task_id u \<noteq> task_id t" using Cons.prems(3) by auto
    then show ?thesis using that Cons.prems(4) by (simp add: st)
  qed
  have deps: "status_of ?ts d = Some Complete"
    if "u \<in> set batch" "v \<in> set ?ts" "task_id v = task_id u" "d \<in> set (task_deps v)" for u v d
  proof -
    from that(2) obtain v' where "v' \<in> set ts" "task_id v' = task_id v" "task_deps v' = task_deps v"
      by (auto simp: plan_update_def)
    then have "status_of ts d = Some Complete" using Cons.prems(5) [of u v' d] that by simp
    then show ?thesis using Cons.prems(4) [of t] by (auto simp: st)
  qed
  obtain ts' where ts': "plan_at (db (start_batch R sid batch ?w)) sid ts'" "plan_ok ts'" "same_shape ?ts ts'"
    "\<forall>x. status_of ts' x = (if x \<in> task_id ` set batch then Some Running else status_of ?ts x)"
    "\<forall>x. db (start_batch R sid batch ?w) (lease_key sid x) = db ?w (lease_key sid x)"
    using Cons.IH [of ?w ?ts] upd ok pre deps Cons.prems(3) by auto
  moreover have "db ?w (lease_key sid x) = db w (lease_key sid x)" for x
    using upd same_but_tasks_lease by blast
  moreover have "same_shape ts ts'" using shape ts'(3) same_shape_trans by blast
  ultimately show ?case by (intro exI [of _ ts']) (auto simp: st)
qed auto

lemma batch_started:
  assumes "plan_at (db w) sid ts" "plan_ok ts" "\<And>x. status_of ts x \<noteq> Some Running"
    and "no_lease (db w) sid ts {}" "batch = take n (ready_of ts)"
  shows "\<exists>ts'. batch_inv (db (start_batch R sid batch w)) sid ts' (map WStart batch) \<and> same_shape ts ts' \<and>
    (\<forall>x. status_of ts' x = (if x \<in> task_id ` set batch then Some Running else status_of ts x))"
proof -
  note dis = plan_okD(1) [OF assms(2)]
  have sub: "t \<in> set ts \<and> task_status t = Pending \<and> (\<forall>d\<in>set (task_deps t). status_of ts d = Some Complete)"
    if "t \<in> set batch" for t
  proof -
    have "t \<in> set (ready_of ts)" using that assms(5) in_set_takeD by fast
    then show ?thesis using status_of_mem [OF dis] by (auto simp: ready_iff)
  qed
  have bd: "distinct (map task_id batch)"
    unfolding assms(5) take_map [symmetric] ready_of_def Let_def
    using dis by (intro distinct_take distinct_map_filter) (simp add: task_ids_def)
  have same: "u = t" if "t \<in> set batch" "u \<in> set ts" "task_id u = task_id t" for t u
    using sub [OF that(1)] that dis by (auto simp: task_ids_def distinct_map inj_on_def)
  obtain ts' where ts': "plan_at (db (start_batch R sid batch w)) sid ts'" "plan_ok ts'" "same_shape ts ts'"
    "\<forall>x. status_of ts' x = (if x \<in> task_id ` set batch then Some Running else status_of ts x)"
    "\<forall>x. db (start_batch R sid batch w) (lease_key sid x) = db w (lease_key sid x)"
    using start_batch_inv [OF assms(1,2) bd] sub same status_of_mem [OF dis] by metis
  have free: "db (start_batch R sid batch w) (lease_key sid x) = None" if "x \<in> set (task_ids ts)" for x
    using ts'(5) assms(4) that by (simp add: no_lease_def)
  have "batch_inv (db (start_batch R sid batch w)) sid ts' (map WStart batch)"
    unfolding batch_inv_def
    using ts' bd free sub assms(3) same_shape_graph(1) [OF ts'(3)]
    by (auto simp: worker_id_def comp_def no_lease_def image_image task_ids_def)
  with ts' show ?thesis by blast
qed

text \<open>Collecting the results: the tasks whose coroutine raised become failed, so nothing runs.\<close>

lemma collect_inv:
  assumes "plan_at (db w) sid ts" "plan_ok ts" "distinct (map (task_id \<circ> fst) rs)"
    and "\<And>t r. (t, r) \<in> set rs \<Longrightarrow> status_of ts (task_id t) = Some (outcome_status r) \<and> ran_task t r"
    and "\<And>x. status_of ts x = Some Running \<Longrightarrow> \<exists>t e. (t, Inl e) \<in> set rs \<and> x = task_id t"
    and "no_lease (db w) sid ts {}" "collect_results R sid rs w = (xs, w')"
  shows "\<exists>ts'. plan_at (db w') sid ts' \<and> plan_ok ts' \<and> same_shape ts ts' \<and>
    (\<forall>x. status_of ts' x \<noteq> Some Running) \<and> no_lease (db w') sid ts' {} \<and>
    map run_task xs = map fst rs \<and> stays ts ts' (task_id ` fst ` set rs) \<and>
    (\<forall>t\<in>fst ` set rs. status_of ts' (task_id t) \<in> {Some Complete, Some Failed})"
  using assms
proof (induction rs arbitrary: w ts xs)
  case Nil
  then show ?case by (intro exI [of _ ts]) auto
next
  case (Cons tr rs)
  obtain t r where tr: "tr = (t, r)" by fastforce
  have t: "status_of ts (task_id t) = Some (outcome_status r)" "ran_task t r" using Cons.prems(4) tr by auto
  have dis: "distinct (map (task_id \<circ> fst) rs)" "task_id t \<notin> task_id ` fst ` set rs"
    using Cons.prems(3) tr by (simp_all add: image_image comp_def)
  have rest: "task_id u \<noteq> task_id t" if "(u, r') \<in> set rs" for u r'
    using that dis(2) by (metis fst_conv image_eqI)
  show ?case
  proof (cases r)
    case (Inl e)
    let ?w = "update_status R sid (task_id t) Failed (exn_text e) w"
    let ?ts = "plan_update (task_id t) Failed (exn_text e) ts"
    have run: "status_of ts (task_id t) = Some Running" using t Inl by simp
    then have tid: "task_id t \<in> set (task_ids ts)" using status_of_None [of ts "task_id t"] by auto
    note upd = update_status_plan [OF Cons.prems(1) tid, of Failed "exn_text e"]
    have st: "stays ts ?ts {task_id t}" by (rule plan_update_stays [OF Cons.prems(2) run]) simp
    obtain ys where ys: "collect_results R sid rs ?w = (ys, w')"
      "xs = \<lparr>run_task = t, run_outcome = RFailed, run_patches = None\<rparr> # ys"
      using Cons.prems(7) tr Inl by (auto split: prod.splits)
    have np: "outcome_status r' \<noteq> Pending" for r' by (cases r') (auto split: run_status.splits)
    have "status_of ?ts (task_id u) = Some (outcome_status r') \<and> ran_task u r'" if "(u, r') \<in> set rs" for u r'
      using Cons.prems(4) [of u r'] that rest [OF that] stays_frame [OF st, of "task_id u"] np [of r'] by simp
    moreover have "\<exists>u e. (u, Inl e) \<in> set rs \<and> x = task_id u" if "status_of ?ts x = Some Running" for x
      using plan_update_not_running [OF Cons.prems(2) run _ that] Cons.prems(5) [of x] tr by auto
    moreover have "no_lease (db ?w) sid ?ts {}"
      using Cons.prems(6) upd by (auto simp: no_lease_def same_but_tasks_lease)
    ultimately obtain ts' where ts': "plan_at (db w') sid ts'" "plan_ok ts'" "same_shape ?ts ts'"
      "\<forall>x. status_of ts' x \<noteq> Some Running" "no_lease (db w') sid ts' {}" "map run_task ys = map fst rs"
      "stays ?ts ts' (task_id ` fst ` set rs)"
      "\<forall>t\<in>fst ` set rs. status_of ts' (task_id t) \<in> {Some Complete, Some Failed}"
      using Cons.IH [OF _ plan_ok_fail [OF Cons.prems(2) run] dis(1) _ _ _ ys(1)] upd by blast
    have "status_of ts' (task_id t) = Some Failed"
      using stays_frame [OF ts'(7) dis(2)] plan_update_self [of ts "task_id t" Failed "exn_text e"] run by simp
    moreover have "stays ts ts' (task_id ` fst ` set (tr # rs))"
      using stays_trans [OF stays_mono [OF st] stays_mono [OF ts'(7)], of "task_id ` fst ` set (tr # rs)"] tr by auto
    moreover have "same_shape ts ts'" using plan_update_shape ts'(3) same_shape_trans by blast
    ultimately show ?thesis using ts' ys tr by (intro exI [of _ ts']) auto
  next
    case (Inr x)
    have x: "run_task x = t" "outcome_status r \<in> {Complete, Failed}"
      using t(2) Inr by (auto simp: ran_task_def split: run_status.splits)
    obtain ys where ys: "collect_results R sid rs w = (ys, w')" "xs = x # ys"
      using Cons.prems(7) tr Inr by (auto split: prod.splits)
    have "\<exists>u e. (u, Inl e) \<in> set rs \<and> y = task_id u" if "status_of ts y = Some Running" for y
      using Cons.prems(5) [OF that] tr Inr by auto
    moreover have "status_of ts (task_id u) = Some (outcome_status r') \<and> ran_task u r'" if "(u, r') \<in> set rs" for u r'
      using Cons.prems(4) that by simp
    ultimately obtain ts' where ts': "plan_at (db w') sid ts'" "plan_ok ts'" "same_shape ts ts'"
      "\<forall>x. status_of ts' x \<noteq> Some Running" "no_lease (db w') sid ts' {}" "map run_task ys = map fst rs"
      "stays ts ts' (task_id ` fst ` set rs)"
      "\<forall>t\<in>fst ` set rs. status_of ts' (task_id t) \<in> {Some Complete, Some Failed}"
      using Cons.IH [OF Cons.prems(1,2) dis(1) _ _ Cons.prems(6) ys(1)] by blast
    have "status_of ts' (task_id t) = status_of ts (task_id t)"
      using stays_frame [OF ts'(7) dis(2)] t(1) x(2) by auto
    moreover have "stays ts ts' (task_id ` fst ` set (tr # rs))"
      using stays_mono [OF ts'(7)] by auto
    ultimately show ?thesis using ts' ys tr x t(1) by (intro exI [of _ ts']) auto
  qed
qed

lemma collect_batch:
  assumes inv: "batch_inv (db w) sid ts ws" and fin: "list_all is_done ws"
    and c: "collect_results R sid (zip (map worker_task ws) (map worker_result ws)) w = (xs, w')"
  shows "\<exists>ts'. idle_plan (db w') sid ts' \<and> same_shape ts ts' \<and> map run_task xs = map worker_task ws \<and>
    stays ts ts' (worker_id ` set ws) \<and>
    (\<forall>x\<in>worker_id ` set ws. status_of ts' x \<in> {Some Complete, Some Failed})"
proof -
  let ?rs = "zip (map worker_task ws) (map worker_result ws)"
  note B = inv [unfolded batch_inv_def]
  have ok: "status_of ts (task_id t) = Some (outcome_status r) \<and> ran_task t r \<and> db w (lease_key sid (task_id t)) = None"
    if tr: "(t, r) \<in> set ?rs" for t r
  proof -
    from tr obtain k where k: "k < length ws" "t = worker_task (ws ! k)" "r = worker_result (ws ! k)"
      by (auto simp: set_zip)
    moreover have "is_done (ws ! k)" using fin k by (simp add: list_all_length)
    ultimately have "ws ! k = WDone t r" by (cases "ws ! k") auto
    moreover have "worker_ok (db w) sid ts (ws ! k)" using B k(1) nth_mem by blast
    ultimately show ?thesis by simp
  qed
  have fsts: "map fst ?rs = map worker_task ws" by simp
  then have fst_set: "fst ` set ?rs = worker_task ` set ws" by (metis list.set_map)
  have ids: "task_id ` worker_task ` set ws = worker_id ` set ws" by (simp add: worker_id_def image_image)
  have "map (task_id \<circ> fst) ?rs = map worker_id ws"
    by (simp only: map_map [symmetric] fsts) (simp add: worker_id_def)
  then have dis: "distinct (map (task_id \<circ> fst) ?rs)" using B by simp
  have mem: "\<exists>t r. (t, r) \<in> set ?rs \<and> x = task_id t" if "x \<in> worker_id ` set ws" for x
    using that fst_set ids by (metis (no_types, lifting) imageE prod.collapse)
  have running: "\<exists>t e. (t, Inl e) \<in> set ?rs \<and> x = task_id t" if x: "status_of ts x = Some Running" for x
  proof -
    from x B mem obtain t r where tr: "(t, r) \<in> set ?rs" "x = task_id t" by blast
    with ok [OF tr(1)] x show ?thesis by (cases r) (auto simp: ran_task_def split: run_status.splits)
  qed
  have "db w (lease_key sid x) = None" if "x \<in> set (task_ids ts)" for x
    using B mem [of x] ok that by (cases "x \<in> worker_id ` set ws") (auto simp: no_lease_def)
  then have "no_lease (db w) sid ts {}" by (simp add: no_lease_def)
  from collect_inv [OF _ _ dis _ running this c] B ok obtain ts' where
    "plan_at (db w') sid ts'" "plan_ok ts'" "same_shape ts ts'" "\<forall>x. status_of ts' x \<noteq> Some Running"
      "no_lease (db w') sid ts' {}" "map run_task xs = map worker_task ws" "stays ts ts' (worker_id ` set ws)"
      "\<forall>t\<in>worker_task ` set ws. status_of ts' (task_id t) \<in> {Some Complete, Some Failed}"
    unfolding fsts fst_set ids by blast
  then show ?thesis unfolding idle_plan_def ids [symmetric] by blast
qed

text \<open>One round: the batch is run to the end, each of its tasks ends complete or failed.\<close>

lemma round_inv:
  assumes idle: "idle_plan (db w) sid ts" and batch: "batch = take n (ready_of ts)"
    and run: "run_batch E sid batch w = (xs, w')"
  shows "\<exists>ts'. idle_plan (db w') sid ts' \<and> same_shape ts ts' \<and> map run_task xs = batch \<and>
    stays ts ts' (task_id ` set batch) \<and>
    (\<forall>x\<in>task_id ` set batch. status_of ts' x \<in> {Some Complete, Some Failed})"
proof -
  note I = idle [unfolded idle_plan_def]
  let ?w = "start_batch R sid batch w"
  obtain ws w1 where g: "gather_tasks E sid (map WStart batch) ?w = (ws, w1)" by fastforce
  obtain ts1 where ts1: "batch_inv (db ?w) sid ts1 (map WStart batch)" "same_shape ts ts1"
    "\<forall>x. status_of ts1 x = (if x \<in> task_id ` set batch then Some Running else status_of ts x)"
    using batch_started [OF _ _ _ _ batch] I by blast
  obtain ts2 where ts2: "batch_inv (db w1) sid ts2 ws" "same_shape ts1 ts2"
    "map worker_task ws = map worker_task (map WStart batch)" "list_all is_done ws"
    "stays ts1 ts2 (worker_id ` set (map WStart batch))"
    using gather_inv [OF ts1(1) g] by blast
  have tasks: "map worker_task ws = batch" using ts2(3) by (simp add: comp_def)
  have ids: "worker_id ` set (map WStart batch) = task_id ` set batch" by (simp add: worker_id_def image_image)
  then have wid: "worker_id ` set ws = task_id ` set batch" using worker_ids_of_tasks [OF ts2(3)] by simp
  have "collect_results R sid (zip (map worker_task ws) (map worker_result ws)) w1 = (xs, w')"
    using run g by (simp add: run_batch_def env_redis tasks)
  from collect_batch [OF ts2(1,4) this] obtain ts3 where ts3: "idle_plan (db w') sid ts3" "same_shape ts2 ts3"
    "map run_task xs = batch" "stays ts2 ts3 (task_id ` set batch)"
    "\<forall>x\<in>task_id ` set batch. status_of ts3 x \<in> {Some Complete, Some Failed}"
    unfolding wid tasks by blast
  have "stays ts1 ts2 (task_id ` set batch)" using ts2(5) ids by simp
  moreover have "stays ts ts1 (task_id ` set batch)" using ts1(3) by (simp add: stays_def)
  ultimately have "stays ts ts3 (task_id ` set batch)" using ts3(4) stays_trans by blast
  moreover have "same_shape ts ts3" using ts1(2) ts2(2) ts3(2) same_shape_trans by blast
  ultimately show ?thesis using ts3 by blast
qed

end

text \<open>The tasks that are through: complete or failed.\<close>

definition through :: "task list \<Rightarrow> string set" where
  "through ts = {x. status_of ts x \<in> {Some Complete, Some Failed}}"

definition waiting :: "task list \<Rightarrow> string set" where
  "waiting ts = {x. status_of ts x = Some Pending}"

lemma finite_waiting: "finite (waiting ts)"
proof (rule finite_subset)
  show "waiting ts \<subseteq> set (task_ids ts)"
    using status_of_None [of ts] by (force simp: waiting_def)
qed simp

lemma waiting_after:
  assumes "stays ts ts1 A" "\<forall>x\<in>A. status_of ts1 x \<in> {Some Complete, Some Failed}"
  shows "waiting ts1 \<subseteq> waiting ts - A"
proof
  fix x
  assume x: "x \<in> waiting ts1"
  then have "x \<notin> A" using assms(2) by (auto simp: waiting_def)
  with x show "x \<in> waiting ts - A" using assms(1) by (auto simp: waiting_def stays_def)
qed

lemma through_after:
  assumes "stays ts ts1 A" "\<forall>x\<in>A. status_of ts1 x \<in> {Some Complete, Some Failed}" "A \<subseteq> waiting ts"
  shows "through ts1 = through ts \<union> A"
proof (rule set_eqI)
  fix x
  show "x \<in> through ts1 \<longleftrightarrow> x \<in> through ts \<union> A"
  proof (cases "x \<in> A")
    case True
    then show ?thesis using assms(2) by (auto simp: through_def)
  next
    case False
    then have "status_of ts1 x = status_of ts x \<or> status_of ts x = Some Pending \<and> status_of ts1 x = Some Blocked"
      using assms(1) by (simp add: stays_def)
    with False show ?thesis by (auto simp: through_def)
  qed
qed

context task_host
begin

lemma execute_loop_ends:
  assumes "idle_plan (db w) sid ts" "0 < te_max_parallel E" "card (waiting ts) < n"
  shows "\<exists>xs w' ts'. execute_loop n E sid ex w = Some (ex @ xs, w') \<and> idle_plan (db w') sid ts' \<and>
    same_shape ts ts' \<and> ready_of ts' = [] \<and> distinct (map (task_id \<circ> run_task) xs) \<and>
    through ts' = through ts \<union> (task_id \<circ> run_task) ` set xs \<and>
    (task_id \<circ> run_task) ` set xs \<subseteq> waiting ts"
  using assms
proof (induction n arbitrary: w ts ex)
  case (Suc n)
  have I: "plan_at (db w) sid ts" "plan_ok ts" using Suc.prems(1) by (auto simp: idle_plan_def)
  have ready: "get_ready_tasks (te_redis E) sid w = ready_of ts"
    by (simp add: get_ready_tasks_def env_redis all_tasks_plan [OF I(1)])
  show ?case
  proof (cases "ready_of ts = []")
    case True
    then show ?thesis using Suc.prems(1) by (intro exI [of _ "[]"] exI [of _ w] exI [of _ ts]) (simp add: ready)
  next
    case False
    define batch where "batch = take (te_max_parallel E) (ready_of ts)"
    obtain xs w1 where run: "run_batch E sid batch w = (xs, w1)" by fastforce
    from round_inv [OF Suc.prems(1) batch_def run] obtain ts1 where
      ts1: "idle_plan (db w1) sid ts1" "same_shape ts ts1" "map run_task xs = batch"
        "stays ts ts1 (task_id ` set batch)"
        "\<forall>x\<in>task_id ` set batch. status_of ts1 x \<in> {Some Complete, Some Failed}" by blast
    have sub: "set batch \<subseteq> set (ready_of ts)" unfolding batch_def by (rule set_take_subset)
    have bw: "task_id ` set batch \<subseteq> waiting ts"
    proof
      fix x assume "x \<in> task_id ` set batch"
      then obtain t where "t \<in> set (ready_of ts)" "x = task_id t" using sub by blast
      then show "x \<in> waiting ts" using status_of_mem [OF plan_okD(1) [OF I(2)]] by (simp add: ready_iff waiting_def)
    qed
    have "batch \<noteq> []" using False Suc.prems(2) by (simp add: batch_def)
    then have ne: "task_id ` set batch \<noteq> {}" by simp
    have w1: "waiting ts1 \<subseteq> waiting ts - task_id ` set batch"
      by (rule waiting_after [OF ts1(4,5)])
    then have "waiting ts1 \<subset> waiting ts" using bw ne by (rule psubset_removed)
    then have "card (waiting ts1) < card (waiting ts)" using finite_waiting psubset_card_mono by blast
    then have "card (waiting ts1) < n" using Suc.prems(3) by simp
    from Suc.IH [OF ts1(1) Suc.prems(2) this, of "ex @ xs"] obtain ys w' ts' where
      ih: "execute_loop n E sid (ex @ xs) w1 = Some ((ex @ xs) @ ys, w')" "idle_plan (db w') sid ts'"
        "same_shape ts1 ts'" "ready_of ts' = []" "distinct (map (task_id \<circ> run_task) ys)"
        "through ts' = through ts1 \<union> (task_id \<circ> run_task) ` set ys" "(task_id \<circ> run_task) ` set ys \<subseteq> waiting ts1"
      by blast
    have xs_ids: "(task_id \<circ> run_task) ` set xs = task_id ` set batch"
      using ts1(3) by (metis image_comp list.set_map)
    have "distinct (map task_id batch)"
      unfolding batch_def take_map [symmetric] ready_of_def Let_def
      using plan_okD(1) [OF I(2)] by (intro distinct_take distinct_map_filter) (simp add: task_ids_def)
    then have dx: "distinct (map (task_id \<circ> run_task) xs)" using ts1(3) by (metis map_map)
    have "through ts1 = through ts \<union> task_id ` set batch"
      by (rule through_after [OF ts1(4,5) bw])
    then have "through ts' = through ts \<union> (task_id \<circ> run_task) ` set (xs @ ys)"
      using ih(6) xs_ids by (simp add: Un_assoc image_Un)
    moreover have "distinct (map (task_id \<circ> run_task) (xs @ ys))"
      using dx ih(5,7) w1 xs_ids by (auto simp: image_Un)
    moreover have "(task_id \<circ> run_task) ` set (xs @ ys) \<subseteq> waiting ts"
      using ih(7) w1 bw xs_ids by (simp only: set_append image_Un) blast
    moreover have "execute_loop (Suc n) E sid ex w = Some (ex @ (xs @ ys), w')"
      using False run ih(1) by (simp add: ready Let_def batch_def)
    moreover have "same_shape ts ts'" using ts1(2) ih(3) same_shape_trans by blast
    ultimately show ?thesis using ih(2,4) by blast
  qed
qed simp

end

end
