(* ===== verification/Task_Props.thy ===== *)
theory Task_Props
  imports Task_Exec
begin

text \<open>
  Properties of plan execution: every execution of a loaded plan ends with no task
  pending or running, each task is run at most once, an agent is started for a task only
  when all its dependencies are complete and its lease is held, and what happens to a
  task whose lease another worker holds.
\<close>

section \<open>Counting by status\<close>

lemma count_status:
  assumes "distinct (task_ids ts)"
  shows "length (filter (\<lambda>t. task_status t = st) ts) = card {x. status_of ts x = Some st}"
proof -
  have "{x. status_of ts x = Some st} = task_id ` set (filter (\<lambda>t. task_status t = st) ts)"
    using status_of_mem [OF assms] by (auto simp: status_of_def dest!: find_SomeD)
  moreover have "distinct (map task_id (filter (\<lambda>t. task_status t = st) ts))"
    using assms by (intro distinct_map_filter) (simp add: task_ids_def)
  ultimately show ?thesis by (metis distinct_card length_map list.set_map)
qed

lemma count_through:
  assumes "distinct (task_ids ts)"
  shows "length (filter (\<lambda>t. task_status t = Complete) ts) + length (filter (\<lambda>t. task_status t = Failed) ts)
    = card (through ts)"
proof -
  have "through ts = {x. status_of ts x = Some Complete} \<union> {x. status_of ts x = Some Failed}"
    by (auto simp: through_def)
  moreover have "finite {x. status_of ts x = Some st}" for st
    by (rule finite_subset [of _ "set (task_ids ts)"]) (use status_of_None [of ts] in force)+
  ultimately show ?thesis using assms by (subst (1 2) count_status) (auto simp: card_Un_disjoint disjoint_iff)
qed

lemma count_none: "\<forall>t\<in>set ts. task_status t \<noteq> st \<Longrightarrow> length (filter (\<lambda>t. task_status t = st) ts) = 0"
  by (simp add: filter_empty_conv)

section \<open>Executions end\<close>

lemma idle_not_running:
  assumes "idle_plan d sid ts" "t \<in> set ts"
  shows "task_status t \<noteq> Running"
  using assms status_of_mem [OF plan_okD(1), of ts t] by (auto simp: idle_plan_def)

context redis_server
begin

lemma loaded_idle:
  assumes list: "list_at (db w0) (list_key sid) = Some ids" and valid: "validate_dag ts = Inr ()"
    and free: "\<forall>t\<in>set ts. db w0 (lease_key sid (task_id t)) = None"
  shows "idle_plan (db (snd (load_plan R sid ts w0))) sid (map (\<lambda>t. t\<lparr>task_status := Pending\<rparr>) ts)"
proof -
  have "no_lease (db (snd (load_plan R sid ts w0))) sid (map (\<lambda>t. t\<lparr>task_status := Pending\<rparr>) ts) {}"
    using free load_plan_leases [OF list valid] by (auto simp: no_lease_def task_ids_def)
  moreover have "status_of (map (\<lambda>t. t\<lparr>task_status := Pending\<rparr>) ts) x \<noteq> Some Running" for x
    by (auto simp: status_of_def dest!: find_SomeD)
  ultimately show ?thesis
    using load_plan_ok [OF list valid] plan_ok_load [OF valid] by (simp add: idle_plan_def)
qed

end

context task_host
begin

lemma execute_plan_ends:
  assumes idle: "idle_plan (db w) sid ts" and par: "0 < te_max_parallel E" and fuel: "length ts < n"
    and fresh: "through ts = {}"
  shows "\<exists>rep w'. execute_plan n E sid w = Some (rep, w') \<and>
    pr_remaining rep = 0 \<and> pr_complete rep + pr_failed rep + pr_blocked rep = length ts \<and>
    pr_executed rep = pr_complete rep + pr_failed rep \<and>
    distinct (map (task_id \<circ> run_task) (pr_tasks rep))"
proof -
  have "card (waiting ts) \<le> card (set (task_ids ts))"
    using status_of_None [of ts] by (intro card_mono) (force simp: waiting_def)+
  also have "\<dots> \<le> length ts" using card_length [of "task_ids ts"] by (simp add: task_ids_def)
  finally have "card (waiting ts) < n" using fuel by simp
  from execute_loop_ends [OF idle par this, of "[]"] obtain xs w' ts' where
    loop: "execute_loop n E sid [] w = Some (xs, w')" and idle': "idle_plan (db w') sid ts'"
    and shape: "same_shape ts ts'" and ready: "ready_of ts' = []"
    and dis: "distinct (map (task_id \<circ> run_task) xs)" and thr: "through ts' = (task_id \<circ> run_task) ` set xs"
    using fresh by auto
  have ok: "plan_ok ts'" "plan_at (db w') sid ts'" using idle' by (auto simp: idle_plan_def)
  have nr: "\<forall>t\<in>set ts'. task_status t \<noteq> Running" using idle_not_running [OF idle'] by blast
  note np = progress_aux [OF ok(1) nr ready]
  let ?c = "\<lambda>st. length (filter (\<lambda>t. task_status t = st) ts')"
  have all: "all_tasks R sid w' = ts'" by (rule all_tasks_plan [OF ok(2)])
  define rep where "rep = \<lparr>pr_executed = length xs, pr_complete = ?c Complete, pr_failed = ?c Failed,
      pr_blocked = ?c Blocked, pr_remaining = ?c Pending, pr_tasks = xs\<rparr>"
  have ex: "execute_plan n E sid w = Some (rep, w')"
    by (simp add: execute_plan_def loop rep_def get_session_status_def Let_def env_redis all status_counts_get)
      (simp add: get_or_def)
  have sum: "length us = (\<Sum>st\<leftarrow>[Pending, Running, Complete, Failed, Blocked]. length (filter (\<lambda>t. task_status t = st) us))"
    for us :: "task list"
  proof (induction us)
    case (Cons t us)
    then show ?case by (cases "task_status t") auto
  qed simp
  have "length ts' = length ts" using same_shape_graph(1) [OF shape] by (metis length_map task_ids_def)
  then have total: "?c Complete + ?c Failed + ?c Blocked = length ts"
    using sum [of ts'] count_none [OF nr] count_none [OF np] by simp
  have "?c Complete + ?c Failed = card (set (map (task_id \<circ> run_task) xs))"
    using count_through [OF plan_okD(1) [OF ok(1)]] thr by simp
  also have "\<dots> = length xs" using distinct_card [OF dis] by simp
  finally show ?thesis using ex total count_none [OF np] dis by (simp add: rep_def)
qed

end

text \<open>The witness environment: the agent for task \<open>b\<close> times out, the others are done.\<close>

definition demo_env :: "mem task_env" where
  "demo_env = \<lparr>te_redis = mem_redis,
     te_spawn = (\<lambda>role desc sid w. if desc = ''do b''
        then (Inr \<lparr>res_status = ''killed'', res_result = None, res_error = Some ''Timed out''\<rparr>, w)
        else if desc = ''do c'' then (Inl (RuntimeError ''boom''), w)
        else (Inr \<lparr>res_status = ''done'', res_result = Some ''ok'', res_error = None\<rparr>, w)),
     te_enqueue = None, te_uuid = (\<lambda>_. ''w''), te_lease_ttl = 600, te_max_parallel = 2,
     te_sched = (\<lambda>ws _. sum_list (map steps_left ws))\<rparr>"

interpretation demo: task_host mem_redis mem_db mem_ttl demo_env
  by unfold_locales (auto simp: demo_env_def)

text \<open>C1: executing a freshly loaded plan, with room for at least one agent at a time and no task of it leased
  beforehand, ends, for every behaviour of the agents and every
  interleaving of the coroutines, where an update of a task's status is one step: as many rounds as there are tasks, plus one, suffice;
  afterwards no task is left pending, every task is complete, failed or blocked, and the
  tasks that were run are exactly the complete and the failed ones, each run once.\<close>

theorem execute_plan_terminates:
  assumes "task_host R db ttl E" "0 < te_max_parallel E"
    and "list_at (db w0) (list_key sid) = Some ids" "validate_dag ts = Inr ()"
    and "\<forall>t\<in>set ts. db w0 (lease_key sid (task_id t)) = None"
  shows "\<exists>rep w'. execute_plan (length ts + 1) E sid (snd (load_plan R sid ts w0)) = Some (rep, w') \<and>
    pr_remaining rep = 0 \<and> pr_complete rep + pr_failed rep + pr_blocked rep = length ts \<and>
    pr_executed rep = pr_complete rep + pr_failed rep \<and>
    distinct (map (task_id \<circ> run_task) (pr_tasks rep))"
proof -
  let ?ts = "map (\<lambda>t. t\<lparr>task_status := Pending\<rparr>) ts"
  have R: "redis_server R db ttl" using assms(1) by (simp add: task_host_def)
  have "through ?ts = {}" by (auto simp: through_def status_of_def dest!: find_SomeD)
  from task_host.execute_plan_ends [OF assms(1) redis_server.loaded_idle [OF R assms(3-5)] assms(2) _ this, of "length ts + 1"]
  show ?thesis by simp
qed

theorem execute_plan_terminates_witness:
  "\<exists>rep w'. execute_plan (length demo_plan + 1) demo_env ''s'' (snd (load_plan mem_redis ''s'' demo_plan [])) = Some (rep, w') \<and>
     pr_remaining rep = 0 \<and> pr_complete rep + pr_failed rep + pr_blocked rep = length demo_plan \<and>
     pr_executed rep = pr_complete rep + pr_failed rep \<and> distinct (map (task_id \<circ> run_task) (pr_tasks rep))"
proof -
  have "validate_dag demo_plan = Inr ()" by code_simp
  moreover have "list_at (mem_db []) (list_key ''s'') = Some []" by (simp add: mem_db_def)
  moreover have "0 < te_max_parallel demo_env" by (simp add: demo_env_def)
  moreover have "\<forall>t\<in>set demo_plan. mem_db [] (lease_key ''s'' (task_id t)) = None" by (simp add: mem_db_def)
  ultimately show ?thesis
    using execute_plan_terminates [OF demo.task_host_axioms] by blast
qed

section \<open>Every reachable state of an execution\<close>

text \<open>
  The states an execution can pass through: the coroutines of the current batch and the
  world.  Any unfinished or finished coroutine may be resumed at any time.
\<close>

inductive sched_reach :: "'w task_env \<Rightarrow> string \<Rightarrow> 'w \<Rightarrow> worker list \<Rightarrow> 'w \<Rightarrow> bool"
  for E :: "'w task_env" and sid w0 where
  sched_init: "sched_reach E sid w0 [] w0"
| sched_batch: "sched_reach E sid w0 [] w \<Longrightarrow>
    batch = take (te_max_parallel E) (get_ready_tasks (te_redis E) sid w) \<Longrightarrow>
    sched_reach E sid w0 (map WStart batch) (start_batch (te_redis E) sid batch w)"
| sched_step: "sched_reach E sid w0 ws w \<Longrightarrow> i < length ws \<Longrightarrow> worker_step E sid (ws ! i) w = (p, w') \<Longrightarrow>
    sched_reach E sid w0 (ws[i := p]) w'"
| sched_collect: "sched_reach E sid w0 ws w \<Longrightarrow> list_all is_done ws \<Longrightarrow>
    collect_results (te_redis E) sid (zip (map worker_task ws) (map worker_result ws)) w = (xs, w') \<Longrightarrow>
    sched_reach E sid w0 [] w'"

inductive_cases sched_reachE: "sched_reach E sid w0 ws w"

lemma idle_batch_inv: "batch_inv d sid ts [] \<longleftrightarrow> idle_plan d sid ts"
  by (auto simp: batch_inv_def idle_plan_def)

context task_host
begin

lemma sched_invariant:
  assumes "sched_reach E sid w0 ws w" "idle_plan (db w0) sid ts0"
  shows "\<exists>ts. batch_inv (db w) sid ts ws \<and> same_shape ts0 ts"
  using assms
proof (induction rule: sched_reach.induct)
  case sched_init
  then show ?case using idle_batch_inv by force
next
  case (sched_batch w batch)
  then obtain ts where ts: "idle_plan (db w) sid ts" "same_shape ts0 ts" by (auto simp: idle_batch_inv)
  then have I: "plan_at (db w) sid ts" "plan_ok ts" "\<And>x. status_of ts x \<noteq> Some Running" "no_lease (db w) sid ts {}"
    by (auto simp: idle_plan_def)
  have "batch = take (te_max_parallel E) (ready_of ts)"
    using sched_batch.hyps(2) by (simp add: get_ready_tasks_def env_redis all_tasks_plan [OF I(1)])
  from batch_started [OF I this] ts(2) show ?case using same_shape_trans env_redis by metis
next
  case (sched_step ws w i p w')
  then obtain ts where ts: "batch_inv (db w) sid ts ws" "same_shape ts0 ts" by blast
  from worker_step_inv [OF this(1) sched_step.hyps(2,3)] this(2) show ?case using same_shape_trans by blast
next
  case (sched_collect ws w xs w')
  then obtain ts where ts: "batch_inv (db w) sid ts ws" "same_shape ts0 ts" by blast
  from collect_batch [OF this(1) sched_collect.hyps(2)] this(2) sched_collect.hyps(3)
  show ?case using same_shape_trans idle_batch_inv env_redis by metis
qed

lemma sched_running_deps:
  assumes "sched_reach E sid w0 ws w" "idle_plan (db w0) sid ts0" "WLeased t \<in> set ws"
  shows "(\<forall>u\<in>set (all_tasks R sid w). task_id u = task_id t \<longrightarrow>
      (\<forall>d\<in>set (task_deps u). \<exists>v\<in>set (all_tasks R sid w). task_id v = d \<and> task_status v = Complete)) \<and>
    db w (lease_key sid (task_id t)) \<noteq> None \<and> distinct (map worker_id ws)"
proof -
  obtain ts where inv: "batch_inv (db w) sid ts ws" using sched_invariant [OF assms(1,2)] by blast
  note I = inv [unfolded batch_inv_def]
  have ok: "plan_ok ts" and all: "all_tasks R sid w = ts" using I all_tasks_plan by auto
  have wt: "worker_ok (db w) sid ts (WLeased t)" using I assms(3) by blast
  have "\<exists>v\<in>set ts. task_id v = d \<and> task_status v = Complete"
    if "u \<in> set ts" "task_id u = task_id t" "d \<in> set (task_deps u)" for u d
  proof -
    have "task_status u = Running" using status_of_mem [OF plan_okD(1) [OF ok] that(1)] wt that(2) by simp
    then have d: "status_of ts d = Some Complete" using plan_okD(4) [OF ok that(1)] that(3) by blast
    then have "d \<in> set (task_ids ts)" using status_of_None [of ts d] by auto
    then obtain v where "v \<in> set ts" "task_id v = d" "status_of ts d = Some (task_status v)"
      using status_of_cases plan_okD(1) [OF ok] by blast
    then show ?thesis using d by auto
  qed
  then show ?thesis using I wt unfolding all by simp
qed

end

text \<open>C3: dependency order under every interleaving.  In every state an execution of a plan
  can reach, when a coroutine has its lease and is about to start the agent of a task,
  every dependency of that task is stored as complete, the lease is held in Redis, and no
  other coroutine of the batch works on the same task.\<close>

theorem agent_runs_after_deps:
  assumes "task_host R db ttl E" "idle_plan (db w0) sid ts0"
    and "sched_reach E sid w0 ws w" "WLeased t \<in> set ws"
  shows "(\<forall>u\<in>set (all_tasks R sid w). task_id u = task_id t \<longrightarrow>
      (\<forall>d\<in>set (task_deps u). \<exists>v\<in>set (all_tasks R sid w). task_id v = d \<and> task_status v = Complete)) \<and>
    db w (lease_key sid (task_id t)) \<noteq> None \<and> distinct (map worker_id ws)"
  by (rule task_host.sched_running_deps [OF assms(1,3,2,4)])

text \<open>A state of the witness execution: the first batch is started and \<open>a\<close> is leased.\<close>

definition demo_start :: mem where
  "demo_start = snd (load_plan mem_redis ''s'' demo_plan [])"

definition demo_leased :: "worker list \<times> mem" where
  "demo_leased =
     (let batch = take 2 (get_ready_tasks mem_redis ''s'' demo_start);
          w = start_batch mem_redis ''s'' batch demo_start
      in case worker_step demo_env ''s'' (WStart (hd batch)) w of (p, w') \<Rightarrow> ((map WStart batch)[0 := p], w'))"

lemma demo_leased_reach: "sched_reach demo_env ''s'' demo_start (fst demo_leased) (snd demo_leased)"
proof -
  let ?batch = "take 2 (get_ready_tasks mem_redis ''s'' demo_start)"
  let ?w = "start_batch mem_redis ''s'' ?batch demo_start"
  have env: "te_redis demo_env = mem_redis" "te_max_parallel demo_env = 2" by (simp_all add: demo_env_def)
  have "sched_reach demo_env ''s'' demo_start (map WStart ?batch) ?w"
    using sched_batch [OF sched_init refl, of demo_env "''s''" demo_start] by (simp add: env)
  moreover obtain p w' where "worker_step demo_env ''s'' (map WStart ?batch ! 0) ?w = (p, w')" by fastforce
  moreover have ne: "?batch \<noteq> []" by code_simp
  moreover from ne have "0 < length (map WStart ?batch)" "map WStart ?batch ! 0 = WStart (hd ?batch)"
    by (cases ?batch; simp)+
  ultimately show ?thesis
    using sched_step [of demo_env "''s''" demo_start "map WStart ?batch" ?w 0 p w']
    by (simp only: demo_leased_def Let_def prod.case fst_conv snd_conv)
qed

theorem agent_runs_after_deps_witness:
  "WLeased (hd (all_tasks mem_redis ''s'' demo_start)) \<in> set (fst demo_leased) \<and>
   mem_db (snd demo_leased) (lease_key ''s'' ''a'') \<noteq> None"
proof -
  have "idle_plan (mem_db demo_start) ''s'' (map (\<lambda>t. t\<lparr>task_status := Pending\<rparr>) demo_plan)"
    unfolding demo_start_def
  proof (rule memr.loaded_idle)
    show "list_at (mem_db []) (list_key ''s'') = Some []" by (simp add: mem_db_def)
    show "validate_dag demo_plan = Inr ()" by code_simp
  qed (simp add: mem_db_def)
  moreover have "list_ex (\<lambda>p. p = WLeased (hd (all_tasks mem_redis ''s'' demo_start))) (fst demo_leased)" by code_simp
  then have mem: "WLeased (hd (all_tasks mem_redis ''s'' demo_start)) \<in> set (fst demo_leased)"
    by (simp add: list_ex_iff)
  moreover have "task_id (hd (all_tasks mem_redis ''s'' demo_start)) = ''a''" by code_simp
  ultimately show ?thesis
    using agent_runs_after_deps [OF demo.task_host_axioms _ demo_leased_reach] by metis
qed

section \<open>Leases of other workers and tasks left running\<close>

text \<open>A task whose lease is held by another worker is skipped: no agent is started, the
  world is unchanged, and the result says so.\<close>

theorem leased_elsewhere_skipped:
  assumes "task_host R db ttl E" "db w (lease_key sid (task_id t)) \<noteq> None"
  shows "run_single_task E sid t w = (Inr \<lparr>run_task = t, run_outcome = RSkipped, run_patches = None\<rparr>, w)"
proof -
  have "redis_server R db ttl" "te_redis E = R"
    using assms(1) by (simp_all add: task_host_def task_host_axioms_def)
  then have "acquire_task_lease (te_redis E) (te_lease_ttl E) sid (task_id t) (te_uuid E w) w = (False, w)"
    using redis_server.setnx_held [of R db ttl w "lease_key sid (task_id t)"] assms(2)
    by (simp add: acquire_task_lease_def)
  then show ?thesis by (simp add: run_single_task_def)
qed

theorem leased_elsewhere_skipped_witness:
  "run_outcome (projr (fst (run_single_task demo_env ''s'' (demo_task ''a'' [])
     [(lease_key ''s'' ''a'', RStr (JStr ''other''), Some 600)]))) = RSkipped"
  using leased_elsewhere_skipped [OF demo.task_host_axioms,
      of "[(lease_key ''s'' ''a'', RStr (JStr ''other''), Some 600)]" "''s''" "demo_task ''a'' []"]
  by (simp add: mem_db_def demo_task_def)

text \<open>A task that a crashed worker left running is never retried, even when its lease
  has expired: with only such tasks and tasks that wait for them, executing the plan
  again runs nothing and leaves the store as it is.\<close>

theorem crashed_task_not_retried:
  assumes "task_host R db ttl E" "plan_at (db w) sid ts"
    and "\<forall>t\<in>set ts. task_status t = Running \<or>
      (task_status t = Pending \<and> (\<exists>d\<in>set (task_deps t). \<exists>u\<in>set ts. task_id u = d \<and> task_status u \<noteq> Complete))"
  shows "\<exists>rep. execute_plan 1 E sid w = Some (rep, w) \<and> pr_executed rep = 0 \<and> pr_complete rep = 0"
proof -
  have R: "redis_server R db ttl" "te_redis E = R"
    using assms(1) by (simp_all add: task_host_def task_host_axioms_def)
  have all: "all_tasks R sid w = ts" by (rule redis_server.all_tasks_plan [OF R(1) assms(2)])
  have "distinct (task_ids ts)" using assms(2) by (simp add: plan_at_def)
  then have uniq: "t = u" if "t \<in> set ts" "u \<in> set ts" "task_id t = task_id u" for t u
    using that by (auto simp: task_ids_def distinct_map inj_on_def)
  have "t \<notin> set (ready_of ts)" for t
    using assms(3) uniq by (auto simp: ready_iff) (metis task_status.distinct(1))+
  then have "ready_of ts = []" by (cases "ready_of ts") auto
  moreover have "length (filter (\<lambda>t. task_status t = Complete) ts) = 0"
    using assms(3) by (intro count_none) auto
  ultimately show ?thesis
    by (simp add: execute_plan_def get_ready_tasks_def R(2) all get_session_status_def Let_def status_counts_get)
      (simp add: get_or_def)
qed

definition crashed_plan :: "task list" where
  "crashed_plan = [demo_task ''a'' [], (demo_task ''b'' [''a''])\<lparr>task_status := Pending\<rparr>]"

definition crashed_world :: mem where
  "crashed_world = [(list_key ''s'', RList [''a'', ''b''], None),
     (task_key ''s'' ''a'', RStr (task_json (crashed_plan ! 0)), None),
     (task_key ''s'' ''b'', RStr (task_json (crashed_plan ! 1)), None)]"

theorem crashed_task_not_retried_witness:
  "\<exists>rep. execute_plan 1 demo_env ''s'' crashed_world = Some (rep, crashed_world) \<and>
     pr_executed rep = 0 \<and> pr_complete rep = 0"
proof (rule crashed_task_not_retried [OF demo.task_host_axioms, where ts = crashed_plan])
  show "plan_at (mem_db crashed_world) ''s'' crashed_plan"
    by (simp add: plan_at_def crashed_world_def crashed_plan_def demo_task_def mem_db_def task_ids_def list_at_def)
qed (simp add: crashed_plan_def demo_task_def)

end
