(* ===== verification/Patch_Queue.thy ===== *)
theory Patch_Queue
  imports Task_Exec
begin

text \<open>
  \<open>orchestrator/patch_queue.py\<close>: validation of diffs, conflict detection by file hashes,
  the queue of patches with its depth guard, the pipeline conflict check, sandbox, live
  apply, and the loop that lets a coder fix failing tests.  A patch is a Python object
  that the deque, the dict and callers share, so it lives in a store and is referred to
  by its address.
\<close>

section \<open>Patches\<close>

definition max_diff_lines :: int where "max_diff_lines = 1000"
definition max_retries :: nat where "max_retries = 2"

datatype patch_status = PPending | PProcessing | PConflict | PRejected | PApplied

fun patch_status_str :: "patch_status \<Rightarrow> string" where
  "patch_status_str PPending = ''pending''"
| "patch_status_str PProcessing = ''processing''"
| "patch_status_str PConflict = ''conflict''"
| "patch_status_str PRejected = ''rejected''"
| "patch_status_str PApplied = ''applied''"

record patch =
  pt_id :: string
  pt_diff :: string
  pt_agent :: string
  pt_task :: string
  pt_session :: string
  pt_descr :: string
  pt_created :: real
  pt_status :: patch_status
  pt_retries :: nat
  pt_error :: "string option"
  pt_hashes :: "(string \<times> string) list"

definition opt_json :: "string option \<Rightarrow> json" where
  "opt_json x = (case x of None \<Rightarrow> JNull | Some s \<Rightarrow> JStr s)"

definition patch_dict :: "patch \<Rightarrow> json dict" where
  "patch_dict p =
    [(''patch_id'', JStr (pt_id p)), (''agent_id'', JStr (pt_agent p)), (''task_id'', JStr (pt_task p)),
     (''session_id'', JStr (pt_session p)), (''description'', JStr (pt_descr p)),
     (''status'', JStr (patch_status_str (pt_status p))), (''retries'', JInt (int (pt_retries p))),
     (''error'', opt_json (pt_error p)),
     (''files'', JList (map JStr (extract_file_paths_from_diff (pt_diff p)))),
     (''diff_lines'', JInt (int (count_diff_lines (pt_diff p)))),
     (''created_at'', JFloat (pt_created p))]"

section \<open>Validation\<close>

definition normalize_diff :: "string \<Rightarrow> string" where
  "normalize_diff diff = replace [cr] [nl] (replace [cr, nl] [nl] diff)"

definition mode_re :: rx where
  "mode_re = seqs [Bol, alts [lit ''old'', lit ''new''], lit '' mode '', rplus digit]"

definition hunk_re :: rx where
  "hunk_re = seqs [Bol, lit ''@@'', rplus space_x, lit ''-'', rplus digit]"

definition validate_patch :: "string \<Rightarrow> unit result" where
  "validate_patch diff =
     (if diff = [] \<or> strip diff = [] then Inl (PatchValidationError ''Empty diff'')
      else if int (length diff) > 4000000 then Inl (PatchValidationError ''Diff exceeds 4 MB raw size limit'')
      else let n = int (count_diff_lines diff) in
        if n > max_diff_lines
        then Inl (PatchValidationError (''Diff too large: '' @ int_str n @ '' changed lines (limit ''
                @ int_str max_diff_lines @ '')''))
        else if contains ''GIT binary patch'' diff \<or> contains ''Binary files'' diff
        then Inl (PatchValidationError ''Binary patches are not allowed'')
        else if re_search mode_re diff \<noteq> None
        then Inl (PatchValidationError ''Permission-change patches are not allowed'')
        else if re_search hunk_re diff = None
        then Inl (PatchValidationError ''Does not appear to be a unified diff (no @@ hunk headers found)'')
        else Inr ())"

section \<open>The environment and the state of the queue\<close>

text \<open>
  The executor client, the agent manager, the bus, the hash function, the clock and the
  generator of ids are parameters; a call to the executor returns the decoded answer or
  the exception it raised.
\<close>

record 'w patch_env =
  pe_read_file :: "string \<Rightarrow> 'w \<Rightarrow> json dict result \<times> 'w"
  pe_apply :: "string \<Rightarrow> string \<Rightarrow> 'w \<Rightarrow> json dict result \<times> 'w" \<comment> \<open>diff, target\<close>
  pe_run_tests :: "string \<Rightarrow> nat \<Rightarrow> 'w \<Rightarrow> json dict result \<times> 'w"
  pe_spawn :: "string \<Rightarrow> string \<Rightarrow> string \<Rightarrow> 'w \<Rightarrow> agent_result result \<times> 'w"
  pe_redis :: "'w redis option"
  pe_publish :: "(string \<Rightarrow> string \<Rightarrow> json dict \<Rightarrow> 'w \<Rightarrow> 'w) option"
    \<comment> \<open>session, agent, payload of a PATCH_APPLIED event; a failure is swallowed\<close>
  pe_sha256 :: "string \<Rightarrow> string"
  pe_uuid :: "'w \<Rightarrow> string \<times> 'w"
  pe_now :: "'w \<Rightarrow> real"
  pe_max_depth :: nat
  pe_max_fix :: nat

record patch_queue =
  pq_store :: "patch list"       \<comment> \<open>the patch objects, by address\<close>
  pq_queue :: "nat list"         \<comment> \<open>\<open>_queue\<close>\<close>
  pq_patches :: "(string \<times> nat) list" \<comment> \<open>\<open>_patches\<close>\<close>

definition pq_get :: "patch_queue \<Rightarrow> nat \<Rightarrow> patch" where
  "pq_get q a = pq_store q ! a"

definition pq_put :: "nat \<Rightarrow> patch \<Rightarrow> patch_queue \<Rightarrow> patch_queue" where
  "pq_put a p q = q\<lparr>pq_store := (pq_store q)[a := p]\<rparr>"

definition jget_str :: "json dict \<Rightarrow> string \<Rightarrow> string \<Rightarrow> string option" where
  "jget_str d k def = (case map_of d k of None \<Rightarrow> Some def | Some j \<Rightarrow> jstr j)"

section \<open>File hashes\<close>

fun snapshot_file_hashes :: "'w patch_env \<Rightarrow> string list \<Rightarrow> (string \<times> string) list \<Rightarrow> 'w
    \<Rightarrow> (string \<times> string) list \<times> 'w" where
  "snapshot_file_hashes E [] hashes w = (hashes, w)"
| "snapshot_file_hashes E (path # paths) hashes w =
     (case pe_read_file E path w of (r, w1) \<Rightarrow>
        let h = (case r of
                   Inl _ \<Rightarrow> ''NEW''
                 | Inr d \<Rightarrow> (case jget_str d ''content'' [] of
                              Some content \<Rightarrow> pe_sha256 E content | None \<Rightarrow> ''NEW''))
        in snapshot_file_hashes E paths (dict_set hashes path h) w1)"

definition check_conflict :: "'w patch_env \<Rightarrow> patch \<Rightarrow> 'w \<Rightarrow> bool \<times> 'w" where
  "check_conflict E p w =
     (if pt_hashes p = [] then (False, w)
      else case snapshot_file_hashes E (dict_keys (pt_hashes p)) [] w of
        (current, w1) \<Rightarrow>
          (list_ex (\<lambda>(path, baseline). get_or current path ''NEW'' \<noteq> baseline) (pt_hashes p), w1))"

section \<open>Persistence\<close>

text \<open>A database that is one part of the world, beside something else.\<close>

definition redis_fst :: "'w redis \<Rightarrow> ('w \<times> 'l) redis" where
  "redis_fst R = \<lparr>
     r_get = (\<lambda>k w. r_get R k (fst w)), r_set = (\<lambda>k v w. (r_set R k v (fst w), snd w)),
     r_setex = (\<lambda>k n v w. (r_setex R k n v (fst w), snd w)),
     r_setnx = (\<lambda>k n v w. (fst (r_setnx R k n v (fst w)), snd (r_setnx R k n v (fst w)), snd w)),
     r_delete = (\<lambda>k w. (r_delete R k (fst w), snd w)), r_lrange = (\<lambda>k w. r_lrange R k (fst w)),
     r_rpush = (\<lambda>k x w. (r_rpush R k x (fst w), snd w)),
     r_hget = (\<lambda>k f w. r_hget R k f (fst w)), r_hgetall = (\<lambda>k w. r_hgetall R k (fst w)),
     r_hset = (\<lambda>k f v w. (r_hset R k f v (fst w), snd w)), r_hdel = (\<lambda>k f w. (r_hdel R k f (fst w), snd w)),
     r_expire = (\<lambda>k n w. (r_expire R k n (fst w), snd w)), r_keys = (\<lambda>p w. r_keys R p (fst w))\<rparr>"

definition patch_key :: "string \<Rightarrow> string \<Rightarrow> string" where
  "patch_key sid pid = ''patches:'' @ sid @ '':'' @ pid"

definition persist_patch :: "'w patch_env \<Rightarrow> patch \<Rightarrow> 'w \<Rightarrow> 'w" where
  "persist_patch E p w =
     (case pe_redis E of None \<Rightarrow> w
      | Some R \<Rightarrow> r_set R (patch_key (pt_session p) (pt_id p)) (JObj (patch_dict p)) w)"

definition unpersist_patch :: "'w patch_env \<Rightarrow> patch \<Rightarrow> 'w \<Rightarrow> 'w" where
  "unpersist_patch E p w =
     (case pe_redis E of None \<Rightarrow> w | Some R \<Rightarrow> r_delete R (patch_key (pt_session p) (pt_id p)) w)"

definition recover_from_redis :: "'w patch_env \<Rightarrow> string \<Rightarrow> 'w \<Rightarrow> nat" where
  "recover_from_redis E sid w =
     (case pe_redis E of
        None \<Rightarrow> 0
      | Some R \<Rightarrow> length (filter (\<lambda>k. case r_get R k w of
            Some (JObj d) \<Rightarrow> map_of d ''status'' = Some (JStr ''pending'') | _ \<Rightarrow> False)
          (r_keys R (''patches:'' @ sid @ '':'') w)))"

section \<open>Enqueueing\<close>

definition queue_full_error :: "'w patch_env \<Rightarrow> exn" where
  "queue_full_error E = PatchValidationError (''Patch queue full ('' @ nat_str (pe_max_depth E)
     @ '' patches pending). Process existing patches before submitting more.'')"

text \<open>
  The lock is taken once for the depth check and again for the append; the snapshot of
  the files runs in between.
\<close>

definition enqueue_check :: "'w patch_env \<Rightarrow> string \<Rightarrow> patch_queue \<Rightarrow> unit result" where
  "enqueue_check E diff q =
     bind_result (validate_patch diff) (\<lambda>_.
       if length (pq_queue q) \<ge> pe_max_depth E then Inl (queue_full_error E) else Inr ())"

definition make_patch :: "'w patch_env \<Rightarrow> string \<Rightarrow> string \<Rightarrow> string \<Rightarrow> string \<Rightarrow> string \<Rightarrow> 'w \<Rightarrow> patch \<times> 'w" where
  "make_patch E diff agent tid sid descr w =
     (case (if tid = [] then pe_uuid E w else (tid, w)) of (tid', w1) \<Rightarrow>
      case pe_uuid E w1 of (u, w2) \<Rightarrow>
        let p = \<lparr>pt_id = ''patch-'' @ take 8 u, pt_diff = normalize_diff diff, pt_agent = agent,
                 pt_task = tid', pt_session = sid, pt_descr = descr, pt_created = pe_now E w2,
                 pt_status = PPending, pt_retries = 0, pt_error = None, pt_hashes = []\<rparr>;
            affected = extract_file_paths_from_diff diff
        in if affected = [] then (p, w2)
           else case snapshot_file_hashes E affected [] w2 of (h, w3) \<Rightarrow> (p\<lparr>pt_hashes := h\<rparr>, w3))"

definition enqueue_append :: "patch \<Rightarrow> patch_queue \<Rightarrow> nat \<times> patch_queue" where
  "enqueue_append p q =
     (let a = length (pq_store q) in
      (a, q\<lparr>pq_store := pq_store q @ [p], pq_queue := pq_queue q @ [a],
            pq_patches := dict_set (pq_patches q) (pt_id p) a\<rparr>))"

definition enqueue :: "'w patch_env \<Rightarrow> string \<Rightarrow> string \<Rightarrow> string \<Rightarrow> string \<Rightarrow> string
    \<Rightarrow> patch_queue \<Rightarrow> 'w \<Rightarrow> nat result \<times> patch_queue \<times> 'w" where
  "enqueue E diff agent tid sid descr q w =
     (case enqueue_check E diff q of
        Inl e \<Rightarrow> (Inl e, q, w)
      | Inr _ \<Rightarrow>
          (case make_patch E diff agent tid sid descr w of (p, w1) \<Rightarrow>
           case enqueue_append p q of (a, q1) \<Rightarrow> (Inr a, q1, persist_patch E p w1)))"

section \<open>Applying\<close>

definition publish_patch_applied :: "'w patch_env \<Rightarrow> patch \<Rightarrow> 'w \<Rightarrow> 'w" where
  "publish_patch_applied E p w =
     (case pe_publish E of None \<Rightarrow> w
      | Some pub \<Rightarrow> pub (pt_session p) (pt_agent p)
          [(''patch_id'', JStr (pt_id p)), (''task_id'', JStr (pt_task p)),
           (''files'', JList (map JStr (extract_file_paths_from_diff (pt_diff p)))),
           (''description'', JStr (pt_descr p))] w)"

definition with_action :: "patch \<Rightarrow> string \<Rightarrow> json dict" where
  "with_action p act = dict_set (patch_dict p) ''action'' (JStr act)"

definition is_applied :: "json dict \<Rightarrow> bool" where
  "is_applied d = (case map_of d ''applied'' of None \<Rightarrow> False | Some j \<Rightarrow> truthy j)"

text \<open>\<open>get("message", default)\<close>, read as the text it is stored as.\<close>

definition message_or :: "json dict \<Rightarrow> string \<Rightarrow> string option" where
  "message_or d def = (case map_of d ''message'' of None \<Rightarrow> Some def | Some j \<Rightarrow> jstr j)"

definition settle :: "'w patch_env \<Rightarrow> nat \<Rightarrow> patch \<Rightarrow> json dict \<Rightarrow> patch_queue \<Rightarrow> 'w
    \<Rightarrow> json dict \<times> patch_queue \<times> 'w" where
  "settle E a p res q w = (res, pq_put a p q, unpersist_patch E p w)"

definition apply_patch :: "'w patch_env \<Rightarrow> nat \<Rightarrow> patch_queue \<Rightarrow> 'w \<Rightarrow> json dict \<times> patch_queue \<times> 'w" where
  "apply_patch E a q w =
     (let p = pq_get q a;
          crash = (\<lambda>e w. let p' = p\<lparr>pt_status := PRejected, pt_error := Some (exn_text e)\<rparr> in
             settle E a p' (dict_set (with_action p' ''error'') ''error'' (JStr (exn_text e))) q w);
          reject = (\<lambda>d def w. let p' = p\<lparr>pt_status := PRejected, pt_error := message_or d def\<rparr> in
             settle E a p' (with_action p' ''rejected'') q w)
      in case check_conflict E p w of
        (True, w1) \<Rightarrow>
          (let p1 = p\<lparr>pt_retries := pt_retries p + 1\<rparr> in
           if pt_retries p1 \<ge> max_retries
           then let p2 = p1\<lparr>pt_status := PConflict,
                            pt_error := Some (''Max retries exceeded '' @ em_dash @ '' flagged for human review'')\<rparr>
                in settle E a p2 (with_action p2 ''needs_review'') q w1
           else let p2 = p1\<lparr>pt_status := PPending\<rparr> in (with_action p2 ''requeued'', pq_put a p2 q, w1))
      | (False, w1) \<Rightarrow>
          (case pe_apply E (pt_diff p) ''sandbox'' w1 of
             (Inl e, w2) \<Rightarrow> crash e w2
           | (Inr sandbox, w2) \<Rightarrow>
               if \<not> is_applied sandbox then reject sandbox ''Sandbox check failed'' w2
               else case pe_apply E (pt_diff p) ''live'' w2 of
                 (Inl e, w3) \<Rightarrow> crash e w3
               | (Inr live, w3) \<Rightarrow>
                   if \<not> is_applied live then reject live ''Live apply failed'' w3
                   else let p' = p\<lparr>pt_status := PApplied\<rparr> in
                     (with_action p' ''applied'', pq_put a p' q,
                      publish_patch_applied E p' (unpersist_patch E p' w3))))"

text \<open>The first pending patch; the guard only says that addresses are allocated.\<close>

definition next_pending :: "patch_queue \<Rightarrow> nat option" where
  "next_pending q =
     find (\<lambda>a. a < length (pq_store q) \<and> pt_status (pq_get q a) = PPending) (pq_queue q)"

definition process_next :: "'w patch_env \<Rightarrow> patch_queue \<Rightarrow> 'w \<Rightarrow> json dict option \<times> patch_queue \<times> 'w" where
  "process_next E q w =
     (case next_pending q of
        None \<Rightarrow> (None, q, w)
      | Some a \<Rightarrow>
          (case apply_patch E a (pq_put a ((pq_get q a)\<lparr>pt_status := PProcessing\<rparr>) q) w of
             (r, q', w') \<Rightarrow> (Some r, q', w')))"

text \<open>What a patch can still cost: a pending patch is taken up at most \<open>max_retries\<close> times.\<close>

definition patch_weight :: "patch \<Rightarrow> nat" where
  "patch_weight p = (if pt_status p = PPending then max 1 (max_retries - pt_retries p) else 0)"

definition queue_weight :: "patch_queue \<Rightarrow> nat" where
  "queue_weight q = sum_list (map (\<lambda>a. patch_weight (pq_get q a)) (pq_queue q))"

definition handled :: "patch \<Rightarrow> patch \<Rightarrow> bool" where
  "handled p p' \<longleftrightarrow> pt_status p' \<noteq> PProcessing \<and> pt_diff p' = pt_diff p \<and> pt_id p' = pt_id p \<and>
     pt_session p' = pt_session p \<and>
     (pt_status p' = PPending \<longrightarrow> pt_retries p' = pt_retries p + 1 \<and> pt_retries p' < max_retries)"

lemma pq_put_simps [simp]:
  "pq_queue (pq_put a p q) = pq_queue q" "pq_patches (pq_put a p q) = pq_patches q"
  "length (pq_store (pq_put a p q)) = length (pq_store q)"
  "a < length (pq_store q) \<Longrightarrow> pq_get (pq_put a p q) a = p"
  "b \<noteq> a \<Longrightarrow> pq_get (pq_put a p q) b = pq_get q b"
  "pq_put a p (pq_put a p' q) = pq_put a p q"
  by (simp_all add: pq_put_def pq_get_def)

lemma apply_patch_handled:
  "apply_patch E a q w = (r, q', w') \<Longrightarrow> \<exists>p'. q' = pq_put a p' q \<and> handled (pq_get q a) p'"
  unfolding apply_patch_def settle_def
  by (auto simp: Let_def handled_def split: prod.splits bool.splits sum.splits if_splits)

lemma process_next_Some:
  assumes "process_next E q w = (Some r, q', w')"
  obtains a p' where "a \<in> set (pq_queue q)" "a < length (pq_store q)" "pt_status (pq_get q a) = PPending"
    "q' = pq_put a p' q" "handled (pq_get q a) p'"
proof -
  from assms obtain a where a: "next_pending q = Some a"
    by (auto simp: process_next_def split: option.splits)
  then have mem: "a \<in> set (pq_queue q)" "a < length (pq_store q)" "pt_status (pq_get q a) = PPending"
    by (auto simp: next_pending_def dest!: find_SomeD)
  let ?p = "(pq_get q a)\<lparr>pt_status := PProcessing\<rparr>"
  obtain p' where "q' = pq_put a p' (pq_put a ?p q)" "handled (pq_get (pq_put a ?p q) a) p'"
    using assms a apply_patch_handled [of E a "pq_put a ?p q" w]
    by (auto simp: process_next_def split: prod.splits)
  with mem show thesis by (intro that [OF mem, of p']) (auto simp: handled_def)
qed

lemma process_next_weight:
  assumes "process_next E q w = (Some r, q', w')"
  shows "queue_weight q' < queue_weight q"
proof -
  obtain a p' where a: "a \<in> set (pq_queue q)" "a < length (pq_store q)" "pt_status (pq_get q a) = PPending"
    "q' = pq_put a p' q" "handled (pq_get q a) p'"
    by (rule process_next_Some [OF assms])
  have less: "patch_weight (pq_get q' a) < patch_weight (pq_get q a)"
    using a by (auto simp: patch_weight_def handled_def max_retries_def)
  moreover have "patch_weight (pq_get q' b) \<le> patch_weight (pq_get q b)" for b
    using a(4) less by (cases "b = a") auto
  moreover have "pq_queue q' = pq_queue q" using a(4) by simp
  ultimately show ?thesis
    unfolding queue_weight_def using a(1) by (simp only:) (rule sum_list_strict_mono_at)
qed

function process_all :: "'w patch_env \<Rightarrow> json dict list \<Rightarrow> patch_queue \<Rightarrow> 'w \<Rightarrow> json dict list \<times> patch_queue \<times> 'w" where
  "process_all E results q w =
     (case process_next E q w of
        (None, q', w') \<Rightarrow> (results, q', w')
      | (Some r, q', w') \<Rightarrow> process_all E (results @ [r]) q' w')"
  by pat_completeness auto
termination
  by (relation "measure (\<lambda>(E, results, q, w). queue_weight q)")
    (simp, metis in_measure case_prod_conv process_next_weight)

declare process_all.simps [simp del]

section \<open>The test-fix loop\<close>

definition fix_task :: "string \<Rightarrow> string" where
  "fix_task stderr =
     ''The following tests failed after applying your patch.'' @ [nl] @
     ''Produce a unified diff that fixes only the failing tests.'' @ [nl, nl] @
     ''Test output:'' @ [nl] @ ''```'' @ [nl] @ take 3000 stderr @ [nl] @ ''```''"

definition text_or :: "json dict \<Rightarrow> string \<Rightarrow> string" where
  "text_or d k = (case map_of d k of Some (JStr s) \<Rightarrow> s | _ \<Rightarrow> [])"

definition fix_report :: "json dict \<Rightarrow> bool \<Rightarrow> nat \<Rightarrow> string \<Rightarrow> json dict" where
  "fix_report d passed attempts summary =
     dict_update d [(''test_passed'', JBool passed), (''attempts'', JInt (int attempts)),
                    (''test_summary'', JStr summary)]"

definition give_up :: "'w patch_env \<Rightarrow> nat \<Rightarrow> nat \<Rightarrow> string \<Rightarrow> patch_queue \<Rightarrow> 'w
    \<Rightarrow> json dict result \<times> patch_queue \<times> 'w" where
  "give_up E a attempt summary q w =
     (let p = (pq_get q a)\<lparr>pt_status := PConflict,
                pt_error := Some (''Tests still failing after '' @ nat_str attempt
                  @ '' fix attempt(s) '' @ em_dash @ '' flagged for human review'')\<rparr>
      in (Inr (fix_report (with_action p ''needs_review'') False attempt summary),
          pq_put a p q, unpersist_patch E p w))"

text \<open>One attempt: apply the patch and run the tests.\<close>

datatype attempt_end = AReturn "json dict result" | AFailed string string \<comment> \<open>summary, test output\<close>

definition try_patch :: "'w patch_env \<Rightarrow> string \<Rightarrow> nat \<Rightarrow> nat \<Rightarrow> patch_queue \<Rightarrow> 'w
    \<Rightarrow> attempt_end \<times> patch_queue \<times> 'w" where
  "try_patch E pattern attempt a q w =
     (case apply_patch E a q w of (applied, q1, w1) \<Rightarrow>
        if map_of applied ''action'' \<noteq> Some (JStr ''applied'')
        then (AReturn (Inr (fix_report applied False attempt [])), q1, w1)
        else
          (case pe_run_tests E pattern 120 w1 of
             (Inl e, w2) \<Rightarrow> (AReturn (Inl e), q1, w2)
           | (Inr test, w2) \<Rightarrow>
               (let summary = text_or test ''summary'';
                    passed = (case map_of test ''passed'' of None \<Rightarrow> False | Some j \<Rightarrow> truthy j);
                    stderr = (if text_or test ''stderr'' \<noteq> [] then text_or test ''stderr''
                              else text_or test ''stdout'')
                in if passed then (AReturn (Inr (fix_report applied True attempt summary)), q1, w2)
                   else (AFailed summary stderr, q1, w2))))"

text \<open>Asking the coder for a fix and enqueueing its first diff.\<close>

datatype fix_end = FixRaise exn | FixNone | FixNext nat

definition ask_fix :: "'w patch_env \<Rightarrow> string \<Rightarrow> nat \<Rightarrow> string \<Rightarrow> nat \<Rightarrow> patch_queue \<Rightarrow> 'w
    \<Rightarrow> fix_end \<times> patch_queue \<times> 'w" where
  "ask_fix E pid0 attempt stderr a q w =
     (let p = pq_get q a in
      case pe_spawn E ''coder'' (fix_task stderr) (pt_session p) w of
        (Inl e, w1) \<Rightarrow> (FixRaise e, q, w1)
      | (Inr res, w1) \<Rightarrow>
          (case extract_diffs_from_result (case res_result res of None \<Rightarrow> [] | Some s \<Rightarrow> s) of
             [] \<Rightarrow> (FixNone, q, w1)
           | d # _ \<Rightarrow>
               (case enqueue E d ''coder-fix'' (pt_task p) (pt_session p)
                       (''Auto-fix attempt '' @ nat_str attempt @ '' for '' @ pid0) q w1 of
                  (Inl e, q1, w2) \<Rightarrow> (FixNone, q1, w2)
                | (Inr b, q1, w2) \<Rightarrow> (FixNext b, q1, w2))))"

text \<open>
  The loop with \<open>left\<close> attempts left.  An exception of \<open>run_tests\<close> or of the agent
  manager leaves it; no diff, or one that cannot be enqueued, ends it.
\<close>

fun test_fix_iter :: "'w patch_env \<Rightarrow> string \<Rightarrow> string \<Rightarrow> nat \<Rightarrow> nat \<Rightarrow> string \<Rightarrow> nat
    \<Rightarrow> patch_queue \<Rightarrow> 'w \<Rightarrow> json dict result \<times> patch_queue \<times> 'w" where
  "test_fix_iter E pid0 pattern 0 attempt summary a q w = give_up E a attempt summary q w"
| "test_fix_iter E pid0 pattern (Suc left) attempt summary a q w =
     (case try_patch E pattern (attempt + 1) a q w of
        (AReturn r, q1, w1) \<Rightarrow> (r, q1, w1)
      | (AFailed summary stderr, q1, w1) \<Rightarrow>
          if left = 0 then give_up E a (attempt + 1) summary q1 w1
          else (case ask_fix E pid0 (attempt + 1) stderr a q1 w1 of
                  (FixRaise e, q2, w2) \<Rightarrow> (Inl e, q2, w2)
                | (FixNone, q2, w2) \<Rightarrow> give_up E a (attempt + 1) summary q2 w2
                | (FixNext b, q2, w2) \<Rightarrow>
                    test_fix_iter E pid0 pattern left (attempt + 1) summary b q2 w2))"

definition test_fix_loop :: "'w patch_env \<Rightarrow> nat \<Rightarrow> string \<Rightarrow> nat option \<Rightarrow> patch_queue \<Rightarrow> 'w
    \<Rightarrow> json dict result \<times> patch_queue \<times> 'w" where
  "test_fix_loop E a pattern max_attempts q w =
     (let n = (case max_attempts of None \<Rightarrow> pe_max_fix E | Some m \<Rightarrow> m) in
      test_fix_iter E (pt_id (pq_get q a)) pattern n 0 [] a q w)"

section \<open>Queries\<close>

definition get_patch :: "patch_queue \<Rightarrow> string \<Rightarrow> patch option" where
  "get_patch q pid = map_option (pq_get q) (map_of (pq_patches q) pid)"

definition list_patches :: "patch_queue \<Rightarrow> string option \<Rightarrow> json dict list" where
  "list_patches q sid =
     (let ps = map (pq_get q) (dict_values (pq_patches q)) in
      map patch_dict (case sid of
          None \<Rightarrow> ps
        | Some s \<Rightarrow> if s = [] then ps else filter (\<lambda>p. pt_session p = s) ps))"

definition queue_depth :: "patch_queue \<Rightarrow> (string \<times> nat) list" where
  "queue_depth q =
     (let st = map (\<lambda>a. pt_status (pq_get q a)) (pq_queue q) in
      [(''total'', length (pq_queue q)), (''pending'', count_list st PPending),
       (''applied'', count_list st PApplied), (''rejected'', count_list st PRejected),
       (''conflict'', count_list st PConflict)])"

section \<open>Properties of single operations\<close>

lemma replace_char_clean: "c \<notin> set new \<Longrightarrow> c \<notin> set (replace [c] new s)"
  by (induction "[c]" new s rule: replace.induct) auto

lemma normalize_no_cr: "cr \<notin> set (normalize_diff d)"
  unfolding normalize_diff_def by (rule replace_char_clean) (simp add: cr_def nl_def)

lemma make_patch_fields:
  "make_patch E diff agent tid sid descr w = (p, w') \<Longrightarrow>
   pt_status p = PPending \<and> pt_diff p = normalize_diff diff \<and> pt_retries p = 0 \<and> pt_session p = sid \<and>
   pt_agent p = agent \<and> (tid \<noteq> [] \<longrightarrow> pt_task p = tid)"
  by (auto simp: make_patch_def Let_def split: prod.splits if_splits)

lemma enqueue_append_simps:
  "enqueue_append p q = (a, q') \<Longrightarrow> a = length (pq_store q) \<and> pq_queue q' = pq_queue q @ [a] \<and>
     pq_get q' a = p \<and> pq_store q' = pq_store q @ [p]"
  by (auto simp: enqueue_append_def Let_def pq_get_def)

lemma enqueue_cases:
  assumes "enqueue E diff agent tid sid descr q w = (r, q', w')"
  obtains (refused) e where "r = Inl e" "q' = q" "w' = w" "enqueue_check E diff q = Inl e"
    | (added) p w1 where "enqueue_check E diff q = Inr ()" "make_patch E diff agent tid sid descr w = (p, w1)"
      "r = Inr (length (pq_store q))" "q' = snd (enqueue_append p q)" "w' = persist_patch E p w1"
  using assms by (auto simp: enqueue_def enqueue_append_def Let_def split: sum.splits prod.splits)

lemma enqueue_check_Inr:
  "enqueue_check E diff q = Inr () \<longleftrightarrow> validate_patch diff = Inr () \<and> length (pq_queue q) < pe_max_depth E"
  by (auto simp: enqueue_check_def not_le)

lemma process_next_queue:
  "process_next E q w = (r, q', w') \<Longrightarrow> pq_queue q' = pq_queue q \<and> length (pq_store q') = length (pq_store q)"
proof (cases r)
  case None
  then show "process_next E q w = (r, q', w') \<Longrightarrow> ?thesis"
    by (auto simp: process_next_def split: option.splits prod.splits)
next
  case (Some x)
  then show "process_next E q w = (r, q', w') \<Longrightarrow> ?thesis"
    by (auto elim!: process_next_Some)
qed

lemma process_all_spec:
  "process_all E rs q w = (rs', q', w') \<Longrightarrow>
   next_pending q' = None \<and> pq_queue q' = pq_queue q \<and> length (pq_store q') = length (pq_store q)"
proof (induction E rs q w rule: process_all.induct)
  case (1 E rs q w)
  obtain r q1 w1 where n: "process_next E q w = (r, q1, w1)" by (metis prod_cases3)
  show ?case
  proof (cases r)
    case None
    then show ?thesis using 1(2) n process_next_queue [OF n]
      by (auto simp: process_all.simps [of E rs q] process_next_def split: option.splits prod.splits)
  next
    case (Some x)
    then show ?thesis using 1 n process_next_queue [OF n] by (simp add: process_all.simps [of E rs q])
  qed
qed

section \<open>A small environment for the witnesses\<close>

text \<open>The world is the log of the executor calls; the executor accepts everything.\<close>

definition ok_answer :: "json dict result" where
  "ok_answer = Inr [(''applied'', JBool True), (''passed'', JBool False), (''summary'', JStr ''1 failed'')]"

definition small_diff :: string where
  "small_diff = ''--- a/f'' @ [nl] @ ''+++ b/f'' @ [nl] @ ''@@ -1 +1 @@'' @ [nl] @ ''-x'' @ [nl] @ ''+y'' @ [nl]"

definition small_env :: "string list patch_env" where
  "small_env = \<lparr>
     pe_read_file = (\<lambda>path w. (Inr [(''content'', JStr ''x'')], w)),
     pe_apply = (\<lambda>d target w. (ok_answer, w @ [target])),
     pe_run_tests = (\<lambda>pattern t w. (ok_answer, w @ [''tests''])),
     pe_spawn = (\<lambda>role task sid w. (Inr \<lparr>res_status = ''done'',
        res_result = Some (''```diff'' @ [nl] @ small_diff @ ''```''), res_error = None\<rparr>, w @ [role])),
     pe_redis = None, pe_publish = None, pe_sha256 = (\<lambda>s. s), pe_uuid = (\<lambda>w. (''0123456789'', w)),
     pe_now = (\<lambda>_. 0), pe_max_depth = 2, pe_max_fix = 2\<rparr>"

definition empty_queue :: patch_queue where
  "empty_queue = \<lparr>pq_store = [], pq_queue = [], pq_patches = []\<rparr>"

definition one_patch :: patch_queue where
  "one_patch = fst (snd (enqueue small_env small_diff ''a'' ''t'' ''s'' [] empty_queue []))"

definition two_patches :: patch_queue where
  "two_patches = fst (snd (enqueue small_env small_diff ''a'' ''t'' ''s'' [] one_patch []))"

lemma small_diff_valid: "validate_patch small_diff = Inr ()"
  by code_simp

section \<open>Properties of the queue\<close>

text \<open>C10: \<open>process_all\<close> returns for every executor, and when it does no patch of the queue is
  pending any more: conflicts are retried a bounded number of times, and the queue itself
  is as it was.\<close>

theorem process_all_settles:
  "filter (\<lambda>a. a < length (pq_store (fst (snd (process_all E [] q w)))) \<and>
       pt_status (pq_get (fst (snd (process_all E [] q w))) a) = PPending)
     (pq_queue (fst (snd (process_all E [] q w)))) = [] \<and>
   pq_queue (fst (snd (process_all E [] q w))) = pq_queue q"
proof -
  obtain rs q' w' where "process_all E [] q w = (rs, q', w')" by (metis prod_cases3)
  with process_all_spec [OF this] show ?thesis
    by (auto simp: next_pending_def find_None_iff filter_empty_conv)
qed

text \<open>Enqueueing while no other call of the queue runs; \<open>Patch_Props\<close> has the calls that overlap.\<close>

lemma enqueue_alone:
  assumes "enqueue E diff agent tid sid descr q w = (r, q', w')"
  shows "case r of
      Inl e \<Rightarrow> q' = q \<and> w' = w
    | Inr a \<Rightarrow> validate_patch diff = Inr () \<and> pq_queue q' = pq_queue q @ [a] \<and>
        length (pq_queue q') \<le> pe_max_depth E \<and> pt_status (pq_get q' a) = PPending \<and>
        pt_session (pq_get q' a) = sid \<and> cr \<notin> set (pt_diff (pq_get q' a))"
  using assms
proof (cases rule: enqueue_cases)
  case (added p w1)
  obtain a q1 where a: "enqueue_append p q = (a, q1)" by fastforce
  from added a make_patch_fields [OF added(2)] enqueue_append_simps [OF a] show ?thesis
    by (auto simp: enqueue_check_Inr normalize_no_cr)
qed simp

text \<open>C11: the sandbox comes first.  When the sandbox answers and does not report the patch as applied, the
  patch is rejected and the world is the one the sandbox left, without its Redis record:
  the live workspace is never asked.\<close>

theorem sandbox_before_live:
  assumes "check_conflict E (pq_get q a) w = (False, w1)"
    and "pe_apply E (pt_diff (pq_get q a)) ''sandbox'' w1 = (Inr answer, w2)" "\<not> is_applied answer"
  shows "map_of (fst (apply_patch E a q w)) ''action'' = Some (JStr ''rejected'') \<and>
    snd (snd (apply_patch E a q w)) = unpersist_patch E (pq_get q a) w2"
  using assms
  by (simp add: apply_patch_def settle_def Let_def with_action_def unpersist_patch_def split: option.splits)

theorem sandbox_before_live_witness:
  "snd (snd (apply_patch (small_env\<lparr>pe_apply := \<lambda>d target w. (Inr [], w @ [target])\<rparr>) 0 one_patch []))
     = [''sandbox'']"
proof -
  let ?E = "small_env\<lparr>pe_apply := \<lambda>d target w. (Inr [], w @ [target])\<rparr>"
  have "check_conflict ?E (pq_get one_patch 0) [] = (False, [])" by code_simp
  from sandbox_before_live [OF this, of "[]" "[''sandbox'']"] show ?thesis
    by (simp add: is_applied_def unpersist_patch_def small_env_def)
qed

section \<open>Limits of the depth guard\<close>

text \<open>The depth guard counts every patch ever enqueued.  Once \<open>MAX_PATCH_QUEUE_DEPTH\<close>
  patches were accepted, every further enqueue is refused, even after all of them have
  been processed.\<close>

theorem full_queue_never_drains:
  assumes "pe_max_depth E \<le> length (pq_queue q)" "process_all E [] q w = (rs, q', w')"
    and "validate_patch diff = Inr ()"
  shows "fst (enqueue E diff agent tid sid descr q' w'') = Inl (queue_full_error E)"
  using assms process_all_spec [OF assms(2)] by (simp add: enqueue_def enqueue_check_def)

theorem full_queue_never_drains_witness:
  "fst (enqueue small_env small_diff ''a'' ''t'' ''s'' [] (fst (snd (process_all small_env [] two_patches []))) [])
   = Inl (queue_full_error small_env)"
proof -
  have "pe_max_depth small_env \<le> length (pq_queue two_patches)" by code_simp
  moreover obtain rs q' w' where "process_all small_env [] two_patches [] = (rs, q', w')" by (metis prod_cases3)
  ultimately show ?thesis using full_queue_never_drains [OF _ _ small_diff_valid] by fastforce
qed

text \<open>The check and the append are separate critical sections.  Two calls that both pass
  the check before either appends take the queue beyond its limit.\<close>

theorem enqueue_race:
  assumes "enqueue_check E d1 q = Inr ()" "enqueue_check E d2 q = Inr ()"
    and "length (pq_queue q) + 1 = pe_max_depth E"
  shows "pe_max_depth E < length (pq_queue (snd (enqueue_append p2 (snd (enqueue_append p1 q)))))"
  using assms by (simp add: enqueue_append_def Let_def)

theorem enqueue_race_witness:
  "pe_max_depth small_env < length (pq_queue (snd (enqueue_append (pq_get one_patch 0)
     (snd (enqueue_append (pq_get one_patch 0) one_patch)))))"
proof -
  have "enqueue_check small_env small_diff one_patch = Inr ()" by code_simp
  moreover have "length (pq_queue one_patch) + 1 = pe_max_depth small_env" by code_simp
  ultimately show ?thesis using enqueue_race by blast
qed

section \<open>The queue as the scheduler sees it\<close>

text \<open>\<open>enqueue\<close> as an operation on the scheduler's world, the answer being \<open>to_dict()\<close>.\<close>

definition queue_enqueue :: "'w patch_env \<Rightarrow> string \<Rightarrow> string \<Rightarrow> string \<Rightarrow> string \<Rightarrow> string
    \<Rightarrow> 'w \<times> patch_queue \<Rightarrow> json dict result \<times> 'w \<times> patch_queue" where
  "queue_enqueue E diff agent tid sid descr wq =
     (case wq of (w, q) \<Rightarrow>
      case enqueue E diff agent tid sid descr q w of
        (Inl e, q', w') \<Rightarrow> (Inl e, w', q')
      | (Inr a, q', w') \<Rightarrow> (Inr (patch_dict (pq_get q' a)), w', q'))"

lemma patch_dict_error: "''error'' \<in> fst ` set (patch_dict p)"
  by (simp add: patch_dict_def)

lemma enqueue_diffs_error:
  assumes "\<And>diff agent tid sid descr w d w'. enq diff agent tid sid descr w = (Inr d, w') \<Longrightarrow> ''error'' \<in> fst ` set d"
  shows "enqueue_diffs enq sid t found w = (rs, w2) \<Longrightarrow> list_all (\<lambda>r. ''error'' \<in> fst ` set r) rs"
proof (induction found arbitrary: w rs w2)
  case (Cons x found)
  obtain r w1 where r: "enq x (task_id t) (task_id t) sid
      (''Auto-patch from task '' @ task_id t @ '' ('' @ task_role t @ '')'') w = (r, w1)" by fastforce
  obtain ds w3 where ds: "enqueue_diffs enq sid t found w1 = (ds, w3)" by fastforce
  have "rs = (case r of Inr d \<Rightarrow> d | Inl e \<Rightarrow> [(''error'', JStr (exn_text e))]) # ds"
    using Cons.prems r ds by (simp add: Let_def)
  moreover have "''error'' \<in> fst ` set (case r of Inr d \<Rightarrow> d | Inl e \<Rightarrow> [(''error'', JStr (exn_text e))])"
    using assms r by (cases r) auto
  ultimately show ?case using Cons.IH [OF ds] by simp
qed simp

lemma run_patches_cases:
  assumes "run_single_task T sid t w = (Inr x, w')"
  shows "run_patches x = None \<or> (\<exists>out w2. let prs = fst (auto_apply_patches T sid t out w2) in
    run_patches x = Some (patches_ok prs, length prs - patches_ok prs))"
proof -
  obtain b w1 where a: "acquire_task_lease (te_redis T) (te_lease_ttl T) sid (task_id t) (te_uuid T w) w = (b, w1)"
    by fastforce
  obtain r w2 where s: "te_spawn T (task_role t) (task_desc t) sid w1 = (r, w2)" by fastforce
  show ?thesis
  proof (cases b)
    case False
    with assms a show ?thesis by (auto simp: run_single_task_def)
  next
    case True
    show ?thesis
    proof (cases r)
      case (Inl e)
      with assms a s True show ?thesis by (simp add: run_single_task_def)
    next
      case (Inr res)
      define out where "out = (case res_result res of None \<Rightarrow> [] | Some s \<Rightarrow> s)"
      obtain prs w3 where p: "auto_apply_patches T sid t out w2 = (prs, w3)" by fastforce
      have "run_patches x = Some (patches_ok prs, length prs - patches_ok prs)"
        using assms a s True Inr p
        by (cases "res_status res = ''done''") (auto simp: run_single_task_def Let_def out_def)
      then show ?thesis using p by (metis (no_types, lifting) fst_conv)
    qed
  qed
qed

text \<open>C19: the report of a task never counts a patch as applied.  \<open>_run_single_task\<close> takes a
  result without the key \<open>error\<close> as a success, and \<open>Patch.to_dict\<close> always has that key, so
  with the repository's own queue \<open>patches_applied\<close> is zero however many diffs were
  enqueued.\<close>

theorem patches_applied_zero:
  assumes "te_enqueue T = Some (queue_enqueue E)" "run_single_task T sid t w = (Inr x, w')"
  shows "run_patches x \<in> {None} \<union> {Some (0, k) | k. True}"
proof -
  have dict: "''error'' \<in> fst ` set d" if "queue_enqueue E diff agent tid sid' descr w1 = (Inr d, w2)"
    for diff agent tid sid' descr w1 d w2
    using that patch_dict_error by (auto simp: queue_enqueue_def split: prod.splits sum.splits)
  have "patches_ok (fst (auto_apply_patches T sid t out w)) = 0" for out w
  proof -
    have "list_all (\<lambda>r. ''error'' \<in> fst ` set r) (fst (enqueue_diffs (queue_enqueue E) sid t found w))" for found
      by (rule enqueue_diffs_error [OF dict prod.collapse [symmetric]])
    then show ?thesis
      using assms(1) by (auto simp: auto_apply_patches_def patches_ok_def Let_def filter_empty_conv list_all_iff)
  qed
  then show ?thesis using run_patches_cases [OF assms(2)] by (auto simp: Let_def)
qed

definition queue_task_env :: "(mem \<times> patch_queue) task_env" where
  "queue_task_env = \<lparr>te_redis = redis_fst mem_redis,
     te_spawn = (\<lambda>role desc sid w. (Inr \<lparr>res_status = ''done'',
        res_result = Some (''```diff'' @ [nl] @ small_diff @ ''```''), res_error = None\<rparr>, w)),
     te_enqueue = Some (queue_enqueue \<lparr>
       pe_read_file = (\<lambda>path w. (Inr [(''content'', JStr ''x'')], w)), pe_apply = (\<lambda>d target w. (ok_answer, w)),
       pe_run_tests = (\<lambda>pattern t w. (ok_answer, w)),
       pe_spawn = (\<lambda>role task sid w. (Inl (RuntimeError []), w)), pe_redis = Some mem_redis, pe_publish = None,
       pe_sha256 = (\<lambda>s. s), pe_uuid = (\<lambda>w. (''0123456789'', w)), pe_now = (\<lambda>_. 0), pe_max_depth = 2,
       pe_max_fix = 2\<rparr>),
     te_uuid = (\<lambda>_. ''w''), te_lease_ttl = 600, te_max_parallel = 1, te_sched = (\<lambda>_ _. 0)\<rparr>"

theorem patches_applied_zero_witness:
  "run_patches (projr (fst (run_single_task queue_task_env ''s''
     \<lparr>task_id = ''a'', task_role = ''coder'', task_desc = ''d'', task_deps = [], task_status = Running,
      task_result = None\<rparr> ([], empty_queue)))) \<in> {None} \<union> {Some (0, k) | k. True}"
proof -
  let ?t = "\<lparr>task_id = ''a'', task_role = ''coder'', task_desc = ''d'', task_deps = [], task_status = Running,
      task_result = None\<rparr> :: task"
  let ?r = "run_single_task queue_task_env ''s'' ?t ([], empty_queue)"
  have "isl (fst ?r) = False" by code_simp
  then have "?r = (Inr (projr (fst ?r)), snd ?r)" by (simp add: prod_eq_iff)
  from patches_applied_zero [OF _ this] show ?thesis by (simp add: queue_task_env_def)
qed

end
