(* ===== verification/Patch_Props.thy ===== *)
theory Patch_Props
  imports Patch_Queue
begin

text \<open>
  What \<open>orchestrator/patch_queue.py\<close> promises beyond a single call: enqueue calls that overlap, as a
  step relation whose steps are the stretches of \<open>enqueue\<close> between its critical sections, and the
  calls the test-fix loop makes to the executor and the coder, read off a log that an instrumented
  environment keeps beside the world.
\<close>

section \<open>Enqueue calls that overlap\<close>

record enq_call =
  ec_diff :: string
  ec_agent :: string
  ec_task :: string
  ec_session :: string
  ec_descr :: string

text \<open>
  Where a caller is: it makes no call, passed the depth check and reads the files of its diff, has its
  patch, or appended it and has to store it in Redis.
\<close>

datatype enq_phase = EIdle | EChecked enq_call | EBuilt enq_call patch | EAppended patch

datatype enq_result = ERefused enq_call exn | EAccepted enq_call nat patch

type_synonym 'w enq_state = "enq_phase list \<times> patch_queue \<times> 'w \<times> enq_result list"

text \<open>What the other operations of the queue do meanwhile: patches are settled, none is added or removed.\<close>

definition same_patch :: "patch \<Rightarrow> patch \<Rightarrow> bool" where
  "same_patch p p' \<longleftrightarrow> pt_id p' = pt_id p \<and> pt_diff p' = pt_diff p \<and> pt_session p' = pt_session p"

definition only_settled :: "patch_queue \<Rightarrow> patch_queue \<Rightarrow> bool" where
  "only_settled q q' \<longleftrightarrow> pq_queue q' = pq_queue q \<and> pq_patches q' = pq_patches q \<and>
     length (pq_store q') = length (pq_store q) \<and> list_all2 same_patch (pq_store q) (pq_store q')"

inductive enq_step :: "'w patch_env \<Rightarrow> 'w enq_state \<Rightarrow> 'w enq_state \<Rightarrow> bool" for E where
  refuse: "i < length cs \<Longrightarrow> cs ! i = EIdle \<Longrightarrow> enqueue_check E (ec_diff c) q = Inl e \<Longrightarrow>
    enq_step E (cs, q, w, l) (cs, q, w, l @ [ERefused c e])"
| check: "i < length cs \<Longrightarrow> cs ! i = EIdle \<Longrightarrow> enqueue_check E (ec_diff c) q = Inr () \<Longrightarrow>
    enq_step E (cs, q, w, l) (cs[i := EChecked c], q, w, l)"
| build: "i < length cs \<Longrightarrow> cs ! i = EChecked c \<Longrightarrow>
    make_patch E (ec_diff c) (ec_agent c) (ec_task c) (ec_session c) (ec_descr c) w = (p, w') \<Longrightarrow>
    enq_step E (cs, q, w, l) (cs[i := EBuilt c p], q, w', l)"
| append_patch: "i < length cs \<Longrightarrow> cs ! i = EBuilt c p \<Longrightarrow> enqueue_append p q = (a, q') \<Longrightarrow>
    enq_step E (cs, q, w, l) (cs[i := EAppended p], q', w, l @ [EAccepted c a p])"
| persist: "i < length cs \<Longrightarrow> cs ! i = EAppended p \<Longrightarrow>
    enq_step E (cs, q, w, l) (cs[i := EIdle], q, persist_patch E p w, l)"
| other: "only_settled q q' \<Longrightarrow> enq_step E (cs, q, w, l) (cs, q', w', l)"

inductive_cases enq_stepE: "enq_step E (cs, q, w, l) s'"

lemma same_patch_refl: "same_patch p p"
  by (simp add: same_patch_def)

lemma same_patch_trans: "same_patch p p' \<Longrightarrow> same_patch p' p'' \<Longrightarrow> same_patch p p''"
  by (simp add: same_patch_def)

lemma only_settled_put: "a < length (pq_store q) \<Longrightarrow> same_patch (pq_get q a) p \<Longrightarrow> only_settled q (pq_put a p q)"
  by (simp add: only_settled_def list_all2_conv_all_nth pq_put_def pq_get_def nth_list_update same_patch_refl)

text \<open>Processing is such an operation.\<close>

lemma process_next_settles:
  assumes "process_next E q w = (r, q', w')"
  shows "only_settled q q'"
proof (cases r)
  case None
  then show ?thesis using assms
    by (auto simp: process_next_def only_settled_def list.rel_refl same_patch_refl split: option.splits prod.splits)
next
  case (Some x)
  with assms show ?thesis
    by (auto elim!: process_next_Some intro!: only_settled_put simp: handled_def same_patch_def)
qed

text \<open>A call that nothing interrupts is a run of this relation with one caller.\<close>

definition enq_done :: "'w patch_env \<Rightarrow> enq_call \<Rightarrow> patch_queue \<Rightarrow> 'w \<Rightarrow> enq_result" where
  "enq_done E c q w =
     (case enqueue_check E (ec_diff c) q of
        Inl e \<Rightarrow> ERefused c e
      | Inr _ \<Rightarrow> EAccepted c (length (pq_store q))
          (fst (make_patch E (ec_diff c) (ec_agent c) (ec_task c) (ec_session c) (ec_descr c) w)))"

lemma enqueue_is_run:
  assumes "enqueue E (ec_diff c) (ec_agent c) (ec_task c) (ec_session c) (ec_descr c) q w = (r, q', w')"
  shows "(enq_step E)\<^sup>*\<^sup>* ([EIdle], q, w, []) ([EIdle], q', w', [enq_done E c q w])"
  using assms
proof (cases rule: enqueue_cases)
  case (refused e)
  then show ?thesis using refuse [of 0 "[EIdle]" E c q e w "[]"] by (simp add: enq_done_def)
next
  case (added p w1)
  obtain a q1 where a: "enqueue_append p q = (a, q1)" by fastforce
  have "enq_step E ([EIdle], q, w, []) ([EChecked c], q, w, [])"
    using check [of 0 "[EIdle]" E c q w "[]"] added(1) by simp
  moreover have "enq_step E ([EChecked c], q, w, []) ([EBuilt c p], q, w1, [])"
    using build [of 0 "[EChecked c]" c E w p w1 q "[]"] added(2) by simp
  moreover have "enq_step E ([EBuilt c p], q, w1, []) ([EAppended p], q1, w1, [EAccepted c a p])"
    using append_patch [of 0 "[EBuilt c p]" c p q a q1 E w1 "[]"] a by simp
  moreover have "enq_step E ([EAppended p], q1, w1, [EAccepted c a p]) ([EIdle], q1, persist_patch E p w1, [EAccepted c a p])"
    using persist [of 0 "[EAppended p]" p E q1 w1 "[EAccepted c a p]"] by simp
  ultimately have "(enq_step E)\<^sup>*\<^sup>* ([EIdle], q, w, []) ([EIdle], q1, persist_patch E p w1, [EAccepted c a p])"
    by (meson converse_rtranclp_into_rtranclp rtranclp.rtrancl_refl)
  then show ?thesis using added a enqueue_append_simps [OF a] by (simp add: enq_done_def)
qed

section \<open>The invariant of overlapping calls\<close>

fun in_flight :: "enq_phase \<Rightarrow> nat" where
  "in_flight (EChecked c) = 1"
| "in_flight (EBuilt c p) = 1"
| "in_flight ph = 0"

text \<open>A patch made for a call: pending, with the fields of the call and only line feeds.\<close>

definition made_for :: "enq_call \<Rightarrow> patch \<Rightarrow> bool" where
  "made_for c p \<longleftrightarrow> validate_patch (ec_diff c) = Inr () \<and> pt_status p = PPending \<and> pt_retries p = 0 \<and>
     pt_diff p = normalize_diff (ec_diff c) \<and> cr \<notin> set (pt_diff p) \<and>
     pt_session p = ec_session c \<and> pt_agent p = ec_agent c"

fun phase_ok :: "enq_phase \<Rightarrow> bool" where
  "phase_ok (EChecked c) = (validate_patch (ec_diff c) = Inr ())"
| "phase_ok (EBuilt c p) = made_for c p"
| "phase_ok ph = True"

text \<open>
  What an answer says of the queue as it is now: a refused diff is invalid, or the queue is full; an accepted
  one is the patch made for the call, and its diff, id and session are still in the store.
\<close>

fun result_ok :: "'w patch_env \<Rightarrow> patch_queue \<Rightarrow> enq_result \<Rightarrow> bool" where
  "result_ok E q (ERefused c e) \<longleftrightarrow> validate_patch (ec_diff c) = Inl e \<or>
     validate_patch (ec_diff c) = Inr () \<and> e = queue_full_error E \<and> pe_max_depth E \<le> length (pq_queue q)"
| "result_ok E q (EAccepted c a p) \<longleftrightarrow> made_for c p \<and> a < length (pq_store q) \<and> same_patch p (pq_get q a)"

fun accepted :: "enq_result list \<Rightarrow> nat list" where
  "accepted [] = []"
| "accepted (ERefused c e # l) = accepted l"
| "accepted (EAccepted c a p # l) = a # accepted l"

definition flights :: "enq_phase list \<Rightarrow> nat" where
  "flights cs = sum_list (map in_flight cs)"

definition enq_inv :: "'w patch_env \<Rightarrow> nat \<Rightarrow> patch_queue \<Rightarrow> 'w enq_state \<Rightarrow> bool" where
  "enq_inv E n q0 = (\<lambda>(cs, q, w, l). length cs = n \<and> list_all phase_ok cs \<and> list_all (result_ok E q) l \<and>
     pq_queue q0 @ accepted l = pq_queue q \<and> [length (pq_store q0)..<length (pq_store q)] = accepted l \<and>
     length (pq_store q0) \<le> length (pq_store q) \<and>
     length (pq_queue q) + flights cs \<le> max (length (pq_queue q0)) (pe_max_depth E + n - 1))"

lemma accepted_append [simp]: "accepted (xs @ ys) = accepted xs @ accepted ys"
  by (induction xs rule: accepted.induct) auto

lemma in_flight_le: "in_flight ph \<le> 1"
  by (cases ph) auto

lemma flights_update: "i < length cs \<Longrightarrow> flights (cs[i := ph]) + in_flight (cs ! i) = flights cs + in_flight ph"
proof -
  assume i: "i < length cs"
  then have "sum_list ((map in_flight cs)[i := in_flight ph]) + map in_flight cs ! i = flights cs + in_flight ph"
    using elem_le_sum_list [of i "map in_flight cs"] unfolding flights_def by (simp add: sum_list_update)
  then show ?thesis using i by (simp add: flights_def map_update)
qed

lemma flights_less: "i < length cs \<Longrightarrow> in_flight (cs ! i) = 0 \<Longrightarrow> flights cs < length cs"
proof -
  assume "i < length cs" "in_flight (cs ! i) = 0"
  moreover have "flights cs' \<le> length cs'" for cs'
    unfolding flights_def using sum_list_mono [of cs' in_flight "\<lambda>_. 1"] in_flight_le by (simp add: sum_list_triv)
  moreover have "flights (cs[i := EChecked c]) = flights cs + 1" for c
    using flights_update [of i cs "EChecked c"] calculation by simp
  ultimately show ?thesis by (metis Suc_eq_plus1 Suc_le_eq length_list_update)
qed

lemma result_ok_settled:
  assumes "only_settled q q'" "result_ok E q r"
  shows "result_ok E q' r"
proof -
  have same: "length (pq_store q') = length (pq_store q)" "pq_queue q' = pq_queue q"
    and all: "list_all2 same_patch (pq_store q) (pq_store q')"
    using assms(1) unfolding only_settled_def by iprover+
  have nth: "a < length (pq_store q) \<Longrightarrow> same_patch (pq_get q a) (pq_get q' a)" for a
    unfolding pq_get_def by (rule list_all2_nthD [OF all])
  show ?thesis
  proof (cases r)
    case (ERefused c e)
    then show ?thesis using assms(2) same by (simp only: result_ok.simps)
  next
    case (EAccepted c a p)
    then have old: "made_for c p" "a < length (pq_store q)" "same_patch p (pq_get q a)"
      using assms(2) by (simp_all only: result_ok.simps)
    then show ?thesis using EAccepted same same_patch_trans [OF old(3) nth] by (simp only: result_ok.simps)
  qed
qed

lemma result_ok_append:
  assumes "enqueue_append p q = (a, q')" "result_ok E q r"
  shows "result_ok E q' r"
  using assms enqueue_append_simps [OF assms(1)] by (cases r) (auto simp: pq_get_def nth_append)

lemma list_all_update: "list_all P xs \<Longrightarrow> P x \<Longrightarrow> list_all P (xs[i := x])"
  using set_update_subset_insert [of xs i x] by (auto simp: list_all_iff)

lemma enq_inv_step:
  assumes "enq_step E s s'" "enq_inv E n q0 s"
  shows "enq_inv E n q0 s'"
  using assms
proof (induction rule: enq_step.induct)
  case (refuse i cs c q e w l)
  then have "result_ok E q (ERefused c e)"
    by (cases "validate_patch (ec_diff c)") (auto simp: enqueue_check_def split: if_splits)
  with refuse show ?case by (simp add: enq_inv_def)
next
  case (check i cs c q w l)
  then have "validate_patch (ec_diff c) = Inr ()" "length (pq_queue q) < pe_max_depth E"
    by (simp_all add: enqueue_check_Inr)
  moreover have "flights (cs[i := EChecked c]) = flights cs + 1" "flights cs < length cs"
    using flights_update [of i cs "EChecked c"] flights_less [of i cs] check by simp_all
  ultimately show ?case using check by (auto simp: enq_inv_def list_all_update)
next
  case (build i cs c w p w' q l)
  then have "made_for c p"
    using make_patch_fields [OF build(3)]
    by (auto simp: made_for_def normalize_no_cr enq_inv_def list_all_length)
  moreover have "flights (cs[i := EBuilt c p]) = flights cs"
    using flights_update [of i cs "EBuilt c p"] build by simp
  ultimately show ?case using build by (simp add: enq_inv_def list_all_update)
next
  case (append_patch i cs c p q a q' w l)
  note a = enqueue_append_simps [OF append_patch(3)]
  have "made_for c p" using append_patch by (auto simp: enq_inv_def list_all_length)
  then have "result_ok E q' (EAccepted c a p)" using a same_patch_refl [of p] by auto
  moreover have "list_all (result_ok E q') l"
    using append_patch result_ok_append [OF append_patch(3)]
    by (auto simp: enq_inv_def list_all_iff)
  moreover have "flights (cs[i := EAppended p]) + 1 = flights cs"
    using flights_update [of i cs "EAppended p"] append_patch by simp
  ultimately show ?case using append_patch a by (simp add: enq_inv_def list_all_update)
next
  case (persist i cs p q w l)
  then show ?case using flights_update [of i cs EIdle] by (simp add: enq_inv_def list_all_update)
next
  case (other q q' cs w l w')
  then have "list_all (result_ok E q') l"
    using result_ok_settled [OF other(1)] by (auto simp: enq_inv_def list_all_iff)
  with other show ?case by (simp add: enq_inv_def only_settled_def)
qed

lemma enq_inv_run:
  assumes "(enq_step E)\<^sup>*\<^sup>* (replicate n EIdle, q0, w0, []) s"
  shows "enq_inv E n q0 s"
  using assms
proof (induction rule: rtranclp_induct)
  case base
  then show ?case by (simp add: enq_inv_def flights_def list_all_length sum_list_replicate map_replicate)
next
  case (step s s')
  then show ?case by (blast intro: enq_inv_step)
qed


definition one_call :: enq_call where
  "one_call = \<lparr>ec_diff = small_diff, ec_agent = ''a'', ec_task = ''t'', ec_session = ''s'', ec_descr = []\<rparr>"


section \<open>The calls of the test-fix loop\<close>

text \<open>
  The environment with a log beside its world: every request to apply a patch, to run the tests or to
  start a coder is noted, everything else is done as before.
\<close>

definition quietly :: "('w \<Rightarrow> 'a \<times> 'w) \<Rightarrow> 'w \<times> string list \<Rightarrow> 'a \<times> 'w \<times> string list" where
  "quietly f wl = (case f (fst wl) of (x, w) \<Rightarrow> (x, w, snd wl))"

definition noting :: "string \<Rightarrow> ('w \<Rightarrow> 'a \<times> 'w) \<Rightarrow> 'w \<times> string list \<Rightarrow> 'a \<times> 'w \<times> string list" where
  "noting tag f wl = (case f (fst wl) of (x, w) \<Rightarrow> (x, w, snd wl @ [tag]))"

definition counting :: "'w patch_env \<Rightarrow> ('w \<times> string list) patch_env" where
  "counting E = \<lparr>
     pe_read_file = (\<lambda>path. quietly (pe_read_file E path)),
     pe_apply = (\<lambda>d target. noting target (pe_apply E d target)),
     pe_run_tests = (\<lambda>pattern t. noting ''tests'' (pe_run_tests E pattern t)),
     pe_spawn = (\<lambda>role task sid. noting ''coder'' (pe_spawn E role task sid)),
     pe_redis = map_option redis_fst (pe_redis E),
     pe_publish = map_option (\<lambda>pub sid agent d wl. (pub sid agent d (fst wl), snd wl)) (pe_publish E),
     pe_sha256 = pe_sha256 E, pe_uuid = quietly (pe_uuid E), pe_now = (\<lambda>wl. pe_now E (fst wl)),
     pe_max_depth = pe_max_depth E, pe_max_fix = pe_max_fix E\<rparr>"

lemma counting_simps [simp]:
  "pe_read_file (counting E) path = quietly (pe_read_file E path)"
  "pe_apply (counting E) d target = noting target (pe_apply E d target)"
  "pe_run_tests (counting E) pattern t = noting ''tests'' (pe_run_tests E pattern t)"
  "pe_spawn (counting E) role task sid = noting ''coder'' (pe_spawn E role task sid)"
  "pe_redis (counting E) = map_option redis_fst (pe_redis E)"
  "pe_publish (counting E) = map_option (\<lambda>pub sid agent d wl. (pub sid agent d (fst wl), snd wl)) (pe_publish E)"
  "pe_sha256 (counting E) = pe_sha256 E" "pe_uuid (counting E) = quietly (pe_uuid E)"
  "pe_now (counting E) wl = pe_now E (fst wl)"
  "pe_max_depth (counting E) = pe_max_depth E" "pe_max_fix (counting E) = pe_max_fix E"
  by (simp_all add: counting_def)

text \<open>The log changes nothing: each operation does on the world what it does without the log.\<close>

named_theorems logged

lemma snapshot_logged [logged]:
  "snapshot_file_hashes (counting E) ps h (w, l) =
     (case snapshot_file_hashes E ps h w of (h', w') \<Rightarrow> (h', w', l))"
  by (induction ps arbitrary: h w) (simp_all add: quietly_def Let_def split: prod.splits cong: option.case_cong sum.case_cong)

lemma check_conflict_logged [logged]:
  "check_conflict (counting E) p (w, l) = (case check_conflict E p w of (b, w') \<Rightarrow> (b, w', l))"
  by (simp add: check_conflict_def logged split: prod.splits)

lemma unpersist_logged [logged]: "unpersist_patch (counting E) p (w, l) = (unpersist_patch E p w, l)"
  by (simp add: unpersist_patch_def redis_fst_def split: option.splits)

lemma persist_logged [logged]: "persist_patch (counting E) p (w, l) = (persist_patch E p w, l)"
  by (simp add: persist_patch_def redis_fst_def split: option.splits)

lemma publish_logged [logged]:
  "publish_patch_applied (counting E) p (w, l) = (publish_patch_applied E p w, l)"
  by (simp add: publish_patch_applied_def split: option.splits)

lemma make_patch_logged [logged]:
  "make_patch (counting E) diff agent tid sid descr (w, l) =
     (case make_patch E diff agent tid sid descr w of (p, w') \<Rightarrow> (p, w', l))"
  by (simp add: make_patch_def quietly_def Let_def logged split: prod.splits)

lemma enqueue_logged [logged]:
  "enqueue (counting E) diff agent tid sid descr q (w, l) =
     (case enqueue E diff agent tid sid descr q w of (r, q', w') \<Rightarrow> (r, q', w', l))"
  by (simp add: enqueue_def enqueue_check_def queue_full_error_def logged split: prod.splits sum.splits)

text \<open>What a call notes: the live workspace comes after the sandbox, and an applied patch went through both.\<close>

lemma apply_patch_logged:
  assumes "apply_patch (counting E) a q (w, l) = (d, q', w', l')"
  shows "apply_patch E a q w = (d, q', w') \<and>
    (\<exists>c. l' = l @ c \<and> (map_of d ''action'' = Some (JStr ''applied'') \<and> c = [''sandbox'', ''live''] \<or>
       map_of d ''action'' \<noteq> Some (JStr ''applied'') \<and> c \<in> {[], [''sandbox''], [''sandbox'', ''live'']}))"
  using assms
  by (auto simp: apply_patch_def settle_def with_action_def noting_def Let_def logged
      split: prod.splits bool.splits sum.splits if_splits)

text \<open>One attempt whose tests fail: sandbox, live workspace, tests, and the coder who is asked for a fix.\<close>

definition tested :: "string list" where "tested = [''sandbox'', ''live'', ''tests'']"
definition fix_round :: "string list" where "fix_round = tested @ [''coder'']"

definition still_failing :: "nat \<Rightarrow> string" where
  "still_failing k = ''Tests still failing after '' @ nat_str k @ '' fix attempt(s) '' @ em_dash
     @ '' flagged for human review''"

text \<open>
  How the k-th attempt can end the loop, from the calls it made and its report: the tests pass on an applied
  patch; the patch was not applied; or the tests failed and it was the last attempt, or the coder
  gave no diff that can be enqueued.  An exception comes from the tests or from the coder.
\<close>

definition fix_ends :: "bool \<Rightarrow> nat \<Rightarrow> string list \<Rightarrow> json dict result \<Rightarrow> bool" where
  "fix_ends final k calls r \<longleftrightarrow> (case r of
     Inl e \<Rightarrow> calls = tested \<or> calls = fix_round \<and> \<not> final
   | Inr d \<Rightarrow> map_of d ''attempts'' = Some (JInt (int k)) \<and>
       (calls = tested \<and> map_of d ''test_passed'' = Some (JBool True) \<and>
          map_of d ''action'' = Some (JStr ''applied'') \<or>
        calls \<in> {[], [''sandbox''], [''sandbox'', ''live'']} \<and> map_of d ''test_passed'' = Some (JBool False) \<and>
          map_of d ''action'' \<noteq> Some (JStr ''applied'') \<or>
        (calls = tested \<and> final \<or> calls = fix_round \<and> \<not> final) \<and>
          map_of d ''test_passed'' = Some (JBool False) \<and> map_of d ''action'' = Some (JStr ''needs_review'') \<and>
          map_of d ''error'' = Some (JStr (still_failing k))))"

lemma fix_report_get:
  "map_of (fix_report d b k s) ''attempts'' = Some (JInt (int k))"
  "map_of (fix_report d b k s) ''test_passed'' = Some (JBool b)"
  "map_of (fix_report d b k s) ''action'' = map_of d ''action''"
  "map_of (fix_report d b k s) ''error'' = map_of d ''error''"
  by (simp_all add: fix_report_def map_of_dict_update map_add_def)

lemma give_up_logged:
  assumes "give_up (counting E) a k s q (w, l) = (r, q', w', l')"
  shows "give_up E a k s q w = (r, q', w') \<and> l' = l \<and> (\<exists>d. r = Inr d \<and>
    map_of d ''attempts'' = Some (JInt (int k)) \<and> map_of d ''test_passed'' = Some (JBool False) \<and>
    map_of d ''action'' = Some (JStr ''needs_review'') \<and> map_of d ''error'' = Some (JStr (still_failing k)))"
  using assms
  by (auto simp: give_up_def Let_def logged fix_report_get with_action_def still_failing_def patch_dict_def opt_json_def)

lemma try_patch_logged:
  assumes "try_patch (counting E) pattern k a q (w, l) = (x, q', w', l')"
  shows "try_patch E pattern k a q w = (x, q', w') \<and>
    (\<exists>c. l' = l @ c \<and> (case x of AReturn r \<Rightarrow> fix_ends final k c r | AFailed s out \<Rightarrow> c = tested))"
proof -
  obtain d q1 w1 l1 where a: "apply_patch (counting E) a q (w, l) = (d, q1, w1, l1)" by (metis prod_cases4)
  show ?thesis using assms a apply_patch_logged [OF a]
    by (auto simp: try_patch_def noting_def fix_ends_def tested_def fix_report_get Let_def
        split: prod.splits sum.splits if_splits)
qed

lemma ask_fix_logged:
  assumes "ask_fix (counting E) pid k out a q (w, l) = (x, q', w', l')"
  shows "ask_fix E pid k out a q w = (x, q', w') \<and> l' = l @ [''coder'']"
  using assms
  by (auto simp: ask_fix_def noting_def logged Let_def split: prod.splits sum.splits list.splits)

lemma test_fix_iter_logged:
  assumes "test_fix_iter (counting E) pid pattern (Suc left) k s a q (w, l) = (r, q', w', l')"
  shows "test_fix_iter E pid pattern (Suc left) k s a q w = (r, q', w') \<and>
    (\<exists>j c. j \<le> left \<and> l' = l @ concat (replicate j fix_round) @ c \<and> fix_ends (j = left) (k + j + 1) c r)"
  using assms
proof (induction left arbitrary: k s a q w l)
  case 0
  obtain x q1 w1 l1 where t: "try_patch (counting E) pattern (k + 1) a q (w, l) = (x, q1, w1, l1)"
    by (metis prod_cases4)
  note t' = try_patch_logged [OF t, of True]
  show ?case
  proof (cases x)
    case (AReturn y)
    then show ?thesis using 0 t t' by auto
  next
    case (AFailed s' out)
    then have "give_up (counting E) a (k + 1) s' q1 (w1, l1) = (r, q', w', l')" using 0 t by simp
    from give_up_logged [OF this] show ?thesis using AFailed t t' by (auto simp: fix_ends_def)
  qed
next
  case (Suc left)
  obtain x q1 w1 l1 where t: "try_patch (counting E) pattern (k + 1) a q (w, l) = (x, q1, w1, l1)"
    by (metis prod_cases4)
  note t' = try_patch_logged [OF t, of False]
  show ?case
  proof (cases x)
    case (AReturn y)
    then show ?thesis using Suc.prems t t' by (auto intro!: exI [of _ 0])
  next
    case (AFailed s' out)
    obtain f q2 w2 l2 where f: "ask_fix (counting E) pid (k + 1) out a q1 (w1, l1) = (f, q2, w2, l2)"
      by (metis prod_cases4)
    have l2: "l2 = l @ fix_round" using t' AFailed ask_fix_logged [OF f] by (simp add: fix_round_def)
    show ?thesis
    proof (cases f)
      case (FixRaise e)
      then show ?thesis using Suc.prems t t' AFailed f ask_fix_logged [OF f] l2
        by (auto simp: fix_ends_def intro!: exI [of _ 0])
    next
      case FixNone
      then have "give_up (counting E) a (k + 1) s' q2 (w2, l2) = (r, q', w', l')"
        using Suc.prems t AFailed f by simp
      from give_up_logged [OF this] show ?thesis using FixNone t t' AFailed f ask_fix_logged [OF f] l2
        by (auto simp: fix_ends_def intro!: exI [of _ 0])
    next
      case (FixNext b)
      then have "test_fix_iter (counting E) pid pattern (Suc left) (k + 1) s' b q2 (w2, l2) = (r, q', w', l')"
        using Suc.prems t AFailed f by simp
      from Suc.IH [OF this] obtain j c where rest:
          "test_fix_iter E pid pattern (Suc left) (k + 1) s' b q2 w2 = (r, q', w')" "j \<le> left"
          "l' = l2 @ concat (replicate j fix_round) @ c" "fix_ends (j = left) (k + 1 + j + 1) c r" by blast
      have "test_fix_iter E pid pattern (Suc (Suc left)) k s a q w = (r, q', w')"
        using t' AFailed ask_fix_logged [OF f] FixNext rest(1) by simp
      moreover have "l' = l @ concat (replicate (Suc j) fix_round) @ c" using rest(3) l2 by simp
      moreover have "fix_ends (Suc j = Suc left) (k + Suc j + 1) c r" using rest(4) by simp
      ultimately show ?thesis using rest(2) by (metis Suc_le_mono)
    qed
  qed
qed

lemma fix_ends_length: "fix_ends final k c r \<Longrightarrow> length c \<le> 4"
  by (cases r) (auto simp: fix_ends_def fix_round_def tested_def)

text \<open>C12: the test-fix loop, by the calls it makes to the executor and the coder.  For a limit of n
  attempts it makes j full rounds with j less than n, each of them one sandbox request, one live request, one
  test run and one coder, and then a last attempt that makes at most one of each; so no result, not even an
  exception, takes more than n attempts.  The report says j + 1, the number of attempts made; it
  tells of passed tests only when the last patch was applied and its tests were run, and it gives up
  only after the last attempt or after a coder without a usable diff.  The log used to
  count does not change what the loop does.\<close>

theorem test_fix_loop_bounded:
  assumes "test_fix_loop (counting E) a pattern max_attempts q (w, []) = (r, q', w', calls)"
  shows "test_fix_loop E a pattern max_attempts q w = (r, q', w') \<and>
    (case (case max_attempts of None \<Rightarrow> pe_max_fix E | Some m \<Rightarrow> m) of
       0 \<Rightarrow> calls = [] \<and> map_of (projr r) ''attempts'' = Some (JInt 0) \<and>
         map_of (projr r) ''action'' = Some (JStr ''needs_review'')
     | Suc m \<Rightarrow> \<exists>j c. j \<le> m \<and> calls = concat (replicate j fix_round) @ c \<and> fix_ends (j = m) (j + 1) c r)"
proof (cases "case max_attempts of None \<Rightarrow> pe_max_fix E | Some m \<Rightarrow> m")
  case 0
  then have "give_up (counting E) a 0 [] q (w, []) = (r, q', w', calls)"
    using assms by (simp add: test_fix_loop_def cong: option.case_cong)
  from give_up_logged [OF this] show ?thesis using 0 by (auto simp: test_fix_loop_def)
next
  case (Suc m)
  then have "test_fix_iter (counting E) (pt_id (pq_get q a)) pattern (Suc m) 0 [] a q (w, []) = (r, q', w', calls)"
    using assms by (simp add: test_fix_loop_def cong: option.case_cong)
  from test_fix_iter_logged [OF this] show ?thesis using Suc by (simp add: test_fix_loop_def)
qed

theorem test_fix_loop_bounded_witness:
  "\<exists>r q w calls. test_fix_loop (counting small_env) 0 ''tests/'' None one_patch ([], []) = (r, q, w, calls) \<and>
     calls = fix_round @ tested \<and> fix_ends True 2 tested r"
proof -
  let ?x = "test_fix_loop (counting small_env) 0 ''tests/'' None one_patch ([], [])"
  obtain r q w calls where x: "?x = (r, q, w, calls)" by (metis prod_cases4)
  have "snd (snd (snd ?x)) = fix_round @ tested" by code_simp
  then have calls: "calls = fix_round @ tested" using x by simp
  from test_fix_loop_bounded [OF x] obtain j c where j: "j \<le> 1" "calls = concat (replicate j fix_round) @ c"
      "fix_ends (j = 1) (j + 1) c r" by (auto simp: small_env_def numeral_2_eq_2)
  have "j \<noteq> 0"
  proof
    assume "j = 0"
    then have "length c = 7" using j(2) calls by (auto simp: fix_round_def tested_def)
    then show False using fix_ends_length [OF j(3)] by simp
  qed
  then have "j = 1" using j(1) by simp
  then have "c = tested" using j(2) calls by simp
  then have "fix_ends True 2 tested r" using j(3) \<open>j = 1\<close> by (simp add: numeral_2_eq_2)
  with x calls show ?thesis by blast
qed

end
