(* ===== verification/Agent_Bus.thy ===== *)
theory Agent_Bus
  imports Utils
begin

text \<open>
  \<open>WSEvent\<close> of \<open>orchestrator/models.py\<close> with its JSON form, and \<open>orchestrator/agent_bus.py\<close>:
  the bounded in-process queue per session, publishing to both transports, the generators
  of the architect and of the WebSocket side, and the cleanup with its sentinel.
  Redis pub/sub is a parameter.
\<close>

section \<open>Events\<close>

datatype event_type = Token | Work_Complete | Work_Failed | Patch_Applied | Test_Result
  | Interrupt | Status | Debate_Point

fun event_type_str :: "event_type \<Rightarrow> string" where
  "event_type_str Token = ''token''"
| "event_type_str Work_Complete = ''work_complete''"
| "event_type_str Work_Failed = ''work_failed''"
| "event_type_str Patch_Applied = ''patch_applied''"
| "event_type_str Test_Result = ''test_result''"
| "event_type_str Interrupt = ''interrupt''"
| "event_type_str Status = ''status''"
| "event_type_str Debate_Point = ''debate_point''"

definition parse_event_type :: "string \<Rightarrow> event_type option" where
  "parse_event_type s = find (\<lambda>t. event_type_str t = s)
     [Token, Work_Complete, Work_Failed, Patch_Applied, Test_Result, Interrupt, Status, Debate_Point]"

record event =
  ev_type :: event_type
  ev_session :: string
  ev_agent :: "string option"
  ev_payload :: "json dict"
  ev_ts :: real

definition event_json :: "event \<Rightarrow> json" where
  "event_json e = JObj
    [(''type'', JStr (event_type_str (ev_type e))), (''session_id'', JStr (ev_session e)),
     (''agent_id'', case ev_agent e of None \<Rightarrow> JNull | Some a \<Rightarrow> JStr a),
     (''payload'', JObj (ev_payload e)), (''ts'', JFloat (ev_ts e))]"

text \<open>Validation: the type and the session are required, the rest has defaults.\<close>

definition event_of_json :: "real \<Rightarrow> json \<Rightarrow> event option" where
  "event_of_json now j = (case j of
     JObj d \<Rightarrow>
       (case (map_of d ''type'', map_of d ''session_id'') of
          (Some (JStr t), Some (JStr s)) \<Rightarrow>
            (case (parse_event_type t,
                   case map_of d ''agent_id'' of None \<Rightarrow> Some None | Some JNull \<Rightarrow> Some None
                     | Some (JStr a) \<Rightarrow> Some (Some a) | _ \<Rightarrow> None,
                   case map_of d ''payload'' of None \<Rightarrow> Some [] | Some (JObj p) \<Rightarrow> Some p | _ \<Rightarrow> None,
                   case map_of d ''ts'' of None \<Rightarrow> Some now | Some (JFloat x) \<Rightarrow> Some x
                     | Some (JInt n) \<Rightarrow> Some (of_int n) | _ \<Rightarrow> None) of
               (Some ty, Some a, Some p, Some ts) \<Rightarrow>
                 Some \<lparr>ev_type = ty, ev_session = s, ev_agent = a, ev_payload = p, ev_ts = ts\<rparr>
             | _ \<Rightarrow> None)
        | _ \<Rightarrow> None)
   | _ \<Rightarrow> None)"

lemma parse_event_type_str [simp]: "parse_event_type (event_type_str t) = Some t"
  by (cases t) (simp_all add: parse_event_type_def)

text \<open>An event survives the wire: reading the JSON form of an event gives back the event.\<close>

theorem event_roundtrip: "event_of_json now (event_json e) = Some e"
  by (cases "ev_agent e") (simp_all add: event_of_json_def event_json_def)

section \<open>The bus\<close>

definition architect_events :: "event_type list" where
  "architect_events = [Work_Complete, Work_Failed, Patch_Applied, Test_Result, Debate_Point, Interrupt]"

definition bus_maxsize :: nat where "bus_maxsize = 256"

text \<open>
  The queue objects by address (a subscriber keeps its queue when the session is removed
  from the dict) and the dict \<open>_queues\<close>.  \<open>None\<close> in a queue is the sentinel.
\<close>

record bus =
  bus_store :: "event option list list"
  bus_queues :: "(string \<times> nat) list"

definition put_nowait :: "nat \<Rightarrow> 'a \<Rightarrow> 'a list \<Rightarrow> 'a list option" where
  "put_nowait maxsize x q = (if length q < maxsize then Some (q @ [x]) else None)"

definition get_queue :: "string \<Rightarrow> bus \<Rightarrow> nat \<times> bus" where
  "get_queue sid b =
     (case map_of (bus_queues b) sid of
        Some a \<Rightarrow> (a, b)
      | None \<Rightarrow> (length (bus_store b),
           b\<lparr>bus_store := bus_store b @ [[]],
             bus_queues := dict_set (bus_queues b) sid (length (bus_store b))\<rparr>))"

definition channel :: "string \<Rightarrow> string" where
  "channel sid = ''bus:session:'' @ sid"

definition offer :: "nat \<Rightarrow> event option \<Rightarrow> bus \<Rightarrow> bus" where
  "offer a x b =
     (case put_nowait bus_maxsize x (bus_store b ! a) of
        None \<Rightarrow> b \<comment> \<open>queue full: dropped\<close>
      | Some q \<Rightarrow> b\<lparr>bus_store := (bus_store b)[a := q]\<rparr>)"

definition publish :: "(string \<Rightarrow> json \<Rightarrow> 'w \<Rightarrow> 'w) \<Rightarrow> string \<Rightarrow> event \<Rightarrow> bus \<Rightarrow> 'w \<Rightarrow> bus \<times> 'w" where
  "publish redis_publish sid e b w =
     (if ev_type e = Token then (b, w)
      else case get_queue sid b of
        (a, b1) \<Rightarrow> (offer a (Some e) b1, redis_publish (channel sid) (event_json e) w))"

text \<open>
  The architect's generator on the events that are in its queue: the yielded events,
  whether it returned, and what is left; when it did not return it waits for more.
\<close>

fun subscribe_architect :: "event option list \<Rightarrow> event list \<times> bool \<times> event option list" where
  "subscribe_architect [] = ([], False, [])"
| "subscribe_architect (None # q) = ([], True, q)"
| "subscribe_architect (Some e # q) =
     (case subscribe_architect q of (es, fin, rest) \<Rightarrow>
        (if ev_type e \<in> set architect_events then e # es else es, fin, rest))"

text \<open>
  The WebSocket generator on the messages of the channel, each a kind and a document:
  the events it yields and whether it returned.
\<close>

fun subscribe_session :: "real \<Rightarrow> (string \<times> json) list \<Rightarrow> event list \<times> bool" where
  "subscribe_session now [] = ([], False)"
| "subscribe_session now ((kind, doc) # msgs) =
     (if kind \<noteq> ''message'' then subscribe_session now msgs
      else case event_of_json now doc of
        None \<Rightarrow> subscribe_session now msgs
      | Some e \<Rightarrow>
          if ev_type e = Status \<and> map_of (ev_payload e) ''lifecycle'' = Some (JStr ''ended'')
          then ([e], True)
          else case subscribe_session now msgs of (es, fin) \<Rightarrow> (e # es, fin))"

definition bus_cleanup_session :: "string \<Rightarrow> bus \<Rightarrow> bus" where
  "bus_cleanup_session sid b =
     (case map_of (bus_queues b) sid of
        None \<Rightarrow> b
      | Some a \<Rightarrow> offer a None (b\<lparr>bus_queues := dict_del (bus_queues b) sid\<rparr>))"

section \<open>Bounded queues and delivery\<close>

definition bus_ok :: "bus \<Rightarrow> bool" where
  "bus_ok b \<longleftrightarrow> list_all (\<lambda>q. length q \<le> bus_maxsize) (bus_store b) \<and>
     list_all (\<lambda>(_, a). a < length (bus_store b)) (bus_queues b) \<and>
     distinct (map snd (bus_queues b)) \<and> distinct (map fst (bus_queues b))"

lemma map_of_list_all: "list_all (\<lambda>(_, a). P a) d \<Longrightarrow> map_of d k = Some a \<Longrightarrow> P a"
  by (induction d) (auto split: if_splits)

lemma dict_set_fresh: "map_of d k = None \<Longrightarrow> dict_set d k v = d @ [(k, v)]"
  by (induction d k v rule: dict_set.induct) (auto split: if_splits)

lemma bus_ok_map: "bus_ok b \<Longrightarrow> map_of (bus_queues b) sid = Some a \<Longrightarrow> a < length (bus_store b)"
  unfolding bus_ok_def by (auto dest: map_of_list_all)

lemma get_queue_ok:
  assumes "bus_ok b" "get_queue sid b = (a, b')"
  shows "bus_ok b' \<and> a < length (bus_store b') \<and> map_of (bus_queues b') sid = Some a"
proof (cases "map_of (bus_queues b) sid")
  case None
  let ?n = "length (bus_store b)"
  have b': "b' = b\<lparr>bus_store := bus_store b @ [[]], bus_queues := bus_queues b @ [(sid, ?n)]\<rparr>" "a = ?n"
    using None assms(2) by (auto simp: get_queue_def dict_set_fresh)
  have bound: "list_all (\<lambda>(_, a). a < ?n) (bus_queues b)" using assms(1) by (simp add: bus_ok_def)
  have "sid \<notin> fst ` set (bus_queues b)" using None by (simp add: map_of_eq_None_iff)
  moreover have "?n \<notin> snd ` set (bus_queues b)" using bound by (auto simp: list_all_iff)
  moreover have "list_all (\<lambda>(_, a). a < Suc ?n) (bus_queues b)"
    using bound by (rule list.pred_mono_strong) auto
  ultimately show ?thesis
    using assms(1) None unfolding b' by (simp add: bus_ok_def map_add_def)
next
  case (Some a')
  with assms bus_ok_map show ?thesis by (auto simp: get_queue_def)
qed

lemma offer_ok: "bus_ok b \<Longrightarrow> bus_ok (offer a x b)"
  by (auto simp: offer_def bus_ok_def put_nowait_def list_all_iff dest!: subsetD [OF set_update_subset_insert])

lemma dict_del_ok: "bus_ok b \<Longrightarrow> bus_ok (b\<lparr>bus_queues := dict_del (bus_queues b) sid\<rparr>)"
  by (auto simp: bus_ok_def dict_del_def list_all_iff distinct_map inj_on_def)

text \<open>The bus invariant.  Publishing and cleaning up keep every in-process queue within
  its capacity, and keep sessions and queues in one-to-one correspondence.\<close>

theorem bus_invariant:
  assumes "bus_ok b"
  shows "bus_ok (fst (publish redis_publish sid e b w)) \<and> bus_ok (bus_cleanup_session sid b)"
proof
  show "bus_ok (fst (publish redis_publish sid e b w))"
    using assms get_queue_ok [OF assms] offer_ok by (auto simp: publish_def split: prod.splits)
  show "bus_ok (bus_cleanup_session sid b)"
    using assms dict_del_ok offer_ok by (auto simp: bus_cleanup_session_def split: option.splits)
qed

theorem bus_invariant_witness:
  "bus_ok (bus_cleanup_session ''s'' \<lparr>bus_store = [[], [None]], bus_queues = [(''s'', 0)]\<rparr>)"
proof -
  have "bus_ok \<lparr>bus_store = [[], [None]], bus_queues = [(''s'', 0)]\<rparr>" by (simp add: bus_ok_def bus_maxsize_def)
  then show ?thesis by (rule conjunct2 [OF bus_invariant])
qed

fun publish_all :: "(string \<Rightarrow> json \<Rightarrow> 'w \<Rightarrow> 'w) \<Rightarrow> string \<Rightarrow> event list \<Rightarrow> bus \<Rightarrow> 'w \<Rightarrow> bus \<times> 'w" where
  "publish_all rp sid [] b w = (b, w)"
| "publish_all rp sid (e # es) b w = (case publish rp sid e b w of (b', w') \<Rightarrow> publish_all rp sid es b' w')"

definition queue_of :: "string \<Rightarrow> bus \<Rightarrow> event option list" where
  "queue_of sid b = (case map_of (bus_queues b) sid of None \<Rightarrow> [] | Some a \<Rightarrow> bus_store b ! a)"

lemma publish_queue:
  assumes "bus_ok b" "publish rp sid e b w = (b', w')"
  shows "bus_ok b' \<and> queue_of sid b' = take bus_maxsize (queue_of sid b @ (if ev_type e = Token then [] else [Some e]))"
proof -
  obtain a b1 where g: "get_queue sid b = (a, b1)" by fastforce
  note ok = get_queue_ok [OF assms(1) g]
  have same: "bus_store b1 ! a = queue_of sid b"
    using g bus_ok_map [OF assms(1)] by (auto simp: get_queue_def queue_of_def split: option.splits)
  have "length (bus_store b1 ! a) \<le> bus_maxsize" using ok by (auto simp: bus_ok_def list_all_length)
  then have len: "length (queue_of sid b) \<le> bus_maxsize" by (simp add: same)
  show ?thesis
  proof (cases "ev_type e = Token")
    case True
    with assms len show ?thesis by (simp add: publish_def)
  next
    case False
    then have b': "b' = offer a (Some e) b1" using assms(2) g by (simp add: publish_def)
    have "queue_of sid b' = take bus_maxsize (queue_of sid b @ [Some e])"
      using ok len by (auto simp: b' offer_def put_nowait_def queue_of_def same [unfolded queue_of_def])
    then show ?thesis using False b' ok offer_ok by simp
  qed
qed

lemma queue_of_len: "bus_ok b \<Longrightarrow> length (queue_of sid b) \<le> bus_maxsize"
proof (cases "map_of (bus_queues b) sid")
  case (Some a)
  assume "bus_ok b"
  with Some show ?thesis using bus_ok_map [of b sid a] by (simp add: queue_of_def bus_ok_def list_all_length)
qed (simp add: queue_of_def)

lemma take_take_append: "take n (take n xs @ ys) = take n (xs @ ys)"
  by (simp add: min_def)

lemma publish_all_queue:
  "bus_ok b \<Longrightarrow> list_all (\<lambda>e. ev_type e \<noteq> Token) es \<Longrightarrow> publish_all rp sid es b w = (b', w') \<Longrightarrow>
   bus_ok b' \<and> queue_of sid b' = take bus_maxsize (queue_of sid b @ map Some es)"
proof (induction es arbitrary: b w)
  case Nil
  then show ?case using queue_of_len by auto
next
  case (Cons e es)
  obtain b1 w1 where p: "publish rp sid e b w = (b1, w1)" by fastforce
  note q = publish_queue [OF Cons.prems(1) p]
  have "publish_all rp sid es b1 w1 = (b', w')" using Cons.prems(3) p by simp
  then have ih: "bus_ok b' \<and> queue_of sid b' = take bus_maxsize (queue_of sid b1 @ map Some es)"
    using q Cons.prems(2) by (intro Cons.IH) auto
  have "queue_of sid b1 = take bus_maxsize (queue_of sid b @ [Some e])" using q Cons.prems(2) by auto
  with ih show ?case by (simp only: take_take_append append_assoc list.map append_Cons append_Nil)
qed

lemma subscribe_architect_Some:
  "subscribe_architect (map Some es @ q) =
     (case subscribe_architect q of (xs, fin, rest) \<Rightarrow> (filter (\<lambda>e. ev_type e \<in> set architect_events) es @ xs, fin, rest))"
  by (induction es) (auto split: prod.splits)

text \<open>C25: delivery to the architect, when nothing is read meanwhile.  When events other than tokens are published to a
  session that had no queue, no subscriber reads until all of them are published, and the session
  is then cleaned up, the architect receives, in order, exactly those of the first 256 published events that
  concern it: the queue counts events of every kind, so one that concerns the architect is lost when 256 others
  came before it.  Its generator returns exactly when fewer than 256 events were published.  With a
  full queue the sentinel is dropped, so the generator waits for ever.\<close>

theorem architect_delivery:
  assumes "bus_ok b" "map_of (bus_queues b) sid = None" "list_all (\<lambda>e. ev_type e \<noteq> Token) es"
    and "publish_all rp sid es b w = (b1, w1)" "map_of (bus_queues b1) sid = Some a"
  shows "subscribe_architect (bus_store (bus_cleanup_session sid b1) ! a) =
    (filter (\<lambda>e. ev_type e \<in> set architect_events) (take 256 es), length es < 256, [])"
proof -
  have q: "queue_of sid b1 = map Some (take 256 es)" and ok: "bus_ok b1"
    using publish_all_queue [OF assms(1,3,4)] assms(2)
    by (simp_all add: queue_of_def take_map bus_maxsize_def)
  have a: "a < length (bus_store b1)" using bus_ok_map [OF ok assms(5)] .
  have "bus_store b1 ! a = map Some (take 256 es)" using q assms(5) by (simp add: queue_of_def)
  then have "bus_store (bus_cleanup_session sid b1) ! a =
      map Some (take 256 es) @ (if length es < 256 then [None] else [])"
    using assms(5) a by (auto simp: bus_cleanup_session_def offer_def put_nowait_def bus_maxsize_def)
  then show ?thesis
    using subscribe_architect_Some [of "take 256 es" "[]"] by (simp add: subscribe_architect_Some)
qed

definition sample_event :: event where
  "sample_event = \<lparr>ev_type = Work_Complete, ev_session = ''s'', ev_agent = None, ev_payload = [], ev_ts = 0\<rparr>"

theorem architect_delivery_witness:
  "subscribe_architect (bus_store (bus_cleanup_session ''s''
      (fst (publish_all (\<lambda>_ _ w. w) ''s'' [sample_event] \<lparr>bus_store = [], bus_queues = []\<rparr> ()))) ! 0)
   = ([sample_event], True, [])"
proof -
  let ?b = "\<lparr>bus_store = [], bus_queues = []\<rparr>"
  have "publish_all (\<lambda>_ _ w. w) ''s'' [sample_event] ?b () =
      (\<lparr>bus_store = [[Some sample_event]], bus_queues = [(''s'', 0)]\<rparr>, ())"
    by (simp add: publish_def get_queue_def offer_def put_nowait_def bus_maxsize_def sample_event_def)
  from architect_delivery [OF _ _ _ this, of 0] show ?thesis
    by (simp add: bus_ok_def sample_event_def architect_events_def publish_def get_queue_def offer_def
        put_nowait_def bus_maxsize_def)
qed

end
