(* ===== verification/Py_Json.thy ===== *)
theory Py_Json
  imports Py_Str
begin

text \<open>
  What the program uses of Python's \<open>json\<close> module, \<open>json.loads\<close> and \<open>json.dumps\<close>, and
  the attribute access on decoded values with the exceptions it raises.  The parser runs
  on fuel; a document is never nested deeper than it is long, so its length is enough.
  An escape \<open>\u\<close> above 255 is outside the character model and is refused.  Dumping
  covers the values without floats, whose decimal form is not modelled.
\<close>

section \<open>Reading\<close>

definition json_ws :: "char \<Rightarrow> bool" where
  "json_ws c \<longleftrightarrow> c \<in> {CHR 0x20, CHR 0x09, CHR 0x0A, CHR 0x0D}"

definition skip_ws :: "string \<Rightarrow> string" where "skip_ws s = dropWhile json_ws s"

definition dquote :: char where "dquote = CHR 0x22"
definition backslash :: char where "backslash = CHR 0x5C"

definition escapes :: "(char \<times> char) list" where
  "escapes = [(dquote, dquote), (backslash, backslash), (CHR ''/'', CHR ''/''), (CHR ''b'', CHR 0x08),
     (CHR ''f'', CHR 0x0C), (CHR ''n'', CHR 0x0A), (CHR ''r'', CHR 0x0D), (CHR ''t'', CHR 0x09)]"

definition hex_values :: "(char \<times> nat) list" where
  "hex_values = [(CHR ''0'', 0), (CHR ''1'', 1), (CHR ''2'', 2), (CHR ''3'', 3), (CHR ''4'', 4), (CHR ''5'', 5),
     (CHR ''6'', 6), (CHR ''7'', 7), (CHR ''8'', 8), (CHR ''9'', 9), (CHR ''a'', 10), (CHR ''b'', 11),
     (CHR ''c'', 12), (CHR ''d'', 13), (CHR ''e'', 14), (CHR ''f'', 15), (CHR ''A'', 10), (CHR ''B'', 11),
     (CHR ''C'', 12), (CHR ''D'', 13), (CHR ''E'', 14), (CHR ''F'', 15)]"

definition hex_val :: "char \<Rightarrow> nat option" where "hex_val c = map_of hex_values c"

definition hex4 :: "char \<Rightarrow> char \<Rightarrow> char \<Rightarrow> char \<Rightarrow> nat option" where
  "hex4 a b c d = (case (hex_val a, hex_val b, hex_val c, hex_val d) of
     (Some i, Some j, Some k, Some l) \<Rightarrow> Some (((i * 16 + j) * 16 + k) * 16 + l) | _ \<Rightarrow> None)"

definition cons_char :: "char \<Rightarrow> (string \<times> string) option \<Rightarrow> (string \<times> string) option" where
  "cons_char c = map_option (\<lambda>(t, r). (c # t, r))"

text \<open>The rest of a string literal after its opening quote.\<close>

function json_string :: "string \<Rightarrow> (string \<times> string) option" where
  "json_string s = (case s of [] \<Rightarrow> None | c # r \<Rightarrow>
     if c = dquote then Some ([], r)
     else if c = backslash then
       (case r of
          d # r2 \<Rightarrow>
            if d = CHR ''u'' then
              (case r2 of
                 h1 # h2 # h3 # h4 # r3 \<Rightarrow>
                   (case hex4 h1 h2 h3 h4 of
                      Some n \<Rightarrow> if n < 256 then cons_char (char_of n) (json_string r3) else None
                    | None \<Rightarrow> None)
               | _ \<Rightarrow> None)
            else (case map_of escapes d of
                    Some e \<Rightarrow> cons_char e (json_string r2)
                  | None \<Rightarrow> None)
        | [] \<Rightarrow> None)
     else if (of_char c :: nat) < 32 then None
     else cons_char c (json_string r))"
  by pat_completeness auto
termination by (relation "measure length") auto

declare json_string.simps [simp del]

definition digits_val :: "string \<Rightarrow> int" where
  "digits_val ds = foldl (\<lambda>n c. n * 10 + (of_char c - 48)) 0 ds"

definition span_digits :: "string \<Rightarrow> string \<times> string" where
  "span_digits s = (takeWhile is_digit s, dropWhile is_digit s)"

text \<open>Whether the text goes on with the given character.\<close>

definition next_is :: "char \<Rightarrow> string \<Rightarrow> bool" where
  "next_is c s \<longleftrightarrow> s \<noteq> [] \<and> hd s = c"

lemma next_is_simps [simp]: "next_is c (d # s) = (d = c)" "\<not> next_is c []"
  by (simp_all add: next_is_def)

definition json_exponent :: "string \<Rightarrow> (int \<times> string) option" where
  "json_exponent s = (case s of
     c # r \<Rightarrow>
       if c = CHR ''e'' \<or> c = CHR ''E'' then
         (case (if next_is (CHR ''-'') r then (-1, tl r) else if next_is (CHR ''+'') r then (1, tl r) else (1, r)) of
            (sg, r2) \<Rightarrow> (case span_digits r2 of
               (ds, r3) \<Rightarrow> if ds = [] then None else Some (sg * digits_val ds, r3)))
       else None
   | [] \<Rightarrow> None)"

definition pow10 :: "int \<Rightarrow> real" where
  "pow10 e = (if 0 \<le> e then 10 ^ nat e else inverse (10 ^ nat (- e)))"

text \<open>A number: an integer part, then optionally a fraction and an exponent.\<close>

definition json_number :: "string \<Rightarrow> (json \<times> string) option" where
  "json_number s =
     (case (if next_is (CHR ''-'') s then (-1, tl s) else (1::int, s)) of (sg, r) \<Rightarrow>
        (case span_digits r of (all, _) \<Rightarrow>
           if all = [] then None
           else
             let ip = (if hd all = CHR ''0'' then [CHR ''0''] else all);
                 r1 = drop (length ip) r;
                 frac = (if next_is (CHR ''.'') r1 \<and> fst (span_digits (tl r1)) \<noteq> []
                         then Some (span_digits (tl r1)) else None);
                 r2 = (case frac of None \<Rightarrow> r1 | Some (_, r2) \<Rightarrow> r2);
                 expo = json_exponent r2
             in if frac = None \<and> expo = None then Some (JInt (sg * digits_val ip), r1)
                else
                  let fd = (case frac of None \<Rightarrow> [] | Some (fd, _) \<Rightarrow> fd);
                      (e, r3) = (case expo of None \<Rightarrow> (0, r2) | Some er \<Rightarrow> er)
                  in Some (JFloat (of_int (sg * digits_val (ip @ fd)) * pow10 (e - int (length fd))), r3)))"

definition strip_lit :: "string \<Rightarrow> json \<Rightarrow> string \<Rightarrow> (json \<times> string) option" where
  "strip_lit l v s = (if prefix l s then Some (v, drop (length l) s) else None)"

fun json_value :: "nat \<Rightarrow> string \<Rightarrow> (json \<times> string) option"
  and json_elems :: "nat \<Rightarrow> json list \<Rightarrow> string \<Rightarrow> (json \<times> string) option"
  and json_members :: "nat \<Rightarrow> json dict \<Rightarrow> string \<Rightarrow> (json \<times> string) option" where
  "json_value 0 s = None"
| "json_value (Suc n) s =
     (let r = tl s; r' = skip_ws r in
      if next_is dquote s then map_option (\<lambda>(t, u). (JStr t, u)) (json_string r)
      else if next_is (CHR ''['') s
      then (if next_is (CHR '']'') r' then Some (JList [], tl r') else json_elems n [] r')
      else if next_is (CHR ''{'') s
      then (if next_is (CHR ''}'') r' then Some (JObj [], tl r') else json_members n [] r')
      else if next_is (CHR ''n'') s then strip_lit ''null'' JNull s
      else if next_is (CHR ''t'') s then strip_lit ''true'' (JBool True) s
      else if next_is (CHR ''f'') s then strip_lit ''false'' (JBool False) s
      else json_number s)"
| "json_elems 0 acc s = None"
| "json_elems (Suc n) acc s =
     (case json_value n s of
        None \<Rightarrow> None
      | Some (v, r) \<Rightarrow>
          let r' = skip_ws r in
          if next_is (CHR '','') r' then json_elems n (acc @ [v]) (skip_ws (tl r'))
          else if next_is (CHR '']'') r' then Some (JList (acc @ [v]), tl r')
          else None)"
| "json_members 0 acc s = None"
| "json_members (Suc n) acc s =
     (if \<not> next_is dquote s then None
      else case json_string (tl s) of
        None \<Rightarrow> None
      | Some (k, r) \<Rightarrow>
          if \<not> next_is (CHR '':'') (skip_ws r) then None
          else case json_value n (skip_ws (tl (skip_ws r))) of
            None \<Rightarrow> None
          | Some (v, r2) \<Rightarrow>
              let r' = skip_ws r2 in
              if next_is (CHR '','') r' then json_members n (dict_set acc k v) (skip_ws (tl r'))
              else if next_is (CHR ''}'') r' then Some (JObj (dict_set acc k v), tl r')
              else None)"

definition json_loads :: "string \<Rightarrow> json option" where
  "json_loads s = (case json_value (Suc (length s)) (skip_ws s) of
     Some (v, r) \<Rightarrow> if skip_ws r = [] then Some v else None | None \<Rightarrow> None)"

section \<open>Writing\<close>

text \<open>\<open>json.dumps(v, ensure_ascii=False)\<close>.\<close>

definition dump_char :: "char \<Rightarrow> string" where
  "dump_char c =
     (if c = dquote then [backslash, dquote]
      else if c = backslash then [backslash, backslash]
      else if c = CHR 0x0A then [backslash, CHR ''n'']
      else if c = CHR 0x0D then [backslash, CHR ''r'']
      else if c = CHR 0x09 then [backslash, CHR ''t'']
      else if c = CHR 0x08 then [backslash, CHR ''b'']
      else if c = CHR 0x0C then [backslash, CHR ''f'']
      else if (of_char c :: nat) < 32
      then [backslash, CHR ''u'', CHR ''0'', CHR ''0'', hex_digit (of_char c div 16), hex_digit (of_char c)]
      else [c])"

definition dump_str :: "string \<Rightarrow> string" where
  "dump_str s = dquote # concat (map dump_char s) @ [dquote]"

fun json_dumps :: "(real \<Rightarrow> string) \<Rightarrow> json \<Rightarrow> string"
  and dump_elems :: "(real \<Rightarrow> string) \<Rightarrow> json list \<Rightarrow> string"
  and dump_members :: "(real \<Rightarrow> string) \<Rightarrow> json dict \<Rightarrow> string" where
  "json_dumps fr JNull = ''null''"
| "json_dumps fr (JBool b) = (if b then ''true'' else ''false'')"
| "json_dumps fr (JInt n) = int_str n"
| "json_dumps fr (JFloat x) = fr x"
| "json_dumps fr (JStr s) = dump_str s"
| "json_dumps fr (JList xs) = (if xs = [] then ''[]'' else CHR ''['' # dump_elems fr xs)"
| "json_dumps fr (JObj d) = (if d = [] then ''{}'' else CHR ''{'' # dump_members fr d)"
| "dump_elems fr [] = '']''"
| "dump_elems fr (v # vs) =
     json_dumps fr v @ (if vs = [] then '']'' else '', '' @ dump_elems fr vs)"
| "dump_members fr [] = ''}''"
| "dump_members fr ((k, v) # d) =
     dump_str k @ '': '' @ json_dumps fr v @ (if d = [] then ''}'' else '', '' @ dump_members fr d)"

text \<open>\<open>json.dumps(v)\<close> escapes every character that is not ASCII.\<close>

definition ascii_char :: "char \<Rightarrow> string" where
  "ascii_char c = (if (of_char c :: nat) < 128 then [c]
     else [backslash, CHR ''u'', CHR ''0'', CHR ''0'', hex_digit (of_char c div 16), hex_digit (of_char c)])"

definition json_dumps_ascii :: "(real \<Rightarrow> string) \<Rightarrow> json \<Rightarrow> string" where
  "json_dumps_ascii fr j = concat (map ascii_char (json_dumps fr j))"

section \<open>Reading what was written\<close>

fun plain_json :: "json \<Rightarrow> bool" where
  "plain_json (JFloat _) = False"
| "plain_json (JList xs) = list_all plain_json xs"
| "plain_json (JObj d) = (distinct (map fst d) \<and> list_all (\<lambda>kv. plain_json (snd kv)) d)"
| "plain_json _ = True"

lemma hex_val_table: "list_all (\<lambda>n. hex_val (hex_digit n) = Some n) [0..<16]"
  by code_simp

lemma hex_val_digit: "hex_val (hex_digit n) = Some (n mod 16)"
proof -
  have "hex_digit n = hex_digit (n mod 16)" by (simp add: hex_digit_def)
  then show ?thesis using hex_val_table by (simp add: list_all_iff)
qed

lemma hex4_control:
  "(of_char c :: nat) < 32 \<Longrightarrow>
   hex4 (CHR ''0'') (CHR ''0'') (hex_digit (of_char c div 16)) (hex_digit (of_char c)) = Some (of_char c)"
proof -
  assume "(of_char c :: nat) < 32"
  then have "(of_char c :: nat) div 16 < 16" by (simp add: less_mult_imp_div_less)
  moreover have "hex_val (CHR ''0'') = Some 0" by (simp add: hex_val_def hex_values_def)
  ultimately show ?thesis by (simp add: hex4_def hex_val_digit)
qed

lemma digit_table:
  "list_all (\<lambda>m. is_digit (char_of (48 + m)) \<and> of_char (char_of (48 + m) :: char) = 48 + m
     \<and> (char_of (48 + m) = CHR ''0'' \<longrightarrow> m = 0)) [0..<10::nat]"
  by code_simp

lemma json_string_dump_char: "json_string (dump_char c @ t) = cons_char c (json_string t)"
proof (cases "c \<in> {dquote, backslash, CHR 0x0A, CHR 0x0D, CHR 0x09, CHR 0x08, CHR 0x0C}")
  case True
  then show ?thesis
    by (auto simp: dump_char_def json_string.simps [of "_ # _"] dquote_def backslash_def escapes_def)
next
  case False
  show ?thesis
  proof (cases "(of_char c :: nat) < 32")
    case True
    then show ?thesis using False hex4_control [OF True]
      by (simp add: dump_char_def json_string.simps [of "CHR 0x5C # _"] dquote_def backslash_def)
  next
    case F: False
    with False show ?thesis by (simp add: dump_char_def json_string.simps [of "c # _"])
  qed
qed

lemma json_string_dump: "json_string (concat (map dump_char s) @ dquote # r) = Some (s, r)"
proof (induction s)
  case Nil
  then show ?case by (simp add: json_string.simps)
next
  case (Cons c s)
  then show ?case by (simp add: json_string_dump_char cons_char_def)
qed

lemma nat_str_props:
  "nat_str n \<noteq> [] \<and> list_all is_digit (nat_str n) \<and> digits_val (nat_str n) = int n
   \<and> (hd (nat_str n) = CHR ''0'' \<longrightarrow> nat_str n = [CHR ''0''])"
proof (induction n rule: nat_str.induct)
  case (1 n)
  have digit: "is_digit (char_of (48 + m :: nat)) \<and> of_char (char_of (48 + m :: nat) :: char) = 48 + m
      \<and> (char_of (48 + m :: nat) = CHR ''0'' \<longrightarrow> m = 0)" if "m < 10" for m :: nat
    using digit_table that unfolding list_all_iff by auto
  have di: "(of_char (char_of (48 + m :: nat) :: char) :: int) = 48 + int m" if "m < 10" for m :: nat
    using digit [OF that] by (metis of_nat_add of_nat_numeral of_nat_of_char)
  show ?case
  proof (cases "n < 10")
    case True
    with digit [OF True] show ?thesis using di [OF True]
      by (simp add: nat_str.simps [of n] digits_val_def del: of_char_of)
  next
    case False
    have "digits_val (xs @ [c]) = digits_val xs * 10 + (of_char c - 48)" for xs c
      by (simp add: digits_val_def)
    moreover have "(of_char (char_of (48 + n mod 10) :: char) :: int) = 48 + int (n mod 10)"
      using di [of "n mod 10"] by simp
    moreover have "int (n div 10) * 10 + int (n mod 10) = int n"
      by (metis div_mult_mod_eq of_nat_add of_nat_mult of_nat_numeral)
    moreover have "hd (nat_str (n div 10)) \<noteq> CHR ''0''"
    proof
      assume "hd (nat_str (n div 10)) = CHR ''0''"
      then have "nat_str (n div 10) = [CHR ''0'']" using 1 False by auto
      then have "digits_val (nat_str (n div 10)) = 0" by (simp add: digits_val_def)
      then show False using 1 False by auto
    qed
    ultimately show ?thesis
      using 1 [OF False] digit [of "n mod 10"] False
      by (simp add: nat_str.simps [of n])
  qed
qed

definition stops :: "string \<Rightarrow> bool" where
  "stops r \<longleftrightarrow> r = [] \<or> hd r \<in> {CHR '','', CHR '']'', CHR ''}'', CHR 0x0A, CHR '' ''}"

lemma span_digits_append:
  assumes "list_all is_digit ds" "stops r"
  shows "span_digits (ds @ r) = (ds, r)"
proof -
  have "r = [] \<or> \<not> is_digit (hd r)" using assms(2) by (auto simp: stops_def is_digit_def)
  then have "takeWhile is_digit r = [] \<and> dropWhile is_digit r = r" by (cases r) auto
  with assms(1) show ?thesis
    by (auto simp: span_digits_def list_all_iff takeWhile_append2 dropWhile_append2)
qed

lemma json_number_digits:
  assumes "list_all is_digit ds" "ds \<noteq> []" "hd ds = CHR ''0'' \<longrightarrow> ds = [CHR ''0'']" "stops r"
  shows "json_number (ds @ r) = Some (JInt (digits_val ds), r)"
    "json_number (CHR ''-'' # ds @ r) = Some (JInt (- digits_val ds), r)"
proof -
  have sp: "span_digits (ds @ r) = (ds, r)" using assms span_digits_append by blast
  have d0: "\<not> next_is (CHR ''-'') (ds @ r)"
    using assms(1,2) by (cases ds) (auto simp: is_digit_def)
  have r1: "\<not> next_is (CHR ''.'') r" using assms(4) by (auto simp: stops_def next_is_def)
  have r2: "json_exponent r = None"
    using assms(4) by (cases r) (auto simp: stops_def json_exponent_def)
  have ip: "(if hd ds = CHR ''0'' then [CHR ''0''] else ds) = ds" using assms(3) by auto
  show "json_number (ds @ r) = Some (JInt (digits_val ds), r)"
    unfolding json_number_def by (simp add: sp assms(2) ip Let_def r2 d0 r1)
  show "json_number (CHR ''-'' # ds @ r) = Some (JInt (- digits_val ds), r)"
    unfolding json_number_def by (simp add: sp assms(2) ip Let_def r2 r1)
qed

lemma json_number_int_str:
  assumes "stops r"
  shows "json_number (int_str i @ r) = Some (JInt i, r)"
  using json_number_digits [of "nat_str (nat i)" r] json_number_digits [of "nat_str (nat (- i))" r]
    nat_str_props [of "nat i"] nat_str_props [of "nat (- i)"] assms
  by (auto simp: int_str_def)

lemma int_str_hd: "\<exists>c t. int_str i = c # t \<and> (is_digit c \<or> c = CHR ''-'')"
proof -
  have "\<exists>c t. nat_str n = c # t \<and> is_digit c" for n
    using nat_str_props [of n] by (cases "nat_str n") auto
  then show ?thesis by (fastforce simp: int_str_def)
qed

lemma dumps_hd:
  assumes "plain_json j"
  shows "\<exists>c t. json_dumps fr j = c # t \<and> \<not> json_ws c \<and> c \<noteq> CHR '']''"
  using assms int_str_hd
  by (cases j) (auto simp: json_ws_def dump_str_def dquote_def is_digit_def, fastforce+)

lemma skip_ws_dumps: "plain_json j \<Longrightarrow> skip_ws (json_dumps fr j @ r) = json_dumps fr j @ r"
  using dumps_hd [of j fr] by (auto simp: skip_ws_def)

lemma skip_ws_blank: "skip_ws (CHR '' '' # s) = skip_ws s"
  by (simp add: skip_ws_def json_ws_def)

lemma json_value_int:
  "stops r \<Longrightarrow> json_value (Suc n) (int_str i @ r) = Some (JInt i, r)"
  using json_number_int_str [of r i] int_str_hd [of i] by (auto simp: is_digit_def dquote_def)

lemma json_value_str: "json_value (Suc n) (dump_str s @ r) = Some (JStr s, r)"
  by (simp add: dump_str_def json_string_dump)

lemma json_value_list:
  assumes "plain_json v" "json_elems n [] (json_dumps fr v @ t) = res"
  shows "json_value (Suc n) (CHR ''['' # json_dumps fr v @ t) = res"
proof -
  obtain c u where c: "json_dumps fr v = c # u" "\<not> json_ws c" "c \<noteq> CHR '']''"
    using dumps_hd [OF assms(1), of fr] by blast
  with assms(2) show ?thesis
    by (auto simp: dquote_def skip_ws_def split: char.splits bool.splits)
qed

lemma json_value_obj:
  "json_value (Suc n) (CHR ''{'' # dump_str k @ t) = json_members n [] (dump_str k @ t)"
  by (simp add: dump_str_def dquote_def skip_ws_def json_ws_def)

lemma json_elems_step:
  assumes "plain_json v" "json_value n (json_dumps fr v @ t) = Some (v, t)"
  shows "t = CHR '']'' # r \<Longrightarrow> json_elems (Suc n) acc (json_dumps fr v @ t) = Some (JList (acc @ [v]), r)"
    "t = CHR '','' # r \<Longrightarrow> json_elems (Suc n) acc (json_dumps fr v @ t) = json_elems n (acc @ [v]) (skip_ws r)"
  using assms by (simp_all add: skip_ws_def json_ws_def)

lemma json_members_step:
  assumes "json_value n (skip_ws (CHR '' '' # json_dumps fr v @ t)) = Some (v, t)"
  shows "t = CHR ''}'' # r \<Longrightarrow> json_members (Suc n) acc (dump_str k @ CHR '':'' # CHR '' '' # json_dumps fr v @ t)
      = Some (JObj (dict_set acc k v), r)"
    "t = CHR '','' # r \<Longrightarrow> json_members (Suc n) acc (dump_str k @ CHR '':'' # CHR '' '' # json_dumps fr v @ t)
      = json_members n (dict_set acc k v) (skip_ws r)"
  using assms by (simp_all add: dump_str_def json_string_dump skip_ws_def [of "CHR '':'' # _"]
      skip_ws_def [of "CHR ''}'' # _"] skip_ws_def [of "CHR '','' # _"] json_ws_def)

lemma dict_set_new: "k \<notin> fst ` set d \<Longrightarrow> dict_set d k v = d @ [(k, v)]"
  by (induction d k v rule: dict_set.induct) auto

lemma dumps_roundtrip:
  "plain_json j \<Longrightarrow> length (json_dumps fr j) \<le> n \<Longrightarrow> stops r \<Longrightarrow>
     json_value (Suc n) (json_dumps fr j @ r) = Some (j, r)"
  "vs \<noteq> [] \<Longrightarrow> list_all plain_json vs \<Longrightarrow> length (dump_elems fr vs) \<le> n \<Longrightarrow>
     json_elems (Suc n) acc (dump_elems fr vs @ r) = Some (JList (acc @ vs), r)"
  "d \<noteq> [] \<Longrightarrow> distinct (map fst (da @ d)) \<Longrightarrow> list_all (\<lambda>kv. plain_json (snd kv)) d \<Longrightarrow>
     length (dump_members fr d) \<le> n \<Longrightarrow>
     json_members (Suc n) da (dump_members fr d @ r) = Some (JObj (da @ d), r)"
proof (induction fr j and fr vs and fr d arbitrary: n r and n r acc and n r da
    rule: json_dumps_dump_elems_dump_members.induct)
  case (1 fr) then show ?case by (simp add: dquote_def strip_lit_def)
next
  case (2 fr b) then show ?case by (simp add: dquote_def strip_lit_def)
next
  case (3 fr i) then show ?case by (simp add: json_value_int del: json_value.simps)
next
  case (4 fr x) then show ?case by simp
next
  case (5 fr s) then show ?case by (simp add: json_value_str del: json_value.simps)
next
  case (6 fr xs)
  show ?case
  proof (cases xs)
    case Nil
    then show ?thesis by (simp add: dquote_def skip_ws_def json_ws_def)
  next
    case (Cons v vs)
    obtain m where m: "n = Suc m" "length (dump_elems fr xs) \<le> m"
      using 6 Cons by (cases n) auto
    have "json_elems n [] (dump_elems fr xs @ r) = Some (JList ([] @ xs), r)"
      unfolding m(1) using 6 Cons m by (intro "6.IH") auto
    moreover have "plain_json v" using 6 Cons by simp
    ultimately show ?thesis
      using json_value_list [of v n fr] Cons by (simp del: json_value.simps json_elems.simps)
  qed
next
  case (7 fr d)
  show ?case
  proof (cases d)
    case Nil
    then show ?thesis by (simp add: dquote_def skip_ws_def json_ws_def)
  next
    case (Cons kv d')
    obtain k v where kv: "kv = (k, v)" by fastforce
    obtain m where m: "n = Suc m" "length (dump_members fr d) \<le> m"
      using 7 Cons by (cases n) auto
    have "json_members n [] (dump_members fr d @ r) = Some (JObj ([] @ d), r)"
      unfolding m(1) using 7 Cons m by (intro "7.IH") auto
    then show ?thesis
      using Cons kv by (simp add: json_value_obj del: json_value.simps json_members.simps)
  qed
next
  case (8 fr) then show ?case by simp
next
  case (9 fr v vs)
  obtain m where m: "n = Suc m" "length (json_dumps fr v) \<le> m"
    using 9 by (cases n) (auto split: if_splits)
  show ?case
  proof (cases "vs = []")
    case True
    have "json_value n (json_dumps fr v @ CHR '']'' # r) = Some (v, CHR '']'' # r)"
      unfolding m(1) using 9 m by (intro "9.IH") (auto simp: stops_def)
    with True 9 show ?thesis by (simp add: json_elems_step del: json_elems.simps)
  next
    case False
    have v: "json_value n (json_dumps fr v @ CHR '','' # CHR '' '' # dump_elems fr vs @ r)
        = Some (v, CHR '','' # CHR '' '' # dump_elems fr vs @ r)"
      unfolding m(1) using 9 m by (intro "9.IH") (auto simp: stops_def)
    have "length (dump_elems fr vs) \<le> m" using 9 m False by simp
    then have "json_elems n (acc @ [v]) (dump_elems fr vs @ r) = Some (JList ((acc @ [v]) @ vs), r)"
      unfolding m(1) using 9 False by (intro "9.IH") auto
    moreover have "skip_ws (CHR '' '' # dump_elems fr vs @ r) = dump_elems fr vs @ r"
      using 9 False skip_ws_dumps by (cases vs) (auto simp: skip_ws_blank)
    moreover have "plain_json v" using 9 by simp
    ultimately show ?thesis
      using v False by (simp add: json_elems_step del: json_elems.simps)
  qed
next
  case (10 fr) then show ?case by simp
next
  case (11 fr k v d)
  obtain m where m: "n = Suc m" "length (json_dumps fr v) \<le> m"
    using 11 by (cases n) (auto split: if_splits)
  have pv: "plain_json v" using 11 by simp
  have fresh: "dict_set da k v = da @ [(k, v)]" using 11 by (intro dict_set_new) auto
  show ?case
  proof (cases "d = []")
    case True
    have "json_value n (json_dumps fr v @ CHR ''}'' # r) = Some (v, CHR ''}'' # r)"
      unfolding m(1) using 11 m by (intro "11.IH") (auto simp: stops_def)
    with True fresh pv show ?thesis
      by (simp add: json_members_step skip_ws_blank skip_ws_dumps del: json_members.simps)
  next
    case False
    have v: "json_value n (json_dumps fr v @ CHR '','' # CHR '' '' # dump_members fr d @ r)
        = Some (v, CHR '','' # CHR '' '' # dump_members fr d @ r)"
      unfolding m(1) using 11 m by (intro "11.IH") (auto simp: stops_def)
    have "length (dump_members fr d) \<le> m" using 11 m False by simp
    then have "json_members n (da @ [(k, v)]) (dump_members fr d @ r) = Some (JObj ((da @ [(k, v)]) @ d), r)"
      unfolding m(1) using 11 False by (intro "11.IH") auto
    moreover have "skip_ws (CHR '' '' # dump_members fr d @ r) = dump_members fr d @ r"
    proof -
      obtain k2 v2 d2 where "d = (k2, v2) # d2" using False by (metis neq_Nil_conv surj_pair)
      then show ?thesis by (simp add: dump_str_def skip_ws_def json_ws_def dquote_def)
    qed
    ultimately show ?thesis
      using v False fresh pv
      by (simp add: json_members_step skip_ws_blank skip_ws_dumps del: json_members.simps)
  qed
qed

theorem json_loads_dumps: "plain_json j \<Longrightarrow> json_loads (json_dumps fr j) = Some j"
  using dumps_roundtrip(1) [of j fr "length (json_dumps fr j)" "[]"] skip_ws_dumps [of j fr "[]"]
  by (simp add: json_loads_def stops_def skip_ws_def [of "[]"] del: json_value.simps)

section \<open>Access to decoded values\<close>

fun type_name :: "json \<Rightarrow> string" where
  "type_name JNull = ''NoneType''"
| "type_name (JBool _) = ''bool''"
| "type_name (JInt _) = ''int''"
| "type_name (JFloat _) = ''float''"
| "type_name (JStr _) = ''str''"
| "type_name (JList _) = ''list''"
| "type_name (JObj _) = ''dict''"

text \<open>\<open>x.get\<close> needs a dict.\<close>

definition attr_error :: "json \<Rightarrow> string \<Rightarrow> exn" where
  "attr_error j m = OtherError ([CHR 0x27] @ type_name j @ [CHR 0x27] @ '' object has no attribute ''
     @ [CHR 0x27] @ m @ [CHR 0x27])"

definition as_dict :: "json \<Rightarrow> json dict result" where
  "as_dict j = (case j of JObj d \<Rightarrow> Inr d | _ \<Rightarrow> Inl (attr_error j ''get''))"

definition json_get :: "json \<Rightarrow> string \<Rightarrow> json \<Rightarrow> json result" where
  "json_get j k v = bind_result (as_dict j) (\<lambda>d. Inr (get_or d k v))"

text \<open>\<open>x[0]\<close> of a decoded value.\<close>

definition item0 :: "json \<Rightarrow> json result" where
  "item0 j = (case j of
     JList (x # _) \<Rightarrow> Inr x
   | JList [] \<Rightarrow> Inl (OtherError ''list index out of range'')
   | JStr (c # _) \<Rightarrow> Inr (JStr [c])
   | JStr [] \<Rightarrow> Inl (OtherError ''string index out of range'')
   | JObj _ \<Rightarrow> Inl (KeyError ''0'')
   | _ \<Rightarrow> Inl (TypeError ([CHR 0x27] @ type_name j @ [CHR 0x27] @ '' object is not subscriptable'')))"

text \<open>\<open>x or y\<close>.\<close>

definition json_or :: "json \<Rightarrow> json \<Rightarrow> json" where
  "json_or x y = (if truthy x then x else y)"

text \<open>\<open>int(x)\<close>.\<close>

definition parse_int :: "string \<Rightarrow> int option" where
  "parse_int s = (let t = strip s;
     (sg, u) = (if next_is (CHR ''-'') t then (-1, tl t) else if next_is (CHR ''+'') t then (1, tl t) else (1::int, t));
     parts = split_char (CHR ''_'') u
   in if list_all (\<lambda>p. p \<noteq> [] \<and> list_all is_digit p) parts
      then Some (sg * digits_val (concat parts)) else None)"

definition py_int :: "json \<Rightarrow> int result" where
  "py_int j = (case j of
     JInt n \<Rightarrow> Inr n
   | JBool b \<Rightarrow> Inr (if b then 1 else 0)
   | JFloat x \<Rightarrow> Inr (if x < 0 then - \<lfloor>- x\<rfloor> else \<lfloor>x\<rfloor>)
   | JStr s \<Rightarrow> (case parse_int s of Some n \<Rightarrow> Inr n
       | None \<Rightarrow> Inl (ValueError (''invalid literal for int() with base 10: '' @ py_repr s)))
   | _ \<Rightarrow> Inl (TypeError (''int() argument must be a string, a bytes-like object or a real number, not ''
       @ [CHR 0x27] @ type_name j @ [CHR 0x27])))"

text \<open>\<open>round(x, 1)\<close>, ties to even.\<close>

definition round1 :: "real \<Rightarrow> real" where
  "round1 x = (let y = x * 10; f = \<lfloor>y\<rfloor>; d = y - of_int f in
     of_int (if d < 1/2 \<or> d = 1/2 \<and> even f then f else f + 1) / 10)"

text \<open>\<open>str(e)\<close>, where a missing key is shown by its representation.\<close>

definition exc_str :: "exn \<Rightarrow> string" where
  "exc_str e = (case e of KeyError k \<Rightarrow> py_repr k | _ \<Rightarrow> exn_text e)"

end
