(* ===== verification/Metrics.thy ===== *)
theory Metrics
  imports Py_Json
begin

text \<open>
  \<open>orchestrator/metrics.py\<close>: the list of recorded model calls, its summaries and the
  usage block of a model answer.  Latencies are reals, so a sum does not depend on its order.
\<close>

section \<open>Recording\<close>

record metric_entry =
  me_agent :: string
  me_role :: string
  me_in :: int
  me_out :: int
  me_latency :: real
  me_session :: string
  me_status :: string
  me_ts :: real

type_synonym metrics = "metric_entry list"

definition record_request :: "metric_entry \<Rightarrow> metrics \<Rightarrow> metrics" where
  "record_request e m = m @ [e]"

definition reset_metrics :: "metrics \<Rightarrow> metrics" where
  "reset_metrics m = []"

section \<open>Summaries\<close>

record role_data =
  rd_requests :: int
  rd_in :: int
  rd_out :: int
  rd_failed :: int
  rd_total :: real \<comment> \<open>\<open>total_latency_ms\<close>\<close>

definition no_data :: role_data where
  "no_data = \<lparr>rd_requests = 0, rd_in = 0, rd_out = 0, rd_failed = 0, rd_total = 0\<rparr>"

definition add_entry :: "metric_entry \<Rightarrow> role_data \<Rightarrow> role_data" where
  "add_entry r d = d\<lparr>rd_requests := rd_requests d + 1, rd_in := rd_in d + me_in r,
     rd_out := rd_out d + me_out r, rd_total := rd_total d + me_latency r,
     rd_failed := rd_failed d + (if me_status r = ''failed'' \<or> me_status r = ''killed'' then 1 else 0)\<rparr>"

fun by_role :: "metric_entry list \<Rightarrow> role_data dict \<Rightarrow> role_data dict" where
  "by_role [] acc = acc"
| "by_role (r # rs) acc =
     by_role rs (dict_set acc (me_role r) (add_entry r (get_or acc (me_role r) no_data)))"

definition role_json :: "role_data \<Rightarrow> json" where
  "role_json d = JObj
    [(''requests'', JInt (rd_requests d)), (''tokens_in'', JInt (rd_in d)),
     (''tokens_out'', JInt (rd_out d)), (''failed'', JInt (rd_failed d)),
     (''avg_latency_ms'', JFloat (if rd_requests d \<noteq> 0
        then round1 (rd_total d / of_int (rd_requests d)) else 0))]"

definition get_summary :: "metrics \<Rightarrow> json dict" where
  "get_summary m =
     (if m = [] then
        [(''total_requests'', JInt 0), (''total_tokens_in'', JInt 0), (''total_tokens_out'', JInt 0),
         (''avg_latency_ms'', JFloat 0), (''by_role'', JObj [])]
      else
        [(''total_requests'', JInt (int (length m))),
         (''total_tokens_in'', JInt (sum_list (map me_in m))),
         (''total_tokens_out'', JInt (sum_list (map me_out m))),
         (''avg_latency_ms'', JFloat (round1 (sum_list (map me_latency m) / real (length m)))),
         (''by_role'', JObj (map (\<lambda>(role, d). (role, role_json d)) (by_role m [])))])"

definition get_session_summary :: "string \<Rightarrow> metrics \<Rightarrow> json dict" where
  "get_session_summary sid m =
     (let reqs = filter (\<lambda>r. me_session r = sid) m in
        [(''session_id'', JStr sid), (''requests'', JInt (int (length reqs))),
         (''tokens_in'', JInt (sum_list (map me_in reqs))),
         (''tokens_out'', JInt (sum_list (map me_out reqs))),
         (''avg_latency_ms'', JFloat (if reqs \<noteq> []
            then round1 (sum_list (map me_latency reqs) / real (length reqs)) else 0))])"

section \<open>Usage of a model answer\<close>

definition parse_usage :: "json dict \<Rightarrow> (int \<times> int) result" where
  "parse_usage resp =
     (let usage = json_or (get_or resp ''usage'' JNull) (JObj []) in
      if truthy usage then
        bind_result (json_get usage ''prompt_tokens'' (JInt 0)) (\<lambda>p.
        bind_result (py_int p) (\<lambda>a.
        bind_result (json_get usage ''completion_tokens'' (JInt 0)) (\<lambda>c.
        bind_result (py_int c) (\<lambda>b. Inr (a, b)))))
      else
        bind_result (py_int (get_or resp ''prompt_eval_count'' (JInt 0))) (\<lambda>a.
        bind_result (py_int (get_or resp ''eval_count'' (JInt 0))) (\<lambda>b. Inr (a, b))))"

section \<open>The breakdown adds up\<close>

lemma sum_dict_set:
  fixes f :: "'v \<Rightarrow> 'n::ab_group_add"
  assumes "distinct (map fst d)"
  shows "sum_list (map (\<lambda>kv. f (snd kv)) (dict_set d k v)) =
    sum_list (map (\<lambda>kv. f (snd kv)) d) + f v - (case map_of d k of None \<Rightarrow> 0 | Some u \<Rightarrow> f u)"
  using assms
proof (induction d k v rule: dict_set.induct)
  case (2 k' v' d k v)
  then show ?case by (auto split: option.splits simp: algebra_simps)
qed simp

definition tally :: "(role_data \<Rightarrow> 'n::ab_group_add) \<Rightarrow> role_data dict \<Rightarrow> 'n" where
  "tally f d = sum_list (map (\<lambda>kv. f (snd kv)) d)"

lemma tally_by_role:
  fixes f :: "role_data \<Rightarrow> 'n::ab_group_add"
  assumes add: "\<And>r d. f (add_entry r d) = f d + g r" and none: "f no_data = 0"
  shows "distinct (map fst acc) \<Longrightarrow> tally f (by_role m acc) = tally f acc + sum_list (map g m)"
proof (induction m acc rule: by_role.induct)
  case (1 acc)
  then show ?case by simp
next
  case (2 r rs acc)
  let ?d = "get_or acc (me_role r) no_data"
  have "tally f (dict_set acc (me_role r) (add_entry r ?d)) = tally f acc + g r"
    using sum_dict_set [OF "2.prems", of f "me_role r" "add_entry r ?d"] none
    by (auto simp: tally_def add get_or_def split: option.splits)
  with 2 show ?case by (simp add: add.assoc)
qed

text \<open>The breakdown by role of the metrics adds up to the totals: the requests, the tokens in and
  out and the latencies of the roles sum to those of the whole recording.\<close>

theorem metrics_add_up:
  "tally rd_requests (by_role m []) = int (length m) \<and>
   tally rd_in (by_role m []) = sum_list (map me_in m) \<and>
   tally rd_out (by_role m []) = sum_list (map me_out m) \<and>
   tally rd_total (by_role m []) = sum_list (map me_latency m)"
  using tally_by_role [of rd_requests "\<lambda>_. 1" "[]" m] tally_by_role [of rd_in me_in "[]" m]
    tally_by_role [of rd_out me_out "[]" m] tally_by_role [of rd_total me_latency "[]" m]
  by (simp add: add_entry_def no_data_def tally_def sum_list_triv)

end
