(* ===== verification/Agent_Manager.thy ===== *)
theory Agent_Manager
  imports Agent_Bus Metrics Task_Exec
begin

text \<open>
  \<open>orchestrator/agent_manager.py\<close>: the registry of agents with their bounded inbox and
  outbox, running one agent under the watchdog, the streamed answer, messages to agents,
  the clean-up of finished agents, and the decomposition of a plan into tasks.

  The router, the routing policy, the context manager, the memory, the session manager,
  the bus, the clock and the prompt files are parameters.  While \<open>_run_agent\<close> waits, the
  subscriber of the stream may take chunks from the outbox (\<open>ae_taken\<close>), and the
  watchdog may cancel the run (\<open>ae_expired\<close>).
\<close>

section \<open>Agents\<close>

definition inbox_maxsize :: nat where "inbox_maxsize = 256"
definition outbox_maxsize :: nat where "outbox_maxsize = 1024"

datatype agent_state = Idle | Agent_Running | Agent_Done | Agent_Failed | Agent_Killed

fun agent_state_str :: "agent_state \<Rightarrow> string" where
  "agent_state_str Idle = ''idle''"
| "agent_state_str Agent_Running = ''running''"
| "agent_state_str Agent_Done = ''done''"
| "agent_state_str Agent_Failed = ''failed''"
| "agent_state_str Agent_Killed = ''killed''"

definition terminal :: "agent_state \<Rightarrow> bool" where
  "terminal s \<longleftrightarrow> s \<in> {Agent_Done, Agent_Failed, Agent_Killed}"

record agent =
  ag_id :: string
  ag_role :: string
  ag_session :: string
  ag_status :: agent_state
  ag_model :: "string option"
  ag_created :: real
  ag_started :: "real option"
  ag_ended :: "real option"
  ag_task :: "string option"
  ag_result :: "string option"
  ag_error :: "string option"
  ag_history :: "message list"
  ag_inbox :: "string list"
  ag_outbox :: "string option list" \<comment> \<open>\<open>None\<close> is the end-of-stream sentinel\<close>

definition json_opt :: "('a \<Rightarrow> json) \<Rightarrow> 'a option \<Rightarrow> json" where
  "json_opt f x = (case x of None \<Rightarrow> JNull | Some y \<Rightarrow> f y)"

definition agent_dict :: "agent \<Rightarrow> json dict" where
  "agent_dict a =
    [(''agent_id'', JStr (ag_id a)), (''role'', JStr (ag_role a)), (''session_id'', JStr (ag_session a)),
     (''status'', JStr (agent_state_str (ag_status a))), (''model'', json_opt JStr (ag_model a)),
     (''task'', json_opt JStr (ag_task a)), (''created_at'', JFloat (ag_created a)),
     (''started_at'', json_opt JFloat (ag_started a)), (''ended_at'', json_opt JFloat (ag_ended a)),
     (''error'', json_opt JStr (ag_error a)),
     (''inbox_depth'', JInt (int (length (ag_inbox a)))),
     (''outbox_depth'', JInt (int (length (ag_outbox a))))]"

text \<open>The dict \<open>_agents\<close>.\<close>

type_synonym agents = "agent dict"

section \<open>The environment\<close>

datatype raw_answer = RawDict "json dict" | RawStream "string result list"
  \<comment> \<open>a stream yields lines and may raise\<close>

record 'w agent_env =
  ae_hex8 :: "'w \<Rightarrow> string \<times> 'w"  \<comment> \<open>\<open>uuid.uuid4().hex[:8]\<close>\<close>
  ae_now :: "'w \<Rightarrow> real"
  ae_register :: "string \<Rightarrow> string \<Rightarrow> 'w \<Rightarrow> 'w" \<comment> \<open>session manager; its failure is swallowed\<close>
  ae_resolve :: "string \<Rightarrow> string \<Rightarrow> 'w \<Rightarrow> string result \<times> 'w" \<comment> \<open>role, session: model name\<close>
  ae_prompt :: "string \<Rightarrow> string option" \<comment> \<open>the text of agents/role.md, if it exists\<close>
  ae_build :: "string \<Rightarrow> string \<Rightarrow> message list \<Rightarrow> string \<Rightarrow> string \<Rightarrow> 'w \<Rightarrow> message list result \<times> 'w"
    \<comment> \<open>task, system prompt, conversation, session, model\<close>
  ae_dispatch :: "message list \<Rightarrow> string \<Rightarrow> string \<Rightarrow> 'w \<Rightarrow> raw_answer result \<times> 'w"
  ae_publish :: "(string \<Rightarrow> event \<Rightarrow> 'w \<Rightarrow> 'w) option" \<comment> \<open>the bus, when it is wired\<close>
  ae_record_failure :: "string \<Rightarrow> string \<Rightarrow> string \<Rightarrow> string \<Rightarrow> string \<Rightarrow> 'w \<Rightarrow> unit result \<times> 'w"
    \<comment> \<open>session, agent, task, error, approach\<close>
  ae_metric :: "metric_entry \<Rightarrow> 'w \<Rightarrow> 'w"
  ae_await :: "'w \<Rightarrow> 'w" \<comment> \<open>time passes while the next line of the stream is awaited\<close>
  ae_taken :: "'w \<Rightarrow> nat" \<comment> \<open>how many chunks the subscriber takes at this point\<close>
  ae_expired :: "'w \<Rightarrow> bool" \<comment> \<open>the watchdog fires at this point\<close>
  ae_max_runtime :: nat
  ae_max_history :: nat
  ae_idle_timeout :: real

section \<open>Outbox\<close>

definition push_chunk :: "string option \<Rightarrow> agent \<Rightarrow> agent" where
  "push_chunk x a =
     (case put_nowait outbox_maxsize x (ag_outbox a) of
        None \<Rightarrow> a \<comment> \<open>outbox full: dropped\<close>
      | Some q \<Rightarrow> a\<lparr>ag_outbox := q\<rparr>)"

definition drain_outbox_sentinel :: "agent \<Rightarrow> agent" where
  "drain_outbox_sentinel a = push_chunk None a"

text \<open>The subscriber takes what it can while the run waits.\<close>

definition let_take :: "'w agent_env \<Rightarrow> agent \<Rightarrow> 'w \<Rightarrow> string option list \<times> agent" where
  "let_take E a w = (take (ae_taken E w) (ag_outbox a), a\<lparr>ag_outbox := drop (ae_taken E w) (ag_outbox a)\<rparr>)"

section \<open>Prompts and answers\<close>

definition load_agent_prompt :: "'w agent_env \<Rightarrow> string \<Rightarrow> string" where
  "load_agent_prompt E role =
     (case ae_prompt E role of
        Some text \<Rightarrow> text
      | None \<Rightarrow> ''You are a '' @ role
          @ '' agent. Complete the task given to you accurately and concisely.'')"

definition text_of :: "json \<Rightarrow> string result" where
  "text_of j = (case j of JStr s \<Rightarrow> Inr s
     | _ \<Rightarrow> Inl (TypeError (''can only concatenate str (not '' @ [CHR 0x22] @ type_name j @ [CHR 0x22] @ '') to str'')))"

text \<open>\<open>msg.get("content", "") if isinstance(msg, dict) else ""\<close>.\<close>

definition message_content :: "json \<Rightarrow> json" where
  "message_content msg = (case msg of JObj d \<Rightarrow> get_or d ''content'' (JStr []) | _ \<Rightarrow> JStr [])"

text \<open>The content of a non-streamed answer.\<close>

definition answer_content :: "json dict \<Rightarrow> json result" where
  "answer_content raw =
     (let choices = get_or raw ''choices'' (JList []) in
      if truthy choices then
        bind_result (item0 choices) (\<lambda>c.
        bind_result (json_get c ''message'' (JObj [])) (\<lambda>msg. Inr (message_content msg)))
      else Inr (JStr []))"

text \<open>The token of one chunk, from the delta or, failing that, the message.\<close>

definition chunk_token :: "json dict \<Rightarrow> json result" where
  "chunk_token chunk =
     (let choices = get_or chunk ''choices'' (JList []) in
      if truthy choices then
        bind_result (item0 choices) (\<lambda>c.
        bind_result (json_get c ''delta'' (JObj [])) (\<lambda>delta.
        bind_result (json_get delta ''content'' (JStr [])) (\<lambda>t.
          if truthy t then Inr t
          else bind_result (json_get c ''message'' (JObj [])) (\<lambda>msg. Inr (message_content msg)))))
      else Inr (JStr []))"

text \<open>The data of a line of the stream: \<open>None\<close> for a line that is skipped.\<close>

definition line_data :: "string \<Rightarrow> string option" where
  "line_data line =
     (let l = strip line in
      if l = [] \<or> \<not> startswith l ''data:'' then None else Some (strip (drop 5 l)))"

section \<open>Reading the stream\<close>

record stream =
  sm_agent :: agent
  sm_taken :: "string option list" \<comment> \<open>chunks the subscriber has received\<close>
  sm_content :: string
  sm_in :: json
  sm_out :: json

definition add_token :: "json \<Rightarrow> stream \<Rightarrow> stream result" where
  "add_token token s =
     (if truthy token then
        bind_result (text_of token) (\<lambda>t.
          Inr (s\<lparr>sm_content := sm_content s @ t, sm_agent := push_chunk (Some t) (sm_agent s)\<rparr>))
      else Inr s)"

definition add_usage :: "json dict \<Rightarrow> stream \<Rightarrow> stream result" where
  "add_usage chunk s =
     (let usage = get_or chunk ''usage'' JNull in
      if truthy usage then
        bind_result (as_dict usage) (\<lambda>u.
          Inr (s\<lparr>sm_in := get_or u ''prompt_tokens'' (sm_in s),
                 sm_out := get_or u ''completion_tokens'' (sm_out s)\<rparr>))
      else Inr s)"

definition read_chunk :: "json \<Rightarrow> stream \<Rightarrow> stream \<times> exn option" where
  "read_chunk doc s =
     (case bind_result (as_dict doc) (\<lambda>chunk. bind_result (chunk_token chunk) (\<lambda>token.
             bind_result (add_token token s) (\<lambda>s1. Inr (chunk, s1)))) of
        Inl e \<Rightarrow> (s, Some e)
      | Inr (chunk, s1) \<Rightarrow>
          (case add_usage chunk s1 of Inl e \<Rightarrow> (s1, Some e) | Inr s2 \<Rightarrow> (s2, None)))"

text \<open>How a run, or a part of it, ends.\<close>

datatype 'a run_end = Finished 'a | Raised exn | Timed_Out

definition take_step :: "'w agent_env \<Rightarrow> stream \<Rightarrow> 'w \<Rightarrow> stream" where
  "take_step E s w = (case let_take E (sm_agent s) w of
     (xs, a) \<Rightarrow> s\<lparr>sm_agent := a, sm_taken := sm_taken s @ xs\<rparr>)"

fun read_stream :: "'w agent_env \<Rightarrow> string result list \<Rightarrow> stream \<Rightarrow> 'w \<Rightarrow> stream \<times> unit run_end \<times> 'w" where
  "read_stream E [] s w = (s, Finished (), w)"
| "read_stream E (l # ls) s w =
     (let w1 = ae_await E w; s1 = take_step E s w1 in
      if ae_expired E w1 then (s1, Timed_Out, w1)
      else case l of
        Inl e \<Rightarrow> (s1, Raised e, w1)
      | Inr line \<Rightarrow>
          (case line_data line of
             None \<Rightarrow> read_stream E ls s1 w1
           | Some data \<Rightarrow>
               if data = ''[DONE]'' then (s1, Finished (), w1)
               else case json_loads data of
                 None \<Rightarrow> read_stream E ls s1 w1
               | Some doc \<Rightarrow>
                   (case read_chunk doc s1 of
                      (s2, Some e) \<Rightarrow> (s2, Raised e, w1)
                    | (s2, None) \<Rightarrow> read_stream E ls s2 w1)))"

section \<open>Running an agent\<close>

text \<open>A count in a usage block; what is not an integer is outside the model and counts as 0.\<close>

definition count_of :: "json \<Rightarrow> int" where
  "count_of j = (case j of JInt n \<Rightarrow> n | _ \<Rightarrow> 0)"

definition single_answer :: "json dict \<Rightarrow> agent \<Rightarrow> agent \<times> (string \<times> int \<times> int) result" where
  "single_answer raw a =
     (case bind_result (answer_content raw) (\<lambda>c.
             bind_result (parse_usage raw) (\<lambda>u. Inr (c, u))) of
        Inl e \<Rightarrow> (a, Inl e)
      | Inr (c, i, out) \<Rightarrow>
          (if truthy c
           then (case text_of c of Inl e \<Rightarrow> (a, Inl e)
                 | Inr t \<Rightarrow> (push_chunk (Some t) a, Inr (t, i, out)))
           else (a, Inr ([], i, out))))"

definition trim_history :: "nat \<Rightarrow> message list \<Rightarrow> message list" where
  "trim_history n h = (if length h > n then drop (length h - n) h else h)"

definition chat_message :: "string \<Rightarrow> string \<Rightarrow> message" where
  "chat_message role text = \<lparr>msg_role = role, msg_content = CText text, msg_name = None\<rparr>"

definition publish_event :: "'w agent_env \<Rightarrow> event_type \<Rightarrow> agent \<Rightarrow> json dict \<Rightarrow> 'w \<Rightarrow> 'w" where
  "publish_event E t a payload w =
     (case ae_publish E of None \<Rightarrow> w
      | Some pub \<Rightarrow> pub (ag_session a) \<lparr>ev_type = t, ev_session = ag_session a,
          ev_agent = Some (ag_id a), ev_payload = payload, ev_ts = ae_now E w\<rparr> w)"

definition metric_of :: "agent \<Rightarrow> int \<Rightarrow> int \<Rightarrow> real \<Rightarrow> string \<Rightarrow> real \<Rightarrow> metric_entry" where
  "metric_of a i out latency status now =
     \<lparr>me_agent = ag_id a, me_role = ag_role a, me_in = i, me_out = out, me_latency = latency,
      me_session = ag_session a, me_status = status, me_ts = now\<rparr>"

definition work_complete_payload :: "agent \<Rightarrow> string \<Rightarrow> int \<Rightarrow> int \<Rightarrow> real \<Rightarrow> json dict" where
  "work_complete_payload a content i out latency =
     [(''role'', JStr (ag_role a)), (''model'', json_opt JStr (ag_model a)),
      (''result_preview'', JStr (take 200 content)), (''tokens_in'', JInt i),
      (''tokens_out'', JInt out), (''latency_ms'', JFloat (round1 latency))]"

text \<open>After the answer: the metric, the event, the history.\<close>

definition finish_run :: "'w agent_env \<Rightarrow> agent \<Rightarrow> string \<Rightarrow> string \<Rightarrow> int \<Rightarrow> int \<Rightarrow> real \<Rightarrow> 'w
    \<Rightarrow> agent \<times> string run_end \<times> 'w" where
  "finish_run E a task content i out t0 w =
     (let latency = (ae_now E w - t0) * 1000;
          w1 = ae_metric E (metric_of a i out latency ''done'' (ae_now E w)) w;
          w2 = publish_event E Work_Complete a (work_complete_payload a content i out latency) w1
      in if ae_publish E \<noteq> None \<and> ae_expired E w2 then (a, Timed_Out, w2)
         else (a\<lparr>ag_history := trim_history (ae_max_history E)
                 (ag_history a @ [chat_message ''user'' task, chat_message ''assistant'' content])\<rparr>,
               Finished content, w2))"

text \<open>The call of the model: the agent, the chunks its subscriber took, the content and usage.\<close>

definition call_model :: "'w agent_env \<Rightarrow> agent \<Rightarrow> message list \<Rightarrow> 'w
    \<Rightarrow> agent \<times> string option list \<times> (string \<times> int \<times> int) run_end \<times> 'w" where
  "call_model E a messages w =
     (case ae_dispatch E messages (ag_role a) (ag_session a) w of (r, w1) \<Rightarrow>
        if ae_expired E w1 then (a, [], Timed_Out, w1)
        else case r of
          Inl e \<Rightarrow> (a, [], Raised e, w1)
        | Inr (RawDict d) \<Rightarrow>
            (case single_answer d a of
               (a1, Inl e) \<Rightarrow> (a1, [], Raised e, w1)
             | (a1, Inr (c, i, out)) \<Rightarrow> (a1, [], Finished (c, i, out), w1))
        | Inr (RawStream ls) \<Rightarrow>
            (case read_stream E ls \<lparr>sm_agent = a, sm_taken = [], sm_content = [],
                    sm_in = JInt 0, sm_out = JInt 0\<rparr> w1 of
               (s, Finished _, w2) \<Rightarrow>
                 (sm_agent s, sm_taken s, Finished (sm_content s, count_of (sm_in s), count_of (sm_out s)), w2)
             | (s, Raised e, w2) \<Rightarrow> (sm_agent s, sm_taken s, Raised e, w2)
             | (s, Timed_Out, w2) \<Rightarrow> (sm_agent s, sm_taken s, Timed_Out, w2)))"

definition run_agent :: "'w agent_env \<Rightarrow> agent \<Rightarrow> string \<Rightarrow> string \<Rightarrow> 'w
    \<Rightarrow> agent \<times> string option list \<times> string run_end \<times> 'w" where
  "run_agent E a task extra w =
     (case ae_resolve E (ag_role a) (ag_session a) w of (rm, w1) \<Rightarrow>
        if ae_expired E w1 then (a, [], Timed_Out, w1)
        else
          let model = (case rm of Inl _ \<Rightarrow> [] | Inr m \<Rightarrow> m);
              a1 = a\<lparr>ag_model := Some model\<rparr>;
              sys = load_agent_prompt E (ag_role a)
                @ (if extra \<noteq> [] then [nl, nl] @ ''## Additional Context'' @ [nl] @ extra else [])
          in case ae_build E task sys (ag_history a1) (ag_session a1) model w1 of (rb, w2) \<Rightarrow>
            if ae_expired E w2 then (a1, [], Timed_Out, w2)
            else case rb of
              Inl e \<Rightarrow> (a1, [], Raised e, w2)
            | Inr messages \<Rightarrow>
                (case call_model E a1 messages w2 of
                   (a2, taken, Finished (c, i, out), w3) \<Rightarrow>
                     (case finish_run E a2 task c i out (ae_now E w2) w3 of
                        (a3, end, w4) \<Rightarrow> (a3, taken, end, w4))
                 | (a2, taken, Raised e, w3) \<Rightarrow> (a2, taken, Raised e, w3)
                 | (a2, taken, Timed_Out, w3) \<Rightarrow> (a2, taken, Timed_Out, w3)))"

section \<open>Spawning\<close>

definition new_agent :: "'w agent_env \<Rightarrow> string \<Rightarrow> string \<Rightarrow> 'w \<Rightarrow> agent \<times> 'w" where
  "new_agent E role sid w =
     (case ae_hex8 E w of (h, w1) \<Rightarrow>
        (\<lparr>ag_id = role @ ''-'' @ h, ag_role = role, ag_session = sid, ag_status = Idle, ag_model = None,
          ag_created = ae_now E w1, ag_started = None, ag_ended = None, ag_task = None, ag_result = None,
          ag_error = None, ag_history = [], ag_inbox = [], ag_outbox = []\<rparr>, w1))"

definition spawn_reply :: "agent \<Rightarrow> json dict" where
  "spawn_reply a =
    [(''agent_id'', JStr (ag_id a)), (''role'', JStr (ag_role a)), (''model'', json_opt JStr (ag_model a)),
     (''result'', json_opt JStr (ag_result a)), (''status'', JStr (agent_state_str (ag_status a)))]
    @ (case ag_error a of None \<Rightarrow> [] | Some e \<Rightarrow> [(''error'', JStr e)])"

definition elapsed_ms :: "agent \<Rightarrow> real" where
  "elapsed_ms a = (case (ag_started a, ag_ended a) of
     (Some s, Some e) \<Rightarrow> (e - s) * 1000 | _ \<Rightarrow> 0)"

text \<open>The two handlers: a timeout and an exception differ in the status, error and reason.\<close>

definition fail_agent :: "'w agent_env \<Rightarrow> agent_state \<Rightarrow> string \<Rightarrow> string \<Rightarrow> string \<Rightarrow> agent \<Rightarrow> 'w
    \<Rightarrow> agent \<times> json dict result \<times> 'w" where
  "fail_agent E st err reason task a w =
     (let a1 = drain_outbox_sentinel (a\<lparr>ag_status := st, ag_error := Some err, ag_ended := Some (ae_now E w)\<rparr>);
          w1 = ae_metric E (metric_of a1 0 0 (elapsed_ms a1) (agent_state_str st) (ae_now E w)) w
      in case ae_record_failure E (ag_session a1) (ag_id a1) task err (''role='' @ ag_role a1) w1 of
           (Inl e, w2) \<Rightarrow> (a1, Inl e, w2)
         | (Inr _, w2) \<Rightarrow>
             (a1, Inr (spawn_reply a1),
              publish_event E Work_Failed a1 [(''role'', JStr (ag_role a1)), (''error'', JStr err),
                (''reason'', JStr reason)] w2))"

definition end_run :: "'w agent_env \<Rightarrow> string \<Rightarrow> agent \<Rightarrow> string run_end \<Rightarrow> 'w
    \<Rightarrow> agent \<times> json dict result \<times> 'w" where
  "end_run E task a r w =
     (case r of
        Finished result \<Rightarrow>
          (let a1 = drain_outbox_sentinel (a\<lparr>ag_status := Agent_Done, ag_result := Some result,
                      ag_ended := Some (ae_now E w)\<rparr>)
           in (a1, Inr (spawn_reply a1), w))
      | Timed_Out \<Rightarrow> fail_agent E Agent_Killed (''Timed out after '' @ nat_str (ae_max_runtime E) @ ''s'')
                       ''timeout'' task a w
      | Raised e \<Rightarrow> fail_agent E Agent_Failed (exn_text e) ''exception'' task a w)"

definition spawn_and_run :: "'w agent_env \<Rightarrow> string \<Rightarrow> string \<Rightarrow> string \<Rightarrow> string \<Rightarrow> agents \<Rightarrow> 'w
    \<Rightarrow> json dict result \<times> string option list \<times> agents \<times> 'w" where
  "spawn_and_run E role task sid extra ags w =
     (case new_agent E role sid w of (a0, w1) \<Rightarrow>
        let a1 = a0\<lparr>ag_task := Some task, ag_status := Agent_Running, ag_started := Some (ae_now E w1)\<rparr>;
            w2 = ae_register E sid (ag_id a1) w1
        in case run_agent E a1 task extra w2 of (a2, taken, r, w3) \<Rightarrow>
           (case end_run E task a2 r w3 of (a3, reply, w4) \<Rightarrow>
              (reply, taken, dict_set ags (ag_id a3) a3, w4)))"

section \<open>Messages and streams\<close>

definition send_message :: "string \<Rightarrow> string \<Rightarrow> agents \<Rightarrow> bool \<times> agents" where
  "send_message aid message ags =
     (case map_of ags aid of
        None \<Rightarrow> (False, ags)
      | Some a \<Rightarrow>
          if terminal (ag_status a) then (False, ags)
          else case put_nowait inbox_maxsize message (ag_inbox a) of
            Some q \<Rightarrow> (True, dict_set ags aid (a\<lparr>ag_inbox := q\<rparr>))
          | None \<Rightarrow> (False, ags))"

text \<open>
  What the generator of \<open>subscribe_stream\<close> sees on each turn: an item of the outbox, or
  thirty seconds of silence in which it looks at the status of the agent.  The result is
  the chunks it yields and whether it has returned.
\<close>

datatype stream_turn = Got "string option" | Silent agent_state

fun subscribe_turns :: "stream_turn list \<Rightarrow> string list \<times> bool" where
  "subscribe_turns [] = ([], False)"
| "subscribe_turns (Got None # ts) = ([], True)"
| "subscribe_turns (Got (Some c) # ts) =
     (case subscribe_turns ts of (cs, fin) \<Rightarrow> (c # cs, fin))"
| "subscribe_turns (Silent st # ts) =
     (if terminal st then ([], True) else subscribe_turns ts)"

definition subscribe_stream :: "string \<Rightarrow> agents \<Rightarrow> stream_turn list \<Rightarrow> string list \<times> bool" where
  "subscribe_stream aid ags turns =
     (case map_of ags aid of None \<Rightarrow> ([], True) | Some _ \<Rightarrow> subscribe_turns turns)"

section \<open>The registry\<close>

definition stale :: "'w agent_env \<Rightarrow> agent \<Rightarrow> 'w \<Rightarrow> bool" where
  "stale E a w \<longleftrightarrow> terminal (ag_status a) \<and>
     (case ag_ended a of None \<Rightarrow> 0 | Some t \<Rightarrow> t) < ae_now E w - ae_idle_timeout E"

definition cleanup_idle_agents :: "'w agent_env \<Rightarrow> agents \<Rightarrow> 'w \<Rightarrow> nat \<times> agents" where
  "cleanup_idle_agents E ags w =
     (length (filter (\<lambda>(_, a). stale E a w) ags), filter (\<lambda>(_, a). \<not> stale E a w) ags)"

definition agents_status :: "agents \<Rightarrow> (string \<times> nat) list" where
  "agents_status ags =
     (let st = map (ag_status \<circ> snd) ags in
      [(''total'', length st),
       (''running'', length (filter (\<lambda>s. s = Agent_Running) st)),
       (''done'', length (filter (\<lambda>s. s = Agent_Done) st)),
       (''failed'', length (filter (\<lambda>s. s = Agent_Failed \<or> s = Agent_Killed) st))])"

definition list_agents :: "agents \<Rightarrow> json dict list" where
  "list_agents ags = map (agent_dict \<circ> snd) ags"

definition get_agents_for_session :: "string \<Rightarrow> agents \<Rightarrow> agent list" where
  "get_agents_for_session sid ags = filter (\<lambda>a. ag_session a = sid) (map snd ags)"

section \<open>Decomposition\<close>

text \<open>\<open>str.split(sep)\<close> with a non-empty separator.\<close>

function split_on :: "string \<Rightarrow> string \<Rightarrow> string list" where
  "split_on sep [] = [[]]"
| "split_on sep (c # s) =
     (if sep \<noteq> [] \<and> prefix sep (c # s) then [] # split_on sep (drop (length sep) (c # s))
      else case split_on sep s of [] \<Rightarrow> [[c]] | w # ws \<Rightarrow> (c # w) # ws)"
  by pat_completeness auto
termination
  by (relation "measure (\<lambda>(sep, s). length s)") (auto simp: Suc_diff_le neq_Nil_conv)

definition fence :: string where "fence = [CHR 0x60, CHR 0x60, CHR 0x60]"

text \<open>Removing a Markdown fence around the answer.\<close>

definition unfence :: "string \<Rightarrow> string" where
  "unfence raw =
     (let clean = strip raw in
      strip (if startswith clean fence
             then let c = split_on fence clean ! 1 in if startswith c ''json'' then drop 4 c else c
             else clean))"

text \<open>\<open>str(v)\<close> of a decoded value; the decimal form of a float is a parameter.\<close>

fun py_str :: "(real \<Rightarrow> string) \<Rightarrow> json \<Rightarrow> string"
  and py_repr_of :: "(real \<Rightarrow> string) \<Rightarrow> json \<Rightarrow> string" where
  "py_str fr (JStr s) = s"
| "py_str fr j = py_repr_of fr j"
| "py_repr_of fr JNull = ''None''"
| "py_repr_of fr (JBool b) = (if b then ''True'' else ''False'')"
| "py_repr_of fr (JInt n) = int_str n"
| "py_repr_of fr (JFloat x) = fr x"
| "py_repr_of fr (JStr s) = py_repr s"
| "py_repr_of fr (JList xs) = ''['' @ join '', '' (map (py_repr_of fr) xs) @ '']''"
| "py_repr_of fr (JObj d) =
     ''{'' @ join '', '' (map (\<lambda>kv. py_repr (fst kv) @ '': '' @ py_repr_of fr (snd kv)) d) @ ''}''"

text \<open>What a \<open>for\<close> loop over a decoded value visits.\<close>

definition iter_json :: "json \<Rightarrow> json list result" where
  "iter_json j = (case j of
     JList xs \<Rightarrow> Inr xs
   | JStr s \<Rightarrow> Inr (map (\<lambda>c. JStr [c]) s)
   | JObj d \<Rightarrow> Inr (map (JStr \<circ> fst) d)
   | _ \<Rightarrow> Inl (TypeError ([CHR 0x27] @ type_name j @ [CHR 0x27] @ '' object is not iterable'')))"

definition plan_roles :: "string list" where
  "plan_roles = [''architect'', ''coder'', ''reviewer'', ''tester'', ''documenter'']"

definition normalize_task :: "(real \<Rightarrow> string) \<Rightarrow> json dict \<Rightarrow> task list \<Rightarrow> task result" where
  "normalize_task fr t acc =
     (let tid = py_str fr (get_or t ''id'' (JStr (CHR ''t'' # nat_str (length acc))));
          role = py_str fr (get_or t ''role'' (JStr ''coder''));
          desc = py_str fr (get_or t ''desc'' (JStr []))
      in bind_result (iter_json (get_or t ''deps'' (JList []))) (\<lambda>ds.
           Inr \<lparr>task_id = tid, task_role = (if role \<in> set plan_roles then role else ''coder''),
             task_desc = desc, task_deps = filter (\<lambda>d. d \<in> set (task_ids acc)) (map (py_str fr) ds),
             task_status = Pending, task_result = None\<rparr>))"

fun normalize_tasks :: "(real \<Rightarrow> string) \<Rightarrow> json list \<Rightarrow> task list \<Rightarrow> task list result" where
  "normalize_tasks fr [] acc = Inr acc"
| "normalize_tasks fr (JObj t # ts) acc =
     bind_result (normalize_task fr t acc) (\<lambda>n. normalize_tasks fr ts (acc @ [n]))"
| "normalize_tasks fr (_ # ts) acc = normalize_tasks fr ts acc"

definition validate_task_dag :: "(real \<Rightarrow> string) \<Rightarrow> json \<Rightarrow> task list result" where
  "validate_task_dag fr tasks =
     (case tasks of JList ts \<Rightarrow> normalize_tasks fr ts []
      | _ \<Rightarrow> Inl (ValueError ''tasks must be a list''))"

definition decompose_prompt :: "string \<Rightarrow> string" where
  "decompose_prompt plan =
     ''Decompose the following plan into discrete implementation tasks.'' @ [nl]
   @ ''Output ONLY a JSON array. Each item must have exactly these fields:'' @ [nl]
   @ ''  {'' @ [dquote] @ ''id'' @ [dquote] @ '': '' @ [dquote] @ ''t1'' @ [dquote] @ '', ''
   @ [dquote] @ ''role'' @ [dquote] @ '': '' @ [dquote] @ ''coder|tester|architect|reviewer|documenter''
   @ [dquote] @ '', '' @ [dquote] @ ''desc'' @ [dquote] @ '': '' @ [dquote] @ ''what to do'' @ [dquote]
   @ '', '' @ [dquote] @ ''deps'' @ [dquote] @ '': ['' @ [dquote] @ ''t0'' @ [dquote] @ '']}'' @ [nl]
   @ ''Rules:'' @ [nl]
   @ ''- deps must reference ids that appear earlier in the array'' @ [nl]
   @ ''- no circular dependencies'' @ [nl]
   @ ''- tester tasks depend on the coder tasks they test'' @ [nl]
   @ ''- first tasks have deps: []'' @ [nl, nl]
   @ ''Plan:'' @ [nl] @ plan"

definition parse_plan :: "(real \<Rightarrow> string) \<Rightarrow> string \<Rightarrow> task list" where
  "parse_plan fr raw =
     (case json_loads (unfence raw) of
        None \<Rightarrow> []
      | Some tasks \<Rightarrow> (case validate_task_dag fr tasks of Inl _ \<Rightarrow> [] | Inr ts \<Rightarrow> ts))"

definition reply_text :: "json dict \<Rightarrow> string" where
  "reply_text d = (case map_of d ''result'' of Some (JStr s) \<Rightarrow> s | _ \<Rightarrow> [])"

definition decompose_plan_to_tasks :: "'w agent_env \<Rightarrow> (real \<Rightarrow> string) \<Rightarrow> string \<Rightarrow> string \<Rightarrow> agents \<Rightarrow> 'w
    \<Rightarrow> task list result \<times> agents \<times> 'w" where
  "decompose_plan_to_tasks E fr plan sid ags w =
     (case spawn_and_run E ''architect'' (decompose_prompt plan) sid [] ags w of
        (Inl e, _, ags1, w1) \<Rightarrow> (Inl e, ags1, w1)
      | (Inr reply, _, ags1, w1) \<Rightarrow> (Inr (parse_plan fr (reply_text reply)), ags1, w1))"

end
