(* ===== verification/Agent_Props.thy ===== *)
theory Agent_Props
  imports Agent_Manager
begin

text \<open>
  Properties of the agent manager: what the subscriber of a stream receives, how a spawn
  settles, that the inbox does not influence a run, and that a decomposed plan passes the
  validation of the task queue.
\<close>

section \<open>A decomposed plan is in dependency order\<close>

definition ordered :: "task list \<Rightarrow> bool" where
  "ordered ts \<longleftrightarrow> (\<forall>i<length ts. set (task_deps (ts ! i)) \<subseteq> set (take i (task_ids ts)))"

lemma ordered_snoc:
  "ordered ts \<Longrightarrow> set (task_deps t) \<subseteq> set (task_ids ts) \<Longrightarrow> ordered (ts @ [t])"
  by (auto simp: ordered_def nth_append less_Suc_eq task_ids_def)

lemma normalize_tasks_ordered:
  "normalize_tasks fr js acc = Inr ts \<Longrightarrow> ordered acc \<Longrightarrow> ordered ts"
proof (induction fr js acc rule: normalize_tasks.induct)
  case (2 fr t js acc)
  then obtain n where n: "normalize_task fr t acc = Inr n" "normalize_tasks fr js (acc @ [n]) = Inr ts"
    by auto
  then have "set (task_deps n) \<subseteq> set (task_ids acc)" by (auto simp: normalize_task_def Let_def)
  with 2 n show ?case by (simp add: ordered_snoc)
qed auto

lemma ordered_closed: "ordered ts \<Longrightarrow> deps_closed ts"
  unfolding ordered_def deps_closed_def in_set_conv_nth Ball_def
  using set_take_subset by (metis subset_trans)

lemma ordered_topological:
  assumes "ordered ts" "distinct (task_ids ts)"
  shows "topological ts (task_ids ts)"
  unfolding topological_def
proof (intro allI impI)
  fix i assume i: "i < length (task_ids ts)"
  have "t = ts ! i" if t: "t \<in> set ts" "task_id t = task_ids ts ! i" for t
  proof -
    obtain j where "j < length ts" "t = ts ! j" using t by (auto simp: in_set_conv_nth)
    then show ?thesis
      using t i assms(2) nth_eq_iff_index_eq [of "task_ids ts" j i] by (simp add: task_ids_def)
  qed
  then show "preds ts (task_ids ts ! i) \<subseteq> set (take i (task_ids ts))"
    using assms(1) i by (auto simp: preds_def dep_rel_def ordered_def task_ids_def) blast
qed

lemma ordered_accepted:
  assumes "ordered ts"
  shows "validate_dag ts = Inr () \<longleftrightarrow> distinct (task_ids ts)"
proof -
  have "acyclic (dep_rel ts)" if "distinct (task_ids ts)"
  proof (rule topological_acyclic)
    show "dep_rel ts \<subseteq> UNIV \<times> set (task_ids ts)" by (auto simp: dep_rel_def task_ids_def)
  qed (use assms that ordered_topological in auto)
  then show ?thesis using ordered_closed [OF assms] by (auto simp: validate_dag_accepts)
qed

text \<open>C24: what the agent manager makes of the architect's answer can be loaded: the task queue
  accepts a decomposed plan exactly when no task id was used twice.\<close>

theorem decomposed_plan_accepted:
  assumes "validate_task_dag fr doc = Inr ts"
  shows "validate_dag ts = Inr () \<longleftrightarrow> distinct (task_ids ts)"
proof (rule ordered_accepted)
  have "ordered []" by (simp add: ordered_def)
  then show "ordered ts"
    using assms normalize_tasks_ordered by (auto simp: validate_task_dag_def split: json.splits)
qed

definition two_task_doc :: json where
  "two_task_doc = JList
     [JObj [(''id'', JStr ''a''), (''deps'', JList [JStr ''b''])],
      JObj [(''id'', JStr ''b''), (''deps'', JList [JStr ''a''])]]"

theorem decomposed_plan_accepted_witness:
  "validate_dag [\<lparr>task_id = ''a'', task_role = ''coder'', task_desc = [], task_deps = [],
       task_status = Pending, task_result = None\<rparr>,
     \<lparr>task_id = ''b'', task_role = ''coder'', task_desc = [], task_deps = [''a''],
       task_status = Pending, task_result = None\<rparr>] = Inr ()"
proof -
  have "validate_task_dag (\<lambda>_. []) two_task_doc =
     Inr [\<lparr>task_id = ''a'', task_role = ''coder'', task_desc = [], task_deps = [],
       task_status = Pending, task_result = None\<rparr>,
     \<lparr>task_id = ''b'', task_role = ''coder'', task_desc = [], task_deps = [''a''],
       task_status = Pending, task_result = None\<rparr>]"
    by (simp add: two_task_doc_def validate_task_dag_def normalize_task_def get_or_def iter_json_def
        plan_roles_def task_ids_def Let_def)
  from decomposed_plan_accepted [OF this] show ?thesis by (simp add: task_ids_def)
qed

section \<open>The stream\<close>

text \<open>
  The tokens an answer of the backend carries, read off its lines alone: the chunks up to
  the end marker or an error, whatever the outbox and the subscriber do.
\<close>

definition token_text :: "json \<Rightarrow> string list" where
  "token_text j = (case j of JStr t \<Rightarrow> if t = [] then [] else [t] | _ \<Rightarrow> [])"

definition doc_tokens :: "json \<Rightarrow> string list" where
  "doc_tokens doc = (case bind_result (as_dict doc) chunk_token of Inr j \<Rightarrow> token_text j | Inl _ \<Rightarrow> [])"

fun line_tokens :: "string result list \<Rightarrow> string list" where
  "line_tokens [] = []"
| "line_tokens (Inl e # ls) = []"
| "line_tokens (Inr line # ls) =
     (case line_data line of
        None \<Rightarrow> line_tokens ls
      | Some data \<Rightarrow>
          if data = ''[DONE]'' then []
          else case json_loads data of
            None \<Rightarrow> line_tokens ls
          | Some doc \<Rightarrow> doc_tokens doc @ line_tokens ls)"

definition answer_tokens :: "raw_answer \<Rightarrow> string list" where
  "answer_tokens raw = (case raw of
     RawDict d \<Rightarrow> (case answer_content d of Inr j \<Rightarrow> token_text j | Inl _ \<Rightarrow> [])
   | RawStream ls \<Rightarrow> line_tokens ls)"

text \<open>The answer of the backend to the prompt of a spawn, up to which nothing depends on the outbox.\<close>

definition run_answer :: "'w agent_env \<Rightarrow> agent \<Rightarrow> string \<Rightarrow> string \<Rightarrow> 'w \<Rightarrow> raw_answer option" where
  "run_answer E a task extra w =
     (case ae_resolve E (ag_role a) (ag_session a) w of (rm, w2) \<Rightarrow>
      let model = (case rm of Inl _ \<Rightarrow> [] | Inr m \<Rightarrow> m);
          sys = load_agent_prompt E (ag_role a)
            @ (if extra \<noteq> [] then [nl, nl] @ ''## Additional Context'' @ [nl] @ extra else [])
      in case ae_build E task sys [] (ag_session a) model w2 of
           (Inl _, _) \<Rightarrow> None
         | (Inr messages, w3) \<Rightarrow>
             (case fst (ae_dispatch E messages (ag_role a) (ag_session a) w3) of Inl _ \<Rightarrow> None | Inr raw \<Rightarrow> Some raw))"

lemma run_answer_cong:
  assumes "ag_role a = ag_role b" "ag_session a = ag_session b"
  shows "run_answer E a task extra w = run_answer E b task extra w"
  unfolding run_answer_def assms ..

definition backend_answer :: "'w agent_env \<Rightarrow> string \<Rightarrow> string \<Rightarrow> string \<Rightarrow> string \<Rightarrow> 'w \<Rightarrow> raw_answer option" where
  "backend_answer E role task sid extra w =
     (case new_agent E role sid w of (a, w1) \<Rightarrow>
        run_answer E a task extra (ae_register E sid (ag_id a) w1))"

definition kept_up :: "string list \<Rightarrow> string option list \<Rightarrow> bool" where
  "kept_up toks seen \<longleftrightarrow> subseq seen (map Some toks) \<and>
     (length toks \<le> outbox_maxsize \<longrightarrow> seen = map Some toks)"

definition stream_ok :: "string list \<Rightarrow> stream \<Rightarrow> bool" where
  "stream_ok toks s \<longleftrightarrow> sm_content s = concat toks \<and> kept_up toks (sm_taken s @ ag_outbox (sm_agent s))"

lemma kept_up_len: "kept_up toks (xs @ q) \<Longrightarrow> length q \<le> length toks"
proof -
  assume "kept_up toks (xs @ q)"
  then have "length (xs @ q) \<le> length (map Some toks)"
    unfolding kept_up_def by (blast dest: list_emb_length)
  then show ?thesis by simp
qed

lemma push_chunk_outbox:
  "ag_outbox (push_chunk x a) =
     (if length (ag_outbox a) < outbox_maxsize then ag_outbox a @ [x] else ag_outbox a)"
  by (simp add: push_chunk_def put_nowait_def)

lemma kept_up_push:
  assumes "kept_up toks (xs @ ag_outbox a)"
  shows "kept_up (toks @ [t]) (xs @ ag_outbox (push_chunk (Some t) a))"
proof -
  have "subseq (xs @ ag_outbox a) (map Some toks @ [Some t])"
    using assms by (auto simp: kept_up_def intro: subseq_order.trans)
  moreover have "subseq ((xs @ ag_outbox a) @ [Some t]) (map Some toks @ [Some t])"
    using assms by (intro list_emb_append_mono) (auto simp: kept_up_def)
  ultimately show ?thesis
    using assms kept_up_len [OF assms] by (auto simp: kept_up_def push_chunk_outbox)
qed

lemma take_step_ok: "stream_ok toks s \<Longrightarrow> stream_ok toks (take_step E s w)"
  by (simp add: stream_ok_def take_step_def let_take_def)

lemma add_token_ok:
  assumes "stream_ok toks s" "add_token j s = Inr s'"
  shows "stream_ok (toks @ token_text j) s'"
proof (cases "truthy j")
  case True
  then obtain t where j: "j = JStr t" "t \<noteq> []"
      and s': "s' = s\<lparr>sm_content := sm_content s @ t, sm_agent := push_chunk (Some t) (sm_agent s)\<rparr>"
    using assms(2) by (cases j) (auto simp: add_token_def text_of_def)
  then show ?thesis using assms(1) kept_up_push by (simp add: stream_ok_def token_text_def)
next
  case False
  then show ?thesis using assms by (cases j) (auto simp: add_token_def token_text_def)
qed

lemma add_usage_ok: "stream_ok toks s \<Longrightarrow> add_usage chunk s = Inr s' \<Longrightarrow> stream_ok toks s'"
  by (auto simp: add_usage_def stream_ok_def Let_def split: if_splits)

lemma read_chunk_ok:
  assumes "stream_ok toks s" "read_chunk doc s = (s', None)"
  shows "stream_ok (toks @ doc_tokens doc) s'"
proof -
  obtain chunk j s1 where "as_dict doc = Inr chunk" "chunk_token chunk = Inr j" "add_token j s = Inr s1"
      "add_usage chunk s1 = Inr s'"
    using assms(2) by (auto simp: read_chunk_def split: sum.splits)
  then show ?thesis using add_usage_ok [OF add_token_ok [OF assms(1)]] by (simp add: doc_tokens_def)
qed

lemma read_stream_ok:
  "stream_ok toks s \<Longrightarrow> read_stream E ls s w = (s', Finished u, w') \<Longrightarrow> stream_ok (toks @ line_tokens ls) s'"
proof (induction ls arbitrary: toks s w)
  case Nil
  then show ?case by simp
next
  case (Cons l ls)
  let ?w1 = "ae_await E w" let ?s1 = "take_step E s ?w1"
  have s1: "stream_ok toks ?s1" using take_step_ok Cons.prems(1) .
  have live: "\<not> ae_expired E ?w1" using Cons.prems(2) by (auto simp: Let_def split: if_splits)
  then obtain line where line: "l = Inr line" using Cons.prems(2) by (cases l) (auto simp: Let_def)
  show ?case
  proof (cases "line_data line")
    case None
    then have "read_stream E ls ?s1 ?w1 = (s', Finished u, w')"
      using Cons.prems(2) live line by (simp add: Let_def)
    then show ?thesis using Cons.IH [OF s1] None line by simp
  next
    case data: (Some data)
    show ?thesis
    proof (cases "data = ''[DONE]''")
      case True
      then show ?thesis using Cons.prems(2) live line data s1 by (auto simp: Let_def)
    next
      case more: False
      show ?thesis
      proof (cases "json_loads data")
        case None
        then have "read_stream E ls ?s1 ?w1 = (s', Finished u, w')"
          using Cons.prems(2) live line data more by (simp add: Let_def)
        then show ?thesis using Cons.IH [OF s1] data more None line by simp
      next
        case doc: (Some doc)
        obtain s2 e where rc: "read_chunk doc ?s1 = (s2, e)" by fastforce
        have e: "e = None" using Cons.prems(2) live line data more doc rc by (cases e) (simp_all add: Let_def)
        then have "read_stream E ls s2 ?w1 = (s', Finished u, w')"
          using Cons.prems(2) live line data more doc rc by (simp add: Let_def)
        then show ?thesis
          using Cons.IH [OF read_chunk_ok [OF s1 rc [unfolded e]]] data more doc line by simp
      qed
    qed
  qed
qed

definition run_ok :: "string list \<Rightarrow> agent \<Rightarrow> string option list \<Rightarrow> string \<Rightarrow> bool" where
  "run_ok toks a taken content \<longleftrightarrow> content = concat toks \<and> kept_up toks (taken @ ag_outbox a)"

lemma single_answer_ok:
  assumes "single_answer doc a = (a', Inr (c, i, out))" "ag_outbox a = []"
  shows "run_ok (answer_tokens (RawDict doc)) a' [] c"
proof (cases "answer_content doc")
  case (Inl e)
  then show ?thesis using assms(1) by (simp add: single_answer_def)
next
  case j: (Inr j)
  obtain u where u: "parse_usage doc = Inr u"
    using assms(1) j by (cases "parse_usage doc") (simp_all add: single_answer_def)
  show ?thesis
  proof (cases "truthy j")
    case True
    obtain t where t: "text_of j = Inr t"
      using assms(1) j u True by (cases u; cases "text_of j") (simp_all add: single_answer_def)
    then have "j = JStr t" by (cases j) (simp_all add: text_of_def)
    moreover have "a' = push_chunk (Some t) a" "c = t"
      using assms(1) j u True t by (cases u; simp add: single_answer_def)+
    ultimately show ?thesis using True assms(2) j
      by (simp add: run_ok_def kept_up_def answer_tokens_def token_text_def push_chunk_outbox outbox_maxsize_def)
  next
    case False
    then have "token_text j = []" by (cases j) (simp_all add: token_text_def)
    moreover have "a' = a" "c = []"
      using False assms(1) j u by (cases u; simp add: single_answer_def)+
    ultimately show ?thesis using assms(2) j by (simp add: run_ok_def kept_up_def answer_tokens_def)
  qed
qed

lemma call_model_ok:
  assumes "call_model E a messages w = (a', taken, Finished (c, i, out), w')" "ag_outbox a = []"
  shows "\<exists>raw. fst (ae_dispatch E messages (ag_role a) (ag_session a) w) = Inr raw \<and>
    run_ok (answer_tokens raw) a' taken c"
proof -
  obtain r w1 where d: "ae_dispatch E messages (ag_role a) (ag_session a) w = (r, w1)" by fastforce
  have live: "\<not> ae_expired E w1" using assms(1) by (auto simp: call_model_def d split: if_splits)
  then obtain raw where raw: "r = Inr raw" using assms(1) by (cases r) (auto simp: call_model_def d)
  have "run_ok (answer_tokens raw) a' taken c"
  proof (cases raw)
    case (RawDict doc)
    then have "single_answer doc a = (a', Inr (c, i, out))" "taken = []"
      using assms(1) live raw by (auto simp: call_model_def d split: prod.splits sum.splits)
    then show ?thesis using single_answer_ok assms(2) RawDict by simp
  next
    case (RawStream ls)
    let ?s0 = "\<lparr>sm_agent = a, sm_taken = [], sm_content = [], sm_in = JInt 0, sm_out = JInt 0\<rparr>"
    obtain s r' w2 where rs: "read_stream E ls ?s0 w1 = (s, r', w2)" by (metis prod_cases3)
    then obtain u where "r' = Finished u" "a' = sm_agent s" "taken = sm_taken s" "c = sm_content s"
      using assms(1) live raw RawStream by (auto simp: call_model_def d split: run_end.splits)
    moreover have "stream_ok [] ?s0" using assms(2) by (simp add: stream_ok_def kept_up_def)
    ultimately show ?thesis using read_stream_ok [of "[]" ?s0 E ls w1 s u w2] rs RawStream
      by (simp add: stream_ok_def run_ok_def answer_tokens_def)
  qed
  then show ?thesis using d raw by simp
qed

lemma finish_run_agent:
  "finish_run E a task c i out t0 w = (a', r, w') \<Longrightarrow>
   ag_outbox a' = ag_outbox a \<and> (\<forall>x. r = Finished x \<longrightarrow> x = c)"
  by (auto simp: finish_run_def Let_def split: if_splits)

lemma run_agent_ok:
  assumes "run_agent E a task extra w = (a', taken, Finished result, w')" "ag_outbox a = []" "ag_history a = []"
  shows "\<exists>raw. run_answer E a task extra w = Some raw \<and> run_ok (answer_tokens raw) a' taken result"
proof -
  obtain rm w1 where r: "ae_resolve E (ag_role a) (ag_session a) w = (rm, w1)" by fastforce
  have l1: "\<not> ae_expired E w1" using assms(1) by (auto simp: run_agent_def r split: if_splits)
  let ?m = "case rm of Inl _ \<Rightarrow> [] | Inr m \<Rightarrow> m"
  let ?a1 = "a\<lparr>ag_model := Some ?m\<rparr>"
  let ?sys = "load_agent_prompt E (ag_role a)
     @ (if extra \<noteq> [] then [nl, nl] @ ''## Additional Context'' @ [nl] @ extra else [])"
  obtain rb w2 where b: "ae_build E task ?sys (ag_history ?a1) (ag_session ?a1) ?m w1 = (rb, w2)" by fastforce
  have l2: "\<not> ae_expired E w2" using assms(1) l1 b by (auto simp: run_agent_def r Let_def split: if_splits)
  then obtain ms where ms: "rb = Inr ms"
    using assms(1) l1 b by (cases rb) (auto simp: run_agent_def r Let_def)
  obtain a2 tk e w3 where c: "call_model E ?a1 ms w2 = (a2, tk, e, w3)" by (metis prod_cases4)
  then obtain u where u: "e = Finished u"
    using assms(1) l1 l2 b ms by (cases e) (auto simp: run_agent_def r Let_def)
  obtain cc i out where uu: "u = (cc, i, out)" by (metis prod_cases3)
  have f: "tk = taken" "finish_run E a2 task cc i out (ae_now E w2) w3 = (a', Finished result, w')"
    using assms(1) l1 l2 b ms c u uu by (auto simp: run_agent_def r Let_def split: prod.splits)
  obtain raw where raw: "fst (ae_dispatch E ms (ag_role a) (ag_session a) w2) = Inr raw"
      "run_ok (answer_tokens raw) a2 tk cc"
    using call_model_ok [of E ?a1 ms w2 a2 tk cc i out w3] c u uu assms(2) by auto
  have "run_answer E a task extra w = Some raw"
    using raw(1) b ms assms(3) by (simp add: run_answer_def r Let_def)
  then show ?thesis using raw(2) finish_run_agent [OF f(2)] f(1) by (auto simp: run_ok_def)
qed

lemma subscribe_tokens: "subscribe_turns (map Got (map Some toks @ None # q)) = (toks, True)"
  by (induction toks) auto

text \<open>What the subscriber of a run that ended has seen and still finds in the outbox.\<close>

lemma kept_up_end:
  assumes "kept_up toks (taken @ ag_outbox a)"
  shows "subseq (taken @ ag_outbox (drain_outbox_sentinel a)) (map Some toks @ [None]) \<and>
    (length toks < outbox_maxsize \<longrightarrow>
       subscribe_turns (map Got (taken @ ag_outbox (drain_outbox_sentinel a))) = (toks, True))"
proof -
  have "subseq ((taken @ ag_outbox a) @ [None]) (map Some toks @ [None])"
    by (intro list_emb_append_mono) (use assms in \<open>auto simp: kept_up_def\<close>)
  moreover have "subseq (taken @ ag_outbox a) (map Some toks @ [None])"
    using assms by (auto simp: kept_up_def intro: subseq_order.trans)
  moreover have "taken @ ag_outbox (drain_outbox_sentinel a) = map Some toks @ [None]"
    if "length toks < outbox_maxsize"
    using assms kept_up_len [OF assms] that
    by (simp add: kept_up_def drain_outbox_sentinel_def push_chunk_outbox)
  ultimately show ?thesis
    using subscribe_tokens [of toks "[]"] by (simp add: drain_outbox_sentinel_def push_chunk_outbox)
qed

text \<open>C22: the stream of an agent.  When a spawn reports an agent as done, the backend has answered, the result
  is the concatenation of the tokens on the lines of that answer, and what the subscriber was
  given and finds in the outbox is a subsequence of these tokens followed by the end marker.  Unless the
  answer has 1024 tokens or more, the subscriber receives exactly the tokens of the answer, in order and none
  lost, and its generator returns; this holds however the subscriber interleaves with the run.\<close>

theorem stream_delivers:
  assumes "spawn_and_run E role task sid extra ags w = (Inr reply, taken, ags', w')"
    and "map_of reply ''status'' = Some (JStr ''done'')"
    and "map_of reply ''agent_id'' = Some (JStr aid)" "map_of ags' aid = Some a"
  shows "case backend_answer E role task sid extra w of
      None \<Rightarrow> False
    | Some raw \<Rightarrow> map_of reply ''result'' = Some (JStr (concat (answer_tokens raw))) \<and>
        subseq (taken @ ag_outbox a) (map Some (answer_tokens raw) @ [None]) \<and>
        (length (answer_tokens raw) < outbox_maxsize \<longrightarrow>
           subscribe_turns (map Got (taken @ ag_outbox a)) = (answer_tokens raw, True))"
proof -
  obtain a0 w1 where n: "new_agent E role sid w = (a0, w1)" by fastforce
  let ?a1 = "a0\<lparr>ag_task := Some task, ag_status := Agent_Running, ag_started := Some (ae_now E w1)\<rparr>"
  let ?w2 = "ae_register E sid (ag_id ?a1) w1"
  obtain a2 tk r w3 where r: "run_agent E ?a1 task extra ?w2 = (a2, tk, r, w3)" by (metis prod_cases4)
  obtain a3 rp w4 where e: "end_run E task a2 r w3 = (a3, rp, w4)" by (metis prod_cases3)
  have eqs: "rp = Inr reply" "tk = taken" "ags' = dict_set ags (ag_id a3) a3"
    using assms(1) n r e by (auto simp: spawn_and_run_def Let_def)
  have rep: "reply = spawn_reply a3"
    using e eqs(1) by (auto simp: end_run_def fail_agent_def Let_def split: run_end.splits prod.splits sum.splits)
  have "ag_status a3 = Agent_Done" using assms(2) rep by (cases "ag_status a3") (auto simp: spawn_reply_def)
  then obtain result where fin: "r = Finished result"
    using e by (cases r) (auto simp: end_run_def fail_agent_def Let_def drain_outbox_sentinel_def push_chunk_def
        split: prod.splits sum.splits option.splits)
  have a3: "a3 = drain_outbox_sentinel (a2\<lparr>ag_status := Agent_Done, ag_result := Some result,
      ag_ended := Some (ae_now E w3)\<rparr>)" using e fin by (auto simp: end_run_def Let_def)
  have "a = a3" using assms(3,4) rep eqs(3) by (auto simp: spawn_reply_def)
  moreover have "ag_outbox ?a1 = []" using n by (auto simp: new_agent_def split: prod.splits)
  moreover have "ag_history ?a1 = []" using n by (auto simp: new_agent_def split: prod.splits)
  ultimately obtain raw where raw: "run_answer E ?a1 task extra ?w2 = Some raw"
      "run_ok (answer_tokens raw) a2 taken result"
    using run_agent_ok [of E ?a1 task extra ?w2 a2 taken result w3] r fin eqs(2) by blast
  define toks where "toks = answer_tokens raw"
  have ok: "run_ok toks a2 taken result" using raw(2) by (simp add: toks_def)
  have answer: "backend_answer E role task sid extra w = Some raw"
    using raw(1) n run_answer_cong [of ?a1 a0 E task extra ?w2] by (simp add: backend_answer_def)
  have res: "map_of reply ''result'' = Some (JStr (concat toks))"
    using rep a3 ok by (auto simp: spawn_reply_def run_ok_def json_opt_def drain_outbox_sentinel_def push_chunk_def
        split: option.splits)
  show ?thesis using res answer kept_up_end [of toks taken a2] ok \<open>a = a3\<close> a3
    by (auto simp: run_ok_def toks_def drain_outbox_sentinel_def push_chunk_outbox)
qed

text \<open>A host for evaluation: the world counts steps, and the model streams two tokens.\<close>

definition data_line :: "string \<Rightarrow> string result" where
  "data_line tok = Inr (''data: '' @ json_dumps (\<lambda>_. [])
     (JObj [(''choices'', JList [JObj [(''delta'', JObj [(''content'', JStr tok)])]])]))"

definition demo_agents :: "nat agent_env" where
  "demo_agents = \<lparr>ae_hex8 = (\<lambda>w. (''0'', w)), ae_now = (\<lambda>_. 0), ae_register = (\<lambda>_ _ w. w),
     ae_resolve = (\<lambda>_ _ w. (Inr ''m'', w)), ae_prompt = (\<lambda>_. None),
     ae_build = (\<lambda>_ _ _ _ _ w. (Inr [], w)),
     ae_dispatch = (\<lambda>_ _ _ w. (Inr (RawStream [data_line ''he'', data_line ''y'', Inr ''data: [DONE]'']), w)),
     ae_publish = None, ae_record_failure = (\<lambda>_ _ _ _ _ w. (Inr (), w)), ae_metric = (\<lambda>_ w. w),
     ae_await = Suc, ae_taken = (\<lambda>w. if w = 2 then 1 else 0), ae_expired = (\<lambda>_. False),
     ae_max_runtime = 5, ae_max_history = 2, ae_idle_timeout = 9\<rparr>"

definition demo_spawn :: "json dict result \<times> string option list \<times> agents \<times> nat" where
  "demo_spawn = spawn_and_run demo_agents ''coder'' ''t'' ''s'' [] [] 0"

lemma demo_spawn_result:
  "(case demo_spawn of (Inr reply, taken, ags, w) \<Rightarrow>
      map_of reply ''status'' = Some (JStr ''done'') \<and> map_of reply ''agent_id'' = Some (JStr ''coder-0'') \<and>
      map_of reply ''result'' = Some (JStr ''hey'') \<and> taken = [Some ''he''] \<and>
      (case map_of ags ''coder-0'' of Some a \<Rightarrow> ag_outbox a = [Some ''y'', None] | None \<Rightarrow> False)
    | _ \<Rightarrow> False)"
  by code_simp

theorem stream_delivers_witness:
  "\<exists>reply taken ags w a. demo_spawn = (Inr reply, taken, ags, w) \<and>
     map_of ags ''coder-0'' = Some a \<and> map_of reply ''result'' = Some (JStr (concat [''he'', ''y''])) \<and>
     subscribe_turns (map Got (taken @ ag_outbox a)) = ([''he'', ''y''], True)"
proof -
  obtain r taken ags w where r: "demo_spawn = (r, taken, ags, w)" by (metis prod_cases4)
  moreover obtain reply where "r = Inr reply"
    using demo_spawn_result by (cases r) (simp_all add: r)
  ultimately have d: "demo_spawn = (Inr reply, taken, ags, w)" by simp
  obtain a where a: "map_of ags ''coder-0'' = Some a"
    using demo_spawn_result unfolding d by (auto split: option.splits)
  have st: "map_of reply ''status'' = Some (JStr ''done'')" "map_of reply ''agent_id'' = Some (JStr ''coder-0'')"
    using demo_spawn_result unfolding d by auto
  have "map_option answer_tokens (backend_answer demo_agents ''coder'' ''t'' ''s'' [] 0) = Some [''he'', ''y'']"
    by code_simp
  then obtain raw where raw: "backend_answer demo_agents ''coder'' ''t'' ''s'' [] 0 = Some raw"
      "answer_tokens raw = [''he'', ''y'']" by auto
  have "map_of reply ''result'' = Some (JStr (concat [''he'', ''y'']))"
      "subscribe_turns (map Got (taken @ ag_outbox a)) = ([''he'', ''y''], True)"
    using stream_delivers [OF d [unfolded demo_spawn_def] st a] by (simp_all add: raw outbox_maxsize_def)
  with d a show ?thesis by blast
qed

section \<open>The inbox\<close>

definition inb :: "string list \<Rightarrow> stream \<Rightarrow> stream" where
  "inb q s = s\<lparr>sm_agent := (sm_agent s)\<lparr>ag_inbox := q\<rparr>\<rparr>"

lemma push_chunk_inbox: "push_chunk x (a\<lparr>ag_inbox := q\<rparr>) = (push_chunk x a)\<lparr>ag_inbox := q\<rparr>"
  by (simp add: push_chunk_def put_nowait_def)

lemma take_step_inbox: "take_step E (inb q s) w = inb q (take_step E s w)"
  by (simp add: take_step_def let_take_def inb_def)

lemma read_chunk_inbox:
  "read_chunk doc (inb q s) = (case read_chunk doc s of (s', e) \<Rightarrow> (inb q s', e))"
  by (auto simp: read_chunk_def add_token_def add_usage_def inb_def push_chunk_inbox Let_def bind_result_def
      split: sum.splits)

lemma read_stream_inbox:
  "read_stream E ls (inb q s) w = (case read_stream E ls s w of (s', r, w') \<Rightarrow> (inb q s', r, w'))"
proof (induction ls arbitrary: s w)
  case (Cons l ls)
  show ?case
    by (simp add: Let_def take_step_inbox read_chunk_inbox Cons.IH
        split: sum.splits option.splits prod.splits)
qed simp

lemma single_answer_inbox:
  "single_answer d (a\<lparr>ag_inbox := q\<rparr>) = (case single_answer d a of (a', r) \<Rightarrow> (a'\<lparr>ag_inbox := q\<rparr>, r))"
  by (simp add: single_answer_def push_chunk_inbox split: sum.splits prod.splits)

lemma call_model_inbox:
  "call_model E (a\<lparr>ag_inbox := q\<rparr>) ms w =
     (case call_model E a ms w of (a', rest) \<Rightarrow> (a'\<lparr>ag_inbox := q\<rparr>, rest))"
proof -
  obtain r w1 where d: "ae_dispatch E ms (ag_role a) (ag_session a) w = (r, w1)" by fastforce
  have inb0: "\<lparr>sm_agent = a\<lparr>ag_inbox := q\<rparr>, sm_taken = [], sm_content = [], sm_in = JInt 0, sm_out = JInt 0\<rparr>
      = inb q \<lparr>sm_agent = a, sm_taken = [], sm_content = [], sm_in = JInt 0, sm_out = JInt 0\<rparr>"
    by (simp add: inb_def)
  show ?thesis
  proof (cases r)
    case (Inr raw)
    then show ?thesis
    proof (cases raw)
      case (RawDict doc)
      obtain a1 x where "single_answer doc a = (a1, x)" by fastforce
      with Inr RawDict show ?thesis
        by (cases x) (auto simp: call_model_def d single_answer_inbox)
    next
      case (RawStream ls)
      obtain s e w2 where "read_stream E ls \<lparr>sm_agent = a, sm_taken = [], sm_content = [],
          sm_in = JInt 0, sm_out = JInt 0\<rparr> w1 = (s, e, w2)" by (metis prod_cases3)
      with Inr RawStream show ?thesis
        by (cases e) (simp_all add: call_model_def d inb0 read_stream_inbox, simp_all add: inb_def)
    qed
  qed (simp add: call_model_def d)
qed

lemma finish_run_inbox:
  "finish_run E (a\<lparr>ag_inbox := q\<rparr>) task c i out t0 w =
     (case finish_run E a task c i out t0 w of (a', rest) \<Rightarrow> (a'\<lparr>ag_inbox := q\<rparr>, rest))"
  by (simp add: finish_run_def Let_def publish_event_def work_complete_payload_def metric_of_def split: option.splits)

text \<open>Nothing reads the inbox.  Whatever messages wait for an agent, its run takes the same steps,
  gives the same answer and leaves the messages where they are, so a message that was
  accepted for delivery is never processed.\<close>

theorem inbox_never_read:
  "run_agent E (a\<lparr>ag_inbox := q\<rparr>) task extra w =
     (case run_agent E a task extra w of (a', rest) \<Rightarrow> (a'\<lparr>ag_inbox := q\<rparr>, rest))"
proof -
  obtain rm w1 where r: "ae_resolve E (ag_role a) (ag_session a) w = (rm, w1)" by fastforce
  let ?m = "case rm of Inl _ \<Rightarrow> [] | Inr m \<Rightarrow> m"
  let ?a1 = "a\<lparr>ag_model := Some ?m\<rparr>"
  let ?sys = "load_agent_prompt E (ag_role a)
     @ (if extra \<noteq> [] then [nl, nl] @ ''## Additional Context'' @ [nl] @ extra else [])"
  obtain rb w2 where b: "ae_build E task ?sys (ag_history a) (ag_session a) ?m w1 = (rb, w2)" by fastforce
  have swap: "a\<lparr>ag_inbox := q, ag_model := Some ?m\<rparr> = ?a1\<lparr>ag_inbox := q\<rparr>" by (cases a) simp
  show ?thesis
  proof (cases rb)
    case (Inr ms)
    obtain a2 tk e w3 where c: "call_model E ?a1 ms w2 = (a2, tk, e, w3)" by (metis prod_cases4)
    then have ci: "call_model E (a\<lparr>ag_inbox := q, ag_model := Some ?m\<rparr>) ms w2 = (a2\<lparr>ag_inbox := q\<rparr>, tk, e, w3)"
      unfolding swap using call_model_inbox [of E q ?a1 ms w2] by simp
    note eqs = r b Inr c ci
    show ?thesis
    proof (cases e)
      case (Finished u)
      then show ?thesis
        by (cases u) (simp add: run_agent_def Let_def eqs finish_run_inbox split: prod.splits)
    qed (simp_all add: run_agent_def Let_def eqs)
  qed (simp add: run_agent_def Let_def r b)
qed

section \<open>Settling\<close>

lemma fail_agent_props:
  assumes "fail_agent E st err reason task a w = (a', r, w')" "terminal st"
  shows "terminal (ag_status a') \<and> ag_ended a' \<noteq> None \<and> ag_id a' = ag_id a
    \<and> (r = Inr (spawn_reply a') \<or> (\<exists>e. r = Inl e))"
  using assms
  by (auto simp: fail_agent_def Let_def drain_outbox_sentinel_def push_chunk_def put_nowait_def split: prod.splits sum.splits option.splits)

lemma end_run_props:
  assumes "end_run E task a r w = (a', rep, w')"
  shows "terminal (ag_status a') \<and> ag_ended a' \<noteq> None \<and> ag_id a' = ag_id a
    \<and> (rep = Inr (spawn_reply a') \<or> (\<exists>e. rep = Inl e))"
proof (cases r)
  case (Finished x)
  with assms show ?thesis
    by (auto simp: end_run_def Let_def drain_outbox_sentinel_def push_chunk_def terminal_def put_nowait_def split: option.splits)
next
  case (Raised e)
  with assms show ?thesis using fail_agent_props [of E Agent_Failed] by (simp add: end_run_def terminal_def)
next
  case Timed_Out
  with assms show ?thesis using fail_agent_props [of E Agent_Killed] by (simp add: end_run_def terminal_def)
qed

text \<open>C23: a spawn settles.  However a run ends, with an answer, an exception or the watchdog, the
  registry holds the agent in a terminal state with its end time, all other entries are
  untouched, and the reply, when there is one, describes exactly this agent.\<close>

theorem spawn_settles:
  assumes "spawn_and_run E role task sid extra ags w = (rep, taken, ags', w')"
  shows "\<exists>a. ags' = dict_set ags (ag_id a) a \<and> terminal (ag_status a) \<and> ag_ended a \<noteq> None
     \<and> (rep = Inr (spawn_reply a) \<or> (\<exists>e. rep = Inl e))"
proof -
  obtain a0 w1 where n: "new_agent E role sid w = (a0, w1)" by fastforce
  let ?a1 = "a0\<lparr>ag_task := Some task, ag_status := Agent_Running, ag_started := Some (ae_now E w1)\<rparr>"
  obtain a2 tk r w3 where r: "run_agent E ?a1 task extra (ae_register E sid (ag_id ?a1) w1) = (a2, tk, r, w3)"
    by (metis prod_cases4)
  obtain a3 rp w4 where e: "end_run E task a2 r w3 = (a3, rp, w4)" by (metis prod_cases3)
  have "rep = rp" "ags' = dict_set ags (ag_id a3) a3"
    using assms n r e by (auto simp: spawn_and_run_def Let_def)
  then show ?thesis using end_run_props [OF e] by blast
qed

theorem spawn_settles_witness:
  "\<exists>a. fst (snd (snd demo_spawn)) = dict_set [] (ag_id a) a \<and> terminal (ag_status a)"
proof -
  obtain r taken ags w where r: "demo_spawn = (r, taken, ags, w)" by (metis prod_cases4)
  from spawn_settles [OF this [unfolded demo_spawn_def]] have
    "\<exists>a. ags = dict_set [] (ag_id a) a \<and> terminal (ag_status a)" by blast
  then show ?thesis unfolding r by simp
qed

text \<open>When recording the failure of a run raises, as it does when the embedding service is down,
  the exception replaces the reply: the caller gets no status and no WORK_FAILED event is
  published.\<close>

theorem failed_memory_hides_failure:
  assumes "\<And>w. ae_record_failure E (ag_session a) (ag_id a) task (exn_text e) (''role='' @ ag_role a) w
     = (Inl x, w)"
  shows "\<exists>a' m. end_run E task a (Raised e) w = (a', Inl x, ae_metric E m w) \<and> ag_status a' = Agent_Failed"
  using assms
  by (simp add: end_run_def fail_agent_def Let_def drain_outbox_sentinel_def push_chunk_def put_nowait_def)
    blast

theorem failed_memory_hides_failure_witness:
  "\<exists>a' m. end_run (demo_agents\<lparr>ae_record_failure := (\<lambda>_ _ _ _ _ w. (Inl (OtherError ''down''), w))\<rparr>) ''t''
     (fst (new_agent demo_agents ''coder'' ''s'' 0)) (Raised (ValueError ''bad'')) 0
   = (a', Inl (OtherError ''down''),
      ae_metric (demo_agents\<lparr>ae_record_failure := (\<lambda>_ _ _ _ _ w. (Inl (OtherError ''down''), w))\<rparr>) m 0)
   \<and> ag_status a' = Agent_Failed"
  by (rule failed_memory_hides_failure) simp

end
