(* ===== verification/Config.thy ===== *)
theory Config
  imports Py_Json
begin

text \<open>
  \<open>orchestrator/config.py\<close>: the settings, as a function of the environment variables and of
  what \<open>nvidia-smi\<close> answers.  Loading \<open>.env\<close> is part of the environment given here.
\<close>

section \<open>Profile\<close>

type_synonym environ = "string \<Rightarrow> string option"

definition env_get :: "environ \<Rightarrow> string \<Rightarrow> string \<Rightarrow> string" where
  "env_get env k v = (case env k of None \<Rightarrow> v | Some x \<Rightarrow> x)"

definition env_int :: "environ \<Rightarrow> string \<Rightarrow> string \<Rightarrow> int result" where
  "env_int env k v = py_int (JStr (env_get env k v))"

definition env_ints :: "environ \<Rightarrow> (string \<times> string) list \<Rightarrow> int list result" where
  "env_ints env ks = foldr (\<lambda>(k, v) acc. bind_result (env_int env k v)
      (\<lambda>n. bind_result acc (\<lambda>ns. Inr (n # ns)))) ks (Inr [])"

text \<open>The answer of \<open>nvidia-smi\<close>, or the exception of running it.\<close>

fun parse_vrams :: "string list \<Rightarrow> int list result" where
  "parse_vrams [] = Inr []"
| "parse_vrams (v # vs) =
     (if strip v = [] then parse_vrams vs
      else bind_result (py_int (JStr (strip v))) (\<lambda>n.
           bind_result (parse_vrams vs) (\<lambda>ns. Inr (n # ns))))"

definition profile_of_vrams :: "int list \<Rightarrow> string" where
  "profile_of_vrams vrams =
     (if length vrams \<ge> 3 \<and> sum_list vrams \<ge> 120000 then ''gpu''
      else if length vrams \<ge> 1 \<and> sum_list vrams \<ge> 20000 then ''gpu-shared''
      else ''laptop'')"

definition detect_profile :: "environ \<Rightarrow> string result \<Rightarrow> string" where
  "detect_profile env smi =
     (let requested = env_get env ''PROFILE'' ''laptop'' in
      if requested \<noteq> ''auto'' then requested
      else case bind_result smi (\<lambda>out. parse_vrams (splitlines (strip out))) of
             Inr vrams \<Rightarrow> profile_of_vrams vrams
           | Inl _ \<Rightarrow> ''laptop'')"

section \<open>Settings\<close>

text \<open>The settings in three groups: the model servers, the services, and the limits.\<close>

record model_config =
  mc_profile :: string
  mc_ollama_url :: string
  mc_coder_url :: string
  mc_architect_url :: string
  mc_reviewer_url :: string
  mc_ollama_model :: string
  mc_coder_model :: string
  mc_architect_model :: string
  mc_reviewer_model :: string
  mc_shared_model :: string

record service_config =
  sc_redis_url :: string
  sc_chroma_url :: string
  sc_executor_url :: string
  sc_embed_model :: string
  sc_webhook_secret :: string
  sc_github_token :: string
  sc_github_repo :: string
  sc_training_data_path :: string
  sc_agents_dir :: string
  sc_use_litellm :: bool

record config =
  cf_models :: model_config
  cf_services :: service_config
  cf_limits :: "(string \<times> int) list" \<comment> \<open>the integer settings by name\<close>

abbreviation "cf_profile C \<equiv> mc_profile (cf_models C)"
abbreviation "cf_ollama_url C \<equiv> mc_ollama_url (cf_models C)"
abbreviation "cf_coder_url C \<equiv> mc_coder_url (cf_models C)"
abbreviation "cf_architect_url C \<equiv> mc_architect_url (cf_models C)"
abbreviation "cf_reviewer_url C \<equiv> mc_reviewer_url (cf_models C)"
abbreviation "cf_ollama_model C \<equiv> mc_ollama_model (cf_models C)"
abbreviation "cf_coder_model C \<equiv> mc_coder_model (cf_models C)"
abbreviation "cf_architect_model C \<equiv> mc_architect_model (cf_models C)"
abbreviation "cf_reviewer_model C \<equiv> mc_reviewer_model (cf_models C)"
abbreviation "cf_shared_model C \<equiv> mc_shared_model (cf_models C)"
abbreviation "cf_use_litellm C \<equiv> sc_use_litellm (cf_services C)"

definition cf_fallback_order :: "config \<Rightarrow> string list" where
  "cf_fallback_order C = [cf_coder_url C, cf_architect_url C, cf_reviewer_url C, cf_ollama_url C]"

definition limit :: "config \<Rightarrow> string \<Rightarrow> int" where
  "limit C name = get_or (cf_limits C) name 0"

definition all_roles :: "string list" where
  "all_roles = [''architect'', ''coder'', ''reviewer'', ''tester'', ''documenter'']"

text \<open>The integer settings, in the order the module reads them.\<close>

definition int_settings :: "(string \<times> string) list" where
  "int_settings =
    [(''MAX_CONTEXT_TOKENS'', ''24000''), (''MAX_DEBATE_ROUNDS'', ''3''), (''MAX_AGENT_RUNTIME'', ''300''),
     (''MAX_FIX_ATTEMPTS'', ''3''), (''MAX_PARALLEL_AGENTS'', ''3''), (''N_FAILURES_THRESHOLD'', ''3''),
     (''MAX_AGENT_HISTORY'', ''20''), (''AGENT_IDLE_TIMEOUT'', ''3600''), (''MAX_PATCH_QUEUE_DEPTH'', ''50''),
     (''EMBED_CACHE_MAX_SIZE'', ''1000''), (''MAX_EXECUTOR_CONCURRENCY'', ''2''), (''MODEL_CALL_TIMEOUT'', ''120''),
     (''SESSION_MODELS_TTL'', ''86400''), (''TASK_LEASE_TTL'', ''600''), (''SESSION_TTL'', ''604800''),
     (''WS_HEARTBEAT_INTERVAL'', ''30''), (''BUS_EVENT_TTL'', ''3600'')]"

definition load_config :: "environ \<Rightarrow> string result \<Rightarrow> config result" where
  "load_config env smi =
     bind_result (env_ints env int_settings) (\<lambda>ns. Inr
       \<lparr>cf_models = \<lparr>mc_profile = detect_profile env smi,
          mc_ollama_url = env_get env ''OLLAMA_URL'' ''http://ollama:11434'',
          mc_coder_url = env_get env ''CODER_URL'' ''http://vllm-coder:8000/v1'',
          mc_architect_url = env_get env ''ARCHITECT_URL'' ''http://vllm-architect:8000/v1'',
          mc_reviewer_url = env_get env ''REVIEWER_URL'' ''http://vllm-reviewer:8000/v1'',
          mc_ollama_model = env_get env ''OLLAMA_MODEL'' ''qwen2.5-coder:7b'',
          mc_coder_model = env_get env ''CODER_MODEL'' ''Qwen/Qwen3-Coder-Next-80B-A3B-Instruct'',
          mc_architect_model = env_get env ''ARCHITECT_MODEL'' ''Qwen/Qwen3.5-35B-A3B'',
          mc_reviewer_model = env_get env ''REVIEWER_MODEL'' ''Qwen/QwQ-32B'',
          mc_shared_model = env_get env ''SHARED_MODEL'' ''Qwen/Qwen3-Coder-Next-80B-A3B-Instruct''\<rparr>,
        cf_services = \<lparr>sc_redis_url = env_get env ''REDIS_URL'' ''redis://redis:6379'',
          sc_chroma_url = env_get env ''CHROMA_URL'' ''http://chromadb:8000'',
          sc_executor_url = env_get env ''EXECUTOR_URL'' ''http://executor:9001'',
          sc_embed_model = env_get env ''EMBED_MODEL'' ''Qwen/Qwen3-Embedding-0.6B'',
          sc_webhook_secret = env_get env ''GITHUB_WEBHOOK_SECRET'' [],
          sc_github_token = env_get env ''GITHUB_TOKEN'' [],
          sc_github_repo = env_get env ''GITHUB_REPO'' [],
          sc_training_data_path = env_get env ''TRAINING_DATA_PATH'' ''/app/memory/training_data.jsonl'',
          sc_agents_dir = env_get env ''AGENTS_DIR'' ''/app/agents'',
          sc_use_litellm = (lower (env_get env ''USE_LITELLM'' ''false'') = ''true'')\<rparr>,
        cf_limits = zip (map fst int_settings) ns\<rparr>)"

text \<open>The default settings load.\<close>

lemma default_config:
  "(case load_config (\<lambda>_. None) (Inl (OtherError [])) of
      Inr c \<Rightarrow> cf_profile c = ''laptop'' \<and> limit c ''MAX_CONTEXT_TOKENS'' = 24000 \<and> limit c ''SESSION_TTL'' = 604800
        \<and> limit c ''WS_HEARTBEAT_INTERVAL'' = 30 \<and> \<not> cf_use_litellm c
    | Inl _ \<Rightarrow> False)"
  by code_simp

end
