(* ===== verification/Model_Registry.thy ===== *)
theory Model_Registry
  imports Config "HOL-Library.Char_ord" "HOL-Library.List_Lexorder" "HOL-Library.Product_Lexorder" "HOL-Library.Multiset"
begin

text \<open>
  The HTTP client as a parameter, and \<open>orchestrator/model_registry.py\<close>: the catalog, the
  detection of the models of each backend, the filter by role, context lengths and pulls.
\<close>

section \<open>HTTP\<close>

record http_reply =
  hr_status :: nat
  hr_body :: string

record 'w http =
  http_get :: "string \<Rightarrow> 'w \<Rightarrow> http_reply result \<times> 'w"
  http_post :: "string \<Rightarrow> json \<Rightarrow> 'w \<Rightarrow> http_reply result \<times> 'w"

definition raise_for_status :: "http_reply \<Rightarrow> http_reply result" where
  "raise_for_status r =
     (if 200 \<le> hr_status r \<and> hr_status r < 300 then Inr r
      else Inl (OtherError (''HTTP status '' @ nat_str (hr_status r))))"

definition reply_json :: "http_reply \<Rightarrow> json result" where
  "reply_json r = (case json_loads (hr_body r) of
     None \<Rightarrow> Inl (ValueError ''Expecting value'') | Some j \<Rightarrow> Inr j)"

definition reply_doc :: "http_reply result \<Rightarrow> json result" where
  "reply_doc r = bind_result r (\<lambda>x. bind_result (raise_for_status x) reply_json)"

section \<open>Catalog\<close>

record model_meta =
  mm_tags :: "string list"
  mm_context :: int
  mm_vram :: int
  mm_backend :: "string list"
  mm_display :: string

definition meta :: "string list \<Rightarrow> int \<Rightarrow> int \<Rightarrow> string \<Rightarrow> string \<Rightarrow> model_meta" where
  "meta tags ctx vram backend display = \<lparr>mm_tags = tags, mm_context = ctx, mm_vram = vram,
     mm_backend = [backend], mm_display = display\<rparr>"

definition model_catalog :: "model_meta dict" where
  "model_catalog =
    [(''qwen2.5-coder:7b'', meta [''coder'', ''tester''] 32768 6 ''ollama'' ''Qwen2.5-Coder 7B''),
     (''qwen2.5-coder:32b'', meta [''coder'', ''tester''] 32768 20 ''ollama'' ''Qwen2.5-Coder 32B''),
     (''qwen3:8b'', meta [''architect'', ''coder'', ''documenter''] 32768 6 ''ollama'' ''Qwen3 8B''),
     (''qwen3:14b'', meta [''architect'', ''reviewer'', ''documenter''] 32768 10 ''ollama'' ''Qwen3 14B''),
     (''qwen3:32b'', meta [''architect'', ''reviewer'', ''documenter''] 32768 20 ''ollama'' ''Qwen3 32B''),
     (''nomic-embed-text'', meta [''embedding''] 8192 1 ''ollama'' ''Nomic Embed Text''),
     (''Qwen/Qwen3-Coder-Next-80B-A3B-Instruct'',
        meta [''coder'', ''tester''] 32768 46 ''vllm'' ''Qwen3-Coder-Next 80B''),
     (''Qwen/Qwen3.5-35B-A3B'', meta [''architect'', ''documenter''] 65536 20 ''vllm'' ''Qwen3.5 35B''),
     (''Qwen/QwQ-32B'', meta [''reviewer''] 32768 20 ''vllm'' ''QwQ 32B''),
     (''Qwen/Qwen3-Embedding-0.6B'', meta [''embedding''] 8192 1 ''vllm'' ''Qwen3 Embedding 0.6B'')]"

definition role_tag_map :: "string list dict" where
  "role_tag_map =
    [(''architect'', [''architect'']), (''coder'', [''coder'']), (''reviewer'', [''reviewer'']),
     (''tester'', [''tester'', ''coder'']), (''documenter'', [''documenter'', ''architect''])]"

definition default_context_length :: int where "default_context_length = 32768"

section \<open>Detection\<close>

record registry =
  mr_on_disk :: "string set"
  mr_available :: "string list dict"

text \<open>\<open>[m[key] for m in data.get(field, [])]\<close>.\<close>

fun names_of :: "string \<Rightarrow> json list \<Rightarrow> string list result" where
  "names_of key [] = Inr []"
| "names_of key (m # ms) =
     bind_result (as_dict m) (\<lambda>d.
       case map_of d key of
         Some (JStr n) \<Rightarrow> bind_result (names_of key ms) (\<lambda>ns. Inr (n # ns))
       | _ \<Rightarrow> Inl (KeyError key))"

definition listed_models :: "string \<Rightarrow> string \<Rightarrow> http_reply result \<Rightarrow> string list option" where
  "listed_models field key r =
     (case bind_result (reply_doc r) (\<lambda>doc.
             bind_result (json_get doc field (JList [])) (\<lambda>ms.
               case ms of JList xs \<Rightarrow> names_of key xs | _ \<Rightarrow> Inl (TypeError ''not a list''))) of
        Inl _ \<Rightarrow> None
      | Inr ns \<Rightarrow> Some ns)"

definition detect_ollama :: "config \<Rightarrow> 'w http \<Rightarrow> 'w \<Rightarrow> string list option \<times> 'w" where
  "detect_ollama C H w =
     (case http_get H (rstrip_char (CHR ''/'') (cf_ollama_url C) @ ''/api/tags'') w of
        (r, w1) \<Rightarrow> (listed_models ''models'' ''name'' r, w1))"

definition detect_vllm :: "'w http \<Rightarrow> string \<Rightarrow> 'w \<Rightarrow> string list option \<times> 'w" where
  "detect_vllm H url w =
     (case http_get H (rstrip_char (CHR ''/'') url @ ''/models'') w of
        (r, w1) \<Rightarrow> (listed_models ''data'' ''id'' r, w1))"

fun detect_vllms :: "'w http \<Rightarrow> string list \<Rightarrow> string list dict \<Rightarrow> 'w \<Rightarrow> string list dict \<times> 'w" where
  "detect_vllms H [] acc w = (acc, w)"
| "detect_vllms H (url # urls) acc w =
     (case detect_vllm H url w of
        (None, w1) \<Rightarrow> detect_vllms H urls acc w1
      | (Some ms, w1) \<Rightarrow> detect_vllms H urls (dict_set acc ''vllm'' (get_or acc ''vllm'' [] @ ms)) w1)"

definition detect_available :: "config \<Rightarrow> 'w http \<Rightarrow> registry \<Rightarrow> 'w \<Rightarrow> string list dict \<times> registry \<times> 'w" where
  "detect_available C H g w =
     (case detect_ollama C H w of (om, w1) \<Rightarrow>
        let res0 = (case om of None \<Rightarrow> [] | Some ms \<Rightarrow> [(''ollama'', ms)])
        in case detect_vllms H [cf_coder_url C, cf_architect_url C, cf_reviewer_url C] res0 w1 of
             (res, w2) \<Rightarrow> (res, \<lparr>mr_on_disk = set (concat (map snd res)), mr_available = res\<rparr>, w2))"

section \<open>Queries\<close>

record model_entry =
  mn_name :: string
  mn_meta :: model_meta
  mn_on_disk :: bool

definition catalog_entry :: "registry \<Rightarrow> string \<times> model_meta \<Rightarrow> model_entry" where
  "catalog_entry g nm = \<lparr>mn_name = fst nm, mn_meta = snd nm, mn_on_disk = fst nm \<in> mr_on_disk g\<rparr>"

definition entry_key :: "model_entry \<Rightarrow> bool \<times> string" where
  "entry_key m = (\<not> mn_on_disk m, mm_display (mn_meta m))"

definition get_models_for_role :: "registry \<Rightarrow> string \<Rightarrow> model_entry list" where
  "get_models_for_role g role =
     (let required = get_or role_tag_map role [] in
      if required = [] then []
      else sort_key entry_key (map (catalog_entry g)
             (filter (\<lambda>(_, m). mm_tags m \<noteq> [] \<and> list_ex (\<lambda>t. t \<in> set required) (mm_tags m)) model_catalog)))"

definition get_context_length :: "string \<Rightarrow> int" where
  "get_context_length name =
     (case map_of model_catalog name of Some m \<Rightarrow> mm_context m | None \<Rightarrow> default_context_length)"

definition is_on_disk :: "registry \<Rightarrow> string \<Rightarrow> bool" where
  "is_on_disk g name \<longleftrightarrow> name \<in> mr_on_disk g"

definition catalog_with_status :: "registry \<Rightarrow> model_entry list" where
  "catalog_with_status g = sort_key entry_key (map (catalog_entry g) model_catalog)"

section \<open>Pull\<close>

definition quoted :: "string list \<Rightarrow> string" where
  "quoted xs = ''['' @ join '', '' (map py_repr xs) @ '']''"

definition pull_model :: "config \<Rightarrow> 'w http \<Rightarrow> string \<Rightarrow> registry \<Rightarrow> 'w
    \<Rightarrow> json dict result \<times> registry \<times> 'w" where
  "pull_model C H name g w =
     (case map_of model_catalog name of
        None \<Rightarrow> (Inl (ValueError (''Model '' @ py_repr name @ '' is not in the catalog'')), g, w)
      | Some m \<Rightarrow>
          if ''ollama'' \<notin> set (mm_backend m)
          then (Inl (ValueError (''Model '' @ py_repr name @ '' uses backend '' @ quoted (mm_backend m)
                  @ '' '' @ em_dash @ '' only Ollama models can be pulled via this endpoint'')), g, w)
          else case http_post H (rstrip_char (CHR ''/'') (cf_ollama_url C) @ ''/api/pull'')
                 (JObj [(''name'', JStr name)]) w of
            (r, w1) \<Rightarrow>
              (case r of
                 Inl e \<Rightarrow> (Inl (RuntimeError (''Pull error for '' @ py_repr name @ '': '' @ exn_text e)), g, w1)
               | Inr rep \<Rightarrow>
                   (case raise_for_status rep of
                      Inl e \<Rightarrow> (Inl (RuntimeError (''Ollama pull failed for '' @ py_repr name @ '': ''
                                  @ exn_text e)), g, w1)
                    | Inr _ \<Rightarrow>
                        (case detect_available C H g w1 of
                           (_, g1, w2) \<Rightarrow>
                             (Inr [(''pulled'', JBool True), (''name'', JStr name)], g1, w2)))))"

section \<open>Properties\<close>

lemma sorted_disk_first:
  assumes "sorted (map entry_key ms)"
  shows "\<exists>xs ys. ms = xs @ ys \<and> list_all mn_on_disk xs \<and> list_all (\<lambda>m. \<not> mn_on_disk m) ys"
  using assms
proof (induction ms)
  case (Cons m ms)
  show ?case
  proof (cases "mn_on_disk m")
    case True
    with Cons obtain xs ys where "ms = xs @ ys" "list_all mn_on_disk xs" "list_all (\<lambda>m. \<not> mn_on_disk m) ys"
      by auto
    with True show ?thesis by (intro exI [of _ "m # xs"] exI [of _ ys]) auto
  next
    case False
    then have "list_all (\<lambda>m. \<not> mn_on_disk m) ms"
      using Cons.prems by (auto simp: list_all_iff entry_key_def less_eq_prod_def less_bool_def)
    with False show ?thesis by (intro exI [of _ "[]"] exI [of _ "m # ms"]) auto
  qed
qed simp

text \<open>The models offered for a role.  They are the catalog entries with a matching tag, whether or
  not they were detected, in an order that puts those on disk first; detection only changes
  the order and the flag.\<close>

theorem models_for_role:
  "mset (map mn_name (get_models_for_role g role)) =
     mset (map fst (filter (\<lambda>(_, m). list_ex (\<lambda>t. t \<in> set (get_or role_tag_map role [])) (mm_tags m)) model_catalog))
   \<and> (\<exists>xs ys. get_models_for_role g role = xs @ ys \<and> list_all mn_on_disk xs \<and> list_all (\<lambda>m. \<not> mn_on_disk m) ys)"
proof
  have tags: "(mm_tags m \<noteq> [] \<and> list_ex P (mm_tags m)) = list_ex P (mm_tags m)" for m P
    by (cases "mm_tags m") auto
  show "mset (map mn_name (get_models_for_role g role)) =
     mset (map fst (filter (\<lambda>(_, m). list_ex (\<lambda>t. t \<in> set (get_or role_tag_map role [])) (mm_tags m)) model_catalog))"
  proof -
    have names: "image_mset mn_name (image_mset (catalog_entry g) M) = image_mset fst M" for M
      by (induction M) (simp_all add: catalog_entry_def)
    have none: "\<not> list_ex (\<lambda>t. False) xs" for xs :: "string list" by (induction xs) auto
    show ?thesis
      by (simp add: get_models_for_role_def Let_def tags none names case_prod_unfold)
  qed
  have "sorted (map entry_key (get_models_for_role g role))"
    by (simp add: get_models_for_role_def Let_def)
  then show "\<exists>xs ys. get_models_for_role g role = xs @ ys \<and> list_all mn_on_disk xs
      \<and> list_all (\<lambda>m. \<not> mn_on_disk m) ys" by (rule sorted_disk_first)
qed

end
