(* ===== verification/Routing.thy ===== *)
theory Routing
  imports Agent_Manager Model_Registry
begin

text \<open>
  \<open>orchestrator/routing_policy.py\<close>, \<open>orchestrator/router.py\<close> and \<open>orchestrator/gateway.py\<close>:
  the choice of endpoint and model for a role and session, the cached health checks with the
  fallback chain, the request bodies, the streams of the two backends and the dispatch.
  HTTP, Redis, LiteLLM, the clock and the ids are parameters.
\<close>

section \<open>Routing policy\<close>

definition backend_type :: "string \<Rightarrow> string" where
  "backend_type url = (if contains ''11434'' url \<or> contains ''ollama'' (lower url) then ''ollama'' else ''vllm'')"

definition endpoint_for_model :: "config \<Rightarrow> string \<Rightarrow> string" where
  "endpoint_for_model C model =
     (let backends = (case map_of model_catalog model of None \<Rightarrow> [] | Some m \<Rightarrow> mm_backend m) in
      if ''ollama'' \<in> set backends then cf_ollama_url C
      else if cf_profile C = ''gpu-shared'' then cf_coder_url C
      else if model = cf_architect_model C then cf_architect_url C
      else if model = cf_reviewer_model C then cf_reviewer_url C
      else cf_coder_url C)"

definition profile_endpoint :: "config \<Rightarrow> string \<Rightarrow> string" where
  "profile_endpoint C role =
     (if cf_profile C = ''laptop'' then cf_ollama_url C
      else if cf_profile C = ''gpu-shared'' then cf_coder_url C
      else get_or [(''architect'', cf_architect_url C), (''coder'', cf_coder_url C),
             (''reviewer'', cf_reviewer_url C), (''tester'', cf_coder_url C),
             (''documenter'', cf_architect_url C)] role (cf_coder_url C))"

definition profile_model :: "config \<Rightarrow> string \<Rightarrow> string" where
  "profile_model C role =
     (if cf_profile C = ''laptop'' then cf_ollama_model C
      else if cf_profile C = ''gpu-shared'' then cf_shared_model C
      else get_or [(''architect'', cf_architect_model C), (''coder'', cf_coder_model C),
             (''reviewer'', cf_reviewer_model C), (''tester'', cf_coder_model C),
             (''documenter'', cf_architect_model C)] role (cf_coder_model C))"

definition models_key :: "string \<Rightarrow> string" where
  "models_key sid = ''session:models:'' @ sid"

text \<open>The Redis lookups may fail, and Redis may not be wired.\<close>

record 'w model_store =
  ms_hget :: "string \<Rightarrow> string \<Rightarrow> 'w \<Rightarrow> string option result"
  ms_hgetall :: "string \<Rightarrow> 'w \<Rightarrow> (string \<times> string) list result"

definition policy_resolve :: "config \<Rightarrow> 'w model_store option \<Rightarrow> string \<Rightarrow> string \<Rightarrow> 'w
    \<Rightarrow> string \<times> string \<times> string" where
  "policy_resolve C R role sid w =
     (let override = (case R of
            Some S \<Rightarrow> if sid \<noteq> [] \<and> sid \<noteq> ''default''
              then (case ms_hget S (models_key sid) role w of Inr (Some m) \<Rightarrow> m | _ \<Rightarrow> []) else []
          | None \<Rightarrow> [])
      in if override \<noteq> []
         then (endpoint_for_model C override, override, backend_type (endpoint_for_model C override))
         else (profile_endpoint C role, profile_model C role, backend_type (profile_endpoint C role)))"

definition get_session_models :: "'w model_store option \<Rightarrow> string \<Rightarrow> 'w \<Rightarrow> (string \<times> string) list" where
  "get_session_models R sid w =
     (case R of None \<Rightarrow> []
      | Some S \<Rightarrow> (case ms_hgetall S (models_key sid) w of Inl _ \<Rightarrow> [] | Inr h \<Rightarrow> h))"

section \<open>Router\<close>

record chat_request =
  rq_model :: string
  rq_messages :: "message list"
  rq_stream :: bool
  rq_temperature :: "real option"
  rq_max_tokens :: "int option"
  rq_top_p :: "real option"
  rq_extra :: "json dict" \<comment> \<open>further fields the client sent\<close>

record 'w router_env =
  re_config :: config
  re_http :: "'w http"
  re_stream :: "string \<Rightarrow> json \<Rightarrow> 'w \<Rightarrow> (nat \<times> string result list) result \<times> 'w"
    \<comment> \<open>POST with a streamed answer: its status and lines\<close>
  re_policy :: "(string \<Rightarrow> string \<Rightarrow> 'w \<Rightarrow> string \<times> string \<times> string) option"
  re_litellm :: "json dict \<Rightarrow> 'w \<Rightarrow> json result \<times> 'w" \<comment> \<open>\<open>model_dump\<close> of a completion\<close>
  re_litellm_stream :: "json dict \<Rightarrow> 'w \<Rightarrow> json result list \<times> 'w"
  re_has_litellm :: bool
  re_now :: "'w \<Rightarrow> real"
  re_hex12 :: "'w \<Rightarrow> string"
  re_float :: "real \<Rightarrow> string"

type_synonym health_cache = "(bool \<times> real) dict"

definition health_cache_ttl :: real where "health_cache_ttl = 30"

definition probe :: "'w http \<Rightarrow> string \<Rightarrow> 'w \<Rightarrow> bool \<times> 'w" where
  "probe H url w =
     (case http_get H (rstrip_char (CHR ''/'') url
             @ (if backend_type url = ''ollama'' then ''/api/tags'' else ''/health'')) w of
        (Inr r, w1) \<Rightarrow> (hr_status r = 200, w1)
      | (Inl _, w1) \<Rightarrow> (False, w1))"

definition is_healthy :: "'w router_env \<Rightarrow> string \<Rightarrow> health_cache \<Rightarrow> 'w \<Rightarrow> bool \<times> health_cache \<times> 'w" where
  "is_healthy E url hc w =
     (let now = re_now E w;
          fresh = (case map_of hc url of
                     Some (h, checked) \<Rightarrow> if now - checked < health_cache_ttl then Some h else None
                   | None \<Rightarrow> None)
      in case fresh of
           Some h \<Rightarrow> (h, hc, w)
         | None \<Rightarrow> (case probe (re_http E) url w of
                     (ok, w1) \<Rightarrow> (ok, dict_set hc url (ok, now), w1)))"

fun walk_fallbacks :: "'w router_env \<Rightarrow> string \<Rightarrow> string list \<Rightarrow> health_cache \<Rightarrow> 'w
    \<Rightarrow> string option \<times> health_cache \<times> 'w" where
  "walk_fallbacks E primary [] hc w = (None, hc, w)"
| "walk_fallbacks E primary (u # us) hc w =
     (if u = primary then walk_fallbacks E primary us hc w
      else case is_healthy E u hc w of
        (True, hc1, w1) \<Rightarrow> (Some u, hc1, w1)
      | (False, hc1, w1) \<Rightarrow> walk_fallbacks E primary us hc1 w1)"

definition resolve_endpoint :: "'w router_env \<Rightarrow> string \<Rightarrow> string \<Rightarrow> health_cache \<Rightarrow> 'w
    \<Rightarrow> (string \<times> string \<times> string) \<times> health_cache \<times> 'w" where
  "resolve_endpoint E role sid hc w =
     (let C = re_config E;
          (url, model, btype) = (case re_policy E of
             Some pol \<Rightarrow> pol role sid w
           | None \<Rightarrow> (profile_endpoint C role, profile_model C role, backend_type (profile_endpoint C role)))
      in case is_healthy E url hc w of
           (True, hc1, w1) \<Rightarrow> ((url, model, btype), hc1, w1)
         | (False, hc1, w1) \<Rightarrow>
             (case walk_fallbacks E url (cf_fallback_order C) hc1 w1 of
                (Some u, hc2, w2) \<Rightarrow>
                  ((u, if backend_type u = ''ollama'' then cf_ollama_model C else model, backend_type u), hc2, w2)
              | (None, hc2, w2) \<Rightarrow> ((url, model, btype), hc2, w2)))"

section \<open>Request bodies\<close>

definition block_json :: "block \<Rightarrow> json" where
  "block_json b = (case b of BText s \<Rightarrow> JStr s
     | BDict None \<Rightarrow> JObj [] | BDict (Some t) \<Rightarrow> JObj [(''text'', JStr t)])"

definition message_json :: "message \<Rightarrow> json" where
  "message_json m = JObj ([(''role'', JStr (msg_role m))]
     @ (case msg_content m of CNone \<Rightarrow> [] | CText s \<Rightarrow> [(''content'', JStr s)]
        | CBlocks bs \<Rightarrow> [(''content'', JList (map block_json bs))])
     @ (case msg_name m of None \<Rightarrow> [] | Some n \<Rightarrow> [(''name'', JStr n)]))"

definition plain_content :: "content \<Rightarrow> string" where
  "plain_content c = (case c of CNone \<Rightarrow> [] | CText s \<Rightarrow> s
     | CBlocks bs \<Rightarrow> join '' '' (map (\<lambda>b. case b of BText s \<Rightarrow> s | BDict None \<Rightarrow> [] | BDict (Some t) \<Rightarrow> t) bs))"

definition opt_field :: "string \<Rightarrow> ('a \<Rightarrow> json) \<Rightarrow> 'a option \<Rightarrow> json dict" where
  "opt_field k f x = (case x of None \<Rightarrow> [] | Some v \<Rightarrow> [(k, f v)])"

definition build_ollama_body :: "message list \<Rightarrow> string \<Rightarrow> chat_request \<Rightarrow> json dict" where
  "build_ollama_body messages model rq =
     (let kept = filter (\<lambda>m. msg_role m \<noteq> ''tool'' \<and> msg_role m \<noteq> ''function'') messages;
          cleaned = map (\<lambda>m. JObj [(''role'', JStr (msg_role m)),
                                  (''content'', JStr (plain_content (msg_content m)))]) kept;
          options = opt_field ''temperature'' JFloat (rq_temperature rq)
            @ opt_field ''top_p'' JFloat (rq_top_p rq)
            @ opt_field ''num_predict'' JInt (rq_max_tokens rq)
      in [(''model'', JStr model), (''messages'', JList cleaned), (''stream'', JBool (rq_stream rq))]
         @ (if options \<noteq> [] then [(''options'', JObj options)] else []))"

definition request_dump :: "chat_request \<Rightarrow> json dict" where
  "request_dump rq =
     [(''model'', JStr (rq_model rq)), (''messages'', JList (map message_json (rq_messages rq))),
      (''stream'', JBool (rq_stream rq))]
     @ opt_field ''temperature'' JFloat (rq_temperature rq)
     @ opt_field ''max_tokens'' JInt (rq_max_tokens rq)
     @ opt_field ''top_p'' JFloat (rq_top_p rq)
     @ filter (\<lambda>(_, v). v \<noteq> JNull) (rq_extra rq)"

definition build_vllm_body :: "message list \<Rightarrow> string \<Rightarrow> chat_request \<Rightarrow> json dict" where
  "build_vllm_body messages model rq =
     dict_set (dict_set (request_dump rq) ''model'' (JStr model))
       ''messages'' (JList (map message_json messages))"

section \<open>Streams\<close>

definition sse :: "(real \<Rightarrow> string) \<Rightarrow> json \<Rightarrow> string" where
  "sse fr j = ''data: '' @ json_dumps_ascii fr j @ [nl, nl]"

definition sse_done :: string where "sse_done = ''data: [DONE]'' @ [nl, nl]"

definition sse_error :: "(real \<Rightarrow> string) \<Rightarrow> string \<Rightarrow> string list" where
  "sse_error fr e = [sse fr (JObj [(''error'', JStr e)]), sse_done]"

definition ollama_chunk :: "string \<Rightarrow> int \<Rightarrow> string \<Rightarrow> json \<Rightarrow> (json \<times> bool) result" where
  "ollama_chunk cid ts model doc =
     bind_result (json_get doc ''message'' (JObj [])) (\<lambda>msg.
     bind_result (json_get msg ''content'' (JStr [])) (\<lambda>content.
     bind_result (json_get doc ''done'' (JBool False)) (\<lambda>d. Inr
       (JObj [(''id'', JStr cid), (''object'', JStr ''chat.completion.chunk''), (''created'', JInt ts),
         (''model'', JStr model), (''choices'', JList [JObj [(''index'', JInt 0),
            (''delta'', JObj [(''content'', content)]),
            (''finish_reason'', if truthy d then JStr ''stop'' else JNull)]])], truthy d))))"

fun ollama_lines :: "(real \<Rightarrow> string) \<Rightarrow> string \<Rightarrow> int \<Rightarrow> string \<Rightarrow> string result list \<Rightarrow> string list" where
  "ollama_lines fr cid ts model [] = []"
| "ollama_lines fr cid ts model (Inl e # ls) = sse_error fr (exn_text e)"
| "ollama_lines fr cid ts model (Inr line # ls) =
     (if line = [] then ollama_lines fr cid ts model ls
      else case json_loads line of
        None \<Rightarrow> ollama_lines fr cid ts model ls
      | Some doc \<Rightarrow>
          (case ollama_chunk cid ts model doc of
             Inl e \<Rightarrow> sse_error fr (exn_text e)
           | Inr (chunk, fin) \<Rightarrow>
               sse fr chunk # (if fin then [sse_done] else ollama_lines fr cid ts model ls)))"

definition stream_ollama :: "'w router_env \<Rightarrow> string \<Rightarrow> json dict \<Rightarrow> string \<Rightarrow> 'w \<Rightarrow> string result list \<times> 'w" where
  "stream_ollama E url body model w =
     (let cid = ''chatcmpl-'' @ re_hex12 E w; ts = \<lfloor>re_now E w\<rfloor>; fr = re_float E
      in case re_stream E (rstrip_char (CHR ''/'') url @ ''/api/chat'') (JObj body) w of
           (Inl e, w1) \<Rightarrow> (map Inr (sse_error fr (exn_text e)), w1)
         | (Inr (status, ls), w1) \<Rightarrow>
             (if status \<noteq> 200 then (map Inr (sse_error fr (''Ollama error '' @ nat_str status)), w1)
              else (map Inr (ollama_lines fr cid ts model ls), w1)))"

fun vllm_lines :: "string result list \<Rightarrow> string result list" where
  "vllm_lines [] = []"
| "vllm_lines (Inl e # ls) = [Inl e]"
| "vllm_lines (Inr line # ls) =
     (if line = [] then vllm_lines ls else Inr (line @ [nl, nl]) # vllm_lines ls)"

definition stream_vllm :: "'w router_env \<Rightarrow> string \<Rightarrow> json dict \<Rightarrow> 'w \<Rightarrow> string result list \<times> 'w" where
  "stream_vllm E url body w =
     (case re_stream E (rstrip_char (CHR ''/'') url @ ''/chat/completions'') (JObj body) w of
        (Inl e, w1) \<Rightarrow> ([Inl e], w1)
      | (Inr (status, ls), w1) \<Rightarrow>
          (case raise_for_status \<lparr>hr_status = status, hr_body = []\<rparr> of
             Inl e \<Rightarrow> ([Inl e], w1)
           | Inr _ \<Rightarrow> (vllm_lines ls, w1)))"

section \<open>Gateway\<close>

fun litellm_lines :: "(real \<Rightarrow> string) \<Rightarrow> json result list \<Rightarrow> string list" where
  "litellm_lines fr [] = [sse_done]"
| "litellm_lines fr (Inl e # _) = sse_error fr (exn_text e)"
| "litellm_lines fr (Inr c # cs) = sse fr c # litellm_lines fr cs"

definition gateway_params :: "message list \<Rightarrow> string \<Rightarrow> bool \<Rightarrow> real option \<Rightarrow> int option \<Rightarrow> json dict" where
  "gateway_params messages model stream temperature max_tokens =
     [(''model'', JStr model), (''messages'', JList (map message_json messages)), (''stream'', JBool stream)]
     @ opt_field ''temperature'' JFloat temperature @ opt_field ''max_tokens'' JInt max_tokens"

definition gateway_dispatch :: "'w router_env \<Rightarrow> message list \<Rightarrow> string \<Rightarrow> bool \<Rightarrow> real option \<Rightarrow> int option
    \<Rightarrow> 'w \<Rightarrow> raw_answer result \<times> 'w" where
  "gateway_dispatch E messages model stream temperature max_tokens w =
     (if \<not> cf_use_litellm (re_config E) then
        (Inl (RuntimeError (''gateway_dispatch() called but USE_LITELLM=false. ''
           @ ''This is a routing bug '' @ em_dash @ '' report it.'')), w)
      else if \<not> re_has_litellm E then
        (Inl (OtherError (''LiteLLM is not installed. Run: pip install litellm>=1.40.0'' @ [nl]
           @ ''Or set USE_LITELLM=false to disable the gateway.'')), w)
      else
        let params = gateway_params messages model stream temperature max_tokens in
        if stream then
          (case re_litellm_stream E params w of (cs, w1) \<Rightarrow>
             (Inr (RawStream (map Inr (litellm_lines (re_float E) cs))), w1))
        else case re_litellm E params w of
          (Inl e, w1) \<Rightarrow> (Inl e, w1)
        | (Inr (JObj d), w1) \<Rightarrow> (Inr (RawDict d), w1)
        | (Inr j, w1) \<Rightarrow> (Inl (attr_error j ''get''), w1))"

section \<open>Dispatch\<close>

fun json_add :: "json \<Rightarrow> json \<Rightarrow> json result" where
  "json_add (JInt a) (JInt b) = Inr (JInt (a + b))"
| "json_add (JFloat a) (JFloat b) = Inr (JFloat (a + b))"
| "json_add (JInt a) (JFloat b) = Inr (JFloat (of_int a + b))"
| "json_add (JFloat a) (JInt b) = Inr (JFloat (a + of_int b))"
| "json_add (JStr a) (JStr b) = Inr (JStr (a @ b))"
| "json_add a b = Inl (TypeError (''unsupported operand type(s) for +: '' @ [CHR 0x27] @ type_name a @ [CHR 0x27]
     @ '' and '' @ [CHR 0x27] @ type_name b @ [CHR 0x27]))"

definition ollama_reply :: "string \<Rightarrow> int \<Rightarrow> string \<Rightarrow> json \<Rightarrow> json dict result" where
  "ollama_reply cid ts model doc =
     bind_result (as_dict doc) (\<lambda>data.
     bind_result (json_get (get_or data ''message'' (JObj [])) ''content'' (JStr [])) (\<lambda>content.
     let p = get_or data ''prompt_eval_count'' (JInt 0); c = get_or data ''eval_count'' (JInt 0) in
     bind_result (json_add p c) (\<lambda>t. Inr
       [(''id'', JStr (''chatcmpl-'' @ cid)), (''object'', JStr ''chat.completion''), (''created'', JInt ts),
        (''model'', JStr model),
        (''choices'', JList [JObj [(''index'', JInt 0),
           (''message'', JObj [(''role'', JStr ''assistant''), (''content'', content)]),
           (''finish_reason'', JStr ''stop'')]]),
        (''usage'', JObj [(''prompt_tokens'', p), (''completion_tokens'', c), (''total_tokens'', t)])])))"

definition dispatch :: "'w router_env \<Rightarrow> chat_request \<Rightarrow> string \<Rightarrow> message list \<Rightarrow> string \<Rightarrow> health_cache \<Rightarrow> 'w
    \<Rightarrow> raw_answer result \<times> health_cache \<times> 'w" where
  "dispatch E rq role messages sid hc w =
     (case resolve_endpoint E role sid hc w of ((url, model, btype), hc1, w1) \<Rightarrow>
        let msgs = (if messages \<noteq> [] then messages else rq_messages rq) in
        if cf_use_litellm (re_config E) then
          (case gateway_dispatch E msgs model (rq_stream rq) (rq_temperature rq) (rq_max_tokens rq) w1 of
             (r, w2) \<Rightarrow> (r, hc1, w2))
        else if btype = ''ollama'' then
          let body = build_ollama_body msgs model rq in
          if rq_stream rq then
            (case stream_ollama E url body model w1 of (ls, w2) \<Rightarrow> (Inr (RawStream ls), hc1, w2))
          else
            (case http_post (re_http E) (rstrip_char (CHR ''/'') url @ ''/api/chat'') (JObj body) w1 of
               (r, w2) \<Rightarrow>
                 (bind_result (reply_doc r) (\<lambda>doc.
                    map_sum id RawDict (ollama_reply (re_hex12 E w2) \<lfloor>re_now E w2\<rfloor> model doc)), hc1, w2))
        else
          let body = build_vllm_body msgs model rq in
          if rq_stream rq then
            (case stream_vllm E url body w1 of (ls, w2) \<Rightarrow> (Inr (RawStream ls), hc1, w2))
          else
            (case http_post (re_http E) (rstrip_char (CHR ''/'') url @ ''/chat/completions'') (JObj body) w1 of
               (r, w2) \<Rightarrow>
                 (bind_result (reply_doc r) (\<lambda>doc.
                    map_sum id RawDict (as_dict doc)), hc1, w2)))"

end
