(* ===== verification/Routing_Props.thy ===== *)
theory Routing_Props
  imports Routing Agent_Props
begin

text \<open>
  Properties of the routing: a healthy endpoint is chosen whenever one is known, and what a
  failing backend looks like to the agent manager when the answer is streamed.
\<close>

section \<open>Health\<close>

definition known_up :: "health_cache \<Rightarrow> string \<Rightarrow> bool" where
  "known_up hc url \<longleftrightarrow> (case map_of hc url of Some (h, _) \<Rightarrow> h | None \<Rightarrow> False)"

lemma is_healthy_cache:
  assumes "is_healthy E url hc w = (b, hc', w')"
  shows "known_up hc' url = b" "u \<noteq> url \<Longrightarrow> known_up hc' u = known_up hc u"
  using assms
  by (auto simp: is_healthy_def Let_def known_up_def split: option.splits prod.splits if_splits)

lemma walk_fallbacks_health:
  "walk_fallbacks E primary us hc w = (r, hc', w') \<Longrightarrow>
   (\<forall>u. u \<notin> set us \<or> u = primary \<longrightarrow> known_up hc' u = known_up hc u) \<and>
   (case r of Some u \<Rightarrow> u \<in> set us \<and> u \<noteq> primary \<and> known_up hc' u
    | None \<Rightarrow> list_all (\<lambda>u. u = primary \<or> \<not> known_up hc' u) us)"
proof (induction E primary us hc w rule: walk_fallbacks.induct)
  case (1 E primary hc w)
  then show ?case by auto
next
  case (2 E primary u us hc w)
  show ?case
  proof (cases "u = primary")
    case True
    with 2 show ?thesis by (auto split: option.splits)
  next
    case False
    obtain b hc1 w1 where h: "is_healthy E u hc w = (b, hc1, w1)" by (metis prod_cases3)
    show ?thesis
    proof (cases b)
      case True
      then show ?thesis using 2 False h is_healthy_cache [of E u hc w] by auto
    next
      case down: False
      then have rest: "walk_fallbacks E primary us hc1 w1 = (r, hc', w')"
        using 2 False h by auto
      note IH = "2.IH"(2) [OF False h [symmetric] _ refl rest]
      have "known_up hc' u = False" if "u \<notin> set us"
        using IH that down is_healthy_cache(1) [OF h] by simp
      moreover have "known_up hc' u = False" if "r = None" "u \<in> set us"
        using IH that down False by (auto simp: list_all_iff)
      moreover have "known_up hc1 v = known_up hc v" if "v = primary \<or> v \<noteq> u" for v
        using that False is_healthy_cache(2) [OF h] by auto
      ultimately show ?thesis using IH [OF _] down by (auto split: option.splits)
    qed
  qed
qed

definition primary_of :: "'w router_env \<Rightarrow> string \<Rightarrow> string \<Rightarrow> 'w \<Rightarrow> string" where
  "primary_of E role sid w = (case re_policy E of
     Some pol \<Rightarrow> fst (pol role sid w) | None \<Rightarrow> profile_endpoint (re_config E) role)"

text \<open>C28: the router never picks an endpoint it knows to be down while a healthy one is in reach: the
  chosen endpoint passed its latest check, or the primary endpoint and the whole fallback
  chain failed theirs and the primary endpoint is returned.\<close>

theorem resolve_endpoint_health:
  assumes "resolve_endpoint E role sid hc w = ((url, model, btype), hc', w')"
  shows "known_up hc' url \<or>
    url = primary_of E role sid w \<and>
    list_all (\<lambda>u. \<not> known_up hc' u) (url # cf_fallback_order (re_config E))"
proof -
  obtain u0 m0 b0 where p: "(case re_policy E of Some pol \<Rightarrow> pol role sid w
      | None \<Rightarrow> (profile_endpoint (re_config E) role, profile_model (re_config E) role,
          backend_type (profile_endpoint (re_config E) role))) = (u0, m0, b0)" by (metis prod_cases3)
  then have u0: "u0 = primary_of E role sid w" by (auto simp: primary_of_def split: option.splits)
  obtain b hc1 w1 where h: "is_healthy E u0 hc w = (b, hc1, w1)" by (metis prod_cases3)
  show ?thesis
  proof (cases b)
    case True
    then show ?thesis
      using assms p h is_healthy_cache(1) [OF h] by (auto simp: resolve_endpoint_def Let_def)
  next
    case False
    obtain r hc2 w2 where f: "walk_fallbacks E u0 (cf_fallback_order (re_config E)) hc1 w1 = (r, hc2, w2)"
      by (metis prod_cases3)
    have down: "\<not> known_up hc1 u0" using is_healthy_cache(1) [OF h] False by simp
    note wf = walk_fallbacks_health [OF f]
    show ?thesis
    proof (cases r)
      case None
      then have "url = u0" "hc' = hc2"
        using assms p h f False by (auto simp: resolve_endpoint_def Let_def)
      moreover have "\<not> known_up hc2 u0" using wf down by blast
      moreover have "list_all (\<lambda>u. \<not> known_up hc2 u) (cf_fallback_order (re_config E))"
        using wf None \<open>\<not> known_up hc2 u0\<close> by (auto simp: list_all_iff)
      ultimately show ?thesis using u0 by simp
    next
      case (Some u)
      then have "url = u" "hc' = hc2"
        using assms p h f False by (auto simp: resolve_endpoint_def Let_def)
      then show ?thesis using wf Some by simp
    qed
  qed
qed

section \<open>A failing backend in a stream\<close>

lemma strip_core:
  assumes "x \<noteq> []" "\<not> py_space (hd x)" "\<not> py_space (last x)" "list_all py_space a" "list_all py_space b"
  shows "strip (a @ x @ b) = x"
proof -
  have skip: "dropWhile py_space (u @ v) = dropWhile py_space v" if "list_all py_space u" for u v
    using that by (intro dropWhile_append2) (simp add: list_all_iff)
  have "dropWhile py_space (a @ x @ b) = x @ b"
    using assms by (cases x) (auto simp: skip)
  moreover have "dropWhile py_space (rev b @ rev x) = rev x"
    using assms by (cases x rule: rev_cases) (auto simp: skip)
  ultimately show ?thesis by (simp add: strip_def lstrip_def rstrip_def)
qed

definition ascii :: "string \<Rightarrow> bool" where
  "ascii s \<longleftrightarrow> list_all (\<lambda>c. (of_char c :: nat) < 128) s"

lemma ascii_dump_char: "(of_char c :: nat) < 128 \<Longrightarrow> ascii (dump_char c)"
proof -
  have "list_all (\<lambda>n. (of_char (hex_digit n) :: nat) < 128) [0..<16]" by code_simp
  then have "(of_char (hex_digit (n mod 16)) :: nat) < 128" for n :: nat
    by (simp add: list_all_iff)
  moreover have "hex_digit (n mod 16) = hex_digit n" for n by (simp add: hex_digit_def)
  ultimately have "(of_char (hex_digit n) :: nat) < 128" for n by metis
  then show "(of_char c :: nat) < 128 \<Longrightarrow> ?thesis"
    by (simp add: ascii_def dump_char_def dquote_def backslash_def)
qed

lemma ascii_id: "ascii s \<Longrightarrow> concat (map ascii_char s) = s"
  by (induction s) (auto simp: ascii_def ascii_char_def)

definition error_doc :: "string \<Rightarrow> json" where
  "error_doc e = JObj [(''error'', JStr e)]"

lemma error_text:
  "json_dumps fr (error_doc e) = CHR ''{'' # dump_str ''error'' @ '': '' @ dump_str e @ ''}''"
  by (simp add: error_doc_def)

lemma dump_error_ascii:
  assumes "ascii e"
  shows "json_dumps_ascii fr (error_doc e) = json_dumps fr (error_doc e)"
proof -
  have "ascii (concat (map dump_char e))"
    using assms ascii_dump_char by (induction e) (auto simp: ascii_def)
  then have "ascii (dump_str e)" by (simp add: dump_str_def ascii_def dquote_def)
  moreover have "ascii (dump_str ''error'')" by code_simp
  ultimately have "ascii (json_dumps fr (error_doc e))" by (simp add: error_text ascii_def)
  then show ?thesis by (simp add: json_dumps_ascii_def ascii_id)
qed

lemma line_data_sse:
  assumes "x \<noteq> []" "\<not> py_space (hd x)" "\<not> py_space (last x)"
  shows "line_data (''data: '' @ x @ [nl, nl]) = Some x"
proof -
  have "strip ([] @ (''data: '' @ x) @ [nl, nl]) = ''data: '' @ x"
    using assms by (intro strip_core) (auto simp: py_space_def nl_def)
  moreover have "strip ('' '' @ x @ []) = x"
    using assms by (intro strip_core) (auto simp: py_space_def)
  ultimately show ?thesis by (simp add: line_data_def)
qed

lemma line_data_error:
  assumes "ascii e"
  shows "line_data (sse fr (error_doc e)) = Some (json_dumps fr (error_doc e))"
proof -
  have "\<not> py_space (CHR ''{'')" "\<not> py_space (CHR ''}'')" by (simp_all add: py_space_def)
  then have "line_data (''data: '' @ json_dumps fr (error_doc e) @ [nl, nl]) = Some (json_dumps fr (error_doc e))"
    by (intro line_data_sse) (simp_all only: error_text list.sel, simp_all)
  then show ?thesis by (simp add: sse_def dump_error_ascii [OF assms])
qed

lemma line_data_done: "line_data sse_done = Some ''[DONE]''"
  using line_data_sse [of "''[DONE]''"] by (simp add: sse_done_def py_space_def)

lemma read_error_chunk: "read_chunk (error_doc e) s = (s, None)"
  by (simp add: read_chunk_def error_doc_def as_dict_def chunk_token_def add_token_def add_usage_def get_or_def)

text \<open>A failing backend is reported as success when the answer is streamed.  When Ollama answers
  the streamed request of an agent with an error status, the model call of that agent
  finishes with an empty answer: the run is neither failed nor retried.\<close>

theorem ollama_error_is_empty_answer:
  assumes "re_stream R (rstrip_char (CHR ''/'') url @ ''/api/chat'') (JObj body) w0 = (Inr (status, ls), w1)"
    and "status \<noteq> 200"
    and "ae_dispatch E ms (ag_role a) (ag_session a) w =
       (Inr (RawStream (fst (stream_ollama R url body model w0))), w2)"
    and "\<And>w. \<not> ae_expired E w" "\<And>w. ae_taken E w = 0"
  shows "\<exists>w3. call_model E a ms w = (a, [], Finished ([], 0, 0), w3)"
proof -
  let ?e = "''Ollama error '' @ nat_str status"
  have "ascii (nat_str status)"
  proof -
    have "is_digit c \<Longrightarrow> (of_char c :: nat) < 128" for c by (auto simp: is_digit_def)
    then show ?thesis using nat_str_props [of status] by (auto simp: ascii_def list_all_iff)
  qed
  then have asc: "ascii ?e" by (simp add: ascii_def)
  have lines: "fst (stream_ollama R url body model w0) =
      [Inr (sse (re_float R) (error_doc ?e)), Inr sse_done]"
    using assms(1,2) by (simp add: stream_ollama_def sse_error_def error_doc_def)
  have noop: "take_step E s u = s" for s u by (simp add: take_step_def let_take_def assms(5))
  have loads: "json_loads (json_dumps (re_float R) (error_doc ?e)) = Some (error_doc ?e)"
    by (rule json_loads_dumps) (simp add: error_doc_def)
  have nd: "json_dumps (re_float R) (error_doc ?e) \<noteq> ''[DONE]''" by (simp add: error_text)
  show ?thesis
    using line_data_error [OF asc, of "re_float R"] line_data_done loads nd
    by (simp add: call_model_def assms(3,4) lines noop Let_def read_error_chunk count_of_def)
qed

definition default_settings :: config where
  "default_settings = projr (load_config (\<lambda>_. None) (Inl (OtherError [])))"

definition demo_router :: "nat router_env" where
  "demo_router = \<lparr>re_config = default_settings, re_http = \<lparr>http_get = (\<lambda>_ w. (Inl (OtherError []), w)),
       http_post = (\<lambda>_ _ w. (Inl (OtherError []), w))\<rparr>,
     re_stream = (\<lambda>_ _ w. (Inr (500, []), w)), re_policy = Some (\<lambda>_ _ _. (''u'', ''m'', ''vllm'')),
     re_litellm = (\<lambda>_ w. (Inl (OtherError []), w)), re_litellm_stream = (\<lambda>_ w. ([], w)),
     re_has_litellm = False, re_now = (\<lambda>_. 0), re_hex12 = (\<lambda>_. []), re_float = (\<lambda>_. [])\<rparr>"

definition demo_http_agents :: "nat agent_env" where
  "demo_http_agents = demo_agents\<lparr>ae_taken := (\<lambda>_. 0),
     ae_dispatch := (\<lambda>_ _ _ w. (Inr (RawStream (fst (stream_ollama demo_router ''http://ollama:11434'' [] ''m'' w))), w))\<rparr>"

theorem ollama_error_is_empty_answer_witness:
  "\<exists>w3. call_model demo_http_agents (fst (new_agent demo_agents ''coder'' ''s'' 0)) [] 0 =
     (fst (new_agent demo_agents ''coder'' ''s'' 0), [], Finished ([], 0, 0), w3)"
  by (rule ollama_error_is_empty_answer [of demo_router "''http://ollama:11434''" "[]" 0 500 "[]" 0 _ _ _ 0 "''m''" 0])
    (simp_all add: demo_router_def demo_http_agents_def demo_agents_def)

theorem resolve_endpoint_health_witness:
  "known_up [(''u'', True, 0)] ''u'' \<or> ''u'' = primary_of demo_router ''coder'' ''s'' 0 \<and>
     list_all (\<lambda>u. \<not> known_up [(''u'', True, 0)] u) (''u'' # cf_fallback_order (re_config demo_router))"
proof -
  have "resolve_endpoint demo_router ''coder'' ''s'' [(''u'', True, 0)] 0 =
      ((''u'', ''m'', ''vllm''), [(''u'', True, 0)], 0)"
    by (simp add: resolve_endpoint_def demo_router_def is_healthy_def health_cache_ttl_def)
  from resolve_endpoint_health [OF this] show ?thesis .
qed

text \<open>On the laptop profile, when Ollama is down and a session has no model of its own, every
  fallback to a vLLM endpoint asks it for the Ollama model, which it does not serve.\<close>

theorem laptop_fallback_model:
  assumes "cf_profile (re_config E) = ''laptop''" "re_policy E = None"
    and "resolve_endpoint E role sid hc w = ((url, model, btype), hc', w')" "btype = ''vllm''"
    and "backend_type (cf_ollama_url (re_config E)) = ''ollama''"
  shows "model = cf_ollama_model (re_config E)"
  using assms
  by (auto simp: resolve_endpoint_def Let_def profile_endpoint_def profile_model_def
      split: prod.splits bool.splits option.splits if_splits)

definition down_cache :: health_cache where
  "down_cache = [(''http://ollama:11434'', False, 0), (''http://vllm-coder:8000/v1'', True, 0)]"

lemma laptop_fallback_run:
  "resolve_endpoint (demo_router\<lparr>re_policy := None\<rparr>) ''coder'' ''s'' down_cache 0 =
     ((''http://vllm-coder:8000/v1'', ''qwen2.5-coder:7b'', ''vllm''), down_cache, 0)"
  by code_simp

theorem laptop_fallback_model_witness:
  "''qwen2.5-coder:7b'' = cf_ollama_model (re_config demo_router)"
proof -
  have "cf_profile (re_config (demo_router\<lparr>re_policy := None\<rparr>)) = ''laptop''"
    "backend_type (cf_ollama_url (re_config (demo_router\<lparr>re_policy := None\<rparr>))) = ''ollama''"
    by code_simp+
  then show ?thesis
    using laptop_fallback_model [OF _ _ laptop_fallback_run refl] by simp
qed

end
