(* ===== verification/Session_Manager.thy ===== *)
theory Session_Manager
  imports Routing Redis
begin

text \<open>
  \<open>orchestrator/session_manager.py\<close>: the session state and its JSON form, the two Redis keys
  of a session with their common life time, and the operations on sessions.  The session
  hooks, the clean-up of agents, the bus, the clock and the ids are parameters.
\<close>

section \<open>Session state\<close>

record session_state =
  ss_id :: string
  ss_status :: string
  ss_created :: real
  ss_updated :: real
  ss_task :: string
  ss_models :: "string dict"
  ss_agent_ids :: "string list"
  ss_task_ids :: "string list"
  ss_metadata :: "json dict"

definition state_json :: "session_state \<Rightarrow> json" where
  "state_json s = JObj
    [(''session_id'', JStr (ss_id s)), (''status'', JStr (ss_status s)), (''created_at'', JFloat (ss_created s)),
     (''updated_at'', JFloat (ss_updated s)), (''task'', JStr (ss_task s)),
     (''models'', JObj (map (\<lambda>(r, m). (r, JStr m)) (ss_models s))),
     (''agent_ids'', JList (map JStr (ss_agent_ids s))), (''task_ids'', JList (map JStr (ss_task_ids s))),
     (''metadata'', JObj (ss_metadata s))]"

fun str_fields :: "json dict \<Rightarrow> string dict option" where
  "str_fields [] = Some []"
| "str_fields ((k, JStr v) # d) = map_option (\<lambda>r. (k, v) # r) (str_fields d)"
| "str_fields (_ # d) = None"

fun str_items :: "json list \<Rightarrow> string list option" where
  "str_items [] = Some []"
| "str_items (JStr v # xs) = map_option (\<lambda>r. v # r) (str_items xs)"
| "str_items (_ # xs) = None"

definition num_of :: "json \<Rightarrow> real option" where
  "num_of j = (case j of JFloat x \<Rightarrow> Some x | JInt n \<Rightarrow> Some (of_int n) | _ \<Rightarrow> None)"

definition field :: "json dict \<Rightarrow> string \<Rightarrow> (json \<Rightarrow> 'a option) \<Rightarrow> 'a \<Rightarrow> 'a option" where
  "field d k f v = (case map_of d k of None \<Rightarrow> Some v | Some j \<Rightarrow> f j)"

definition str_of :: "json \<Rightarrow> string option" where
  "str_of j = (case j of JStr s \<Rightarrow> Some s | _ \<Rightarrow> None)"

text \<open>\<open>model_validate_json\<close>: only the id has no default.\<close>

definition state_of_json :: "real \<Rightarrow> json \<Rightarrow> session_state option" where
  "state_of_json now j = (case j of
     JObj d \<Rightarrow>
       (case (Option.bind (map_of d ''session_id'') str_of, field d ''status'' str_of ''active'',
              field d ''created_at'' num_of now, field d ''updated_at'' num_of now,
              field d ''task'' str_of []) of
          (Some i, Some st, Some c, Some u, Some t) \<Rightarrow>
            (case (field d ''models'' (\<lambda>j. case j of JObj m \<Rightarrow> str_fields m | _ \<Rightarrow> None) [],
                   field d ''agent_ids'' (\<lambda>j. case j of JList xs \<Rightarrow> str_items xs | _ \<Rightarrow> None) [],
                   field d ''task_ids'' (\<lambda>j. case j of JList xs \<Rightarrow> str_items xs | _ \<Rightarrow> None) [],
                   field d ''metadata'' (\<lambda>j. case j of JObj m \<Rightarrow> Some m | _ \<Rightarrow> None) []) of
               (Some ms, Some ags, Some ts, Some md) \<Rightarrow>
                 Some \<lparr>ss_id = i, ss_status = st, ss_created = c, ss_updated = u, ss_task = t, ss_models = ms,
                   ss_agent_ids = ags, ss_task_ids = ts, ss_metadata = md\<rparr>
             | _ \<Rightarrow> None)
        | _ \<Rightarrow> None)
   | _ \<Rightarrow> None)"

lemma str_fields_map [simp]: "str_fields (map (\<lambda>(r, m). (r, JStr m)) d) = Some d"
  by (induction d) auto

lemma str_items_map [simp]: "str_items (map JStr xs) = Some xs"
  by (induction xs) auto

lemma state_json_inverse [simp]: "state_of_json now (state_json s) = Some s"
  by (simp add: state_of_json_def state_json_def field_def str_of_def num_of_def)

section \<open>The environment\<close>

record 'w session_env =
  se_redis :: "'w redis"
  se_ttl :: nat
  se_now :: "'w \<Rightarrow> real"
  se_uuid :: "'w \<Rightarrow> string"
  se_on_start :: "string \<Rightarrow> string \<Rightarrow> 'w \<Rightarrow> unit result \<times> 'w" \<comment> \<open>session, task\<close>
  se_on_end :: "string \<Rightarrow> string \<Rightarrow> json list \<Rightarrow> json list \<Rightarrow> 'w \<Rightarrow> unit result \<times> 'w"
    \<comment> \<open>session, summary, transcript, failures\<close>
  se_cleanup_agents :: "'w \<Rightarrow> 'w"
  se_bus :: "((string \<Rightarrow> event \<Rightarrow> 'w \<Rightarrow> 'w) \<times> (string \<Rightarrow> 'w \<Rightarrow> 'w)) option" \<comment> \<open>publish, clean up\<close>

definition state_key :: "string \<Rightarrow> string" where
  "state_key sid = ''session:state:'' @ sid"

definition write_state :: "'w session_env \<Rightarrow> session_state \<Rightarrow> 'w \<Rightarrow> session_state \<times> 'w" where
  "write_state E s w =
     (let s1 = s\<lparr>ss_updated := se_now E w\<rparr>;
          w1 = r_setex (se_redis E) (state_key (ss_id s1)) (se_ttl E) (state_json s1) w
      in (s1, r_expire (se_redis E) (models_key (ss_id s1)) (se_ttl E) w1))"

definition read_state :: "'w session_env \<Rightarrow> string \<Rightarrow> 'w \<Rightarrow> session_state option" where
  "read_state E sid w =
     (case r_get (se_redis E) (state_key sid) w of
        None \<Rightarrow> None | Some raw \<Rightarrow> state_of_json (se_now E w) raw)"

fun hset_all :: "'w redis \<Rightarrow> string \<Rightarrow> string dict \<Rightarrow> 'w \<Rightarrow> 'w" where
  "hset_all R k [] w = w"
| "hset_all R k ((f, v) # d) w = hset_all R k d (r_hset R k f v w)"

definition not_found :: "string \<Rightarrow> exn" where
  "not_found sid = KeyError (''Session '' @ py_repr sid @ '' not found'')"

section \<open>Operations\<close>

definition create_session :: "'w session_env \<Rightarrow> string \<Rightarrow> string option \<Rightarrow> string dict \<Rightarrow> json dict \<Rightarrow> 'w
    \<Rightarrow> session_state result \<times> 'w" where
  "create_session E task sid_opt models metadata w =
     (let sid = (case sid_opt of Some s \<Rightarrow> if s \<noteq> [] then s else se_uuid E w | None \<Rightarrow> se_uuid E w) in
      case se_on_start E sid task w of
        (Inl e, w1) \<Rightarrow> (Inl e, w1)
      | (Inr _, w1) \<Rightarrow>
          let s = \<lparr>ss_id = sid, ss_status = ''active'', ss_created = se_now E w1, ss_updated = se_now E w1,
                 ss_task = task, ss_models = models, ss_agent_ids = [], ss_task_ids = [],
                 ss_metadata = metadata\<rparr>;
              w2 = (if models \<noteq> [] then hset_all (se_redis E) (models_key sid) models w1 else w1)
          in case write_state E s w2 of (s1, w3) \<Rightarrow> (Inr s1, w3))"

datatype update = Set_Status string | Set_Task string | Set_Models "string dict"
  | Set_Agent_Ids "string list" | Add_Agent_Id string | Set_Task_Ids "string list" | Add_Task_Id string
  | Set_Metadata "json dict" | Unknown_Field

definition add_new :: "string \<Rightarrow> string list \<Rightarrow> string list" where
  "add_new x xs = (if x \<in> set xs then xs else xs @ [x])"

fun apply_update :: "update \<Rightarrow> session_state \<Rightarrow> session_state" where
  "apply_update (Set_Status v) s = s\<lparr>ss_status := v\<rparr>"
| "apply_update (Set_Task v) s = s\<lparr>ss_task := v\<rparr>"
| "apply_update (Set_Models v) s = s\<lparr>ss_models := v\<rparr>"
| "apply_update (Set_Agent_Ids v) s = s\<lparr>ss_agent_ids := v\<rparr>"
| "apply_update (Add_Agent_Id v) s = s\<lparr>ss_agent_ids := add_new v (ss_agent_ids s)\<rparr>"
| "apply_update (Set_Task_Ids v) s = s\<lparr>ss_task_ids := v\<rparr>"
| "apply_update (Add_Task_Id v) s = s\<lparr>ss_task_ids := add_new v (ss_task_ids s)\<rparr>"
| "apply_update (Set_Metadata v) s = s\<lparr>ss_metadata := v\<rparr>"
| "apply_update Unknown_Field s = s"

definition update_session :: "'w session_env \<Rightarrow> string \<Rightarrow> update list \<Rightarrow> 'w \<Rightarrow> session_state result \<times> 'w" where
  "update_session E sid us w =
     (case read_state E sid w of
        None \<Rightarrow> (Inl (not_found sid), w)
      | Some s \<Rightarrow> (case write_state E (fold apply_update us s) w of (s1, w1) \<Rightarrow> (Inr s1, w1)))"

definition configure_models :: "'w session_env \<Rightarrow> string \<Rightarrow> string dict \<Rightarrow> 'w \<Rightarrow> session_state \<times> 'w" where
  "configure_models E sid models w =
     (let w1 = hset_all (se_redis E) (models_key sid) models w in
      case read_state E sid w1 of
        Some s \<Rightarrow> write_state E (s\<lparr>ss_models := dict_update (ss_models s) models\<rparr>) w1
      | None \<Rightarrow>
          (\<lparr>ss_id = sid, ss_status = ''active'', ss_created = se_now E w1, ss_updated = se_now E w1,
            ss_task = [], ss_models = models, ss_agent_ids = [], ss_task_ids = [], ss_metadata = []\<rparr>,
           r_expire (se_redis E) (models_key sid) (se_ttl E) w1))"

definition register_agent :: "'w session_env \<Rightarrow> string \<Rightarrow> string \<Rightarrow> 'w \<Rightarrow> 'w" where
  "register_agent E sid aid w =
     (case read_state E sid w of
        None \<Rightarrow> w
      | Some s \<Rightarrow>
          if aid \<in> set (ss_agent_ids s) then w
          else snd (write_state E (s\<lparr>ss_agent_ids := ss_agent_ids s @ [aid]\<rparr>) w))"

definition register_task :: "'w session_env \<Rightarrow> string \<Rightarrow> string \<Rightarrow> 'w \<Rightarrow> 'w" where
  "register_task E sid tid w =
     (case read_state E sid w of
        None \<Rightarrow> w
      | Some s \<Rightarrow>
          if tid \<in> set (ss_task_ids s) then w
          else snd (write_state E (s\<lparr>ss_task_ids := ss_task_ids s @ [tid]\<rparr>) w))"

definition ended_event :: "'w session_env \<Rightarrow> string \<Rightarrow> 'w \<Rightarrow> event" where
  "ended_event E sid w = \<lparr>ev_type = Status, ev_session = sid, ev_agent = None,
     ev_payload = [(''lifecycle'', JStr ''ended'')], ev_ts = se_now E w\<rparr>"

definition end_session :: "'w session_env \<Rightarrow> string \<Rightarrow> string \<Rightarrow> json list \<Rightarrow> json list \<Rightarrow> 'w
    \<Rightarrow> session_state result \<times> 'w" where
  "end_session E sid summary transcript failures w =
     (case read_state E sid w of
        None \<Rightarrow> (Inl (not_found sid), w)
      | Some s \<Rightarrow>
          (case write_state E (s\<lparr>ss_status := ''ended''\<rparr>) w of (s1, w1) \<Rightarrow>
             (case se_on_end E sid (if summary \<noteq> [] then summary else ss_task s1) transcript failures w1 of
                (Inl e, w2) \<Rightarrow> (Inl e, w2)
              | (Inr _, w2) \<Rightarrow>
                  let w3 = se_cleanup_agents E w2 in
                  (Inr s1, (case se_bus E of None \<Rightarrow> w3
                     | Some (pub, clean) \<Rightarrow> clean sid (pub sid (ended_event E sid w3) w3))))))"

definition pause_session :: "'w session_env \<Rightarrow> string \<Rightarrow> 'w \<Rightarrow> session_state result \<times> 'w" where
  "pause_session E sid w = update_session E sid [Set_Status ''paused''] w"

definition resume_session :: "'w session_env \<Rightarrow> string \<Rightarrow> 'w \<Rightarrow> session_state result \<times> 'w" where
  "resume_session E sid w =
     (case read_state E sid w of
        None \<Rightarrow> (Inl (not_found sid), w)
      | Some s \<Rightarrow>
          if ss_status s = ''ended''
          then (Inl (ValueError (''Session '' @ py_repr sid @ '' has ended and cannot be resumed'')), w)
          else update_session E sid [Set_Status ''active''] w)"

definition list_sessions :: "'w session_env \<Rightarrow> string option \<Rightarrow> 'w \<Rightarrow> session_state list" where
  "list_sessions E status w =
     (let raws = map (\<lambda>k. r_get (se_redis E) k w) (r_keys (se_redis E) (state_key []) w);
          states = List.map_filter (\<lambda>raw. Option.bind raw (state_of_json (se_now E w))) raws;
          shown = (case status of None \<Rightarrow> states
                   | Some st \<Rightarrow> if st = [] then states else filter (\<lambda>s. ss_status s = st) states)
      in sort_key (\<lambda>s. - ss_created s) shown)"

section \<open>The contract of the environment\<close>

definition session_key :: "string \<Rightarrow> bool" where
  "session_key k \<longleftrightarrow> prefix ''session:'' k"

definition same_sessions :: "(db \<times> (string \<Rightarrow> nat option)) \<Rightarrow> (db \<times> (string \<Rightarrow> nat option)) \<Rightarrow> bool" where
  "same_sessions v v' \<longleftrightarrow>
     (\<forall>k. session_key k \<longrightarrow> fst v' k = fst v k \<and> snd v' k = snd v k)"

text \<open>
  The invariant: a state key holds a document whose session is that of the key, a models
  key a hash, and a state and a models key of one session have the same life time.
\<close>

definition sessions_typed :: "db \<Rightarrow> bool" where
  "sessions_typed d \<longleftrightarrow>
     (\<forall>sid. (\<forall>x. d (state_key sid) = Some x \<longrightarrow> (\<exists>s. x = RStr (state_json s) \<and> ss_id s = sid)) \<and>
            (\<forall>x. d (models_key sid) = Some x \<longrightarrow> (\<exists>h. x = RHash h)))"

definition in_sync :: "string \<Rightarrow> (db \<times> (string \<Rightarrow> nat option)) \<Rightarrow> bool" where
  "in_sync sid v \<longleftrightarrow> fst v (state_key sid) = None \<or> fst v (models_key sid) = None \<or>
     snd v (state_key sid) = snd v (models_key sid)"

definition sessions_ok :: "(db \<times> (string \<Rightarrow> nat option)) \<Rightarrow> bool" where
  "sessions_ok v \<longleftrightarrow> sessions_typed (fst v) \<and> (\<forall>sid. in_sync sid v)"

lemma session_keys [simp]:
  "session_key (state_key sid)" "session_key (models_key sid)"
  "state_key sid \<noteq> models_key sid'" "models_key sid' \<noteq> state_key sid"
  "state_key sid = state_key sid' \<longleftrightarrow> sid = sid'" "models_key sid = models_key sid' \<longleftrightarrow> sid = sid'"
  by (simp_all add: session_key_def state_key_def models_key_def)

lemma sessions_typedD:
  "sessions_typed d \<Longrightarrow> d (state_key sid) = Some x \<Longrightarrow> \<exists>s. x = RStr (state_json s) \<and> ss_id s = sid"
  "sessions_typed d \<Longrightarrow> d (models_key sid) = Some x \<Longrightarrow> \<exists>h. x = RHash h"
  unfolding sessions_typed_def by blast+

lemma sessions_typedI:
  assumes "\<And>sid x. d (state_key sid) = Some x \<Longrightarrow> \<exists>s. x = RStr (state_json s) \<and> ss_id s = sid"
    and "\<And>sid x. d (models_key sid) = Some x \<Longrightarrow> \<exists>h. x = RHash h"
  shows "sessions_typed d"
  using assms unfolding sessions_typed_def by blast

lemma sessions_ok_typed [simp]: "sessions_ok (d, t) \<Longrightarrow> sessions_typed d"
  by (simp add: sessions_ok_def)

lemma sessions_ok_frame: "sessions_ok v \<Longrightarrow> same_sessions v v' \<Longrightarrow> sessions_ok v'"
  by (simp add: sessions_ok_def sessions_typed_def in_sync_def same_sessions_def)

locale session_host = redis_server R db ttl
  for R :: "'w redis" and db :: "'w \<Rightarrow> db" and ttl :: "'w \<Rightarrow> string \<Rightarrow> nat option" +
  fixes E :: "'w session_env"
  assumes env_redis: "se_redis E = R"
    and start_frame: "same_sessions (db w, ttl w) (db (snd (se_on_start E sid task w)), ttl (snd (se_on_start E sid task w)))"
    and end_frame: "same_sessions (db w, ttl w)
          (db (snd (se_on_end E sid sm tr fl w)), ttl (snd (se_on_end E sid sm tr fl w)))"
    and cleanup_frame: "same_sessions (db w, ttl w) (db (se_cleanup_agents E w), ttl (se_cleanup_agents E w))"
    and publish_frame: "se_bus E = Some (pub, clean) \<Longrightarrow>
          same_sessions (db w, ttl w) (db (pub sid ev w), ttl (pub sid ev w))"
    and clean_frame: "se_bus E = Some (pub, clean) \<Longrightarrow>
          same_sessions (db w, ttl w) (db (clean sid w), ttl (clean sid w))"
begin

abbreviation sess_view :: "'w \<Rightarrow> db \<times> (string \<Rightarrow> nat option)" where
  "sess_view w \<equiv> (db w, ttl w)"

lemma read_state_view:
  assumes "sessions_typed (db w)"
  shows "read_state E sid w = (case db w (state_key sid) of
     Some (RStr j) \<Rightarrow> state_of_json (se_now E w) j | _ \<Rightarrow> None)"
proof (cases "db w (state_key sid)")
  case None
  then show ?thesis by (simp add: read_state_def env_redis get_none)
next
  case (Some x)
  then obtain s where "x = RStr (state_json s)" using sessions_typedD(1) [OF assms] by fastforce
  with Some show ?thesis by (simp add: read_state_def env_redis get_str)
qed

lemma read_state_id:
  assumes "sessions_typed (db w)" "read_state E sid w = Some s"
  shows "ss_id s = sid \<and> db w (state_key sid) = Some (RStr (state_json s))"
proof -
  obtain x where x: "db w (state_key sid) = Some x"
    using assms read_state_view [OF assms(1), of sid] by (auto split: option.splits)
  then obtain s' where "x = RStr (state_json s')" "ss_id s' = sid"
    using sessions_typedD(1) [OF assms(1)] by fastforce
  then show ?thesis using assms read_state_view [OF assms(1), of sid] x by simp
qed

lemma read_state_None:
  assumes "sessions_typed (db w)" "read_state E sid w = None"
  shows "db w (state_key sid) = None"
  using assms read_state_view [OF assms(1), of sid] sessions_typedD(1) [OF assms(1), of sid]
  by (cases "db w (state_key sid)") fastforce+

lemma write_state_view:
  assumes "sessions_typed (db w)" "\<And>sid. sid \<noteq> ss_id s \<Longrightarrow> in_sync sid (sess_view w)"
    and "write_state E s w = (s1, w1)"
  shows "sessions_ok (sess_view w1) \<and> s1 = s\<lparr>ss_updated := se_now E w\<rparr> \<and>
    db w1 = (db w)(state_key (ss_id s) \<mapsto> RStr (state_json s1)) \<and>
    ttl w1 (state_key (ss_id s)) = Some (se_ttl E)"
proof -
  let ?s1 = "s\<lparr>ss_updated := se_now E w\<rparr>"
  have s1: "s1 = ?s1" and
    dbw: "db w1 = (db w)(state_key (ss_id s) \<mapsto> RStr (state_json ?s1))" and
    ttlw: "ttl w1 = (if db w (models_key (ss_id s)) = None then (ttl w)(state_key (ss_id s) := Some (se_ttl E))
       else (ttl w)(state_key (ss_id s) := Some (se_ttl E), models_key (ss_id s) := Some (se_ttl E)))"
    using assms(3) by (auto simp: write_state_def Let_def env_redis)
  have "sessions_typed (db w1)"
  proof (rule sessions_typedI)
    fix sid x assume "db w1 (state_key sid) = Some x"
    then show "\<exists>s. x = RStr (state_json s) \<and> ss_id s = sid"
      using sessions_typedD(1) [OF assms(1)] by (auto simp: dbw split: if_splits intro!: exI [of _ ?s1])
  next
    fix sid x assume "db w1 (models_key sid) = Some x"
    then show "\<exists>h. x = RHash h" using sessions_typedD(2) [OF assms(1)] by (simp add: dbw)
  qed
  moreover have "in_sync sid (sess_view w1)" for sid
    using assms(2) [of sid] by (auto simp: in_sync_def dbw ttlw)
  ultimately show ?thesis using s1 dbw ttlw by (simp add: sessions_ok_def)
qed

lemma hset_all_view:
  "hash_at (db w) k = Some h \<Longrightarrow>
   (\<exists>h'. hash_at (db (hset_all R k d w)) k = Some h') \<and> ttl (hset_all R k d w) = ttl w \<and>
   (\<forall>k'. k' \<noteq> k \<longrightarrow> db (hset_all R k d w) k' = db w k')"
proof (induction d arbitrary: w h)
  case (Cons fv d)
  obtain f v where fv: "fv = (f, v)" by fastforce
  have "hash_at (db (r_hset R k f v w)) k = Some (dict_set h f v)"
    using Cons.prems by (simp add: hset_db)
  from Cons.IH [OF this] show ?case using Cons.prems by (auto simp: fv hset_db)
qed auto

lemma hset_all_ok:
  assumes "sessions_ok (sess_view w)"
  shows "sessions_typed (db (hset_all R (models_key sid) d w)) \<and>
    (\<forall>s. s \<noteq> sid \<or> db w (state_key sid) = None \<longrightarrow> in_sync s (sess_view (hset_all R (models_key sid) d w))) \<and>
    db (hset_all R (models_key sid) d w) (state_key sid) = db w (state_key sid)"
proof -
  note T = sessions_typedD [OF sessions_ok_typed [OF assms]]
  have "\<exists>h. hash_at (db w) (models_key sid) = Some h"
    using T(2) [of sid] by (cases "db w (models_key sid)") auto
  then obtain h where "hash_at (db w) (models_key sid) = Some h" ..
  note H = hset_all_view [OF this, of d]
  let ?w = "hset_all R (models_key sid) d w"
  have other: "db ?w k = db w k" if "k \<noteq> models_key sid" for k using H that by blast
  have "sessions_typed (db ?w)"
  proof (rule sessions_typedI)
    fix s x assume "db ?w (state_key s) = Some x"
    then show "\<exists>st. x = RStr (state_json st) \<and> ss_id st = s" using T(1) by (simp add: other)
  next
    fix s x assume x: "db ?w (models_key s) = Some x"
    show "\<exists>h. x = RHash h"
    proof (cases "s = sid")
      case True
      then show ?thesis using H x by (auto simp: hash_at_def split: option.splits rval.splits)
    next
      case False
      then show ?thesis using T(2) x by (simp add: other)
    qed
  qed
  moreover have "in_sync s (sess_view ?w)" if "s \<noteq> sid \<or> db w (state_key sid) = None" for s
    using assms that H by (cases "s = sid") (auto simp: sessions_ok_def in_sync_def other)
  ultimately show ?thesis by (simp add: other)
qed

lemma write_ok:
  "sessions_ok (sess_view w) \<Longrightarrow> write_state E s w = (s1, w1) \<Longrightarrow> sessions_ok (sess_view w1)"
  using write_state_view [of w s s1 w1] by (auto simp: sessions_ok_def)

lemma create_writes:
  assumes "sessions_ok (sess_view w)" "create_session E task so models md w = (r, w')"
  shows "(\<exists>e. r = Inl e) \<and> sessions_ok (sess_view w') \<or>
    (\<exists>s0 s1 w2. write_state E s0 w2 = (s1, w') \<and> r = Inr s1 \<and> sessions_typed (db w2) \<and>
       (\<forall>x. x \<noteq> ss_id s0 \<longrightarrow> in_sync x (sess_view w2)) \<and>
       ss_status s0 = ''active'' \<and> ss_task s0 = task \<and> ss_models s0 = models)"
proof -
  define sid where "sid = (case so of Some s \<Rightarrow> if s \<noteq> [] then s else se_uuid E w | None \<Rightarrow> se_uuid E w)"
  obtain x w1 where st: "se_on_start E sid task w = (x, w1)" by fastforce
  have ok1: "sessions_ok (sess_view w1)"
    using sessions_ok_frame [OF assms(1) start_frame [of w sid task]] st by simp
  show ?thesis
  proof (cases x)
    case (Inl e)
    then show ?thesis using assms(2) st ok1 by (auto simp: create_session_def Let_def sid_def [symmetric])
  next
    case (Inr u)
    let ?s = "\<lparr>ss_id = sid, ss_status = ''active'', ss_created = se_now E w1, ss_updated = se_now E w1,
      ss_task = task, ss_models = models, ss_agent_ids = [], ss_task_ids = [], ss_metadata = md\<rparr>"
    let ?w2 = "if models \<noteq> [] then hset_all (se_redis E) (models_key sid) models w1 else w1"
    have H: "sessions_typed (db ?w2) \<and> (\<forall>s. s \<noteq> sid \<longrightarrow> in_sync s (sess_view ?w2))"
    proof (cases "models = []")
      case True
      then show ?thesis using ok1 by (simp add: sessions_ok_def)
    next
      case False
      then show ?thesis using hset_all_ok [OF ok1, of sid models] by (simp add: env_redis)
    qed
    obtain s1 w3 where ws: "write_state E ?s ?w2 = (s1, w3)" by fastforce
    have "w' = w3" "r = Inr s1"
      using assms(2) st Inr unfolding create_session_def Let_def sid_def [symmetric]
      by (simp_all only: prod.case sum.case ws prod.inject)
    moreover have "ss_id ?s = sid" "ss_status ?s = ''active''" "ss_task ?s = task" "ss_models ?s = models"
      by simp_all
    ultimately show ?thesis using ws H by metis
  qed
qed

lemma create_session_ok:
  assumes "sessions_ok (sess_view w)" "create_session E task so models md w = (r, w')"
  shows "sessions_ok (sess_view w')"
  using create_writes [OF assms] write_state_view by blast

lemma update_session_ok:
  "sessions_ok (sess_view w) \<Longrightarrow> update_session E sid us w = (r, w') \<Longrightarrow> sessions_ok (sess_view w')"
  by (auto simp: update_session_def dest: write_ok split: option.splits prod.splits)

lemma configure_models_ok:
  assumes "sessions_ok (sess_view w)" "configure_models E sid models w = (r, w')"
  shows "sessions_ok (sess_view w')"
proof -
  let ?w1 = "hset_all R (models_key sid) models w"
  note H = hset_all_ok [OF assms(1), of sid models]
  show ?thesis
  proof (cases "read_state E sid ?w1")
    case None
    then have none: "db w (state_key sid) = None" using read_state_None H by metis
    then have "w' = r_expire R (models_key sid) (se_ttl E) ?w1"
      using assms(2) None by (auto simp: configure_models_def Let_def env_redis)
    then show ?thesis
      using H none by (auto simp: sessions_ok_def in_sync_def)
  next
    case (Some s)
    then have "ss_id s = sid" using read_state_id H by blast
    then show ?thesis
      using assms(2) Some H write_state_view [of ?w1 "s\<lparr>ss_models := dict_update (ss_models s) models\<rparr>" r w']
      by (auto simp: configure_models_def Let_def env_redis)
  qed
qed

lemma register_ok:
  "sessions_ok (sess_view w) \<Longrightarrow> sessions_ok (sess_view (register_agent E sid x w))"
  "sessions_ok (sess_view w) \<Longrightarrow> sessions_ok (sess_view (register_task E sid x w))"
  by (auto simp: register_agent_def register_task_def intro: write_ok surjective_pairing split: option.splits)

lemma end_session_ok:
  assumes "sessions_ok (sess_view w)" "end_session E sid sm tr fl w = (r, w')"
  shows "sessions_ok (sess_view w')"
proof (cases "read_state E sid w")
  case None
  then show ?thesis using assms by (simp add: end_session_def)
next
  case (Some s)
  obtain s1 w1 where w1: "write_state E (s\<lparr>ss_status := ''ended''\<rparr>) w = (s1, w1)" by fastforce
  define sm' where "sm' = (if sm \<noteq> [] then sm else ss_task s1)"
  obtain x w2 where w2: "se_on_end E sid sm' tr fl w1 = (x, w2)" by fastforce
  have ok2: "sessions_ok (sess_view w2)"
    using sessions_ok_frame [OF write_ok [OF assms(1) w1] end_frame [of w1 sid sm' tr fl]] w2 by simp
  note ok3 = sessions_ok_frame [OF ok2 cleanup_frame]
  have "sessions_ok (sess_view w')" if b: "se_bus E = Some (pub, clean)" and "x = Inr u" for pub clean u
    using assms(2) Some w1 w2 that
      sessions_ok_frame [OF sessions_ok_frame [OF ok3 publish_frame [OF b]] clean_frame [OF b]]
    by (simp add: end_session_def sm'_def Let_def) blast
  then show ?thesis
    using assms(2) Some w1 w2 ok2 ok3
    by (cases x; cases "se_bus E") (auto simp: end_session_def sm'_def [symmetric] Let_def)
qed

end

end
