(* ===== verification/Session_Props.thy ===== *)
theory Session_Props
  imports Session_Manager
begin

text \<open>
  Properties of the session manager: the common life time of the two keys of a session in
  every reachable state, what is stored can be read back, and two ways in which the life
  cycle does not behave as documented.
\<close>

section \<open>Reachable states\<close>

datatype session_op =
    Op_Create string "string option" "string dict" "json dict"
  | Op_Update string "update list"
  | Op_Configure string "string dict"
  | Op_Agent string string
  | Op_Task string string
  | Op_End string string "json list" "json list"
  | Op_Pause string
  | Op_Resume string

fun run_op :: "'w session_env \<Rightarrow> session_op \<Rightarrow> 'w \<Rightarrow> 'w" where
  "run_op E (Op_Create task so ms md) w = snd (create_session E task so ms md w)"
| "run_op E (Op_Update sid us) w = snd (update_session E sid us w)"
| "run_op E (Op_Configure sid ms) w = snd (configure_models E sid ms w)"
| "run_op E (Op_Agent sid a) w = register_agent E sid a w"
| "run_op E (Op_Task sid t) w = register_task E sid t w"
| "run_op E (Op_End sid sm tr fl) w = snd (end_session E sid sm tr fl w)"
| "run_op E (Op_Pause sid) w = snd (pause_session E sid w)"
| "run_op E (Op_Resume sid) w = snd (resume_session E sid w)"

inductive sess_reach :: "'w session_env \<Rightarrow> 'w \<Rightarrow> 'w \<Rightarrow> bool" for E w0 where
  sess_start: "sess_reach E w0 w0"
| sess_step: "sess_reach E w0 w \<Longrightarrow> sess_reach E w0 (run_op E op w)"

context session_host
begin

lemma run_op_ok: "sessions_ok (sess_view w) \<Longrightarrow> sessions_ok (sess_view (run_op E op w))"
proof (cases op)
  case (Op_Pause sid)
  moreover assume "sessions_ok (sess_view w)"
  ultimately show ?thesis
    using update_session_ok [OF _ surjective_pairing] by (simp add: pause_session_def)
next
  case (Op_Resume sid)
  moreover assume "sessions_ok (sess_view w)"
  ultimately show ?thesis
    using update_session_ok [OF _ surjective_pairing]
    by (simp add: resume_session_def split: option.splits)
qed (simp_all add: register_ok create_session_ok [OF _ surjective_pairing]
    update_session_ok [OF _ surjective_pairing] configure_models_ok [OF _ surjective_pairing]
    end_session_ok [OF _ surjective_pairing])

lemma reach_ok: "sess_reach E w0 w \<Longrightarrow> sessions_ok (sess_view w0) \<Longrightarrow> sessions_ok (sess_view w)"
  by (induction rule: sess_reach.induct) (auto simp: run_op_ok)

lemma read_after_write:
  assumes "sessions_typed (db w)" "\<And>s'. s' \<noteq> ss_id s \<Longrightarrow> in_sync s' (sess_view w)"
    "write_state E s w = (s1, w1)"
  shows "read_state E (ss_id s) w1 = Some s1"
proof -
  have "sessions_typed (db w1)" "db w1 (state_key (ss_id s)) = Some (RStr (state_json s1))"
    using write_state_view [OF assms] by (auto simp: sessions_ok_def)
  then show ?thesis using read_state_view [of w1 "ss_id s"] by simp
qed

lemma update_reads:
  assumes "sessions_ok (sess_view w)" "read_state E sid w = Some s"
    and "ss_id (fold apply_update us s) = ss_id s"
  shows "\<exists>w'. update_session E sid us w = (Inr ((fold apply_update us s)\<lparr>ss_updated := se_now E w\<rparr>), w')
    \<and> read_state E sid w' = Some ((fold apply_update us s)\<lparr>ss_updated := se_now E w\<rparr>)
    \<and> sessions_ok (sess_view w')"
proof -
  let ?s = "fold apply_update us s"
  obtain s1 w1 where w1: "write_state E ?s w = (s1, w1)" by fastforce
  have sync: "\<And>x. in_sync x (sess_view w)" and typed: "sessions_typed (db w)"
    using assms(1) by (simp_all add: sessions_ok_def)
  have id: "ss_id ?s = sid" using read_state_id [OF typed assms(2)] assms(3) by simp
  have "s1 = ?s\<lparr>ss_updated := se_now E w\<rparr>" using write_state_view [OF typed sync w1] by simp
  moreover have "read_state E sid w1 = Some s1" using read_after_write [OF typed sync w1] id by simp
  ultimately show ?thesis
    using w1 write_ok [OF assms(1) w1] assms(2) by (auto simp: update_session_def)
qed

lemma create_reads:
  assumes "sessions_ok (sess_view w)" "create_session E task so models md w = (Inr s, w')"
  shows "read_state E (ss_id s) w' = Some s \<and> ss_status s = ''active'' \<and> ss_task s = task \<and> ss_models s = models"
proof -
  obtain s0 w2 where H: "write_state E s0 w2 = (s, w')" "sessions_typed (db w2)"
    "\<And>x. x \<noteq> ss_id s0 \<Longrightarrow> in_sync x (sess_view w2)"
    "ss_status s0 = ''active''" "ss_task s0 = task" "ss_models s0 = models"
    using create_writes [OF assms] by auto
  have "s = s0\<lparr>ss_updated := se_now E w2\<rparr>" using write_state_view [OF H(2,3,1)] by simp
  then show ?thesis using read_after_write [OF H(2,3,1)] H(4-6) by simp
qed

end

section \<open>A host for evaluation\<close>

definition demo_sessions :: "mem session_env" where
  "demo_sessions = \<lparr>se_redis = mem_redis, se_ttl = 60, se_now = (\<lambda>_. 0), se_uuid = (\<lambda>_. ''u''),
     se_on_start = (\<lambda>_ _ w. (Inr (), w)), se_on_end = (\<lambda>_ _ _ _ w. (Inr (), w)),
     se_cleanup_agents = (\<lambda>w. w), se_bus = None\<rparr>"

interpretation demo_host: session_host mem_redis mem_db mem_ttl demo_sessions
  by unfold_locales (simp_all add: demo_sessions_def same_sessions_def)

lemma sessions_ok_empty: "sessions_ok (mem_db [], mem_ttl [])"
  by (simp add: sessions_ok_def sessions_typed_def in_sync_def mem_db_def)

section \<open>Properties\<close>

text \<open>C26: the life times of a session.  In every state reachable by operations of the session manager,
  for every session whose state and whose model assignments are both stored, the two keys
  expire at the same time.\<close>

theorem session_keys_in_sync:
  assumes "session_host R db ttl E" "sessions_ok (db w0, ttl w0)" "sess_reach E w0 w"
    and "db w (state_key sid) \<noteq> None" "db w (models_key sid) \<noteq> None"
  shows "ttl w (state_key sid) = ttl w (models_key sid)"
proof -
  have "in_sync sid (db w, ttl w)"
    using session_host.reach_ok [OF assms(1,3,2)] unfolding sessions_ok_def by blast
  then show ?thesis using assms(4,5) unfolding in_sync_def by simp
qed

definition demo_ops :: mem where
  "demo_ops = run_op demo_sessions (Op_Configure ''s'' [(''tester'', ''m2'')])
     (run_op demo_sessions (Op_Create ''t'' (Some ''s'') [(''coder'', ''m'')] []) [])"

theorem session_keys_in_sync_witness:
  "mem_db demo_ops (state_key ''s'') \<noteq> None \<and> mem_db demo_ops (models_key ''s'') \<noteq> None \<and>
   mem_ttl demo_ops (state_key ''s'') = mem_ttl demo_ops (models_key ''s'')"
proof -
  have "sess_reach demo_sessions [] demo_ops"
    unfolding demo_ops_def by (intro sess_step sess_start)
  moreover have "mem_db demo_ops (state_key ''s'') \<noteq> None" "mem_db demo_ops (models_key ''s'') \<noteq> None"
    by (code_simp, code_simp)
  ultimately show ?thesis
    using session_keys_in_sync [OF demo_host.session_host_axioms sessions_ok_empty] by blast
qed

text \<open>C27: what is created can be read back: after creating a session, reading its id gives exactly the
  state that was returned, with status active.\<close>

theorem create_then_get:
  assumes "session_host R db ttl E" "sessions_ok (db w, ttl w)"
    and "create_session E task so models md w = (Inr s, w')"
  shows "read_state E (ss_id s) w' = Some s \<and> ss_status s = ''active'' \<and> ss_task s = task \<and> ss_models s = models"
  using session_host.create_reads [OF assms] .

theorem create_then_get_witness:
  "\<exists>s w'. create_session demo_sessions ''t'' (Some ''s'') [(''coder'', ''m'')] [] [] = (Inr s, w') \<and>
     read_state demo_sessions (ss_id s) w' = Some s"
proof -
  obtain r w' where c: "create_session demo_sessions ''t'' (Some ''s'') [(''coder'', ''m'')] [] [] = (r, w')"
    by fastforce
  then obtain s where "r = Inr s"
    by (auto simp: create_session_def demo_sessions_def Let_def split: prod.splits)
  with c create_then_get [OF demo_host.session_host_axioms sessions_ok_empty] show ?thesis by blast
qed

text \<open>An ended session comes back to life.  Resuming an ended session is refused, but pausing it first
  is not, and after that it resumes and is stored as active again.\<close>

theorem ended_session_revives:
  assumes "session_host R db ttl E" "sessions_ok (db w, ttl w)"
    and "read_state E sid w = Some s" "ss_status s = ''ended''"
  shows "(\<exists>e. resume_session E sid w = (Inl e, w)) \<and>
    (\<exists>s1 w1 s2 w2. pause_session E sid w = (Inr s1, w1) \<and> resume_session E sid w1 = (Inr s2, w2) \<and>
       ss_status s2 = ''active'' \<and> read_state E sid w2 = Some s2)"
proof -
  obtain s1 w1 where p: "pause_session E sid w = (Inr s1, w1)" "read_state E sid w1 = Some s1"
    "ss_status s1 = ''paused''" "sessions_ok (db w1, ttl w1)"
    using session_host.update_reads [OF assms(1-3), of "[Set_Status ''paused'']"]
    by (auto simp: pause_session_def)
  obtain s2 w2 where "resume_session E sid w1 = (Inr s2, w2)" "read_state E sid w2 = Some s2"
    "ss_status s2 = ''active''"
    using session_host.update_reads [OF assms(1) p(4,2), of "[Set_Status ''active'']"] p(2,3)
    by (auto simp: resume_session_def)
  with p(1) assms(3,4) show ?thesis by (auto simp: resume_session_def)
qed

definition demo_ended :: mem where
  "demo_ended = run_op demo_sessions (Op_End ''s'' [] [] []) (run_op demo_sessions (Op_Create ''t'' (Some ''s'') [] []) [])"

theorem ended_session_revives_witness:
  "\<exists>s1 w1 s2 w2. pause_session demo_sessions ''s'' demo_ended = (Inr s1, w1) \<and>
     resume_session demo_sessions ''s'' w1 = (Inr s2, w2) \<and> ss_status s2 = ''active''"
proof -
  have reach: "sess_reach demo_sessions [] demo_ended"
    unfolding demo_ended_def by (intro sess_step sess_start)
  have ok: "sessions_ok (mem_db demo_ended, mem_ttl demo_ended)"
    using demo_host.reach_ok [OF reach sessions_ok_empty] .
  have "(case read_state demo_sessions ''s'' demo_ended of Some s \<Rightarrow> ss_status s = ''ended'' | None \<Rightarrow> False)"
    by code_simp
  then obtain s where "read_state demo_sessions ''s'' demo_ended = Some s" "ss_status s = ''ended''"
    by (auto split: option.splits)
  from ended_session_revives [OF demo_host.session_host_axioms ok this] show ?thesis by blast
qed

text \<open>When the hook of the session end raises, as it does when the memory is down, ending a session
  raises although the session is stored as ended, and neither the clean-up of agents nor the
  event that closes the WebSocket subscribers happens: the world is that of the status update.\<close>

theorem failed_end_hook:
  assumes "session_host R db ttl E" "sessions_ok (db w, ttl w)" "read_state E sid w = Some s"
    and "\<And>sm w. se_on_end E sid sm tr fl w = (Inl e, w)"
  shows "\<exists>w'. end_session E sid sm tr fl w = (Inl e, w') \<and>
    w' = snd (update_session E sid [Set_Status ''ended''] w) \<and>
    (case read_state E sid w' of Some s' \<Rightarrow> ss_status s' = ''ended'' | None \<Rightarrow> False)"
proof -
  obtain w' where u: "update_session E sid [Set_Status ''ended''] w
      = (Inr (s\<lparr>ss_status := ''ended'', ss_updated := se_now E w\<rparr>), w')"
    and r: "read_state E sid w' = Some (s\<lparr>ss_status := ''ended'', ss_updated := se_now E w\<rparr>)"
    using session_host.update_reads [OF assms(1-3), of "[Set_Status ''ended'']"] by auto
  have ws: "write_state E (s\<lparr>ss_status := ''ended''\<rparr>) w
      = (s\<lparr>ss_status := ''ended'', ss_updated := se_now E w\<rparr>, w')"
    using u assms(3) by (auto simp: update_session_def split: prod.splits)
  show ?thesis
    using assms(3,4) ws r u by (auto simp: end_session_def)
qed

definition bad_hooks :: "mem session_env" where
  "bad_hooks = demo_sessions\<lparr>se_on_end := (\<lambda>_ _ _ _ w. (Inl (OtherError ''down''), w))\<rparr>"

interpretation bad_host: session_host mem_redis mem_db mem_ttl bad_hooks
  by unfold_locales (simp_all add: bad_hooks_def demo_sessions_def same_sessions_def)

theorem failed_end_hook_witness:
  "\<exists>w'. end_session bad_hooks ''s'' [] [] [] demo_ended = (Inl (OtherError ''down''), w')"
proof -
  have reach: "sess_reach demo_sessions [] demo_ended"
    unfolding demo_ended_def by (intro sess_step sess_start)
  have ok: "sessions_ok (mem_db demo_ended, mem_ttl demo_ended)"
    using demo_host.reach_ok [OF reach sessions_ok_empty] .
  have "read_state bad_hooks ''s'' demo_ended \<noteq> None" by code_simp
  then obtain s where "read_state bad_hooks ''s'' demo_ended = Some s" by auto
  from failed_end_hook [OF bad_host.session_host_axioms ok this, of "[]" "[]" "OtherError ''down''"]
  show ?thesis unfolding bad_hooks_def by simp
qed

end
