(* ===== verification/Ast_Indexer.thy ===== *)
theory Ast_Indexer
  imports Py_Str
begin

text \<open>
  \<open>orchestrator/ast_indexer.py\<close>: cutting a source file into chunks at the symbols of its
  syntax tree, with the line windows as fallback.  The tree-sitter parsers are a parameter
  that gives the syntax tree of a text, or nothing when the parser is missing or fails.
\<close>

section \<open>Paths\<close>

text \<open>\<open>Path(p).name\<close>, \<open>.suffix\<close> and \<open>.stem\<close>.\<close>

definition path_name :: "string \<Rightarrow> string" where
  "path_name p = (case filter (\<lambda>w. w \<noteq> [] \<and> w \<noteq> ''.'') (split_char (CHR ''/'') p) of [] \<Rightarrow> [] | ws \<Rightarrow> last ws)"

definition path_suffix :: "string \<Rightarrow> string" where
  "path_suffix p = (let n = path_name p; parts = split_char (CHR ''.'') n in
     if length parts < 2 \<or> last parts = [] \<or> length n = Suc (length (last parts)) then []
     else CHR ''.'' # last parts)"

definition path_stem :: "string \<Rightarrow> string" where
  "path_stem p = take (length (path_name p) - length (path_suffix p)) (path_name p)"

section \<open>Languages and symbols\<close>

definition ext_to_lang :: "string dict" where
  "ext_to_lang =
    [(''.py'', ''python''), (''.js'', ''javascript''), (''.jsx'', ''javascript''), (''.ts'', ''typescript''),
     (''.tsx'', ''typescript''), (''.go'', ''go''), (''.rs'', ''rust''), (''.java'', ''java''), (''.c'', ''c''),
     (''.cpp'', ''cpp''), (''.h'', ''c''), (''.hpp'', ''cpp'')]"

definition symbol_nodes :: "string list dict" where
  "symbol_nodes =
    [(''python'', [''function_definition'', ''class_definition'', ''decorated_definition'',
        ''async_function_definition'']),
     (''javascript'', [''function_declaration'', ''class_declaration'', ''method_definition'',
        ''arrow_function'', ''lexical_declaration'', ''variable_declaration'']),
     (''typescript'', [''function_declaration'', ''class_declaration'', ''method_definition'',
        ''arrow_function'', ''interface_declaration'', ''type_alias_declaration'']),
     (''go'', [''function_declaration'', ''method_declaration'', ''type_declaration'']),
     (''rust'', [''function_item'', ''impl_item'', ''struct_item'', ''enum_item'', ''trait_item'']),
     (''java'', [''class_declaration'', ''method_declaration'', ''interface_declaration'', ''enum_declaration'']),
     (''c'', [''function_definition'', ''struct_specifier'', ''declaration'']),
     (''cpp'', [''function_definition'', ''class_specifier'', ''struct_specifier'', ''namespace_definition''])]"

text \<open>A node: its type, first and last row (from 0), its text and its children.\<close>

datatype node = Node (nd_type: string) (nd_start: nat) (nd_end: nat) (nd_text: string) (nd_children: "node list")

record chunk =
  ck_content :: string
  ck_symbol :: string
  ck_type :: string
  ck_start :: nat
  ck_end :: nat
  ck_lang :: string

definition extract_name :: "node \<Rightarrow> string" where
  "extract_name n =
     (case find (\<lambda>c. nd_type c \<in> {''identifier'', ''name'', ''property_identifier'', ''type_identifier'',
             ''field_identifier''}) (nd_children n) of
        Some c \<Rightarrow> nd_text c | None \<Rightarrow> [])"

definition node_symbol_type :: "string \<Rightarrow> string" where
  "node_symbol_type t =
     (if contains ''function'' t \<or> contains ''method'' t \<or> contains ''arrow'' t then ''function''
      else if contains ''class'' t \<or> contains ''struct'' t \<or> contains ''impl'' t then ''class''
      else if contains ''interface'' t \<or> contains ''trait'' t \<or> contains ''type'' t then ''interface''
      else ''declaration'')"

section \<open>Chunking\<close>

text \<open>The outermost nodes of the target types, in order.\<close>

fun visit :: "string list \<Rightarrow> node \<Rightarrow> node list" where
  "visit targets (Node t s e x cs) =
     (if t \<in> set targets then [Node t s e x cs] else concat (map (visit targets) cs))"

definition line_span :: "nat \<Rightarrow> nat \<Rightarrow> string list \<Rightarrow> string list" where
  "line_span i j lines = take (j - i) (drop i lines)"

definition node_chunk :: "string \<Rightarrow> string list \<Rightarrow> node \<Rightarrow> chunk" where
  "node_chunk lang lines n =
     \<lparr>ck_content = concat (line_span (nd_start n) (nd_end n + 1) lines), ck_symbol = extract_name n,
      ck_type = node_symbol_type (nd_type n), ck_start = nd_start n + 1, ck_end = nd_end n + 1, ck_lang = lang\<rparr>"

definition covers :: "chunk \<Rightarrow> nat \<Rightarrow> bool" where
  "covers c i \<longleftrightarrow> ck_start c \<le> i \<and> i \<le> ck_end c"

text \<open>The numbered lines that no chunk covers and that are not blank.\<close>

definition uncovered :: "chunk list \<Rightarrow> string list \<Rightarrow> (nat \<times> string) list" where
  "uncovered chunks lines =
     filter (\<lambda>(i, l). \<not> list_ex (\<lambda>c. covers c i) chunks \<and> strip l \<noteq> []) (enumerate 1 lines)"

definition ast_chunk :: "(string \<Rightarrow> string \<Rightarrow> node option) \<Rightarrow> string \<Rightarrow> string \<Rightarrow> chunk list" where
  "ast_chunk parse text lang =
     (case parse lang text of
        None \<Rightarrow> []
      | Some tree \<Rightarrow>
          let targets = get_or symbol_nodes lang [];
              lines = splitlines_keep text;
              chunks = filter (\<lambda>c. strip (ck_content c) \<noteq> []) (map (node_chunk lang lines) (visit targets tree));
              rest = uncovered chunks lines
          in if targets = [] then []
             else chunks @ (if rest = [] then []
               else [\<lparr>ck_content = concat (map snd rest), ck_symbol = [], ck_type = ''module'',
                      ck_start = fst (hd rest), ck_end = fst (last rest), ck_lang = lang\<rparr>]))"

definition window_size :: nat where "window_size = 100"
definition window_overlap :: nat where "window_overlap = 10"

function line_windows :: "string \<Rightarrow> string list \<Rightarrow> nat \<Rightarrow> chunk list" where
  "line_windows lang lines i =
     (if i < length lines then
        (let window = concat (line_span i (i + window_size) lines);
             rest = line_windows lang lines (i + (window_size - window_overlap))
         in if strip window \<noteq> []
            then \<lparr>ck_content = window, ck_symbol = [], ck_type = ''lines'', ck_start = i + 1,
                  ck_end = min (i + window_size) (length lines), ck_lang = lang\<rparr> # rest
            else rest)
      else [])"
  by pat_completeness auto
termination
  by (relation "measure (\<lambda>(lang, lines, i). length lines - i)") (auto simp: window_size_def window_overlap_def)

declare line_windows.simps [simp del]

definition line_chunk :: "string \<Rightarrow> string \<Rightarrow> chunk list" where
  "line_chunk path text =
     (let lines = splitlines_keep text;
          chunks = line_windows (get_or ext_to_lang (lower (path_suffix path)) ''unknown'') lines 0
      in if chunks \<noteq> [] then chunks
         else [\<lparr>ck_content = text, ck_symbol = [], ck_type = ''lines'', ck_start = 1, ck_end = length lines,
                ck_lang = ''unknown''\<rparr>])"

definition chunk_file :: "(string \<Rightarrow> string \<Rightarrow> node option) \<Rightarrow> string \<Rightarrow> string \<Rightarrow> chunk list" where
  "chunk_file parse path text =
     (case map_of ext_to_lang (lower (path_suffix path)) of
        Some lang \<Rightarrow> (let chunks = ast_chunk parse text lang in if chunks \<noteq> [] then chunks else line_chunk path text)
      | None \<Rightarrow> line_chunk path text)"

section \<open>Nothing is lost\<close>

definition holds_line :: "chunk list \<Rightarrow> string list \<Rightarrow> nat \<Rightarrow> bool" where
  "holds_line chunks lines i \<longleftrightarrow> list_ex (\<lambda>c. covers c (i + 1) \<and> sublist (lines ! i) (ck_content c)) chunks"

lemma sublist_concat: "x \<in> set xs \<Longrightarrow> sublist x (concat xs)"
  by (metis concat.simps(2) concat_append sublist_def split_list)

lemma line_in_span:
  assumes "i \<le> k" "k < j" "k < length lines"
  shows "lines ! k \<in> set (line_span i j lines)"
proof -
  have "line_span i j lines ! (k - i) = lines ! k" "k - i < length (line_span i j lines)"
    using assms by (auto simp: line_span_def)
  then show ?thesis by (metis nth_mem)
qed

lemma strip_sublist: "sublist l s \<Longrightarrow> strip l \<noteq> [] \<Longrightarrow> strip s \<noteq> []"
  by (auto simp: strip_eq_Nil_iff dest: set_mono_sublist)

lemma node_chunk_holds:
  assumes "covers (node_chunk lang lines n) (i + 1)" "i < length lines"
  shows "sublist (lines ! i) (ck_content (node_chunk lang lines n))"
  using assms by (auto simp: covers_def node_chunk_def intro!: sublist_concat line_in_span)

lemma uncovered_iff:
  "(k, l) \<in> set (uncovered chunks lines) \<longleftrightarrow>
     (\<exists>i<length lines. k = i + 1 \<and> l = lines ! i \<and> \<not> list_ex (\<lambda>c. covers c k) chunks \<and> strip l \<noteq> [])"
proof -
  have "(k, l) \<in> set (enumerate 1 lines) \<longleftrightarrow> (\<exists>i<length lines. k = i + 1 \<and> l = lines ! i)"
    by (cases k) (auto simp: in_set_enumerate_eq)
  then show ?thesis unfolding uncovered_def by auto
qed

lemma uncovered_sorted: "sorted (map fst (uncovered chunks lines))"
  unfolding uncovered_def by (rule sorted_filter) (simp del: upt_Suc)

lemma sorted_bounds: "sorted xs \<Longrightarrow> x \<in> set xs \<Longrightarrow> hd xs \<le> x \<and> x \<le> last xs"
  by (induction xs) (auto split: if_splits)

lemma ast_chunk_holds:
  assumes "ast_chunk parse text lang \<noteq> []" "i < length (splitlines_keep text)"
    "strip (splitlines_keep text ! i) \<noteq> []"
  shows "holds_line (ast_chunk parse text lang) (splitlines_keep text) i"
proof -
  let ?lines = "splitlines_keep text"
  obtain tree where tree: "parse lang text = Some tree"
    using assms(1) by (auto simp: ast_chunk_def split: option.splits)
  define targets where "targets = get_or symbol_nodes lang []"
  define chunks where "chunks = filter (\<lambda>c. strip (ck_content c) \<noteq> []) (map (node_chunk lang ?lines) (visit targets tree))"
  define rest where "rest = uncovered chunks ?lines"
  define m where "m = (if rest = [] then []
    else [\<lparr>ck_content = concat (map snd rest), ck_symbol = [], ck_type = ''module'',
           ck_start = fst (hd rest), ck_end = fst (last rest), ck_lang = lang\<rparr>])"
  have eq: "ast_chunk parse text lang = chunks @ m"
    using assms(1) unfolding ast_chunk_def tree targets_def [symmetric] chunks_def [symmetric] m_def rest_def
    by (auto simp: Let_def targets_def [symmetric] chunks_def [symmetric] split: if_splits)
  show ?thesis
  proof (cases "list_ex (\<lambda>c. covers c (i + 1)) chunks")
    case True
    then obtain c where c: "c \<in> set chunks" "covers c (i + 1)" by (auto simp: list_ex_iff)
    then obtain n where "c = node_chunk lang ?lines n" by (auto simp: chunks_def)
    then have "sublist (?lines ! i) (ck_content c)" using node_chunk_holds c(2) assms(2) by blast
    then show ?thesis using c by (auto simp: holds_line_def eq list_ex_iff)
  next
    case False
    then have mem: "(i + 1, ?lines ! i) \<in> set rest"
      using assms(2,3) by (auto simp: rest_def uncovered_iff)
    then have ne: "rest \<noteq> []" by auto
    have "sublist (?lines ! i) (concat (map snd rest))"
      using mem by (intro sublist_concat) force
    moreover have "fst (hd rest) \<le> i + 1" "i + 1 \<le> fst (last rest)"
      using sorted_bounds [OF uncovered_sorted [of chunks ?lines], of "i + 1"] mem ne
      by (force simp: rest_def [symmetric] hd_map last_map)+
    ultimately show ?thesis using ne by (simp add: holds_line_def eq m_def covers_def)
  qed
qed

lemma line_windows_holds:
  "i \<le> k \<Longrightarrow> k < length lines \<Longrightarrow> strip (lines ! k) \<noteq> [] \<Longrightarrow> holds_line (line_windows lang lines i) lines k"
proof (induction lang lines i rule: line_windows.induct)
  case (1 lang lines i)
  let ?w = "concat (line_span i (i + window_size) lines)"
  have i: "i < length lines" using 1 by simp
  show ?case
  proof (cases "k < i + window_size")
    case True
    then have sub: "sublist (lines ! k) ?w" using 1 by (intro sublist_concat line_in_span) auto
    then have "strip ?w \<noteq> []" using strip_sublist 1 by blast
    then show ?thesis
      using 1 sub True i by (subst line_windows.simps) (simp add: holds_line_def covers_def Let_def)
  next
    case False
    then have "holds_line (line_windows lang lines (i + (window_size - window_overlap))) lines k"
      using 1 i by (intro "1.IH") (auto simp: window_overlap_def)
    then show ?thesis
      using i by (subst line_windows.simps) (simp add: holds_line_def Let_def)
  qed
qed

text \<open>C29: chunking a file loses nothing: for every syntax tree the parser may give, every line that is
  not blank lies in the line range of some chunk whose text holds that line.\<close>

theorem chunk_file_keeps_lines:
  "list_all (\<lambda>i. strip (splitlines_keep text ! i) = [] \<or>
     holds_line (chunk_file parse path text) (splitlines_keep text) i) [0..<length (splitlines_keep text)]"
proof -
  have line: "holds_line (line_chunk path text) (splitlines_keep text) i"
    if "i < length (splitlines_keep text)" "strip (splitlines_keep text ! i) \<noteq> []" for i
  proof -
    have h: "holds_line (line_windows lang (splitlines_keep text) 0) (splitlines_keep text) i" for lang
      using that by (intro line_windows_holds) auto
    have "line_windows lang (splitlines_keep text) 0 \<noteq> []" for lang
      using h [of lang] by (auto simp: holds_line_def)
    then show ?thesis using h by (simp add: line_chunk_def Let_def)
  qed
  have "holds_line (chunk_file parse path text) (splitlines_keep text) i"
    if "i < length (splitlines_keep text)" "strip (splitlines_keep text ! i) \<noteq> []" for i
    using line [OF that] ast_chunk_holds [OF _ that] by (simp add: chunk_file_def Let_def split: option.splits)
  then show ?thesis unfolding list_all_iff set_upt by (metis atLeastLessThan_iff)
qed

end
