(* ===== verification/Memory.thy ===== *)
theory Memory
  imports Ast_Indexer Model_Registry
begin

text \<open>
  \<open>orchestrator/memory_manager.py\<close>: the bounded embedding cache, the vector store with its
  four collections, indexing of the code base, search with reranking, and the records of
  sessions, failures and skills.  ChromaDB, the HTTP client, the hash functions, the clock,
  the file system and the parsers are parameters.  The embeddings of a batch are requested
  concurrently; the model takes their answers in the order of the texts.
\<close>

section \<open>The embedding cache\<close>

type_synonym embedding = "real list"
type_synonym embed_cache = "(string \<times> embedding) list" \<comment> \<open>least recently used first\<close>

definition cache_get :: "string \<Rightarrow> embed_cache \<Rightarrow> embedding option \<times> embed_cache" where
  "cache_get key c =
     (case map_of c key of
        None \<Rightarrow> (None, c)
      | Some v \<Rightarrow> (Some v, dict_del c key @ [(key, v)]))"

definition cache_set :: "nat \<Rightarrow> string \<Rightarrow> embedding \<Rightarrow> embed_cache \<Rightarrow> embed_cache" where
  "cache_set max_size key v c =
     (let c1 = dict_del c key @ [(key, v)] in if length c1 > max_size then tl c1 else c1)"

section \<open>The environment\<close>

record hit =
  ht_content :: string
  ht_meta :: "json dict"
  ht_distance :: real
  ht_col :: string
  ht_score :: "real option" \<comment> \<open>\<open>rerank_score\<close>\<close>

type_synonym doc_row = "string \<times> string \<times> embedding \<times> json dict" \<comment> \<open>id, document, embedding, metadata\<close>

record 'w chroma =
  ch_create :: "string \<Rightarrow> 'w \<Rightarrow> unit result \<times> 'w" \<comment> \<open>\<open>get_or_create_collection\<close>\<close>
  ch_upsert :: "string \<Rightarrow> doc_row list \<Rightarrow> 'w \<Rightarrow> unit result \<times> 'w"
  ch_get :: "string \<Rightarrow> string \<Rightarrow> string \<Rightarrow> 'w \<Rightarrow> (string \<times> json dict) list result"
    \<comment> \<open>collection, field and value of the filter: documents with metadata\<close>
  ch_query :: "string \<Rightarrow> embedding \<Rightarrow> nat \<Rightarrow> (string \<times> string) option \<Rightarrow> 'w
      \<Rightarrow> (string \<times> json dict \<times> real) list result"

record file_info =
  fi_parts :: "string list"
  fi_is_file :: bool
  fi_rel :: string
  fi_size :: int
  fi_text :: "string result"

record 'w memory_env =
  ve_config :: config
  ve_http :: "'w http"
  ve_chroma :: "'w chroma"
  ve_heartbeat :: "string \<Rightarrow> nat \<Rightarrow> 'w \<Rightarrow> unit result \<times> 'w" \<comment> \<open>client for host and port, heartbeat\<close>
  ve_urlparse :: "string \<Rightarrow> string option \<times> nat option"
  ve_md5 :: "string \<Rightarrow> string"
  ve_sha256 :: "string \<Rightarrow> string"
  ve_now :: "'w \<Rightarrow> real"
  ve_walk :: "string \<Rightarrow> 'w \<Rightarrow> file_info list" \<comment> \<open>\<open>rglob("*")\<close>\<close>
  ve_parse :: "string \<Rightarrow> string \<Rightarrow> node option"

record memory =
  my_cache :: embed_cache
  my_cols :: "string list" \<comment> \<open>the collections in \<open>_collections\<close>\<close>

definition collection_names :: "string list" where
  "collection_names = [''sessions'', ''codebase'', ''skills'', ''failures'']"

definition max_file_size :: int where "max_file_size = 500000"

section \<open>Embedding\<close>

definition embed_raw :: "'w memory_env \<Rightarrow> string \<Rightarrow> 'w \<Rightarrow> embedding result \<times> 'w" where
  "embed_raw E text w =
     (case http_post (ve_http E) (cf_ollama_url (ve_config E) @ ''/api/embeddings'')
             (JObj [(''model'', JStr ''nomic-embed-text''), (''prompt'', JStr text)]) w of
        (r, w1) \<Rightarrow>
          (bind_result (reply_doc r) (\<lambda>doc. bind_result (as_dict doc) (\<lambda>d.
             case map_of d ''embedding'' of
               Some (JList xs) \<Rightarrow> Inr (List.map_filter (\<lambda>j. case j of JFloat x \<Rightarrow> Some x
                   | JInt n \<Rightarrow> Some (of_int n) | _ \<Rightarrow> None) xs)
             | _ \<Rightarrow> Inl (KeyError ''embedding''))), w1))"

definition cache_limit :: "'w memory_env \<Rightarrow> nat" where
  "cache_limit E = nat (limit (ve_config E) ''EMBED_CACHE_MAX_SIZE'')"

definition embed :: "'w memory_env \<Rightarrow> string \<Rightarrow> memory \<Rightarrow> 'w \<Rightarrow> embedding result \<times> memory \<times> 'w" where
  "embed E text m w =
     (case cache_get (ve_md5 E text) (my_cache m) of
        (Some v, c) \<Rightarrow> (Inr v, m\<lparr>my_cache := c\<rparr>, w)
      | (None, _) \<Rightarrow>
          (case embed_raw E text w of
             (Inl e, w1) \<Rightarrow> (Inl e, m, w1)
           | (Inr v, w1) \<Rightarrow>
               (Inr v, m\<lparr>my_cache := cache_set (cache_limit E) (ve_md5 E text) v (my_cache m)\<rparr>, w1)))"

text \<open>A batch: every coroutine looks into the cache before the first answer arrives.\<close>

fun batch_lookup :: "'w memory_env \<Rightarrow> string list \<Rightarrow> embed_cache \<Rightarrow> embedding option list \<times> embed_cache" where
  "batch_lookup E [] c = ([], c)"
| "batch_lookup E (t # ts) c =
     (case cache_get (ve_md5 E t) c of (r, c1) \<Rightarrow>
        (case batch_lookup E ts c1 of (rs, c2) \<Rightarrow> (r # rs, c2)))"

fun batch_fetch :: "'w memory_env \<Rightarrow> (string \<times> embedding option) list \<Rightarrow> memory \<Rightarrow> 'w
    \<Rightarrow> embedding list result \<times> memory \<times> 'w" where
  "batch_fetch E [] m w = (Inr [], m, w)"
| "batch_fetch E ((t, Some v) # ts) m w =
     (case batch_fetch E ts m w of (r, m1, w1) \<Rightarrow> (bind_result r (\<lambda>vs. Inr (v # vs)), m1, w1))"
| "batch_fetch E ((t, None) # ts) m w =
     (case embed_raw E t w of (x, w1) \<Rightarrow>
        let m1 = (case x of Inl _ \<Rightarrow> m
                  | Inr v \<Rightarrow> m\<lparr>my_cache := cache_set (cache_limit E) (ve_md5 E t) v (my_cache m)\<rparr>)
        in case batch_fetch E ts m1 w1 of
             (r, m2, w2) \<Rightarrow> (bind_result x (\<lambda>v. bind_result r (\<lambda>vs. Inr (v # vs))), m2, w2))"

definition embed_batch :: "'w memory_env \<Rightarrow> string list \<Rightarrow> memory \<Rightarrow> 'w \<Rightarrow> embedding list result \<times> memory \<times> 'w" where
  "embed_batch E texts m w =
     (case batch_lookup E texts (my_cache m) of (found, c) \<Rightarrow>
        batch_fetch E (zip texts found) (m\<lparr>my_cache := c\<rparr>) w)"

section \<open>Connecting\<close>

fun open_collections :: "'w chroma \<Rightarrow> string list \<Rightarrow> memory \<Rightarrow> 'w \<Rightarrow> unit result \<times> memory \<times> 'w" where
  "open_collections H [] m w = (Inr (), m, w)"
| "open_collections H (n # ns) m w =
     (case ch_create H n w of
        (Inl e, w1) \<Rightarrow> (Inl e, m, w1)
      | (Inr _, w1) \<Rightarrow>
          open_collections H ns (m\<lparr>my_cols := (if n \<in> set (my_cols m) then my_cols m else my_cols m @ [n])\<rparr>) w1)"

definition try_connect :: "'w memory_env \<Rightarrow> memory \<Rightarrow> 'w \<Rightarrow> unit result \<times> memory \<times> 'w" where
  "try_connect E m w =
     (case ve_urlparse E (sc_chroma_url (cf_services (ve_config E))) of (host, port) \<Rightarrow>
        (case ve_heartbeat E (case host of Some h \<Rightarrow> if h \<noteq> [] then h else ''chromadb'' | None \<Rightarrow> ''chromadb'')
                (case port of Some p \<Rightarrow> if p \<noteq> 0 then p else 8000 | None \<Rightarrow> 8000) w of
           (Inl e, w1) \<Rightarrow> (Inl e, m, w1)
         | (Inr _, w1) \<Rightarrow> open_collections (ve_chroma E) collection_names m w1))"

text \<open>The attempts that are left, at most ten.\<close>

fun connect_tries :: "nat \<Rightarrow> 'w memory_env \<Rightarrow> memory \<Rightarrow> 'w \<Rightarrow> unit result \<times> memory \<times> 'w" where
  "connect_tries 0 E m w = (Inr (), m, w)"
| "connect_tries (Suc n) E m w =
     (case try_connect E m w of
        (Inr _, m1, w1) \<Rightarrow> (Inr (), m1, w1)
      | (Inl e, m1, w1) \<Rightarrow> (if n = 0 then (Inl e, m1, w1) else connect_tries n E m1 w1))"

definition connect :: "'w memory_env \<Rightarrow> memory \<Rightarrow> 'w \<Rightarrow> unit result \<times> memory \<times> 'w" where
  "connect E m w = connect_tries 10 E m w"

definition col :: "string \<Rightarrow> memory \<Rightarrow> unit result" where
  "col name m = (if name \<in> set (my_cols m) then Inr ()
     else Inl (RuntimeError (''Collection '' @ py_repr name @ '' not initialised '' @ em_dash
            @ '' call connect() first.'')))"

section \<open>Search\<close>

text \<open>The body of \<open>_search\<close> and of \<open>search_antipatterns\<close>; only a missing collection raises.\<close>

definition search_in :: "'w memory_env \<Rightarrow> string \<Rightarrow> (string \<times> string) option \<Rightarrow> string \<Rightarrow> nat \<Rightarrow> memory \<Rightarrow> 'w
    \<Rightarrow> hit list result \<times> memory \<times> 'w" where
  "search_in E name wh query k m w =
     (case col name m of
        Inl e \<Rightarrow> (Inl e, m, w)
      | Inr _ \<Rightarrow>
          (case embed E query m w of
             (Inl e, m1, w1) \<Rightarrow> (Inr [], m1, w1)
           | (Inr v, m1, w1) \<Rightarrow>
               (case ch_query (ve_chroma E) name v k wh w1 of
                  Inl e \<Rightarrow> (Inr [], m1, w1)
                | Inr rows \<Rightarrow>
                    (Inr (map (\<lambda>(d, mt, dist). \<lparr>ht_content = d, ht_meta = mt, ht_distance = dist,
                        ht_col = name, ht_score = None\<rparr>) rows), m1, w1))))"

definition search :: "'w memory_env \<Rightarrow> string \<Rightarrow> string \<Rightarrow> nat \<Rightarrow> memory \<Rightarrow> 'w \<Rightarrow> hit list result \<times> memory \<times> 'w" where
  "search E name query k m w = search_in E name None query k m w"

definition search_antipatterns :: "'w memory_env \<Rightarrow> string \<Rightarrow> nat \<Rightarrow> memory \<Rightarrow> 'w
    \<Rightarrow> hit list result \<times> memory \<times> 'w" where
  "search_antipatterns E query k m w = search_in E ''skills'' (Some (''type'', ''antipattern'')) query k m w"

text \<open>The scores of the reranker's answer, best first; then the entries they point to.\<close>

fun scored_items :: "json list \<Rightarrow> (real \<times> json dict) list result" where
  "scored_items [] = Inr []"
| "scored_items (j # js) =
     bind_result (as_dict j) (\<lambda>d.
     bind_result (case get_or d ''relevance_score'' (JFloat 0) of JFloat x \<Rightarrow> Inr x
         | JInt n \<Rightarrow> Inr (of_int n) | _ \<Rightarrow> Inl (TypeError ''relevance_score'')) (\<lambda>x.
     bind_result (scored_items js) (\<lambda>rest. Inr ((x, d) # rest))))"

fun pick_items :: "hit list \<Rightarrow> (real \<times> json dict) list \<Rightarrow> hit list result" where
  "pick_items hits [] = Inr []"
| "pick_items hits ((x, d) # items) =
     (case get_or d ''index'' (JInt 0) of
        JInt i \<Rightarrow> bind_result (pick_items hits items) (\<lambda>rest.
          Inr (if 0 \<le> i \<and> i < int (length hits)
               then (hits ! nat i)\<lparr>ht_score := Some x\<rparr> # rest else rest))
      | _ \<Rightarrow> Inl (TypeError ''index''))"

definition reranked :: "hit list \<Rightarrow> nat \<Rightarrow> json \<Rightarrow> hit list result" where
  "reranked hits k doc =
     bind_result (json_get doc ''results'' (JList [])) (\<lambda>rs.
       case rs of
         JList items \<Rightarrow> bind_result (scored_items items) (\<lambda>sc.
           pick_items hits (take k (sort_key (\<lambda>xd. - fst xd) sc)))
       | _ \<Rightarrow> Inl (TypeError ''results''))"

definition rerank :: "'w memory_env \<Rightarrow> string \<Rightarrow> hit list \<Rightarrow> nat \<Rightarrow> 'w \<Rightarrow> hit list \<times> 'w" where
  "rerank E query hits k w =
     (if hits = [] then ([], w)
      else case http_post (ve_http E) (cf_ollama_url (ve_config E) @ ''/api/rerank'')
             (JObj [(''model'', JStr ''nomic-reranker''), (''query'', JStr query),
                    (''documents'', JList (map (JStr \<circ> ht_content) hits))]) w of
        (r, w1) \<Rightarrow>
          (case bind_result (reply_doc r) (reranked hits k) of
             Inr hs \<Rightarrow> (hs, w1)
           | Inl _ \<Rightarrow> (take k hits, w1)))"

definition search_codebase :: "'w memory_env \<Rightarrow> string \<Rightarrow> nat \<Rightarrow> memory \<Rightarrow> 'w \<Rightarrow> hit list result \<times> memory \<times> 'w" where
  "search_codebase E query k m w =
     (case search E ''codebase'' query (k * 2) m w of
        (Inl e, m1, w1) \<Rightarrow> (Inl e, m1, w1)
      | (Inr hs, m1, w1) \<Rightarrow> (case rerank E query hs k w1 of (hs', w2) \<Rightarrow> (Inr hs', m1, w2)))"

definition search_symbol :: "'w memory_env \<Rightarrow> string \<Rightarrow> nat \<Rightarrow> memory \<Rightarrow> 'w \<Rightarrow> hit list result \<times> memory \<times> 'w" where
  "search_symbol E name k m w =
     (case col ''codebase'' m of
        Inl e \<Rightarrow> (Inl e, m, w)
      | Inr _ \<Rightarrow>
          (case ch_get (ve_chroma E) ''codebase'' ''symbol'' name w of
             Inr (r # rs) \<Rightarrow>
               (Inr (take k (map (\<lambda>(d, mt). \<lparr>ht_content = d, ht_meta = mt, ht_distance = 0,
                   ht_col = ''codebase'', ht_score = None\<rparr>) (r # rs))), m, w)
           | _ \<Rightarrow> search_codebase E name k m w))"

definition recall :: "'w memory_env \<Rightarrow> string \<Rightarrow> nat \<Rightarrow> memory \<Rightarrow> 'w \<Rightarrow> hit list result \<times> memory \<times> 'w" where
  "recall E query k m w =
     (case search E ''sessions'' query k m w of
        (Inl e, m1, w1) \<Rightarrow> (Inl e, m1, w1)
      | (Inr a, m1, w1) \<Rightarrow>
          (case search E ''failures'' query k m1 w1 of
             (Inl e, m2, w2) \<Rightarrow> (Inl e, m2, w2)
           | (Inr b, m2, w2) \<Rightarrow>
               (case rerank E query (take (k * 2) (sort_key ht_distance (a @ b))) k w2 of
                  (hs, w3) \<Rightarrow> (Inr hs, m2, w3))))"

section \<open>Records\<close>

definition store_doc :: "'w memory_env \<Rightarrow> string \<Rightarrow> string \<Rightarrow> string \<Rightarrow> json dict \<Rightarrow> memory \<Rightarrow> 'w
    \<Rightarrow> unit result \<times> memory \<times> 'w" where
  "store_doc E name doc_id content mt m w =
     (case col name m of
        Inl e \<Rightarrow> (Inl e, m, w)
      | Inr _ \<Rightarrow>
          (case embed E content m w of
             (Inl e, m1, w1) \<Rightarrow> (Inl e, m1, w1)
           | (Inr v, m1, w1) \<Rightarrow>
               (case ch_upsert (ve_chroma E) name [(doc_id, content, v, mt)] w1 of
                  (r, w2) \<Rightarrow> (r, m1, w2))))"

definition ts_of :: "'w memory_env \<Rightarrow> 'w \<Rightarrow> int" where "ts_of E w = \<lfloor>ve_now E w\<rfloor>"

definition save_session :: "'w memory_env \<Rightarrow> string \<Rightarrow> string \<Rightarrow> json dict \<Rightarrow> memory \<Rightarrow> 'w
    \<Rightarrow> unit result \<times> memory \<times> 'w" where
  "save_session E sid content md m w =
     store_doc E ''sessions'' (''session:'' @ sid @ '':'' @ int_str (ts_of E w)) content
       (dict_update [(''session_id'', JStr sid), (''ts'', JInt (ts_of E w))] md) m w"

definition failure_content :: "string \<Rightarrow> string \<Rightarrow> string \<Rightarrow> string" where
  "failure_content descr approach err =
     ''TASK: '' @ descr @ [nl] @ ''APPROACH: '' @ approach @ [nl] @ ''ERROR: '' @ err"

definition failure_id :: "'w memory_env \<Rightarrow> string \<Rightarrow> string" where
  "failure_id E content = ''failure:'' @ take 16 (ve_md5 E content)"

definition record_failure :: "'w memory_env \<Rightarrow> string \<Rightarrow> string \<Rightarrow> string \<Rightarrow> string \<Rightarrow> string \<Rightarrow> memory \<Rightarrow> 'w
    \<Rightarrow> unit result \<times> memory \<times> 'w" where
  "record_failure E sid tid descr err approach m w =
     (let content = failure_content descr approach err in
      store_doc E ''failures'' (failure_id E content) content
        [(''session_id'', JStr sid), (''task_id'', JStr tid), (''ts'', JInt (ts_of E w))] m w)"

definition save_skill :: "'w memory_env \<Rightarrow> string \<Rightarrow> string \<Rightarrow> json dict \<Rightarrow> memory \<Rightarrow> 'w
    \<Rightarrow> unit result \<times> memory \<times> 'w" where
  "save_skill E name content md m w =
     store_doc E ''skills'' (''skill:'' @ name) content
       (dict_update [(''name'', JStr name), (''ts'', JInt (ts_of E w))] md) m w"

text \<open>Greedy clustering: \<open>others\<close> are the candidates not yet assigned, in order.\<close>

function clusters_of :: "real \<Rightarrow> hit list \<Rightarrow> hit list list" where
  "clusters_of th [] = []"
| "clusters_of th (f # hs) =
     (f # filter (\<lambda>h. \<bar>ht_distance f - ht_distance h\<bar> \<le> th) hs)
       # clusters_of th (filter (\<lambda>h. \<not> \<bar>ht_distance f - ht_distance h\<bar> \<le> th) hs)"
  by pat_completeness auto
termination
  by (relation "measure (\<lambda>(th, hs). length hs)") (auto simp: le_imp_less_Suc)

definition cluster_failures :: "'w memory_env \<Rightarrow> string \<Rightarrow> nat \<Rightarrow> real \<Rightarrow> memory \<Rightarrow> 'w
    \<Rightarrow> hit list list result \<times> memory \<times> 'w" where
  "cluster_failures E query k th m w =
     (case search E ''failures'' (if query \<noteq> [] then query else ''error failure exception'') k m w of
        (Inl e, m1, w1) \<Rightarrow> (Inl e, m1, w1)
      | (Inr hs, m1, w1) \<Rightarrow> (Inr (sort_key (\<lambda>c. - int (length c)) (clusters_of th hs)), m1, w1))"

section \<open>Indexing\<close>

definition indexable :: "string list" where
  "indexable = [''.py'', ''.js'', ''.ts'', ''.jsx'', ''.tsx'', ''.go'', ''.rs'', ''.java'', ''.c'', ''.cpp'', ''.h'',
     ''.cs'', ''.rb'', ''.php'', ''.swift'', ''.kt'', ''.md'', ''.txt'', ''.yaml'', ''.yml'', ''.toml'', ''.json'',
     ''.env.example'', ''.sh'', ''.bash'', ''.sql'']"

definition skip_dirs :: "string list" where
  "skip_dirs = [''.git'', ''__pycache__'', ''node_modules'', ''.venv'', ''venv'', ''env'', ''dist'', ''build'',
     ''.next'', ''target'', ''.cache'', ''.idea'', ''.vscode'']"

definition make_id :: "'w memory_env \<Rightarrow> string \<Rightarrow> nat \<Rightarrow> string" where
  "make_id E path i = take 32 (ve_sha256 E (path @ ''::'' @ nat_str i))"

definition chunk_meta :: "string \<Rightarrow> string \<Rightarrow> nat \<Rightarrow> nat \<Rightarrow> chunk \<Rightarrow> json dict" where
  "chunk_meta rel h tot i c =
     [(''file'', JStr rel), (''chunk'', JInt (int i)), (''total_chunks'', JInt (int tot)),
      (''file_hash'', JStr h), (''symbol'', JStr (ck_symbol c)), (''symbol_type'', JStr (ck_type c)),
      (''start_line'', JInt (int (ck_start c))), (''end_line'', JInt (int (ck_end c))),
      (''language'', JStr (ck_lang c))]"

definition file_rows :: "'w memory_env \<Rightarrow> string \<Rightarrow> string \<Rightarrow> (string \<times> string \<times> json dict) list" where
  "file_rows E rel text =
     (let chunks = chunk_file (ve_parse E) rel text in
      map (\<lambda>(i, c). (make_id E rel i, ck_content c, chunk_meta rel (ve_md5 E text) (length chunks) i c))
        (filter (\<lambda>(i, c). strip (ck_content c) \<noteq> []) (enumerate 0 chunks)))"

record index_counts =
  ic_indexed :: nat
  ic_unchanged :: nat
  ic_chunks :: nat
  ic_skipped :: nat

definition stored_hash :: "'w memory_env \<Rightarrow> string \<Rightarrow> 'w \<Rightarrow> string option" where
  "stored_hash E rel w =
     (case ch_get (ve_chroma E) ''codebase'' ''file'' rel w of
        Inr ((_, mt) # _) \<Rightarrow> (case get_or mt ''file_hash'' (JStr []) of JStr h \<Rightarrow> Some h | _ \<Rightarrow> None)
      | _ \<Rightarrow> None)"

definition wanted :: "file_info \<Rightarrow> bool" where
  "wanted f \<longleftrightarrow> \<not> list_ex (\<lambda>p. p \<in> set skip_dirs) (fi_parts f) \<and> fi_is_file f \<and>
     lower (path_suffix (fi_rel f)) \<in> set indexable"

definition index_file :: "'w memory_env \<Rightarrow> file_info \<Rightarrow> index_counts \<Rightarrow> memory \<Rightarrow> 'w
    \<Rightarrow> index_counts \<times> memory \<times> 'w" where
  "index_file E f n m w =
     (if \<not> wanted f then (n, m, w)
      else if fi_size f > max_file_size then (n\<lparr>ic_skipped := Suc (ic_skipped n)\<rparr>, m, w)
      else case fi_text f of
        Inl _ \<Rightarrow> (n\<lparr>ic_skipped := Suc (ic_skipped n)\<rparr>, m, w)
      | Inr text \<Rightarrow>
          if stored_hash E (fi_rel f) w = Some (ve_md5 E text)
          then (n\<lparr>ic_unchanged := Suc (ic_unchanged n)\<rparr>, m, w)
          else
            let rows = file_rows E (fi_rel f) text in
            if rows = [] then (n, m, w)
            else case embed_batch E (map (\<lambda>(_, d, _). d) rows) m w of
              (Inl _, m1, w1) \<Rightarrow> (n\<lparr>ic_skipped := Suc (ic_skipped n)\<rparr>, m1, w1)
            | (Inr vs, m1, w1) \<Rightarrow>
                (case ch_upsert (ve_chroma E) ''codebase''
                        (map (\<lambda>((i, d, mt), v). (i, d, v, mt)) (zip rows vs)) w1 of
                   (Inl _, w2) \<Rightarrow> (n\<lparr>ic_skipped := Suc (ic_skipped n)\<rparr>, m1, w2)
                 | (Inr _, w2) \<Rightarrow>
                     (n\<lparr>ic_chunks := ic_chunks n + length rows, ic_indexed := Suc (ic_indexed n)\<rparr>, m1, w2)))"

fun index_files :: "'w memory_env \<Rightarrow> file_info list \<Rightarrow> index_counts \<Rightarrow> memory \<Rightarrow> 'w
    \<Rightarrow> index_counts \<times> memory \<times> 'w" where
  "index_files E [] n m w = (n, m, w)"
| "index_files E (f # fs) n m w =
     (case index_file E f n m w of (n1, m1, w1) \<Rightarrow> index_files E fs n1 m1 w1)"

definition index_codebase :: "'w memory_env \<Rightarrow> string \<Rightarrow> memory \<Rightarrow> 'w \<Rightarrow> index_counts result \<times> memory \<times> 'w" where
  "index_codebase E workspace m w =
     (case col ''codebase'' m of
        Inl e \<Rightarrow> (Inl e, m, w)
      | Inr _ \<Rightarrow>
          (case index_files E (ve_walk E workspace w)
                  \<lparr>ic_indexed = 0, ic_unchanged = 0, ic_chunks = 0, ic_skipped = 0\<rparr> m w of
             (n, m1, w1) \<Rightarrow> (Inr n, m1, w1)))"

section \<open>Properties of the cache\<close>

definition cache_ok :: "nat \<Rightarrow> embed_cache \<Rightarrow> bool" where
  "cache_ok n c \<longleftrightarrow> distinct (map fst c) \<and> length c \<le> n"

lemma length_dict_del: "length (dict_del d k) \<le> length d"
  by (simp add: dict_del_def)

lemma length_dict_del_key: "map_of d k = Some v \<Longrightarrow> length (dict_del d k) < length d"
proof (induction d)
  case (Cons x d)
  then show ?case
    using length_filter_le [of "\<lambda>(k', _). k' \<noteq> k" d]
    by (cases x) (auto simp: dict_del_def le_imp_less_Suc split: if_splits)
qed simp

lemma dict_del_absent [simp]: "k \<notin> fst ` set (dict_del d k)"
  by (auto simp: dict_del_def)

lemma distinct_snoc_del: "distinct (map fst d) \<Longrightarrow> distinct (map fst (dict_del d k @ [(k, v)]))"
  by auto

lemma map_of_tl: "k \<noteq> fst (hd d) \<Longrightarrow> map_of (tl d) k = map_of d k"
  by (cases d) auto

lemma map_of_tl_cases: "distinct (map fst d) \<Longrightarrow> map_of (tl d) x \<in> {map_of d x, None}"
  by (cases d) (auto simp: map_of_eq_None_iff)

lemma hd_not_last: "2 \<le> length d \<Longrightarrow> distinct (map fst d) \<Longrightarrow> fst (last d) \<noteq> fst (hd d)"
  by (cases d; cases "tl d" rule: rev_cases) auto

text \<open>The embedding cache stays within its size and is correct: storing a value and looking it up
  gives that value, other keys keep theirs unless evicted, a look-up changes no value, and
  both keep the keys distinct and the size bounded.\<close>

theorem embed_cache_bounded:
  assumes "cache_ok n c" "0 < n"
  shows "cache_ok n (cache_set n key v c) \<and> cache_ok n (snd (cache_get key c)) \<and>
    fst (cache_get key (cache_set n key v c)) = Some v \<and>
    (k = key \<or> map_of (cache_set n key v c) k \<in> {map_of c k, None}) \<and>
    map_of (snd (cache_get key c)) k = map_of c k \<and> fst (cache_get key c) = map_of c key"
proof (intro conjI)
  let ?c1 = "dict_del c key @ [(key, v)]"
  have d1: "distinct (map fst ?c1)" using assms(1) distinct_snoc_del by (simp add: cache_ok_def)
  have d2: "distinct (map fst (tl ?c1))" using d1 by (simp only: map_tl distinct_tl)
  have l1: "length ?c1 \<le> Suc n" using assms(1) length_dict_del [of c key] by (simp add: cache_ok_def)
  show "cache_ok n (cache_set n key v c)"
    using d1 d2 l1 by (simp add: cache_ok_def cache_set_def Let_def)
  show "cache_ok n (snd (cache_get key c))"
  proof (cases "map_of c key")
    case (Some u)
    have "distinct (map fst (dict_del c key @ [(key, u)]))"
      using assms(1) distinct_snoc_del by (simp add: cache_ok_def)
    moreover have "length (dict_del c key @ [(key, u)]) \<le> n"
      using length_dict_del_key [OF Some] assms(1) by (simp add: cache_ok_def)
    ultimately show ?thesis using Some by (simp add: cache_get_def cache_ok_def)
  qed (use assms in \<open>simp add: cache_get_def\<close>)
  have mapc: "map_of ?c1 x = (if x = key then Some v else map_of c x)" for x
    by (simp add: map_add_def split: option.splits)
  have tlc: "map_of (tl ?c1) x \<in> {map_of ?c1 x, None}" for x
    using map_of_tl_cases [OF d1] .
  have "map_of (cache_set n key v c) key = Some v"
  proof (cases "length ?c1 > n")
    case True
    then have "fst (last ?c1) \<noteq> fst (hd ?c1)" using assms(2) d1 by (intro hd_not_last) auto
    then have "map_of (tl ?c1) key = map_of ?c1 key" by (intro map_of_tl) simp
    then show ?thesis using True mapc by (simp add: cache_set_def Let_def)
  next
    case False
    then show ?thesis using mapc by (simp add: cache_set_def Let_def)
  qed
  then show "fst (cache_get key (cache_set n key v c)) = Some v" by (simp add: cache_get_def)
  show "k = key \<or> map_of (cache_set n key v c) k \<in> {map_of c k, None}"
    using tlc [of k] mapc [of k] by (auto simp: cache_set_def Let_def)
  show "map_of (snd (cache_get key c)) k = map_of c k"
    by (auto simp: cache_get_def map_add_def split: option.splits)
  show "fst (cache_get key c) = map_of c key"
    by (simp add: cache_get_def split: option.splits)
qed

theorem embed_cache_bounded_witness:
  "cache_ok 1 (cache_set 1 ''b'' [2] [(''a'', [1])]) \<and>
   fst (cache_get ''b'' (cache_set 1 ''b'' [2] [(''a'', [1])])) = Some [2]"
proof -
  have "cache_ok 1 [(''a'', [1])]" by (simp add: cache_ok_def)
  from embed_cache_bounded [OF this zero_less_one] show ?thesis by blast
qed

section \<open>Search returns what was found\<close>

definition same_hit :: "hit \<Rightarrow> hit \<Rightarrow> bool" where
  "same_hit h g \<longleftrightarrow> h\<lparr>ht_score := None\<rparr> = g\<lparr>ht_score := None\<rparr>"

lemma pick_items_sound:
  "pick_items hits items = Inr hs \<Longrightarrow> length hs \<le> length items \<and> list_all (\<lambda>h. list_ex (same_hit h) hits) hs"
proof (induction hits items arbitrary: hs rule: pick_items.induct)
  case (2 hits x d items)
  then show ?case
    by (auto simp: same_hit_def list_ex_iff split: json.splits if_splits intro!: nth_mem) force+
qed auto

text \<open>Reranking returns at most the requested number of hits, and each of them is, up to its
  score, one of the hits that were found, whatever the reranker answers.\<close>

theorem rerank_sound:
  "length (fst (rerank E query hits k w)) \<le> k \<and>
   list_all (\<lambda>h. list_ex (same_hit h) hits) (fst (rerank E query hits k w))"
proof -
  have sub: "list_all (\<lambda>h. list_ex (same_hit h) hits) (take k hits)"
    by (auto simp: list_all_iff list_ex_iff same_hit_def dest!: in_set_takeD)
  have "length hs \<le> k \<and> list_all (\<lambda>h. list_ex (same_hit h) hits) hs" if rr: "reranked hits k doc = Inr hs" for doc hs
  proof -
    obtain rs where "(case rs of JList items \<Rightarrow> bind_result (scored_items items) (\<lambda>sc.
           pick_items hits (take k (sort_key (\<lambda>xd. - fst xd) sc)))
       | _ \<Rightarrow> Inl (TypeError ''results'')) = Inr hs"
      using rr unfolding reranked_def bind_result_eq_Inr by blast
    then obtain sc where "pick_items hits (take k (sort_key (\<lambda>xd. - fst xd) sc)) = Inr hs"
      by (cases rs) auto
    from pick_items_sound [OF this] show ?thesis by auto
  qed
  then show ?thesis
    using sub by (auto simp: rerank_def split: prod.splits sum.splits)
qed

section \<open>Clusters\<close>

text \<open>Clustering failures loses and duplicates none: the clusters together hold exactly the
  candidates, none is empty, and within a cluster no distance differs from that of its first
  failure by more than the threshold.\<close>

theorem clusters_partition:
  "mset (concat (clusters_of th hs)) = mset hs \<and>
   list_all (\<lambda>c. c \<noteq> [] \<and> list_all (\<lambda>h. h = hd c \<or> \<bar>ht_distance (hd c) - ht_distance h\<bar> \<le> th) c)
     (clusters_of th hs)"
proof (induction th hs rule: clusters_of.induct)
  case (2 th f hs)
  then show ?case by (simp add: list_all_iff)
qed simp

end
