(* ===== verification/Memory_Props.thy ===== *)
theory Memory_Props
  imports Memory
begin

text \<open>
  The contract of the vector store, stated as a locale over a view of the documents of each
  collection, a reference store on which it is interpreted, and what follows for failures
  and for indexing.
\<close>

section \<open>The contract of the store\<close>

type_synonym stored = "(string \<times> string \<times> json dict) list" \<comment> \<open>id, document, metadata\<close>

definition put_rows :: "doc_row list \<Rightarrow> stored \<Rightarrow> stored" where
  "put_rows rows d = fold (\<lambda>(i, doc, v, mt) acc. dict_set acc i (doc, mt)) rows d"

lemma put_rows_ids: "fst ` set d \<subseteq> fst ` set (put_rows rows d)"
proof (induction rows arbitrary: d)
  case (Cons row rows)
  obtain i doc v mt where row: "row = (i, doc, v, mt)" by (metis prod_cases4)
  have "fst ` set d \<subseteq> fst ` set (dict_set d i (doc, mt))"
    using keys_dict_set [of d i "(doc, mt)"] by (metis (mono_tags) list.set_map set_append Un_upper1 order_refl)
  also have "\<dots> \<subseteq> fst ` set (put_rows rows (dict_set d i (doc, mt)))" using Cons.IH .
  finally show ?case by (simp add: put_rows_def row)
qed (simp add: put_rows_def)

text \<open>No document of \<open>d\<close> is missing in \<open>d'\<close>.\<close>

definition grows :: "(string \<Rightarrow> stored) \<Rightarrow> (string \<Rightarrow> stored) \<Rightarrow> bool" where
  "grows d d' \<longleftrightarrow> (\<forall>name. fst ` set (d name) \<subseteq> fst ` set (d' name))"

lemma grows_refl [simp]: "grows d d"
  by (simp add: grows_def)

lemma grows_trans: "grows a b \<Longrightarrow> grows b c \<Longrightarrow> grows a c"
  unfolding grows_def by blast

locale memory_host =
  fixes E :: "'w memory_env" and docs :: "'w \<Rightarrow> string \<Rightarrow> stored"
  assumes upsert_ok: "ch_upsert (ve_chroma E) name rows w = (Inr u, w') \<Longrightarrow>
        docs w' = (docs w)(name := put_rows rows (docs w name))"
    and upsert_fail: "ch_upsert (ve_chroma E) name rows w = (Inl e, w') \<Longrightarrow> docs w' = docs w"
    and post_frame: "docs (snd (http_post (ve_http E) url body w)) = docs w"
begin

lemma embed_raw_frame: "embed_raw E t w = (r, w') \<Longrightarrow> docs w' = docs w"
  using post_frame by (auto simp: embed_raw_def split: prod.splits) (metis snd_conv)

lemma embed_frame: "embed E t m w = (r, m', w') \<Longrightarrow> docs w' = docs w"
  by (auto simp: embed_def split: prod.splits option.splits sum.splits dest: embed_raw_frame)

lemma batch_fetch_frame: "batch_fetch E ts m w = (r, m', w') \<Longrightarrow> docs w' = docs w"
proof (induction ts arbitrary: r m m' w w')
  case (Cons tx ts)
  obtain t x where tx: "tx = (t, x)" by fastforce
  show ?case
  proof (cases x)
    case None
    obtain y w1 where y: "embed_raw E t w = (y, w1)" by fastforce
    let ?m1 = "case y of Inl _ \<Rightarrow> m
      | Inr v \<Rightarrow> m\<lparr>my_cache := cache_set (cache_limit E) (ve_md5 E t) v (my_cache m)\<rparr>"
    obtain r1 m2 w2 where b: "batch_fetch E ts ?m1 w1 = (r1, m2, w2)" by (metis prod_cases3)
    then have "w' = w2" using Cons.prems y by (simp add: tx None Let_def)
    then show ?thesis using Cons.IH [OF b] embed_raw_frame [OF y] by simp
  next
    case (Some v)
    obtain r1 m2 w2 where b: "batch_fetch E ts m w = (r1, m2, w2)" by (metis prod_cases3)
    then show ?thesis using Cons.IH [OF b] Cons.prems by (simp add: tx Some)
  qed
qed simp

lemma embed_batch_frame: "embed_batch E ts m w = (r, m', w') \<Longrightarrow> docs w' = docs w"
  by (auto simp: embed_batch_def dest: batch_fetch_frame split: prod.splits)

lemma upsert_grows: "ch_upsert (ve_chroma E) name rows w = (r, w') \<Longrightarrow> grows (docs w) (docs w')"
  using upsert_ok upsert_fail put_rows_ids by (cases r) (auto simp: grows_def)

lemma index_file_grows: "index_file E f n m w = (n', m', w') \<Longrightarrow> grows (docs w) (docs w')"
proof -
  assume f: "index_file E f n m w = (n', m', w')"
  show ?thesis
  proof (cases "w' = w")
    case False
    then obtain body where t: "fi_text f = Inr body" "wanted f" "\<not> fi_size f > max_file_size"
        "stored_hash E (fi_rel f) w \<noteq> Some (ve_md5 E body)" "file_rows E (fi_rel f) body \<noteq> []"
      using f by (cases "fi_text f") (auto simp: index_file_def Let_def split: if_splits)
    obtain r m1 w1 where b: "embed_batch E (map (\<lambda>(_, d, _). d) (file_rows E (fi_rel f) body)) m w = (r, m1, w1)"
      by (metis prod_cases3)
    have g1: "grows (docs w) (docs w1)" using embed_batch_frame [OF b] by simp
    show ?thesis
    proof (cases r)
      case (Inl e)
      then have "w' = w1" using f t b by (simp add: index_file_def Let_def)
      then show ?thesis using g1 by simp
    next
      case (Inr vs)
      obtain u w2 where up: "ch_upsert (ve_chroma E) ''codebase''
          (map (\<lambda>((i, d, mt), v). (i, d, v, mt)) (zip (file_rows E (fi_rel f) body) vs)) w1 = (u, w2)" by fastforce
      then have "w' = w2" using f t b Inr by (cases u) (simp_all add: index_file_def Let_def)
      then show ?thesis using grows_trans [OF g1 upsert_grows [OF up]] by simp
    qed
  qed simp
qed

lemma index_files_grows: "index_files E fs n m w = (n', m', w') \<Longrightarrow> grows (docs w) (docs w')"
proof (induction fs arbitrary: n m w)
  case (Cons f fs)
  obtain n1 m1 w1 where f: "index_file E f n m w = (n1, m1, w1)" by (metis prod_cases3)
  then show ?case using Cons grows_trans [OF index_file_grows [OF f]] by simp
qed simp

lemma index_codebase_grows: "index_codebase E ws m w = (r, m', w') \<Longrightarrow> grows (docs w) (docs w')"
  by (auto simp: index_codebase_def dest: index_files_grows split: sum.splits prod.splits)

lemma store_doc_docs:
  assumes "store_doc E name i content mt m w = (Inr u, m', w')"
  shows "docs w' = (docs w)(name := dict_set (docs w name) i (content, mt))"
proof -
  obtain v w1 m1 where e: "embed E content m w = (Inr v, m1, w1)"
    using assms by (auto simp: store_doc_def split: sum.splits prod.splits)
  then obtain w2 where "ch_upsert (ve_chroma E) name [(i, content, v, mt)] w1 = (Inr u, w2)" "w' = w2"
    using assms by (auto simp: store_doc_def split: sum.splits prod.splits)
  then show ?thesis using upsert_ok embed_frame [OF e] by (auto simp: put_rows_def)
qed

end

section \<open>A reference store\<close>

type_synonym mem_docs = "string \<Rightarrow> stored"

definition mem_chroma :: "mem_docs chroma" where
  "mem_chroma = \<lparr>ch_create = (\<lambda>_ w. (Inr (), w)),
     ch_upsert = (\<lambda>name rows w. (Inr (), w(name := put_rows rows (w name)))),
     ch_get = (\<lambda>name k v w. Inr (map snd (filter (\<lambda>(_, _, mt). map_of mt k = Some (JStr v)) (w name)))),
     ch_query = (\<lambda>name _ n _ w. Inr (take n (map (\<lambda>(_, d, mt). (d, mt, 0)) (w name))))\<rparr>"

definition mem_memory :: "mem_docs memory_env" where
  "mem_memory = \<lparr>ve_config = projr (load_config (\<lambda>_. None) (Inl (OtherError []))),
     ve_http = \<lparr>http_get = (\<lambda>_ w. (Inl (OtherError []), w)),
       http_post = (\<lambda>_ _ w. (Inr \<lparr>hr_status = 200, hr_body = CHR ''{'' # dump_str ''embedding'' @ '':[1]}''\<rparr>, w))\<rparr>,
     ve_chroma = mem_chroma, ve_heartbeat = (\<lambda>_ _ w. (Inr (), w)), ve_urlparse = (\<lambda>_. (None, None)),
     ve_md5 = id, ve_sha256 = id, ve_now = (\<lambda>_. 0), ve_walk = (\<lambda>_ _. []), ve_parse = (\<lambda>_ _. None)\<rparr>"

interpretation mem_host: memory_host mem_memory id
  by unfold_locales (auto simp: mem_memory_def mem_chroma_def)

section \<open>Properties\<close>

text \<open>A failure is recorded once.  Recording the same description, approach and error again, for
  whatever session and task, adds no document: the second record replaces the first.\<close>

theorem failures_deduplicated:
  assumes "memory_host E docs"
    and "record_failure E s1 t1 descr err approach m w = (Inr u1, m1, w1)"
    and "record_failure E s2 t2 descr err approach m1 w1 = (Inr u2, m2, w2)"
  shows "map fst (docs w2 ''failures'') = map fst (docs w1 ''failures'') \<and>
    (case map_of (docs w2 ''failures'') (failure_id E (failure_content descr approach err)) of
       Some (content, mt) \<Rightarrow> content = failure_content descr approach err \<and> map_of mt ''session_id'' = Some (JStr s2)
     | None \<Rightarrow> False)"
proof -
  let ?c = "failure_content descr approach err"
  let ?mt = "\<lambda>s t w. [(''session_id'', JStr s), (''task_id'', JStr t), (''ts'', JInt (ts_of E w))]"
  have d1: "docs w1 = (docs w)(''failures'' := dict_set (docs w ''failures'') (failure_id E ?c) (?c, ?mt s1 t1 w))"
    by (rule memory_host.store_doc_docs [OF assms(1) assms(2) [unfolded record_failure_def Let_def]])
  have d2: "docs w2 = (docs w1)(''failures'' := dict_set (docs w1 ''failures'') (failure_id E ?c) (?c, ?mt s2 t2 w1))"
    by (rule memory_host.store_doc_docs [OF assms(1) assms(3) [unfolded record_failure_def Let_def]])
  have "failure_id E ?c \<in> set (map fst (docs w1 ''failures''))"
    unfolding d1 fun_upd_same keys_dict_set by simp
  then show ?thesis using d2 by (simp add: keys_dict_set)
qed

definition demo_memory :: memory where
  "demo_memory = \<lparr>my_cache = [], my_cols = collection_names\<rparr>"

definition no_docs :: mem_docs where "no_docs = (\<lambda>_. [])"

lemma mem_reply: "reply_doc (Inr \<lparr>hr_status = 200, hr_body = CHR ''{'' # dump_str ''embedding'' @ '':[1]}''\<rparr>)
    = Inr (JObj [(''embedding'', JList [JInt 1])])"
  by code_simp

lemma mem_embed_raw: "embed_raw mem_memory t w = (Inr [1], w)"
  by (simp add: embed_raw_def mem_memory_def mem_reply as_dict_def List.map_filter_simps)

lemma mem_store:
  assumes "my_cols m = collection_names" "n \<in> set collection_names"
  shows "\<exists>m' w'. store_doc mem_memory n i x mt m w = (Inr (), m', w') \<and> my_cols m' = collection_names"
proof -
  have "\<exists>v m1. embed mem_memory x m w = (Inr v, m1, w) \<and> my_cols m1 = collection_names"
    using assms by (simp add: embed_def mem_embed_raw split: option.split prod.split)
  then obtain v m1 where e: "embed mem_memory x m w = (Inr v, m1, w)" "my_cols m1 = collection_names" by blast
  have up: "ch_upsert (ve_chroma mem_memory) n rows w = (Inr (), w(n := put_rows rows (w n)))" for n rows
    by (simp add: mem_memory_def mem_chroma_def)
  show ?thesis using assms e by (simp add: store_doc_def up col_def)
qed

lemma mem_record: "my_cols m = collection_names \<Longrightarrow>
    \<exists>m' w'. record_failure mem_memory s t descr e a m w = (Inr (), m', w') \<and> my_cols m' = collection_names"
  unfolding record_failure_def Let_def by (rule mem_store) (simp_all add: collection_names_def)

theorem failures_deduplicated_witness:
  "\<exists>m1 w1 m2 w2. record_failure mem_memory ''s1'' ''t1'' ''d'' ''e'' ''a'' demo_memory no_docs = (Inr (), m1, w1) \<and>
     record_failure mem_memory ''s2'' ''t2'' ''d'' ''e'' ''a'' m1 w1 = (Inr (), m2, w2) \<and>
     map fst (w2 ''failures'') = map fst (w1 ''failures'')"
proof -
  obtain m1 w1 where r1: "record_failure mem_memory ''s1'' ''t1'' ''d'' ''e'' ''a'' demo_memory no_docs = (Inr (), m1, w1)"
      "my_cols m1 = collection_names" using mem_record [of demo_memory] by (fastforce simp: demo_memory_def)
  obtain m2 w2 where r2: "record_failure mem_memory ''s2'' ''t2'' ''d'' ''e'' ''a'' m1 w1 = (Inr (), m2, w2)"
    using mem_record [OF r1(2)] by fastforce
  show ?thesis using r1(1) r2 failures_deduplicated [OF mem_host.memory_host_axioms r1(1) r2] by auto
qed

text \<open>Indexing never removes a document.  Whatever happened to the files, every chunk that was in a
  collection before is still there afterwards, so the chunks of deleted files, and those
  beyond the end of a file that has become shorter, stay and are found by searches.\<close>

theorem index_keeps_chunks:
  assumes "memory_host E docs" "index_codebase E workspace m w = (r, m', w')"
  shows "fst ` set (docs w name) \<subseteq> fst ` set (docs w' name)"
  using memory_host.index_codebase_grows [OF assms] unfolding grows_def by blast

theorem index_keeps_chunks_witness:
  "\<exists>r m' w'. index_codebase mem_memory ''/workspace'' demo_memory no_docs = (r, m', w') \<and>
     fst ` set (no_docs ''codebase'') \<subseteq> fst ` set (w' ''codebase'')"
proof -
  obtain r m' w' where i: "index_codebase mem_memory ''/workspace'' demo_memory no_docs = (r, m', w')"
    by (metis prod_cases3)
  from index_keeps_chunks [OF mem_host.memory_host_axioms this] i show ?thesis by auto
qed

end
