(* ===== verification/Context.thy ===== *)
theory Context
  imports Memory_Props Agent_Manager
begin

text \<open>
  \<open>orchestrator/context_manager.py\<close>: the prompt of an agent is a system message built from the
  task, code, warnings and memories, followed by as much of the conversation as the token
  budget of the model leaves room for.  The memory manager is the model of \<open>Memory\<close>; the
  registry is present or not yet initialised.
\<close>

definition response_budget :: int where "response_budget = 2048"
definition recent_msg_keep :: nat where "recent_msg_keep = 6"
definition memory_results_k :: nat where "memory_results_k = 3"
definition codebase_k :: nat where "codebase_k = 4"
definition antipattern_k :: nat where "antipattern_k = 2"

section \<open>Budget\<close>

definition resolve_token_budget :: "config \<Rightarrow> registry option \<Rightarrow> string \<Rightarrow> int" where
  "resolve_token_budget C g model =
     (if model = [] then limit C ''MAX_CONTEXT_TOKENS'' - response_budget
      else case g of
        Some _ \<Rightarrow> get_context_length model - response_budget
      | None \<Rightarrow> limit C ''MAX_CONTEXT_TOKENS'' - response_budget)"

section \<open>The blocks of the system message\<close>

definition para :: string where "para = [nl, nl]"

definition build_system_block :: "string \<Rightarrow> string \<Rightarrow> string" where
  "build_system_block system_prompt tsk =
     join [nl] (strip system_prompt #
       (if tsk \<noteq> [] then [para @ ''## Current Task'' @ [nl] @ strip tsk] else []))"

definition format_codebase_context :: "(real \<Rightarrow> string) \<Rightarrow> hit list \<Rightarrow> string" where
  "format_codebase_context fr chunks =
     join [nl] (''## Relevant Codebase Context'' # map (\<lambda>c.
       let f = py_str fr (get_or (ht_meta c) ''file'' (JStr ''unknown''));
           symbol = get_or (ht_meta c) ''symbol'' (JStr []);
           stype = py_str fr (get_or (ht_meta c) ''symbol_type'' (JStr []));
           header = ''### '' @ f @ (if truthy symbol
             then '' '' @ em_dash @ '' '' @ stype @ '' `'' @ py_str fr symbol @ ''`'' else [])
       in [nl] @ header @ [nl] @ ''```'' @ [nl] @ strip (ht_content c) @ [nl] @ ''```'') chunks)"

text \<open>A number read from the metadata, as the comparisons with floats see it.\<close>

definition num_of :: "json \<Rightarrow> real result" where
  "num_of j = (case j of JInt n \<Rightarrow> Inr (of_int n) | JFloat x \<Rightarrow> Inr x | JBool b \<Rightarrow> Inr (if b then 1 else 0)
     | _ \<Rightarrow> Inl (TypeError (''not supported between instances of '' @ py_repr (type_name j) @ '' and ''
              @ py_repr ''float'')))"

text \<open>\<open>f"{x:.0%}"\<close>, with ties to the even number.\<close>

definition percent0 :: "real \<Rightarrow> string" where
  "percent0 x = (let y = x * 100; f = \<lfloor>y\<rfloor>; d = y - of_int f in
     int_str (if d < 1/2 \<or> d = 1/2 \<and> even f then f else f + 1) @ ''%'')"

definition confidence :: "hit \<Rightarrow> real result" where
  "confidence ap = num_of (get_or (ht_meta ap) ''confidence'' (JFloat 1))"

fun confident :: "hit list \<Rightarrow> hit list result" where
  "confident [] = Inr []"
| "confident (ap # aps) =
     bind_result (confidence ap) (\<lambda>x. bind_result (confident aps) (\<lambda>rest.
       Inr (if x \<ge> 3/5 then ap # rest else rest)))"

definition format_antipattern_context :: "(real \<Rightarrow> string) \<Rightarrow> hit list \<Rightarrow> string" where
  "format_antipattern_context fr aps =
     join [nl] ((''## Known Pitfalls '' @ em_dash @ '' Avoid These'') # map (\<lambda>ap.
       let name = py_str fr (get_or (ht_meta ap) ''name'' (JStr ''antipattern''));
           conf_str = (case confidence ap of
               Inr x \<Rightarrow> if x < 1 then '' (confidence: '' @ percent0 x @ '')'' else []
             | Inl _ \<Rightarrow> [])
       in [nl] @ warn_sign @ ''  **'' @ name @ ''**'' @ conf_str @ [nl] @ strip (ht_content ap)) aps)"

definition format_memory_context :: "hit list \<Rightarrow> string" where
  "format_memory_context ms =
     join [nl] (''## Relevant Past Context'' # map (\<lambda>m.
       [nl] @ ''['' @ ht_col m @ ''] '' @ strip (ht_content m)) ms)"

section \<open>The conversation\<close>

text \<open>\<open>sanitize_context(m.get("content") or "")\<close>: a list of blocks is not a string.\<close>

definition clean_message :: "message \<Rightarrow> message result" where
  "clean_message m =
     (case msg_content m of
        CNone \<Rightarrow> Inr (m\<lparr>msg_content := CText (sanitize_context [])\<rparr>)
      | CText s \<Rightarrow> Inr (m\<lparr>msg_content := CText (sanitize_context s)\<rparr>)
      | CBlocks bs \<Rightarrow> if bs = [] then Inr (m\<lparr>msg_content := CText (sanitize_context [])\<rparr>)
          else Inl (TypeError ''expected string or bytes-like object''))"

fun clean_messages :: "message list \<Rightarrow> message list result" where
  "clean_messages [] = Inr []"
| "clean_messages (m # ms) =
     bind_result (clean_message m) (\<lambda>c. bind_result (clean_messages ms) (\<lambda>cs. Inr (c # cs)))"

text \<open>Going back from the newest message while the budget lasts.\<close>

fun keep_newest :: "int \<Rightarrow> message list \<Rightarrow> message list \<Rightarrow> int \<Rightarrow> message list" where
  "keep_newest budget [] kept used = kept"
| "keep_newest budget (m # ms) kept used =
     (let t = int (count_tokens (message_text (msg_content m))) + 4 in
      if used + t > budget then kept else keep_newest budget ms (m # kept) (used + t))"

definition trim_conversation :: "message list \<Rightarrow> int \<Rightarrow> message list result" where
  "trim_conversation conv budget =
     (if conv = [] then Inr []
      else bind_result (clean_messages conv) (\<lambda>clean.
        let recent = drop (length clean - recent_msg_keep) clean;
            older = take (length clean - recent_msg_keep) clean;
            recent_tokens = int (count_messages_tokens recent)
        in if recent_tokens \<ge> budget then Inr (keep_newest budget (rev recent) [] 0)
           else Inr (keep_newest (budget - recent_tokens) (rev older) [] 0 @ recent)))"

section \<open>The prompt\<close>

record prompt_args =
  pa_task :: string
  pa_system :: string
  pa_codebase :: bool
  pa_memories :: bool
  pa_antipatterns :: bool
  pa_model :: string

text \<open>The three sections of memory, each empty when switched off or when nothing was found.\<close>

definition code_section :: "'w memory_env \<Rightarrow> (real \<Rightarrow> string) \<Rightarrow> prompt_args \<Rightarrow> memory \<Rightarrow> 'w
    \<Rightarrow> string result \<times> memory \<times> 'w" where
  "code_section E fr A m w =
     (if pa_codebase A \<and> pa_task A \<noteq> [] then
        (case search_codebase E (pa_task A) codebase_k m w of (r, m1, w1) \<Rightarrow>
           (bind_result r (\<lambda>cs. Inr (if cs \<noteq> [] then format_codebase_context fr cs else [])), m1, w1))
      else (Inr [], m, w))"

definition warning_section :: "'w memory_env \<Rightarrow> (real \<Rightarrow> string) \<Rightarrow> prompt_args \<Rightarrow> memory \<Rightarrow> 'w
    \<Rightarrow> string result \<times> memory \<times> 'w" where
  "warning_section E fr A m w =
     (if pa_antipatterns A \<and> pa_task A \<noteq> [] then
        (case search_antipatterns E (pa_task A) antipattern_k m w of (r, m1, w1) \<Rightarrow>
           (bind_result r (\<lambda>aps. bind_result (confident aps) (\<lambda>cs.
              Inr (if cs \<noteq> [] then format_antipattern_context fr cs else []))), m1, w1))
      else (Inr [], m, w))"

definition memory_section :: "'w memory_env \<Rightarrow> prompt_args \<Rightarrow> memory \<Rightarrow> 'w \<Rightarrow> string result \<times> memory \<times> 'w" where
  "memory_section E A m w =
     (if pa_memories A \<and> pa_task A \<noteq> [] then
        (case recall E (pa_task A) memory_results_k m w of (r, m1, w1) \<Rightarrow>
           (bind_result r (\<lambda>ms. Inr (if ms \<noteq> [] then format_memory_context ms else [])), m1, w1))
      else (Inr [], m, w))"

definition add_section :: "string \<Rightarrow> string \<Rightarrow> string" where
  "add_section acc p = (if p \<noteq> [] then acc @ para @ p else acc)"

definition system_content :: "int \<Rightarrow> string \<Rightarrow> string \<Rightarrow> string \<Rightarrow> string \<Rightarrow> string" where
  "system_content budget p1 p2 p2_5 p4 =
     (let full = sanitize_context (add_section (add_section (add_section p1 p2) p2_5) p4) in
      if budget - int (count_tokens full) < 512
      then sanitize_context (add_section (add_section p1 p2) p2_5)
      else full)"

definition system_message :: "string \<Rightarrow> message" where
  "system_message content = \<lparr>msg_role = ''system'', msg_content = CText content, msg_name = None\<rparr>"

definition build_prompt :: "'w memory_env \<Rightarrow> (real \<Rightarrow> string) \<Rightarrow> registry option \<Rightarrow> prompt_args \<Rightarrow> message list
    \<Rightarrow> memory \<Rightarrow> 'w \<Rightarrow> message list result \<times> memory \<times> 'w" where
  "build_prompt E fr g A conv m w =
     (let budget = resolve_token_budget (ve_config E) g (pa_model A);
          p1 = build_system_block (pa_system A) (pa_task A)
      in case code_section E fr A m w of
        (Inl e, m1, w1) \<Rightarrow> (Inl e, m1, w1)
      | (Inr p2, m1, w1) \<Rightarrow>
          (case warning_section E fr A m1 w1 of
             (Inl e, m2, w2) \<Rightarrow> (Inl e, m2, w2)
           | (Inr p2_5, m2, w2) \<Rightarrow>
               (case memory_section E A m2 w2 of
                  (Inl e, m3, w3) \<Rightarrow> (Inl e, m3, w3)
                | (Inr p4, m3, w3) \<Rightarrow>
                    (let sc = system_content budget p1 p2 p2_5 p4 in
                     (bind_result (trim_conversation conv (budget - int (count_tokens sc)))
                        (\<lambda>ms. Inr (system_message sc # ms)), m3, w3)))))"

section \<open>Summaries\<close>

fun summary_lines :: "(real \<Rightarrow> string) \<Rightarrow> json dict list \<Rightarrow> string list result" where
  "summary_lines fr [] = Inr []"
| "summary_lines fr (m # ms) =
     (case map_of m ''role'' of
        None \<Rightarrow> Inl (KeyError ''role'')
      | Some (JStr role) \<Rightarrow> bind_result (summary_lines fr ms) (\<lambda>ls.
          Inr ((upper role @ '': '' @ py_str fr (get_or m ''content'' (JStr []))) # ls))
      | Some j \<Rightarrow> Inl (attr_error j ''upper''))"

definition summarize :: "config \<Rightarrow> 'w http \<Rightarrow> (real \<Rightarrow> string) \<Rightarrow> json dict list \<Rightarrow> string \<Rightarrow> 'w
    \<Rightarrow> json result \<times> 'w" where
  "summarize C H fr ms hint w =
     (if ms = [] then (Inr (JStr []), w)
      else case summary_lines fr ms of
        Inl e \<Rightarrow> (Inl e, w)
      | Inr ls \<Rightarrow>
          let body = join [nl] ls;
              p0 = ''Summarize the following conversation concisely, ''
                 @ ''preserving all technical decisions and code changes made.'' @ para @ body;
              p = (if hint \<noteq> [] then ''Context: '' @ hint @ para @ p0 else p0)
          in case http_post H (cf_ollama_url C @ ''/api/chat'')
               (JObj [(''model'', JStr (cf_ollama_model C)),
                      (''messages'', JList [JObj [(''role'', JStr ''user''), (''content'', JStr p)]]),
                      (''stream'', JBool False), (''options'', JObj [(''num_predict'', JInt 512)])]) w of
            (r, w1) \<Rightarrow>
              (case bind_result (reply_doc r) (\<lambda>doc. bind_result (json_get doc ''message'' (JObj []))
                       (\<lambda>mj. json_get mj ''content'' (JStr []))) of
                 Inr x \<Rightarrow> (Inr x, w1)
               | Inl _ \<Rightarrow> (Inr (JStr (take 2000 body @ ''... [truncated]'')), w1)))"

section \<open>Properties\<close>

lemma clean_messages_text:
  "clean_messages ms = Inr cs \<Longrightarrow>
     length cs = length ms \<and> list_all (\<lambda>c. \<exists>s. msg_content c = CText (sanitize_context s)) cs"
  by (induction ms arbitrary: cs)
    (auto simp: clean_message_def split: content.splits if_splits)

lemma keep_newest_suffix: "suffix (keep_newest b ms kept used) (rev ms @ kept)"
  by (induction b ms kept used rule: keep_newest.induct) (auto simp: Let_def suffix_def)

lemma keep_newest_tokens:
  assumes "used = int (count_messages_tokens kept)" "kept = [] \<or> used \<le> b"
  shows "keep_newest b ms kept used = [] \<or> int (count_messages_tokens (keep_newest b ms kept used)) \<le> b"
  using assms by (induction b ms kept used rule: keep_newest.induct) (auto simp: Let_def)

lemma trim_conversation_cases:
  assumes "trim_conversation conv b = Inr kept"
  obtains clean where "clean_messages conv = Inr clean" "suffix kept clean"
    "kept = [] \<or> int (count_messages_tokens kept) \<le> b"
proof (cases "conv = []")
  case True
  with assms that [of "[]"] show thesis by (simp add: trim_conversation_def)
next
  case False
  let ?n = "\<lambda>c. length c - recent_msg_keep"
  from assms False obtain clean where c: "clean_messages conv = Inr clean"
    and k: "kept = (if int (count_messages_tokens (drop (?n clean) clean)) \<ge> b
        then keep_newest b (rev (drop (?n clean) clean)) [] 0
        else keep_newest (b - int (count_messages_tokens (drop (?n clean) clean)))
               (rev (take (?n clean) clean)) [] 0 @ drop (?n clean) clean)"
    by (auto simp: trim_conversation_def Let_def split: if_splits)
  show thesis
  proof (cases "int (count_messages_tokens (drop (?n clean) clean)) \<ge> b")
    case True
    have "suffix kept (drop (?n clean) clean)"
      using k True keep_newest_suffix [of b "rev (drop (?n clean) clean)" "[]" 0] by simp
    then have "suffix kept clean" using suffix_drop suffix_order.trans by blast
    moreover have "kept = [] \<or> int (count_messages_tokens kept) \<le> b"
      using k True keep_newest_tokens [of 0 "[]" b] by simp
    ultimately show thesis using that c by blast
  next
    case False
    let ?old = "take (?n clean) clean" and ?new = "drop (?n clean) clean"
    let ?r = "b - int (count_messages_tokens ?new)"
    obtain zs where "?old = zs @ keep_newest ?r (rev ?old) [] 0"
      using keep_newest_suffix [of ?r "rev ?old" "[]" 0] by (auto simp: suffix_def)
    then have "clean = zs @ kept" using k False by (metis append_assoc append_take_drop_id)
    then have "suffix kept clean" by (rule suffixI)
    moreover have "int (count_messages_tokens kept) \<le> b"
      using k False keep_newest_tokens [of 0 "[]" ?r "rev ?old"] by auto
    ultimately show thesis using that c by blast
  qed
qed

definition is_clean :: "message \<Rightarrow> bool" where
  "is_clean m \<longleftrightarrow> (case msg_content m of CText s \<Rightarrow> re_search injection_re s = None | _ \<Rightarrow> False)"

lemma system_content_clean: "re_search injection_re (system_content b p1 p2 p3 p4) = None"
  by (simp add: system_content_def Let_def sanitized_clean)

lemma clean_messages_clean: "clean_messages ms = Inr cs \<Longrightarrow> list_all is_clean cs"
  by (induction ms arbitrary: cs)
    (auto simp: clean_message_def is_clean_def sanitized_clean split: content.splits if_splits)

lemma list_all_suffix: "suffix ys xs \<Longrightarrow> list_all P xs \<Longrightarrow> list_all P ys"
  by (auto simp: suffix_def)

text \<open>What a prompt that was built consists of.\<close>

lemma build_prompt_cases:
  assumes "build_prompt E fr g A conv m w = (Inr ms, m', w')"
  obtains p2 p2_5 p4 kept m1 w1 m2 w2 where
    "code_section E fr A m w = (Inr p2, m1, w1)" "warning_section E fr A m1 w1 = (Inr p2_5, m2, w2)"
    "memory_section E A m2 w2 = (Inr p4, m', w')"
    "ms = system_message (system_content (resolve_token_budget (ve_config E) g (pa_model A))
        (build_system_block (pa_system A) (pa_task A)) p2 p2_5 p4) # kept"
    "trim_conversation conv (resolve_token_budget (ve_config E) g (pa_model A)
       - int (count_tokens (system_content (resolve_token_budget (ve_config E) g (pa_model A))
           (build_system_block (pa_system A) (pa_task A)) p2 p2_5 p4))) = Inr kept"
  using assms by (auto simp: build_prompt_def Let_def split: prod.splits sum.splits)

text \<open>C14: a prompt is a system message followed by the end of the conversation, both without injection
  patterns, and it stays within the token budget unless only the system message is left.  That no longer end would
  fit is not claimed.\<close>

theorem build_prompt_within_budget:
  assumes "build_prompt E fr g A conv m w = (Inr ms, m', w')"
  shows "ms \<noteq> [] \<and> msg_role (hd ms) = ''system'' \<and> list_all is_clean ms \<and> length (tl ms) \<le> length conv \<and>
    (case clean_messages conv of Inr clean \<Rightarrow> suffix (tl ms) clean | Inl _ \<Rightarrow> tl ms = []) \<and>
    (tl ms = [] \<or> int (count_tokens (message_text (msg_content (hd ms))) + count_messages_tokens (tl ms))
       \<le> resolve_token_budget (ve_config E) g (pa_model A))"
proof -
  obtain sc kept where ms: "ms = system_message sc # kept" and sc: "re_search injection_re sc = None"
    and t: "trim_conversation conv (resolve_token_budget (ve_config E) g (pa_model A) - int (count_tokens sc)) = Inr kept"
    using assms by (rule build_prompt_cases) (use system_content_clean in blast)
  from t obtain clean where c: "clean_messages conv = Inr clean" "suffix kept clean"
      "kept = [] \<or> int (count_messages_tokens kept) \<le> resolve_token_budget (ve_config E) g (pa_model A) - int (count_tokens sc)"
    by (rule trim_conversation_cases)
  have "list_all is_clean kept" using list_all_suffix [OF c(2) clean_messages_clean [OF c(1)]] .
  moreover have "length kept \<le> length conv"
    using suffix_length_le [OF c(2)] clean_messages_text [OF c(1)] by simp
  ultimately show ?thesis
    using ms sc c by (auto simp: system_message_def is_clean_def)
qed

definition demo_args :: prompt_args where
  "demo_args = \<lparr>pa_task = [], pa_system = ''Be brief.'', pa_codebase = True, pa_memories = True,
     pa_antipatterns = True, pa_model = ''qwen3:8b''\<rparr>"

definition demo_registry :: registry where
  "demo_registry = \<lparr>mr_on_disk = {}, mr_available = []\<rparr>"

definition user_message :: "string \<Rightarrow> message" where
  "user_message s = \<lparr>msg_role = ''user'', msg_content = CText s, msg_name = None\<rparr>"

lemma demo_prompt:
  "build_prompt mem_memory (\<lambda>_. []) (Some demo_registry) demo_args [] m w =
     (Inr [system_message ''Be brief.''], m, w)"
  "build_prompt mem_memory (\<lambda>_. []) (Some demo_registry) demo_args [user_message ''Hi''] m w =
     (Inr [system_message ''Be brief.'', user_message ''Hi''], m, w)"
proof -
  have sc: "system_content 30720 (build_system_block ''Be brief.'' []) [] [] [] = ''Be brief.''" by code_simp
  have b: "resolve_token_budget C (Some demo_registry) ''qwen3:8b'' = 30720" for C by code_simp
  have t: "trim_conversation [user_message ''Hi''] (30720 - int (count_tokens ''Be brief.'')) = Inr [user_message ''Hi'']"
    by code_simp
  show "build_prompt mem_memory (\<lambda>_. []) (Some demo_registry) demo_args [] m w =
      (Inr [system_message ''Be brief.''], m, w)"
    "build_prompt mem_memory (\<lambda>_. []) (Some demo_registry) demo_args [user_message ''Hi''] m w =
      (Inr [system_message ''Be brief.'', user_message ''Hi''], m, w)"
    by (simp_all add: build_prompt_def demo_args_def code_section_def warning_section_def memory_section_def
        b sc t Let_def) (simp add: trim_conversation_def)
qed

theorem build_prompt_within_budget_witness:
  "list_all is_clean [system_message ''Be brief.'', user_message ''Hi'']"
  using build_prompt_within_budget [OF demo_prompt(2) [of demo_memory no_docs]] by blast

text \<open>The memories are cut before the conversation is looked at: the system message does not depend
  on the conversation, so memories that fit are kept even when recent messages have to go.\<close>

theorem system_message_ignores_conversation:
  assumes "build_prompt E fr g A conv1 m w = (Inr ms1, m1, w1)"
    and "build_prompt E fr g A conv2 m w = (Inr ms2, m2, w2)"
  shows "hd ms1 = hd ms2 \<and> m1 = m2 \<and> w1 = w2"
  using assms(1)
proof (rule build_prompt_cases)
  fix p2 p2_5 p4 kept n1 v1 n2 v2
  assume "code_section E fr A m w = (Inr p2, n1, v1)" "warning_section E fr A n1 v1 = (Inr p2_5, n2, v2)"
    "memory_section E A n2 v2 = (Inr p4, m1, w1)"
    "ms1 = system_message (system_content (resolve_token_budget (ve_config E) g (pa_model A))
        (build_system_block (pa_system A) (pa_task A)) p2 p2_5 p4) # kept"
  with assms(2) show ?thesis by (elim build_prompt_cases) simp
qed

theorem system_message_ignores_conversation_witness:
  "hd [system_message ''Be brief.''] = hd [system_message ''Be brief.'', user_message ''Hi'']"
  using system_message_ignores_conversation [OF demo_prompt [of demo_memory no_docs]] by blast

end
