(* ===== verification/Fine_Tune.thy ===== *)
theory Fine_Tune
  imports Config
begin

text \<open>
  \<open>orchestrator/fine_tune_collector.py\<close>: the file of training records, one JSON document per
  line.  The file is reached through a record of functions; its contract is the locale
  \<open>record_file\<close>, interpreted on a file that is a text.
\<close>

section \<open>The file\<close>

record 'w ft_env =
  fe_path :: string
  fe_exists :: "'w \<Rightarrow> bool"
  fe_size :: "'w \<Rightarrow> int result"
  fe_lines :: "'w \<Rightarrow> string list \<times> exn option" \<comment> \<open>the lines read before an error\<close>
  fe_append :: "string \<Rightarrow> 'w \<Rightarrow> unit result \<times> 'w"
  fe_unlink :: "'w \<Rightarrow> 'w"
  fe_now :: "'w \<Rightarrow> real"

text \<open>The lines of a text file: a line feed, a carriage return or both end a line.\<close>

fun text_lines :: "string \<Rightarrow> string \<Rightarrow> string list" where
  "text_lines acc [] = (if acc = [] then [] else [rev acc])"
| "text_lines acc (c # s) =
     (if c = nl then rev acc # text_lines [] s
      else if c = cr \<and> \<not> next_is nl s then rev acc # text_lines [] s
      else if c = cr then text_lines acc s
      else text_lines (c # acc) s)"

section \<open>Recording and reading\<close>

record example_info =
  ei_session :: string
  ei_agent :: string
  ei_task :: string
  ei_diff :: string
  ei_context :: string
  ei_tokens_in :: int
  ei_tokens_out :: int

definition training_record :: "example_info \<Rightarrow> int \<Rightarrow> json" where
  "training_record x ts =
     JObj [(''instruction'', JStr (strip (ei_task x))), (''input'', JStr (strip (ei_context x))),
       (''output'', JStr (strip (ei_diff x))),
       (''metadata'', JObj [(''session_id'', JStr (ei_session x)), (''agent_id'', JStr (ei_agent x)),
          (''ts'', JInt ts), (''tokens_in'', JInt (ei_tokens_in x)), (''tokens_out'', JInt (ei_tokens_out x))])]"

definition record_success :: "'w ft_env \<Rightarrow> (real \<Rightarrow> string) \<Rightarrow> example_info \<Rightarrow> 'w \<Rightarrow> bool \<times> 'w" where
  "record_success E fr x w =
     (if strip (ei_task x) = [] \<or> strip (ei_diff x) = [] then (False, w)
      else case fe_append E (json_dumps fr (training_record x \<lfloor>fe_now E w\<rfloor>) @ [nl]) w of
        (Inr _, w1) \<Rightarrow> (True, w1)
      | (Inl _, w1) \<Rightarrow> (False, w1))"

definition get_stats :: "'w ft_env \<Rightarrow> 'w \<Rightarrow> json dict" where
  "get_stats E w =
     (if \<not> fe_exists E w
      then [(''records'', JInt 0), (''size_bytes'', JInt 0), (''path'', JStr (fe_path E))]
      else case bind_result (fe_size E w) (\<lambda>n. case fe_lines E w of
               (ls, None) \<Rightarrow> Inr (n, length ls) | (_, Some e) \<Rightarrow> Inl e) of
        Inr (n, k) \<Rightarrow> [(''records'', JInt (int k)), (''size_bytes'', JInt n), (''path'', JStr (fe_path E))]
      | Inl e \<Rightarrow> [(''records'', JInt (-1)), (''size_bytes'', JInt (-1)), (''error'', JStr (exn_text e)),
                  (''path'', JStr (fe_path E))])"

text \<open>The records of the lines; a limit of zero is no limit.\<close>

fun read_lines :: "int option \<Rightarrow> string list \<Rightarrow> json list \<Rightarrow> json list" where
  "read_lines mx [] acc = acc"
| "read_lines mx (l # ls) acc =
     (if strip l = [] then read_lines mx ls acc
      else let acc1 = (case json_loads (strip l) of Some j \<Rightarrow> acc @ [j] | None \<Rightarrow> acc) in
           if (case mx of Some n \<Rightarrow> n \<noteq> 0 \<and> int (length acc1) \<ge> n | None \<Rightarrow> False) then acc1
           else read_lines mx ls acc1)"

definition read_records :: "'w ft_env \<Rightarrow> int option \<Rightarrow> 'w \<Rightarrow> json list" where
  "read_records E mx w = (if \<not> fe_exists E w then [] else read_lines mx (fst (fe_lines E w)) [])"

definition clear_records :: "'w ft_env \<Rightarrow> 'w \<Rightarrow> json \<times> 'w" where
  "clear_records E w =
     (if \<not> fe_exists E w then (JInt 0, w)
      else (get_or (get_stats E w) ''records'' (JInt 0), fe_unlink E w))"

section \<open>Lines\<close>

lemma hex_digit_printable: "32 \<le> (of_char (hex_digit n) :: nat)"
proof -
  have "list_all (\<lambda>n. 32 \<le> (of_char (''0123456789abcdef'' ! n) :: nat)) [0..<16]" by code_simp
  then show ?thesis by (simp add: hex_digit_def list_all_iff)
qed

lemma dump_char_printable: "list_all (\<lambda>c. 32 \<le> (of_char c :: nat)) (dump_char c)"
  by (simp add: dump_char_def dquote_def backslash_def hex_digit_printable)

lemma dump_str_printable: "list_all (\<lambda>c. 32 \<le> (of_char c :: nat)) (dump_str s)"
  using dump_char_printable by (auto simp: dump_str_def dquote_def list_all_iff)

lemma nat_str_printable: "list_all (\<lambda>c. 32 \<le> (of_char c :: nat)) (nat_str n)"
proof -
  have "is_digit c \<Longrightarrow> 32 \<le> (of_char c :: nat)" for c by (auto simp: is_digit_def)
  then show ?thesis using nat_str_props [of n] by (auto simp: list_all_iff)
qed

lemma int_str_printable: "list_all (\<lambda>c. 32 \<le> (of_char c :: nat)) (int_str n)"
  using nat_str_printable by (simp add: int_str_def)

lemma dumps_printable:
  "plain_json j \<Longrightarrow> list_all (\<lambda>c. 32 \<le> (of_char c :: nat)) (json_dumps fr j)"
  "list_all plain_json vs \<Longrightarrow> list_all (\<lambda>c. 32 \<le> (of_char c :: nat)) (dump_elems fr vs)"
  "list_all (\<lambda>kv. plain_json (snd kv)) d \<Longrightarrow> list_all (\<lambda>c. 32 \<le> (of_char c :: nat)) (dump_members fr d)"
  by (induction fr j and fr vs and fr d rule: json_dumps_dump_elems_dump_members.induct)
    (auto simp: dump_str_printable int_str_printable)

lemma text_lines_line: "nl \<notin> set l \<Longrightarrow> cr \<notin> set l \<Longrightarrow> text_lines acc (l @ [nl]) = [rev acc @ l]"
  by (induction l arbitrary: acc) auto

lemma text_lines_append:
  "t \<noteq> [] \<Longrightarrow> last t = nl \<Longrightarrow> text_lines acc (t @ s) = text_lines acc t @ text_lines [] s"
proof (induction t arbitrary: acc)
  case (Cons c t)
  show ?case
  proof (cases "t = []")
    case False
    then have "next_is nl (t @ s) = next_is nl t" by (cases t) auto
    then show ?thesis using Cons False by simp
  qed (use Cons.prems in simp)
qed simp

lemma read_lines_None_append: "read_lines None (ls @ ks) acc = read_lines None ks (read_lines None ls acc)"
  by (induction ls arbitrary: acc) (auto simp: Let_def)

lemma strip_id: "s \<noteq> [] \<Longrightarrow> \<not> py_space (hd s) \<Longrightarrow> \<not> py_space (last s) \<Longrightarrow> strip s = s"
proof -
  have "dropWhile py_space t = t" if "t \<noteq> []" "\<not> py_space (hd t)" for t
    using that by (cases t) auto
  then show "s \<noteq> [] \<Longrightarrow> \<not> py_space (hd s) \<Longrightarrow> \<not> py_space (last s) \<Longrightarrow> strip s = s"
    by (simp add: strip_def lstrip_def rstrip_def hd_rev)
qed

lemma dump_members_last: "dump_members fr d \<noteq> [] \<and> last (dump_members fr d) = CHR ''}''"
proof (induction d)
  case (Cons kv d)
  then show ?case by (cases kv) auto
qed simp

lemma strip_dumps_obj: "strip (json_dumps fr (JObj d)) = json_dumps fr (JObj d)"
  using dump_members_last [of fr d] by (intro strip_id) (auto simp: py_space_def)

text \<open>A file that is empty or ends with a line feed.\<close>

definition whole_lines :: "string \<Rightarrow> bool" where
  "whole_lines t \<longleftrightarrow> t = [] \<or> last t = nl"

section \<open>The contract of the file\<close>

locale record_file =
  fixes E :: "'w ft_env" and held :: "'w \<Rightarrow> string option"
  assumes exists_law: "fe_exists E w \<longleftrightarrow> held w \<noteq> None"
    and lines_law: "held w = Some t \<Longrightarrow> fe_lines E w = (text_lines [] t, None)"
    and append_ok: "fe_append E s w = (Inr u, w') \<Longrightarrow>
          held w' = Some ((case held w of None \<Rightarrow> [] | Some t \<Rightarrow> t) @ s)"
    and append_fail: "fe_append E s w = (Inl e, w') \<Longrightarrow> held w' = held w"
    and unlink_law: "held (fe_unlink E w) = None"
begin

abbreviation content :: "'w \<Rightarrow> string" where
  "content w \<equiv> (case held w of None \<Rightarrow> [] | Some t \<Rightarrow> t)"

lemma read_content: "read_records E None w = read_lines None (text_lines [] (content w)) []"
  by (cases "held w") (simp_all add: read_records_def exists_law lines_law)

lemma record_read_back:
  assumes "whole_lines (content w)" "record_success E fr x w = (True, w')"
  shows "whole_lines (content w') \<and>
    read_records E None w' = read_records E None w @ [training_record x \<lfloor>fe_now E w\<rfloor>]"
proof -
  let ?j = "training_record x \<lfloor>fe_now E w\<rfloor>"
  let ?l = "json_dumps fr ?j"
  have pj: "plain_json ?j" by (simp add: training_record_def)
  have ne: "?l \<noteq> []" by (simp add: training_record_def)
  have c: "content w' = content w @ ?l @ [nl]"
    using assms(2) append_ok by (auto simp: record_success_def split: if_splits prod.splits sum.splits)
  have "nl \<notin> set ?l" "cr \<notin> set ?l"
    using dumps_printable(1) [OF pj, of fr] by (auto simp: list_all_iff nl_def cr_def)
  then have "text_lines [] (?l @ [nl]) = [?l]" by (simp add: text_lines_line)
  then have "text_lines [] (content w') = text_lines [] (content w) @ [?l]"
    using assms(1) text_lines_append [of "content w" "[]" "?l @ [nl]"] c
    by (cases "content w = []") (auto simp: whole_lines_def)
  moreover have "strip ?l = ?l" by (simp add: training_record_def strip_dumps_obj del: json_dumps.simps)
  ultimately have "read_records E None w' = read_records E None w @ [?j]"
    using json_loads_dumps [OF pj, of fr] ne by (simp add: read_content read_lines_None_append Let_def)
  then show ?thesis using c by (simp add: whole_lines_def)
qed

end

section \<open>A file that is a text\<close>

type_synonym text_file = "string option"

definition mem_file :: "text_file ft_env" where
  "mem_file = \<lparr>fe_path = ''/app/memory/training_data.jsonl'', fe_exists = (\<lambda>w. w \<noteq> None),
     fe_size = (\<lambda>w. Inr (case w of None \<Rightarrow> 0 | Some t \<Rightarrow> int (length t))),
     fe_lines = (\<lambda>w. case w of None \<Rightarrow> ([], None) | Some t \<Rightarrow> (text_lines [] t, None)),
     fe_append = (\<lambda>s w. (Inr (), Some ((case w of None \<Rightarrow> [] | Some t \<Rightarrow> t) @ s))),
     fe_unlink = (\<lambda>_. None), fe_now = (\<lambda>_. 0)\<rparr>"

interpretation mem_record_file: record_file mem_file id
  by unfold_locales (auto simp: mem_file_def)

text \<open>A training record is read back as it was written.  On a file of whole lines a recorded example is
  appended behind the records that were there, and the file again consists of whole lines.\<close>

theorem training_record_roundtrip:
  assumes "record_file E held" "whole_lines (case held w of None \<Rightarrow> [] | Some t \<Rightarrow> t)"
    and "record_success E fr x w = (True, w')"
  shows "read_records E None w' = read_records E None w @ [training_record x \<lfloor>fe_now E w\<rfloor>] \<and>
    whole_lines (case held w' of None \<Rightarrow> [] | Some t \<Rightarrow> t)"
  using record_file.record_read_back [OF assms] by blast

definition demo_example :: example_info where
  "demo_example = \<lparr>ei_session = ''s'', ei_agent = ''a'', ei_task = ''fix it'', ei_diff = ''@@'', ei_context = [nl],
     ei_tokens_in = 1, ei_tokens_out = 2\<rparr>"

theorem training_record_roundtrip_witness:
  "read_records mem_file None (snd (record_success mem_file (\<lambda>_. []) demo_example None)) =
     [training_record demo_example 0]"
proof -
  have "record_success mem_file (\<lambda>_. []) demo_example None =
      (True, snd (record_success mem_file (\<lambda>_. []) demo_example None))" by code_simp
  from training_record_roundtrip [OF mem_record_file.record_file_axioms _ this] show ?thesis
    by (simp add: whole_lines_def) (simp add: read_records_def mem_file_def)
qed

end
