(* ===== verification/Session_Hooks.thy ===== *)
theory Session_Hooks
  imports Context Fine_Tune
begin

text \<open>
  \<open>orchestrator/session_hooks.py\<close>: what happens at the start and the end of a session, the
  extraction of a skill from its transcript, and the mining of anti-patterns from clusters of
  failures.  The memory manager is the model of \<open>Memory\<close>; the model server is reached through
  the HTTP parameter.
\<close>

section \<open>Reading the answer of the model\<close>

definition parse_field :: "string \<Rightarrow> string \<Rightarrow> string" where
  "parse_field text field =
     (case find (\<lambda>line. startswith (upper (strip line)) (field @ '':'')) (splitlines text) of
        Some line \<Rightarrow> strip (tl (dropWhile (\<lambda>c. c \<noteq> CHR '':'') line))
      | None \<Rightarrow> [])"

text \<open>\<open>float(s)\<close>: decimal numbers with optional sign, fraction and exponent, and the special values.\<close>

datatype fnum = Fin real | PInf | NInf | NaN

definition digit_part :: "string \<Rightarrow> bool" where
  "digit_part s \<longleftrightarrow> list_all (\<lambda>p. p \<noteq> [] \<and> list_all is_digit p) (split_char (CHR ''_'') s)"

definition digit_run :: "string \<Rightarrow> string \<times> string" where
  "digit_run s = (let P = (\<lambda>c. is_digit c \<or> c = CHR ''_'') in (takeWhile P s, dropWhile P s))"

definition drop_sign :: "string \<Rightarrow> int \<times> string" where
  "drop_sign s = (if next_is (CHR ''-'') s then (-1, tl s) else if next_is (CHR ''+'') s then (1, tl s) else (1, s))"

definition no_underscore :: "string \<Rightarrow> string" where "no_underscore s = filter (\<lambda>c. c \<noteq> CHR ''_'') s"

definition parse_exponent :: "string \<Rightarrow> int option" where
  "parse_exponent s =
     (if s = [] then Some 0
      else if hd s = CHR ''e'' \<or> hd s = CHR ''E''
      then (case drop_sign (tl s) of (sg, r) \<Rightarrow>
              if digit_part r then Some (sg * digits_val (no_underscore r)) else None)
      else None)"

definition parse_decimal :: "string \<Rightarrow> real option" where
  "parse_decimal s =
     (case digit_run s of (ip, r) \<Rightarrow>
        case (if next_is (CHR ''.'') r then digit_run (tl r) else ([], r)) of (fp, r2) \<Rightarrow>
          if (ip = [] \<and> fp = []) \<or> (ip \<noteq> [] \<and> \<not> digit_part ip) \<or> (fp \<noteq> [] \<and> \<not> digit_part fp) then None
          else map_option (\<lambda>e. of_int (digits_val (no_underscore (ip @ fp)))
                 * pow10 (e - int (length (no_underscore fp)))) (parse_exponent r2))"

definition parse_float :: "string \<Rightarrow> fnum option" where
  "parse_float s =
     (case drop_sign (strip s) of (sg, r) \<Rightarrow>
        if lower r = ''inf'' \<or> lower r = ''infinity'' then Some (if sg = 1 then PInf else NInf)
        else if lower r = ''nan'' then Some NaN
        else map_option (\<lambda>x. Fin (of_int sg * x)) (parse_decimal r))"

text \<open>\<open>max(0.0, min(1.0, v))\<close>; Python's \<open>min\<close> keeps its first argument beside a NaN.\<close>

fun clamp01 :: "fnum \<Rightarrow> real" where
  "clamp01 (Fin x) = max 0 (min 1 x)"
| "clamp01 PInf = 1"
| "clamp01 NInf = 0"
| "clamp01 NaN = 1"

definition parse_confidence :: "string \<Rightarrow> real" where
  "parse_confidence text =
     (let raw = parse_field text ''CONFIDENCE'' in
      if raw = [] then 4/5
      else case parse_float raw of Some v \<Rightarrow> clamp01 v | None \<Rightarrow> 4/5)"

section \<open>Asking the model\<close>

definition ask_model :: "'w memory_env \<Rightarrow> string \<Rightarrow> 'w \<Rightarrow> string result \<times> 'w" where
  "ask_model E prompt w =
     (case http_post (ve_http E) (cf_ollama_url (ve_config E) @ ''/api/chat'')
             (JObj [(''model'', JStr (cf_ollama_model (ve_config E))),
                    (''messages'', JList [JObj [(''role'', JStr ''user''), (''content'', JStr prompt)]]),
                    (''stream'', JBool False), (''options'', JObj [(''num_predict'', JInt 256)])]) w of
        (r, w1) \<Rightarrow>
          (bind_result (reply_doc r) (\<lambda>doc. bind_result (json_get doc ''message'' (JObj [])) (\<lambda>mj.
             bind_result (json_get mj ''content'' (JStr [])) (\<lambda>c.
               case c of JStr s \<Rightarrow> Inr s | j \<Rightarrow> Inl (attr_error j ''upper'')))), w1))"

section \<open>Skills\<close>

fun condensed_lines :: "(real \<Rightarrow> string) \<Rightarrow> json list \<Rightarrow> string list result" where
  "condensed_lines fr [] = Inr []"
| "condensed_lines fr (t # ts) =
     bind_result (as_dict t) (\<lambda>d.
       case get_or d ''role'' (JStr ''unknown'') of
         JStr role \<Rightarrow> bind_result (condensed_lines fr ts) (\<lambda>ls.
           Inr ((upper role @ '': '' @ take 300 (py_str fr (get_or d ''content'' (JStr [])))) # ls))
       | j \<Rightarrow> Inl (attr_error j ''upper''))"

definition skill_prompt :: "string \<Rightarrow> string" where
  "skill_prompt condensed =
     ''Review this conversation and determine if a reusable engineering pattern ''
     @ ''or best practice emerged that would be worth remembering for future sessions.'' @ para
     @ ''If yes, respond with:'' @ [nl]
     @ ''SKILL_NAME: <short name>'' @ [nl]
     @ ''SKILL_CONTENT: <description of the pattern, 2-5 sentences>'' @ [nl]
     @ ''CONFIDENCE: <float 0.0-1.0 '' @ em_dash @ '' how confident you are this is genuinely reusable>'' @ para
     @ ''If no clear reusable pattern emerged, respond with: NO_SKILL'' @ para
     @ ''Conversation:'' @ [nl] @ condensed"

text \<open>The body of the \<open>try\<close>: the name of the skill that was saved, if any.\<close>

definition save_extracted :: "'w memory_env \<Rightarrow> string \<Rightarrow> memory \<Rightarrow> 'w \<Rightarrow> string option result \<times> memory \<times> 'w" where
  "save_extracted E text m w =
     (if contains ''NO_SKILL'' (upper text) then (Inr None, m, w)
      else
        let name = parse_field text ''SKILL_NAME''; content = parse_field text ''SKILL_CONTENT'' in
        if name \<noteq> [] \<and> content \<noteq> []
        then (case save_skill E name content [(''confidence'', JFloat (parse_confidence text))] m w of
                (r, m1, w1) \<Rightarrow> (bind_result r (\<lambda>_. Inr (Some name)), m1, w1))
        else (Inr None, m, w))"

definition extract_skills :: "'w memory_env \<Rightarrow> (real \<Rightarrow> string) \<Rightarrow> json list \<Rightarrow> memory \<Rightarrow> 'w
    \<Rightarrow> string option result \<times> memory \<times> 'w" where
  "extract_skills E fr transcript m w =
     (if transcript = [] then (Inr None, m, w)
      else case condensed_lines fr (drop (length transcript - 10) transcript) of
        Inl e \<Rightarrow> (Inl e, m, w)
      | Inr ls \<Rightarrow>
          (case ask_model E (skill_prompt (join [nl] ls)) w of
             (Inl _, w1) \<Rightarrow> (Inr None, m, w1)
           | (Inr text, w1) \<Rightarrow>
               (case save_extracted E text m w1 of
                  (Inl _, m1, w2) \<Rightarrow> (Inr None, m1, w2)
                | (Inr x, m1, w2) \<Rightarrow> (Inr x, m1, w2))))"

section \<open>Anti-patterns\<close>

definition pattern_prompt :: "hit list \<Rightarrow> string" where
  "pattern_prompt cluster =
     ''The following '' @ nat_str (length cluster) @ '' similar failures have occurred repeatedly.'' @ [nl]
     @ ''Identify the common anti-pattern and describe what to AVOID in future.'' @ para
     @ ''Respond with:'' @ [nl]
     @ ''ANTIPATTERN_NAME: <short name>'' @ [nl]
     @ ''ANTIPATTERN_CONTENT: <what to avoid and why, 2-5 sentences>'' @ [nl]
     @ ''CONFIDENCE: <float 0.0-1.0 '' @ em_dash @ '' how confident you are this is a real pattern>'' @ para
     @ ''If these failures don'' @ [CHR 0x27] @ ''t share a clear pattern, respond: NO_PATTERN'' @ para
     @ ''Examples:'' @ [nl]
     @ join para (map (\<lambda>(i, f). ''Failure '' @ nat_str i @ '':'' @ [nl] @ take 400 (ht_content f))
         (enumerate 1 (take 5 cluster)))"

definition save_pattern :: "'w memory_env \<Rightarrow> nat \<Rightarrow> string \<Rightarrow> memory \<Rightarrow> 'w \<Rightarrow> string option result \<times> memory \<times> 'w" where
  "save_pattern E n text m w =
     (if contains ''NO_PATTERN'' (upper text) then (Inr None, m, w)
      else
        let name = parse_field text ''ANTIPATTERN_NAME''; content = parse_field text ''ANTIPATTERN_CONTENT'' in
        if name \<noteq> [] \<and> content \<noteq> []
        then (case save_skill E (''antipattern:'' @ name) content
                     [(''type'', JStr ''antipattern''), (''cluster_size'', JInt (int n)),
                      (''confidence'', JFloat (parse_confidence text))] m w of
                (r, m1, w1) \<Rightarrow> (bind_result r (\<lambda>_. Inr (Some name)), m1, w1))
        else (Inr None, m, w))"

text \<open>The clusters in turn, until one gives a pattern; an error only ends the turn.\<close>

fun mine_clusters :: "'w memory_env \<Rightarrow> int \<Rightarrow> hit list list \<Rightarrow> memory \<Rightarrow> 'w \<Rightarrow> string option \<times> memory \<times> 'w" where
  "mine_clusters E threshold [] m w = (None, m, w)"
| "mine_clusters E threshold (c # cs) m w =
     (if int (length c) < threshold then mine_clusters E threshold cs m w
      else case ask_model E (pattern_prompt c) w of
        (Inl _, w1) \<Rightarrow> mine_clusters E threshold cs m w1
      | (Inr text, w1) \<Rightarrow>
          (case save_pattern E (length c) text m w1 of
             (Inr (Some name), m1, w2) \<Rightarrow> (Some name, m1, w2)
           | (_, m1, w2) \<Rightarrow> mine_clusters E threshold cs m1 w2))"

definition mine_failure_patterns :: "'w memory_env \<Rightarrow> string \<Rightarrow> memory \<Rightarrow> 'w \<Rightarrow> string option \<times> memory \<times> 'w" where
  "mine_failure_patterns E ctxt m w =
     (case cluster_failures E (if ctxt \<noteq> [] then ctxt else ''error failure'') 30 (3/10) m w of
        (Inl _, m1, w1) \<Rightarrow> (None, m1, w1)
      | (Inr clusters, m1, w1) \<Rightarrow>
          mine_clusters E (limit (ve_config E) ''N_FAILURES_THRESHOLD'') clusters m1 w1)"

section \<open>The hooks\<close>

definition on_session_start :: "'w memory_env \<Rightarrow> string \<Rightarrow> string \<Rightarrow> memory \<Rightarrow> 'w
    \<Rightarrow> (string \<times> hit list \<times> real) result \<times> memory \<times> 'w" where
  "on_session_start E sid tsk m w =
     (case (if tsk \<noteq> [] then recall E tsk 3 m w else (Inr [], m, w)) of
        (Inl e, m1, w1) \<Rightarrow> (Inl e, m1, w1)
      | (Inr past, m1, w1) \<Rightarrow> (Inr (sid, past, ve_now E w1), m1, w1))"

definition on_failure :: "'w memory_env \<Rightarrow> string \<Rightarrow> string \<Rightarrow> string \<Rightarrow> string \<Rightarrow> string \<Rightarrow> memory \<Rightarrow> 'w
    \<Rightarrow> unit result \<times> memory \<times> 'w" where
  "on_failure E sid tid descr err approach m w = record_failure E sid tid descr err approach m w"

text \<open>The failures handed to the end hook, one after the other; the fields are texts.\<close>

fun record_failures :: "'w memory_env \<Rightarrow> (real \<Rightarrow> string) \<Rightarrow> ('w \<Rightarrow> string \<times> 'w) \<Rightarrow> string \<Rightarrow> json list
    \<Rightarrow> memory \<Rightarrow> 'w \<Rightarrow> unit result \<times> memory \<times> 'w" where
  "record_failures E fr uuid sid [] m w = (Inr (), m, w)"
| "record_failures E fr uuid sid (j # js) m w =
     (case as_dict j of
        Inl e \<Rightarrow> (Inl e, m, w)
      | Inr f \<Rightarrow>
          (case uuid w of (u, w1) \<Rightarrow>
             let txt = (\<lambda>k v. py_str fr (get_or f k (JStr v))) in
             case record_failure E sid (txt ''task_id'' u) (txt ''description'' []) (txt ''error'' [])
                    (txt ''approach'' []) m w1 of
               (Inl e, m1, w2) \<Rightarrow> (Inl e, m1, w2)
             | (Inr _, m1, w2) \<Rightarrow> record_failures E fr uuid sid js m1 w2))"

record end_report =
  er_session :: string
  er_skill :: "string option"
  er_pattern :: "string option"

definition on_session_end :: "'w memory_env \<Rightarrow> (real \<Rightarrow> string) \<Rightarrow> ('w \<Rightarrow> string \<times> 'w) \<Rightarrow> string \<Rightarrow> string
    \<Rightarrow> json list \<Rightarrow> json list \<Rightarrow> memory \<Rightarrow> 'w \<Rightarrow> end_report result \<times> memory \<times> 'w" where
  "on_session_end E fr uuid sid summary transcript failures m w =
     (case save_session E sid summary
             [(''ts'', JInt \<lfloor>ve_now E w\<rfloor>), (''type'', JStr ''session_end'')] m w of
        (Inl e, m1, w1) \<Rightarrow> (Inl e, m1, w1)
      | (Inr _, m1, w1) \<Rightarrow>
          (case record_failures E fr uuid sid failures m1 w1 of
             (Inl e, m2, w2) \<Rightarrow> (Inl e, m2, w2)
           | (Inr _, m2, w2) \<Rightarrow>
               (case extract_skills E fr transcript m2 w2 of
                  (Inl e, m3, w3) \<Rightarrow> (Inl e, m3, w3)
                | (Inr skill, m3, w3) \<Rightarrow>
                    (case (if failures \<noteq> [] then mine_failure_patterns E summary m3 w3 else (None, m3, w3)) of
                       (pat, m4, w4) \<Rightarrow>
                         (Inr \<lparr>er_session = sid, er_skill = skill, er_pattern = pat\<rparr>, m4, w4)))))"

definition report_json :: "end_report \<Rightarrow> json dict" where
  "report_json r =
     [(''session_id'', JStr (er_session r)), (''saved'', JBool True),
      (''skill_extracted'', JBool (er_skill r \<noteq> None)),
      (''skill_name'', case er_skill r of None \<Rightarrow> JNull | Some s \<Rightarrow> JStr s),
      (''antipattern_mined'', JBool (er_pattern r \<noteq> None)),
      (''antipattern_name'', case er_pattern r of None \<Rightarrow> JNull | Some s \<Rightarrow> JStr s)]"

definition record_training_example :: "'w ft_env \<Rightarrow> (real \<Rightarrow> string) \<Rightarrow> example_info \<Rightarrow> 'w \<Rightarrow> bool \<times> 'w" where
  "record_training_example E fr x w = record_success E fr x w"

section \<open>Properties\<close>

definition turn_ok :: "json \<Rightarrow> bool" where
  "turn_ok t = (case t of JObj d \<Rightarrow> (case get_or d ''role'' (JStr []) of JStr _ \<Rightarrow> True | _ \<Rightarrow> False) | _ \<Rightarrow> False)"

lemma condensed_ok: "list_all turn_ok ts \<Longrightarrow> \<exists>ls. condensed_lines fr ts = Inr ls"
proof (induction ts)
  case (Cons t ts)
  then obtain d ls where d: "t = JObj d" "condensed_lines fr ts = Inr ls"
    by (cases t) (auto simp: turn_ok_def)
  moreover have "\<exists>r. get_or d ''role'' (JStr ''unknown'') = JStr r"
    using Cons.prems d(1) by (auto simp: turn_ok_def get_or_def split: option.splits json.splits)
  ultimately show ?case by (auto simp: as_dict_def)
qed simp

lemma extract_skills_ok: "list_all turn_ok ts \<Longrightarrow> \<exists>x m' w'. extract_skills E fr ts m w = (Inr x, m', w')"
proof -
  assume "list_all turn_ok ts"
  then have "list_all turn_ok (drop (length ts - 10) ts)" by (auto simp: list_all_iff dest: in_set_dropD)
  from condensed_ok [OF this, of fr] show ?thesis
    by (auto simp: extract_skills_def split: prod.splits sum.splits)
qed

text \<open>The end of a session does not depend on the model server.  Once the summary and the failures are
  stored, the end hook returns its report whatever the server answers and whatever happens
  while skills and patterns are saved, for every transcript of turns with textual roles.\<close>

theorem end_hook_survives_model:
  assumes "save_session E sid summary [(''ts'', JInt \<lfloor>ve_now E w\<rfloor>), (''type'', JStr ''session_end'')] m w = (Inr (), m1, w1)"
    and "record_failures E fr uuid sid failures m1 w1 = (Inr (), m2, w2)" "list_all turn_ok transcript"
  shows "\<exists>skill pat m' w'. on_session_end E fr uuid sid summary transcript failures m w =
    (Inr \<lparr>er_session = sid, er_skill = skill, er_pattern = pat\<rparr>, m', w')"
proof -
  obtain x m3 w3 where x: "extract_skills E fr transcript m2 w2 = (Inr x, m3, w3)"
    using extract_skills_ok [OF assms(3), of E fr m2 w2] by blast
  obtain pat m4 w4 where "(if failures \<noteq> [] then mine_failure_patterns E summary m3 w3 else (None, m3, w3)) = (pat, m4, w4)"
    by (metis prod_cases3)
  then show ?thesis using assms(1,2) x by (simp add: on_session_end_def)
qed

lemma mem_save: "my_cols m = collection_names \<Longrightarrow>
    \<exists>m' w'. save_session mem_memory s c md m w = (Inr (), m', w') \<and> my_cols m' = collection_names"
  unfolding save_session_def by (rule mem_store) (simp_all add: collection_names_def)

theorem end_hook_survives_model_witness:
  "\<exists>r m' w'. on_session_end mem_memory (\<lambda>_. []) (\<lambda>w. (''u'', w)) ''s'' ''done'' [JObj [(''role'', JStr ''user'')]] []
     demo_memory no_docs = (Inr r, m', w')"
proof -
  have d: "my_cols demo_memory = collection_names" by (simp add: demo_memory_def)
  obtain m1 w1 where s: "save_session mem_memory ''s'' ''done'' [(''ts'', JInt \<lfloor>ve_now mem_memory no_docs\<rfloor>),
      (''type'', JStr ''session_end'')] demo_memory no_docs = (Inr (), m1, w1)"
    using mem_save [OF d] by blast
  have "list_all turn_ok [JObj [(''role'', JStr ''user'')]]" by (simp add: turn_ok_def get_or_def)
  from end_hook_survives_model [OF s _ this, of "\<lambda>_. []" "\<lambda>w. (''u'', w)" "[]" m1 w1] show ?thesis by auto
qed

end
