(* ===== verification/Command_Parser.thy ===== *)
theory Command_Parser
  imports Utils
begin

text \<open>
  \<open>orchestrator/command_parser.py\<close>: a chat message that starts with a slash is a command.
  The theorem says that each documented command is recognised in the last user message, in either
  case of its letters, with any white space before its arguments or bare.
\<close>

section \<open>Commands\<close>

definition arg_command :: "string \<Rightarrow> rx" where
  "arg_command name =
     seqs [Bos, lit_i (CHR ''/'' # name), rplus space_x, Grp 1 (rplus any_char), Eos]"

definition bare_command :: "string \<Rightarrow> rx" where
  "bare_command name = seqs [Bos, lit_i (CHR ''/'' # name), Star space_x, Eos]"

definition commands :: "(string \<times> rx \<times> bool) list" where
  "commands =
     [(''architect'', arg_command ''architect'', True), (''debate'', arg_command ''debate'', True),
      (''review'', arg_command ''review'', True), (''test'', arg_command ''test'', True),
      (''memory'', arg_command ''memory'', True), (''execute'', bare_command ''execute'', False),
      (''learn'', bare_command ''learn'', False), (''status'', bare_command ''status'', False),
      (''index'', bare_command ''index'', False)]"

record parsed_command =
  cm_name :: string
  cm_args :: string
  cm_session :: string

text \<open>The constructor: the session id is a fresh one.\<close>

definition parsed :: "string \<Rightarrow> string \<Rightarrow> string \<Rightarrow> parsed_command" where
  "parsed uuid name args = \<lparr>cm_name = name, cm_args = strip args, cm_session = uuid\<rparr>"

text \<open>\<open>_extract_text(content or "")\<close>.\<close>

definition extract_text :: "content \<Rightarrow> string" where
  "extract_text c = (case c of
     CNone \<Rightarrow> []
   | CText s \<Rightarrow> s
   | CBlocks bs \<Rightarrow> join '' '' (map (\<lambda>b. case b of BText s \<Rightarrow> s | BDict None \<Rightarrow> [] | BDict (Some t) \<Rightarrow> t) bs))"

fun match_command :: "(string \<times> rx \<times> bool) list \<Rightarrow> string \<Rightarrow> (string \<times> string) option" where
  "match_command [] content = None"
| "match_command ((name, pattern, needs_args) # cs) content =
     (case re_match pattern content of
        Some m \<Rightarrow> Some (name, if needs_args then strip (group m 1) else [])
      | None \<Rightarrow> match_command cs content)"

definition parse :: "string \<Rightarrow> message list \<Rightarrow> parsed_command option" where
  "parse uuid messages =
     (case find (\<lambda>m. msg_role m = ''user'') (rev messages) of
        None \<Rightarrow> None
      | Some m \<Rightarrow>
          let content = strip (extract_text (msg_content m)) in
          if \<not> startswith content ''/'' then None
          else case match_command commands content of
            Some (name, args) \<Rightarrow> Some (parsed uuid name args)
          | None \<Rightarrow> Some (parsed uuid ''unknown'' (hd (split_ws content))))"

definition help_text :: string where
  "help_text =
     ''**Available commands:**'' @ [nl]
     @ ''- `/architect <task>` '' @ em_dash @ '' generate an implementation plan'' @ [nl]
     @ ''- `/debate <topic>` '' @ em_dash @ '' run architect vs reviewer debate'' @ [nl]
     @ ''- `/review <text>` '' @ em_dash @ '' review code or a plan'' @ [nl]
     @ ''- `/test <task>` '' @ em_dash @ '' write tests for a task'' @ [nl]
     @ ''- `/execute` '' @ em_dash @ '' execute the current task queue'' @ [nl]
     @ ''- `/memory <query>` '' @ em_dash @ '' search past sessions'' @ [nl]
     @ ''- `/learn` '' @ em_dash @ '' extract a skill from this session'' @ [nl]
     @ ''- `/status` '' @ em_dash @ '' show system status'' @ [nl]
     @ ''- `/index` '' @ em_dash @ '' re-index the codebase'' @ [nl]"

section \<open>Matching\<close>

lemma rmatch_lit_i:
  "map lower_char u = map lower_char w \<Longrightarrow> \<exists>p'. rmatch (lit_i w) (p, u @ s, cs) = [(p', s, cs)]"
proof (induction w arbitrary: u p)
  case (Cons c w)
  then obtain x u' where u: "u = x # u'" "lower_char x = lower_char c" "map lower_char u' = map lower_char w"
    by (cases u) auto
  with Cons.IH [OF u(3), of "Some x"] show ?case by (auto simp: chr_i_def)
qed simp

lemma rmatch_lit_i_None:
  "\<not> prefix (map lower_char w) (map lower_char s) \<Longrightarrow> rmatch (lit_i w) (p, s, cs) = []"
proof (induction w arbitrary: s p)
  case (Cons c w)
  then show ?case by (cases s) (auto simp: chr_i_def)
qed simp

lemma rmatch_star_cls:
  "\<exists>p' r. rmatch (Star (Cls P)) (p, s, cs) = (p', dropWhile P s, cs) # r"
proof (induction s arbitrary: p)
  case (Cons c s)
  then obtain p' r where "rmatch (Star (Cls P)) (Some c, s, cs) = (p', dropWhile P s, cs) # r" by blast
  then show ?case by (simp add: rmatch_Star)
qed (simp add: rmatch_Star)

lemma hd_concat_map: "xs = x # xs' \<Longrightarrow> f x = y # ys \<Longrightarrow> \<exists>r. concat (map f xs) = y # r"
  by simp

lemma rmatch_Seq_hd:
  "rmatch a st = x # xs \<Longrightarrow> rmatch b x = y # ys \<Longrightarrow> \<exists>r. rmatch (Seq a b) st = y # r"
  by simp

lemma arg_command_match:
  assumes "map lower_char u = map lower_char (CHR ''/'' # name)" "sp \<noteq> []" "list_all py_space sp"
    and "args \<noteq> []" "\<not> py_space (hd args)"
  shows "\<exists>m. re_match (arg_command name) (u @ sp @ args) = Some m \<and> group m 1 = args"
proof -
  obtain p1 where l: "rmatch (lit_i (CHR ''/'' # name)) (None, u @ sp @ args, []) = [(p1, sp @ args, [])]"
    using rmatch_lit_i [OF assms(1)] by blast
  obtain c sp' where sp: "sp = c # sp'" "py_space c" using assms(2,3) by (cases sp) auto
  have dw: "dropWhile py_space (sp' @ args) = args"
    using assms(3-5) sp by (cases args) (auto simp: list_all_iff)
  obtain p2 r2 where "rmatch (Star (Cls py_space)) (Some c, sp' @ args, []) = (p2, args, []) # r2"
    using rmatch_star_cls [of py_space "Some c" "sp' @ args" "[]"] dw by auto
  then have s: "\<exists>r. rmatch (rplus space_x) (p1, sp @ args, []) = (p2, args, []) # r"
    using sp by (simp add: rplus_def space_x_def)
  obtain d args' where a: "args = d # args'" using assms(4) by (cases args) auto
  have "dropWhile (\<lambda>_. True) args' = []" by simp
  then obtain p3 r3 where "rmatch (Star (Cls (\<lambda>_. True))) (Some d, args', []) = (p3, [], []) # r3"
    using rmatch_star_cls [of "\<lambda>_. True" "Some d" args' "[]"] by auto
  then have g: "\<exists>r. rmatch (Grp 1 (rplus any_char)) (p2, args, []) = (p3, [], [(1, args)]) # r"
    using a by (simp add: rplus_def any_char_def add_cap_def)
  have e: "rmatch Eos (p3, [], [(1, args)]) = (p3, [], [(1, args)]) # []" by simp
  obtain r4 where "rmatch (Seq (Grp 1 (rplus any_char)) Eos) (p2, args, []) = (p3, [], [(1, args)]) # r4"
    using g e rmatch_Seq_hd by blast
  then obtain r5 where "rmatch (Seq (rplus space_x) (Seq (Grp 1 (rplus any_char)) Eos)) (p1, sp @ args, [])
      = (p3, [], [(1, args)]) # r5" using s rmatch_Seq_hd by blast
  then obtain r6 where "rmatch (arg_command name) (None, u @ sp @ args, []) = (p3, [], [(1, args)]) # r6"
    using l by (simp add: arg_command_def del: lit_i.simps rmatch.simps(3)) (simp del: lit_i.simps)
  then show ?thesis by (simp add: re_match_def group_def)
qed

lemma bare_command_match:
  assumes "map lower_char u = map lower_char (CHR ''/'' # name)"
  shows "re_match (bare_command name) u \<noteq> None"
proof -
  obtain p1 where "rmatch (lit_i (CHR ''/'' # name)) (None, u @ [], []) = [(p1, [], [])]"
    using rmatch_lit_i [OF assms] by blast
  then show ?thesis
    by (simp add: re_match_def bare_command_def rmatch_Star space_x_def del: lit_i.simps)
qed

lemma other_command_no_match:
  assumes "\<not> prefix (map lower_char (CHR ''/'' # name)) (map lower_char s)"
  shows "re_match (arg_command name) s = None" "re_match (bare_command name) s = None"
  using rmatch_lit_i_None [OF assms]
  by (simp_all add: re_match_def arg_command_def bare_command_def del: lit_i.simps)

text \<open>The table: every entry has the pattern of its name, and no two names start alike.\<close>

definition table_ok :: "(string \<times> rx \<times> bool) list \<Rightarrow> bool" where
  "table_ok cs \<longleftrightarrow> (\<forall>(n, r, b)\<in>set cs. r = (if b then arg_command n else bare_command n) \<and> n \<noteq> [] \<and>
     (\<forall>(n', r', b')\<in>set cs. n' = n \<and> b' = b \<or> lower_char (hd n') \<noteq> lower_char (hd n)))"

lemma table_ok_commands: "table_ok commands"
  by (simp add: table_ok_def commands_def letter_bits_def)

lemma table_ok_Cons: "table_ok (c # cs) \<Longrightarrow> table_ok cs"
  by (simp add: table_ok_def split_beta)

lemma match_command_found:
  assumes "table_ok cs" "(name, r, b) \<in> set cs" "map lower_char u = map lower_char (CHR ''/'' # name)"
    and "re_match (if b then arg_command name else bare_command name) (u @ t) = Some m"
  shows "match_command cs (u @ t) = Some (name, if b then strip (group m 1) else [])"
  using assms(1,2)
proof (induction cs)
  case (Cons c cs)
  obtain n q d where c: "c = (n, q, d)" by (metis prod_cases3)
  have q: "q = (if d then arg_command n else bare_command n)" "n \<noteq> []" "name \<noteq> []"
    using Cons.prems by (auto simp: table_ok_def c)
  show ?case
  proof (cases "n = name \<and> d = b")
    case False
    then have "(name, r, b) \<in> set cs" using Cons.prems q by (auto simp: c table_ok_def)
    moreover from False have "lower_char (hd name) \<noteq> lower_char (hd n)"
      using Cons.prems unfolding table_ok_def c by fastforce
    then have "\<not> prefix (map lower_char (CHR ''/'' # n)) (map lower_char (u @ t))"
      using assms(3) q(2,3) by (cases n; cases name) auto
    then have "re_match q (u @ t) = None" using q(1) other_command_no_match by simp
    ultimately show ?thesis using Cons.IH table_ok_Cons [OF Cons.prems(1)] by (simp add: c)
  qed (use assms(4) q(1) in \<open>cases b; simp add: c\<close>)
qed simp

lemma parse_last_user:
  assumes "msg_role m = ''user''" "strip (extract_text (msg_content m)) = c"
    and "list_all (\<lambda>n. msg_role n \<noteq> ''user'') later"
  shows "parse uuid (ms @ m # later) = (if \<not> startswith c ''/'' then None
     else case match_command commands c of
       Some (name, args) \<Rightarrow> Some (parsed uuid name args)
     | None \<Rightarrow> Some (parsed uuid ''unknown'' (hd (split_ws c))))"
proof -
  have "find P (rev xs @ y # ys) = Some y" if "list_all (\<lambda>n. \<not> P n) xs" "P y" for P xs ys and y :: message
    using that by (induction xs rule: rev_induct) auto
  then have "find (\<lambda>n. msg_role n = ''user'') (rev (ms @ m # later)) = Some m" using assms(1,3) by simp
  then show ?thesis using assms(2) by (simp add: parse_def Let_def)
qed

lemma slash_first: "map lower_char u = map lower_char (CHR ''/'' # name) \<Longrightarrow> startswith (u @ t) ''/''"
proof (cases u)
  case (Cons c u')
  assume "map lower_char u = map lower_char (CHR ''/'' # name)"
  then have "lower_char c = CHR ''/''" using Cons by (simp add: letter_bits_def)
  then have "c = CHR ''/''" by (cases c) (auto simp: letter_bits_def)
  then show ?thesis using Cons by simp
qed simp

text \<open>The commands the file documents, and whether they take arguments.\<close>

definition documented_commands :: "(string \<times> bool) list" where
  "documented_commands =
     [(''architect'', True), (''debate'', True), (''execute'', False), (''review'', True), (''test'', True),
      (''learn'', False), (''memory'', True), (''status'', False), (''index'', False)]"

lemma documented_in_table:
  "(name, b) \<in> set documented_commands \<Longrightarrow>
   (name, if b then arg_command name else bare_command name, b) \<in> set commands"
  by (auto simp: documented_commands_def commands_def)

text \<open>What follows the name of a command: white space and arguments, or nothing.\<close>

definition command_tail :: "bool \<Rightarrow> string \<Rightarrow> string \<Rightarrow> bool" where
  "command_tail b args tail \<longleftrightarrow>
     (if b then args \<noteq> [] \<and> strip args = args \<and> (\<exists>sp. sp \<noteq> [] \<and> list_all py_space sp \<and> tail = sp @ args)
      else args = [] \<and> tail = [])"

text \<open>C31: commands are recognised.  When the last user message, whatever messages of other roles follow and
  whatever came before, consists of a slash and the name of one of the nine documented commands, in either case of
  its letters, followed by white space and arguments where the command takes arguments and by nothing
  where it takes none, up to white space around the whole message, it is parsed as that
  command with exactly those arguments.  When the last user message does not start with a slash, there is no
  command.\<close>

theorem commands_recognised:
  assumes "msg_role m = ''user''" "list_all (\<lambda>n. msg_role n \<noteq> ''user'') later"
    and "(name, b) \<in> set documented_commands" "map lower_char u = map lower_char (CHR ''/'' # name)"
    and "command_tail b args tail" "strip (extract_text (msg_content m)) = c"
    and "startswith c ''/'' \<Longrightarrow> c = u @ tail"
  shows "parse uuid (ms @ m # later) =
    (if startswith c ''/'' then Some \<lparr>cm_name = name, cm_args = args, cm_session = uuid\<rparr> else None)"
proof (cases "startswith c ''/''")
  case False
  then show ?thesis by (simp add: parse_last_user [OF assms(1,6,2)])
next
  case slash: True
  then have c: "strip (extract_text (msg_content m)) = u @ tail" using assms(6,7) by simp
  have "\<exists>st. re_match (if b then arg_command name else bare_command name) (u @ tail) = Some st \<and>
      (if b then strip (group st 1) else []) = args"
  proof (cases b)
    case True
    then obtain sp where sp: "sp \<noteq> []" "list_all py_space sp" "tail = sp @ args" "args \<noteq> []" "strip args = args"
      using assms(5) by (auto simp: command_tail_def)
    then have "\<not> py_space (hd args)" using strip_hd [of args] by simp
    then show ?thesis using arg_command_match [OF assms(4) sp(1,2,4)] sp(3,5) True by auto
  next
    case False
    then show ?thesis using bare_command_match [OF assms(4)] assms(5) by (auto simp: command_tail_def)
  qed
  then have "match_command commands (u @ tail) = Some (name, args)"
    using match_command_found [OF table_ok_commands documented_in_table [OF assms(3)] assms(4)] by blast
  moreover have "strip args = args" using assms(5) by (auto simp: command_tail_def strip_def lstrip_def rstrip_def split: if_splits)
  ultimately show ?thesis
    using slash slash_first [OF assms(4), of tail] assms(7)
    by (simp add: parse_last_user [OF assms(1) c assms(2)] parsed_def)
qed

theorem commands_recognised_witness:
  "parse ''id'' [\<lparr>msg_role = ''user'', msg_content = CText '' /Test  add a case '', msg_name = None\<rparr>]
     = Some \<lparr>cm_name = ''test'', cm_args = ''add a case'', cm_session = ''id''\<rparr> \<and>
   parse ''id'' [\<lparr>msg_role = ''user'', msg_content = CText ''/STATUS '', msg_name = None\<rparr>,
       \<lparr>msg_role = ''assistant'', msg_content = CText ''ok'', msg_name = None\<rparr>]
     = Some \<lparr>cm_name = ''status'', cm_args = [], cm_session = ''id''\<rparr>"
proof -
  let ?m = "\<lparr>msg_role = ''user'', msg_content = CText '' /Test  add a case '', msg_name = None\<rparr>"
  let ?s = "\<lparr>msg_role = ''user'', msg_content = CText ''/STATUS '', msg_name = None\<rparr>"
  have "strip (extract_text (msg_content ?m)) = ''/Test'' @ ''  '' @ ''add a case''"
    "strip (extract_text (msg_content ?s)) = ''/STATUS''" "strip ''add a case'' = ''add a case''"
    "list_all py_space ''  ''" "map lower_char ''/Test'' = map lower_char (CHR ''/'' # ''test'')"
    "map lower_char ''/STATUS'' = map lower_char (CHR ''/'' # ''status'')" by code_simp+
  moreover have "command_tail True ''add a case'' (''  '' @ ''add a case'')"
    using calculation by (auto simp: command_tail_def intro!: exI [of _ "''  ''"])
  moreover have "command_tail False [] []" by (simp add: command_tail_def)
  moreover have "(''test'', True) \<in> set documented_commands" "(''status'', False) \<in> set documented_commands"
    by (simp_all add: documented_commands_def)
  ultimately show ?thesis
    using commands_recognised [of ?m "[]" "''test''" True "''/Test''" "''add a case''" "''  '' @ ''add a case''" "''/Test  add a case''" "''id''" "[]"]
      commands_recognised [of ?s "[\<lparr>msg_role = ''assistant'', msg_content = CText ''ok'', msg_name = None\<rparr>]"
        "''status''" False "''/STATUS''" "[]" "[]" "''/STATUS''" "''id''" "[]"] by simp
qed

end
