(* ===== verification/Debate.thy ===== *)
theory Debate
  imports Task_Exec Config
begin

text \<open>
  \<open>orchestrator/debate_engine.py\<close>: an architect and a reviewer take turns until the reviewer
  approves or the rounds are used up.  Running an agent is a parameter.
\<close>

type_synonym 'w spawner = "string \<Rightarrow> string \<Rightarrow> string \<Rightarrow> 'w \<Rightarrow> agent_result result \<times> 'w"
  \<comment> \<open>role, task, session\<close>

record turn =
  tn_round :: nat
  tn_role :: string
  tn_phase :: string
  tn_content :: string

record debate =
  db_plan :: string
  db_consensus :: bool
  db_rounds :: nat
  db_transcript :: "turn list"
  db_session :: string
  db_topic :: string

definition approve_signals :: "string list" where
  "approve_signals = [''approve'', ''approved'', ''lgtm'', ''looks good'', ''no further changes'']"

definition signals_approval :: "string \<Rightarrow> bool" where
  "signals_approval text = list_ex (\<lambda>sig. contains sig (lower text)) approve_signals"

definition answer_text :: "agent_result \<Rightarrow> string" where
  "answer_text r = (case res_result r of None \<Rightarrow> [] | Some s \<Rightarrow> s)"

definition blank_line :: string where "blank_line = [nl, nl]"

definition critique_prompt :: "string \<Rightarrow> string" where
  "critique_prompt plan =
     ''Review the following implementation plan critically.'' @ [nl]
     @ ''Identify any bugs, missing edge cases, security issues, ''
     @ ''or architectural problems.'' @ [nl]
     @ ''If the plan is acceptable as-is, respond with APPROVE.'' @ blank_line
     @ ''## Plan'' @ [nl] @ plan"

definition revise_prompt :: "string \<Rightarrow> string \<Rightarrow> string" where
  "revise_prompt plan critique =
     ''You previously produced this plan:'' @ blank_line @ plan @ blank_line
     @ ''The reviewer raised the following concerns:'' @ blank_line @ critique @ blank_line
     @ ''Revise your plan to address these concerns. ''
     @ ''Be specific about what changed and why.''"

text \<open>The rounds that are left, the number of the next one first.\<close>

fun debate_rounds :: "'w spawner \<Rightarrow> string \<Rightarrow> nat \<Rightarrow> nat \<Rightarrow> string \<Rightarrow> turn list \<Rightarrow> 'w
    \<Rightarrow> (string \<times> turn list \<times> bool) result \<times> 'w" where
  "debate_rounds S sid 0 rnd plan tr w = (Inr (plan, tr, False), w)"
| "debate_rounds S sid (Suc n) rnd plan tr w =
     (case S ''reviewer'' (critique_prompt plan) sid w of
        (Inl e, w1) \<Rightarrow> (Inl e, w1)
      | (Inr rv, w1) \<Rightarrow>
          let critique = answer_text rv;
              tr1 = tr @ [\<lparr>tn_round = rnd, tn_role = ''reviewer'', tn_phase = ''critique'', tn_content = critique\<rparr>]
          in if signals_approval critique then (Inr (plan, tr1, True), w1)
             else if n = 0 then debate_rounds S sid n (Suc rnd) plan tr1 w1
             else case S ''architect'' (revise_prompt plan critique) sid w1 of
               (Inl e, w2) \<Rightarrow> (Inl e, w2)
             | (Inr rr, w2) \<Rightarrow>
                 let plan1 = (if answer_text rr \<noteq> [] then answer_text rr else plan);
                     tr2 = tr1 @ [\<lparr>tn_round = rnd, tn_role = ''architect'', tn_phase = ''revision'',
                                   tn_content = plan1\<rparr>]
                 in debate_rounds S sid n (Suc rnd) plan1 tr2 w2)"

definition first_plan :: "'w spawner \<Rightarrow> string \<Rightarrow> string \<Rightarrow> string \<Rightarrow> 'w \<Rightarrow> (string \<times> turn list) result \<times> 'w" where
  "first_plan S topic sid plan w =
     (if plan \<noteq> [] then (Inr (plan, []), w)
      else case S ''architect'' (''Produce a detailed implementation plan for the following:'' @ blank_line @ topic)
             sid w of
        (Inl e, w1) \<Rightarrow> (Inl e, w1)
      | (Inr r, w1) \<Rightarrow> (Inr (answer_text r, [\<lparr>tn_round = 0, tn_role = ''architect'', tn_phase = ''initial_plan'',
                                                 tn_content = answer_text r\<rparr>]), w1))"

definition rounds_arg :: "config \<Rightarrow> int option \<Rightarrow> int" where
  "rounds_arg C m = (case m of Some n \<Rightarrow> if n \<noteq> 0 then n else limit C ''MAX_DEBATE_ROUNDS''
     | None \<Rightarrow> limit C ''MAX_DEBATE_ROUNDS'')"

definition rounds_limit :: "config \<Rightarrow> int option \<Rightarrow> nat" where
  "rounds_limit C m = nat (rounds_arg C m)"

definition run_debate :: "config \<Rightarrow> 'w spawner \<Rightarrow> string \<Rightarrow> string \<Rightarrow> string \<Rightarrow> int option \<Rightarrow> 'w
    \<Rightarrow> debate result \<times> 'w" where
  "run_debate C S topic sid initial_plan max_rounds w =
     (case first_plan S topic sid initial_plan w of
        (Inl e, w1) \<Rightarrow> (Inl e, w1)
      | (Inr (plan, tr), w1) \<Rightarrow>
          (case debate_rounds S sid (rounds_limit C max_rounds) 1 plan tr w1 of
             (Inl e, w2) \<Rightarrow> (Inl e, w2)
           | (Inr (plan1, tr1, ok), w2) \<Rightarrow>
               (Inr \<lparr>db_plan = plan1, db_consensus = ok,
                     db_rounds = length (filter (\<lambda>t. tn_role t = ''reviewer'') tr1),
                     db_transcript = tr1, db_session = sid, db_topic = topic\<rparr>, w2)))"

section \<open>Streaming\<close>

definition turn_json :: "turn \<Rightarrow> json" where
  "turn_json t = JObj [(''round'', JInt (int (tn_round t))), (''role'', JStr (tn_role t)),
     (''phase'', JStr (tn_phase t)), (''content'', JStr (tn_content t))]"

definition stream_debate :: "config \<Rightarrow> (real \<Rightarrow> string) \<Rightarrow> 'w spawner \<Rightarrow> string \<Rightarrow> string \<Rightarrow> int option \<Rightarrow> 'w
    \<Rightarrow> string list result \<times> 'w" where
  "stream_debate C fr S topic sid max_rounds w =
     (case run_debate C S topic sid [] (Some (rounds_arg C max_rounds)) w of
        (Inl e, w1) \<Rightarrow> (Inl e, w1)
      | (Inr d, w1) \<Rightarrow>
          (Inr (map (\<lambda>t. json_dumps_ascii fr (turn_json t) @ [nl]) (db_transcript d)
             @ [json_dumps_ascii fr (JObj [(''round'', JStr ''final''), (''consensus'', JBool (db_consensus d)),
                  (''rounds'', JInt (int (db_rounds d))), (''final_plan'', JStr (db_plan d))]) @ [nl]]), w1))"

section \<open>Properties\<close>

definition reviews :: "turn list \<Rightarrow> nat" where
  "reviews tr = length (filter (\<lambda>t. tn_role t = ''reviewer'') tr)"

text \<open>The plan in force after a transcript, when it was \<open>plan\<close> before.\<close>

definition plan_after :: "string \<Rightarrow> turn list \<Rightarrow> string" where
  "plan_after plan tr = (case filter (\<lambda>t. tn_role t = ''architect'') (rev tr) of [] \<Rightarrow> plan | t # _ \<Rightarrow> tn_content t)"

lemma plan_after_append:
  "plan_after plan (tr @ [t]) = (if tn_role t = ''architect'' then tn_content t else plan_after plan tr)"
  by (simp add: plan_after_def)

lemma reviews_append [simp]: "reviews (xs @ ys) = reviews xs + reviews ys"
  by (simp add: reviews_def)

definition approving :: "turn \<Rightarrow> bool" where
  "approving t \<longleftrightarrow> tn_role t = ''reviewer'' \<and> signals_approval (tn_content t)"

text \<open>What the turns of at most \<open>n\<close> rounds look like, \<open>ok\<close> telling whether there was consensus.\<close>

definition rounds_ok :: "nat \<Rightarrow> bool \<Rightarrow> turn list \<Rightarrow> bool" where
  "rounds_ok n ok new \<longleftrightarrow> length new \<le> 2 * n \<and> reviews new \<le> n \<and>
     ok = (new \<noteq> [] \<and> approving (last new)) \<and> \<not> list_ex approving (butlast new)"

lemma rounds_ok_Nil: "rounds_ok n False []"
  by (simp add: rounds_ok_def reviews_def)

lemma rounds_ok_single: "tn_role t = ''reviewer'' \<Longrightarrow> rounds_ok (Suc n) (approving t) [t]"
  by (simp add: rounds_ok_def reviews_def)

lemma rounds_ok_step:
  "rounds_ok n ok new \<Longrightarrow> tn_role t = ''reviewer'' \<Longrightarrow> \<not> approving t \<Longrightarrow> tn_role u = ''architect'' \<Longrightarrow>
     rounds_ok (Suc n) ok (t # u # new)"
  by (auto simp: rounds_ok_def reviews_def approving_def)

lemma debate_rounds_spec:
  assumes "debate_rounds S sid n rnd plan tr w = (Inr (plan', tr', ok), w')"
  shows "(plan_after p tr = plan \<longrightarrow> plan_after p tr' = plan') \<and> (\<exists>new. tr' = tr @ new \<and> rounds_ok n ok new)"
  using assms
proof (induction n arbitrary: rnd plan tr w)
  case 0
  then show ?case using rounds_ok_Nil by auto
next
  case (Suc n)
  obtain r w1 where r: "S ''reviewer'' (critique_prompt plan) sid w = (Inr r, w1)"
    using Suc.prems by (auto split: prod.splits sum.splits)
  let ?c = "answer_text r"
  let ?t = "\<lparr>tn_round = rnd, tn_role = ''reviewer'', tn_phase = ''critique'', tn_content = ?c\<rparr>"
  have t: "approving ?t = signals_approval ?c" "plan_after p (tr @ [?t]) = plan_after p tr"
    by (simp_all add: approving_def plan_after_append)
  show ?case
  proof (cases "signals_approval ?c \<or> n = 0")
    case True
    then have "plan' = plan" "tr' = tr @ [?t]" "ok = approving ?t" using Suc.prems r t(1) by (auto split: if_splits)
    then show ?thesis using t(2) rounds_ok_single [of ?t n] by auto
  next
    case False
    obtain y w2 where y: "S ''architect'' (revise_prompt plan ?c) sid w1 = (y, w2)" by fastforce
    then obtain rr where rr: "y = Inr rr" using Suc.prems r False by (cases y) (simp_all add: Let_def)
    let ?p = "if answer_text rr \<noteq> [] then answer_text rr else plan"
    let ?u = "\<lparr>tn_round = rnd, tn_role = ''architect'', tn_phase = ''revision'', tn_content = ?p\<rparr>"
    have "debate_rounds S sid n (Suc rnd) ?p ((tr @ [?t]) @ [?u]) w2 = (Inr (plan', tr', ok), w')"
      using Suc.prems r False y rr by (simp add: Let_def)
    moreover have "plan_after p ((tr @ [?t]) @ [?u]) = ?p" unfolding plan_after_append by simp
    ultimately obtain new where new: "tr' = ((tr @ [?t]) @ [?u]) @ new" "rounds_ok n ok new"
      and pl: "plan_after p tr' = plan'" using Suc.IH by blast
    have "rounds_ok (Suc n) ok (?t # ?u # new)"
      using rounds_ok_step [OF new(2), of ?t ?u] False t(1) by simp
    moreover have "tr' = tr @ (?t # ?u # new)" using new(1) by simp
    ultimately show ?thesis using pl by blast
  qed
qed

lemma run_debate_cases:
  assumes "run_debate C S topic sid init m w = (Inr d, w')"
  obtains plan tr w1 where "first_plan S topic sid init w = (Inr (plan, tr), w1)"
    "debate_rounds S sid (rounds_limit C m) 1 plan tr w1 = (Inr (db_plan d, db_transcript d, db_consensus d), w')"
    "db_rounds d = reviews (db_transcript d)" "plan_after init tr = plan" "reviews tr = 0" "length tr \<le> 1"
proof -
  obtain plan tr w1 where f: "first_plan S topic sid init w = (Inr (plan, tr), w1)"
    using assms by (auto simp: run_debate_def split: prod.splits sum.splits)
  then have "plan_after init tr = plan" "reviews tr = 0" "length tr \<le> 1"
    by (auto simp: first_plan_def plan_after_def reviews_def split: if_splits prod.splits sum.splits)
  then show thesis
    using that f assms by (auto simp: run_debate_def reviews_def split: prod.splits sum.splits)
qed

text \<open>C30: a debate is bounded and its verdict is the reviewer's.  It has at most the configured number of
  reviews and twice as many turns besides the first plan; there is consensus exactly when the
  last turn is an approving review; no earlier review approves; and the final plan is what the
  architect said last.\<close>

theorem debate_spec:
  assumes "run_debate C S topic sid init m w = (Inr d, w')"
  shows "db_rounds d \<le> rounds_limit C m \<and> length (db_transcript d) \<le> 2 * rounds_limit C m + 1 \<and>
    (db_consensus d = (db_transcript d \<noteq> [] \<and> approving (last (db_transcript d)))) \<and>
    \<not> list_ex approving (butlast (db_transcript d)) \<and>
    db_plan d = plan_after init (db_transcript d)"
proof -
  obtain plan tr w1 where r: "debate_rounds S sid (rounds_limit C m) 1 plan tr w1
        = (Inr (db_plan d, db_transcript d, db_consensus d), w')"
      "db_rounds d = reviews (db_transcript d)" "plan_after init tr = plan" "reviews tr = 0" "length tr \<le> 1"
    using run_debate_cases [OF assms] by metis
  have none: "\<not> approving t" if "t \<in> set tr" for t
    using r(4) that by (auto simp: reviews_def approving_def filter_empty_conv)
  from debate_rounds_spec [OF r(1), of init] r(3)
  have pl: "plan_after init (db_transcript d) = db_plan d"
    and "\<exists>new. db_transcript d = tr @ new \<and> rounds_ok (rounds_limit C m) (db_consensus d) new" by blast+
  then obtain new where new: "db_transcript d = tr @ new" "rounds_ok (rounds_limit C m) (db_consensus d) new" by blast
  have "\<not> list_ex approving (butlast (db_transcript d))"
    using new none by (auto simp: list_ex_iff rounds_ok_def butlast_append dest: in_set_butlastD)
  moreover have "db_consensus d = (db_transcript d \<noteq> [] \<and> approving (last (db_transcript d)))"
    using new none by (cases "new = []") (auto simp: rounds_ok_def dest: last_in_set)
  moreover have "db_rounds d \<le> rounds_limit C m"
    using r(2,4) new by (simp add: rounds_ok_def)
  moreover have "length (db_transcript d) \<le> 2 * rounds_limit C m + 1"
    using new r(5) by (simp add: rounds_ok_def)
  ultimately show ?thesis using pl by simp
qed

definition echo_agents :: "string spawner" where
  "echo_agents role tsk sid w = (Inr \<lparr>res_status = ''done'',
     res_result = Some (if role = ''reviewer'' then ''LGTM'' else ''the plan''), res_error = None\<rparr>, w @ [CHR ''*''])"

theorem debate_spec_witness:
  "\<exists>d w'. run_debate (projr (load_config (\<lambda>_. None) (Inl (OtherError [])))) echo_agents ''t'' ''s'' [] (Some 3) [] = (Inr d, w')
     \<and> db_consensus d \<and> db_plan d = plan_after [] (db_transcript d)"
proof -
  let ?C = "projr (load_config (\<lambda>_. None) (Inl (OtherError [])))"
  let ?t1 = "\<lparr>tn_round = 0, tn_role = ''architect'', tn_phase = ''initial_plan'', tn_content = ''the plan''\<rparr>"
  let ?t2 = "\<lparr>tn_round = 1, tn_role = ''reviewer'', tn_phase = ''critique'', tn_content = ''LGTM''\<rparr>"
  have sig: "signals_approval ''LGTM''" by code_simp
  have "run_debate ?C echo_agents ''t'' ''s'' [] (Some 3) [] =
      (Inr \<lparr>db_plan = ''the plan'', db_consensus = True, db_rounds = 1, db_transcript = [?t1, ?t2],
        db_session = ''s'', db_topic = ''t''\<rparr>, ''**'')"
    by (simp add: run_debate_def first_plan_def echo_agents_def rounds_limit_def rounds_arg_def answer_text_def sig
        numeral_3_eq_3 Let_def)
  from debate_spec [OF this] this show ?thesis by auto
qed

text \<open>Any answer that contains the letters of approve counts as approval, a refusal included.\<close>

lemma refusal_is_approval: "signals_approval (pre @ ''do not approve'' @ post)"
proof -
  have "lower (pre @ ''do not approve'' @ post) = (lower pre @ ''do not '') @ ''approve'' @ lower post"
    by (simp add: lower_def letter_bits_def)
  then have "contains ''approve'' (lower (pre @ ''do not approve'' @ post))"
    unfolding contains_sublist sublist_def by blast
  then show ?thesis by (simp add: signals_approval_def approve_signals_def)
qed

end
