(* ===== verification/Skill_Loader.thy ===== *)
theory Skill_Loader
  imports Utils "HOL-Library.Char_ord" "HOL-Library.List_Lexorder" "HOL-Library.Product_Lexorder"
begin

text \<open>
  \<open>orchestrator/skill_loader.py\<close>: the Markdown skills and rules that are put into the system
  prompts of agents, and the choice of skills by common words.  The directories are given as
  the files found in them, each with its text or the exception of reading it.
\<close>

record skill_file =
  sk_path :: string
  sk_stem :: string
  sk_text :: "string result"

record skill_dirs =
  sd_skills :: "skill_file list"      \<comment> \<open>\<open>SKILLS_DIR.rglob("*.md")\<close>, empty when there is no directory\<close>
  sd_rules :: "skill_file list"
  sd_commands :: "skill_file list"
  sd_agent :: "string \<Rightarrow> string result option" \<comment> \<open>the prompt file of a role, if it exists\<close>

record skill_loader =
  sl_skills :: "(string \<times> string) list"
  sl_rules :: string
  sl_loaded :: bool

definition max_skill_chars :: nat where "max_skill_chars = 2000"
definition max_rules_chars :: nat where "max_rules_chars = 3000"

definition empty_loader :: skill_loader where
  "empty_loader = \<lparr>sl_skills = [], sl_rules = [], sl_loaded = False\<rparr>"

definition hash3 :: string where "hash3 = ''### ''"

definition load :: "skill_dirs \<Rightarrow> skill_loader" where
  "load D =
     \<lparr>sl_skills = foldl (\<lambda>d f. case sk_text f of Inr t \<Rightarrow> dict_set d (sk_path f) t | Inl _ \<Rightarrow> d) [] (sd_skills D),
      sl_rules = take max_rules_chars (join [nl, nl] (concat (map (\<lambda>f. case sk_text f of
          Inr t \<Rightarrow> [hash3 @ sk_stem f @ [nl] @ t] | Inl _ \<Rightarrow> []) (sort_key sk_path (sd_rules D))))),
      sl_loaded = True\<rparr>"

definition load_agent_prompt :: "skill_dirs \<Rightarrow> string \<Rightarrow> string" where
  "load_agent_prompt D role =
     (case sd_agent D role of
        Some (Inr t) \<Rightarrow> t
      | _ \<Rightarrow> ''You are a '' @ role @ '' agent. Complete the task given to you accurately and concisely.'')"

section \<open>Choice of skills\<close>

definition word_char :: "char \<Rightarrow> bool" where
  "word_char c \<longleftrightarrow> c \<in> set ''abcdefghijklmnopqrstuvwxyz0123456789''"

definition word_re :: rx where "word_re = Grp 1 (rplus (Cls word_char))"

definition tokenize :: "string \<Rightarrow> string list" where
  "tokenize text =
     map lower (filter (\<lambda>w. length w > 3) (map (\<lambda>st. group st 1) (finditer word_re (lower text))))"

definition overlap :: "string \<Rightarrow> string \<Rightarrow> nat" where
  "overlap tsk content =
     length (filter (\<lambda>w. w \<in> set (tokenize (take 500 content))) (remdups (tokenize tsk)))"

text \<open>The scored skills, best first; equal scores are ordered by path, backwards.\<close>

definition scored_skills :: "skill_loader \<Rightarrow> string \<Rightarrow> (nat \<times> string \<times> string) list" where
  "scored_skills L tsk =
     rev (sort (filter (\<lambda>x. fst x > 0) (map (\<lambda>(path, content). (overlap tsk content, path, content)) (sl_skills L))))"

definition find_relevant_skills :: "skill_loader \<Rightarrow> string \<Rightarrow> nat \<Rightarrow> string list" where
  "find_relevant_skills L tsk k =
     (if sl_skills L = [] then []
      else map (\<lambda>(_, _, content). take max_skill_chars content) (take k (scored_skills L tsk)))"

section \<open>Prompts and lists\<close>

definition ensure_loaded :: "skill_dirs \<Rightarrow> skill_loader \<Rightarrow> skill_loader" where
  "ensure_loaded D L = (if sl_loaded L then L else load D)"

definition build_system_prompt :: "skill_dirs \<Rightarrow> skill_loader \<Rightarrow> string \<Rightarrow> string \<Rightarrow> string \<Rightarrow> string \<times> skill_loader" where
  "build_system_prompt D L0 role tsk extra =
     (let L = ensure_loaded D L0;
          skills = find_relevant_skills L tsk 3
      in (load_agent_prompt D role
          @ (if sl_rules L \<noteq> [] then [nl, nl] @ ''## Rules (always apply)'' @ [nl] @ sl_rules L else [])
          @ (if skills \<noteq> [] then [nl, nl] @ ''## Relevant Skills'' @ [nl]
                @ join ([nl, nl] @ ''---'' @ [nl, nl]) skills else [])
          @ (if extra \<noteq> [] then [nl, nl] @ ''## Additional Context'' @ [nl] @ extra else []), L))"

definition list_skills :: "skill_loader \<Rightarrow> json list" where
  "list_skills L = map (\<lambda>(p, c). JObj [(''path'', JStr p), (''chars'', JInt (int (length c))),
      (''preview'', JStr (take 100 c))]) (sl_skills L)"

definition list_commands :: "skill_dirs \<Rightarrow> string list" where
  "list_commands D = map sk_stem (sort_key sk_path (sd_commands D))"

section \<open>Properties\<close>

lemma sorted_rev_take: "sorted_wrt (\<lambda>x y. x \<ge> y) xs \<Longrightarrow> x \<in> set (take k xs) \<Longrightarrow> y \<in> set (drop k xs) \<Longrightarrow> x \<ge> y"
  by (metis append_take_drop_id sorted_wrt_append)

lemma scored_sorted: "sorted_wrt (\<lambda>x y. x \<ge> y) (scored_skills L tsk)"
  by (simp add: scored_skills_def sorted_wrt_rev)

text \<open>The skills put into a prompt are the best ones.  They are at most as many as asked for, each is
  the beginning of a loaded skill that has a word in common with the task, and no skill that
  was left out shares more words with the task than one that was taken.\<close>

theorem relevant_skills_best:
  "length (find_relevant_skills L tsk k) \<le> k \<and>
   find_relevant_skills L tsk k = map (take max_skill_chars \<circ> snd \<circ> snd) (take k (scored_skills L tsk)) \<and>
   list_all (\<lambda>(n, path, content). (path, content) \<in> set (sl_skills L) \<and> 0 < n \<and> n = overlap tsk content)
     (scored_skills L tsk) \<and>
   list_all (\<lambda>t. list_all (\<lambda>u. fst u \<le> fst t) (drop k (scored_skills L tsk))) (take k (scored_skills L tsk)) \<and>
   (overlap tsk c = 0 \<or> (p, c) \<notin> set (sl_skills L) \<or> (overlap tsk c, p, c) \<in> set (scored_skills L tsk))"
proof (intro conjI)
  show "find_relevant_skills L tsk k = map (take max_skill_chars \<circ> snd \<circ> snd) (take k (scored_skills L tsk))"
    by (simp add: find_relevant_skills_def scored_skills_def split_beta comp_def)
  then show "length (find_relevant_skills L tsk k) \<le> k" by simp
  show "list_all (\<lambda>(n, path, content). (path, content) \<in> set (sl_skills L) \<and> 0 < n \<and> n = overlap tsk content)
     (scored_skills L tsk)"
    by (auto simp: list_all_iff scored_skills_def)
  show "list_all (\<lambda>t. list_all (\<lambda>u. fst u \<le> fst t) (drop k (scored_skills L tsk))) (take k (scored_skills L tsk))"
    using sorted_rev_take [OF scored_sorted] by (fastforce simp: list_all_iff less_eq_prod_def)
  show "overlap tsk c = 0 \<or> (p, c) \<notin> set (sl_skills L) \<or> (overlap tsk c, p, c) \<in> set (scored_skills L tsk)"
    by (auto simp: scored_skills_def image_iff split_beta intro!: bexI [of _ "(p, c)"])
qed

end
