(* ===== verification/Executor.thy ===== *)
theory Executor
  imports Patch_Queue Ast_Indexer Model_Registry
begin

text \<open>
  \<open>executor/main.py\<close>: the service that runs allowed commands, applies patches and reads files
  inside the workspace.  The operating system (path resolution, files, processes, temporary
  files, \<open>git\<close>) is a parameter; the checks and the order of the effects are the program's.
  The resource limits of the child processes are in \<open>Executor_Start\<close>.
\<close>

section \<open>The environment\<close>

record proc =
  pr_stdout :: string
  pr_stderr :: string
  pr_code :: int

record 'w exec_env =
  ee_workspace :: string              \<comment> \<open>\<open>WORKSPACE_DIR\<close>, resolved\<close>
  ee_timeout :: int
  ee_allowed :: "string list"
  ee_resolve :: "string \<Rightarrow> 'w \<Rightarrow> string" \<comment> \<open>\<open>Path.resolve\<close>\<close>
  ee_exists :: "string \<Rightarrow> 'w \<Rightarrow> bool"
  ee_is_dir :: "string \<Rightarrow> 'w \<Rightarrow> bool"
  ee_is_file :: "string \<Rightarrow> 'w \<Rightarrow> bool"
  ee_size :: "string \<Rightarrow> 'w \<Rightarrow> int"
  ee_read :: "string \<Rightarrow> 'w \<Rightarrow> string result"
  ee_write :: "string \<Rightarrow> string \<Rightarrow> 'w \<Rightarrow> unit result \<times> 'w"
  ee_glob :: "string \<Rightarrow> 'w \<Rightarrow> string list"
  ee_run :: "string list \<Rightarrow> string \<Rightarrow> int \<Rightarrow> 'w \<Rightarrow> proc result \<times> 'w" \<comment> \<open>argv, cwd, timeout\<close>
  ee_mktemp :: "string \<Rightarrow> 'w \<Rightarrow> string \<times> 'w"
  ee_unlink :: "string \<Rightarrow> 'w \<Rightarrow> 'w"

text \<open>How \<open>subprocess.run\<close> reports a timeout and a missing binary.\<close>

definition timeout_expired :: exn where "timeout_expired = OtherError ''TimeoutExpired''"
definition file_not_found :: exn where "file_not_found = OtherError ''FileNotFoundError''"

definition parse_allowed :: "string \<Rightarrow> string list" where
  "parse_allowed raw = map strip (split_char (CHR '','') raw)"

section \<open>Paths\<close>

definition path_join :: "string \<Rightarrow> string \<Rightarrow> string" where
  "path_join base raw = (if next_is (CHR ''/'') raw then raw else base @ ''/'' @ raw)"

definition safe_path :: "'w exec_env \<Rightarrow> string \<Rightarrow> 'w \<Rightarrow> string result" where
  "safe_path E raw w =
     (let p = ee_resolve E (path_join (ee_workspace E) raw) w in
      if \<not> startswith p (ee_workspace E)
      then Inl (HTTPException 400 (''Path traversal rejected: '' @ py_repr raw))
      else Inr p)"

text \<open>\<open>Path.relative_to\<close>, which compares components.\<close>

definition relative_to :: "string \<Rightarrow> string \<Rightarrow> string result" where
  "relative_to base p =
     (if p = base then Inr ''.''
      else if startswith p (base @ ''/'') then Inr (drop (length base + 1) p)
      else Inl (ValueError (py_repr p @ '' is not in the subpath of '' @ py_repr base)))"

definition normalize_crlf :: "'w exec_env \<Rightarrow> string \<Rightarrow> 'w \<Rightarrow> 'w" where
  "normalize_crlf E p w =
     (case ee_read E p w of
        Inl _ \<Rightarrow> w
      | Inr raw \<Rightarrow> if contains [cr, nl] raw then snd (ee_write E p (replace [cr, nl] [nl] raw) w) else w)"

section \<open>Splitting a command line\<close>

text \<open>\<open>shlex.split\<close>: the token read so far, reversed, if one has begun.\<close>

datatype shmode = ShWord | ShSingle | ShDouble | ShEsc | ShEscDouble

definition shlex_space :: "char \<Rightarrow> bool" where
  "shlex_space c \<longleftrightarrow> c = CHR '' '' \<or> c = CHR 0x09 \<or> c = cr \<or> c = nl"

definition flush :: "string option \<Rightarrow> string list \<Rightarrow> string list" where
  "flush tok rest = (case tok of None \<Rightarrow> rest | Some t \<Rightarrow> rev t # rest)"

definition push_char :: "char \<Rightarrow> string option \<Rightarrow> string option" where
  "push_char c tok = Some (case tok of None \<Rightarrow> [c] | Some t \<Rightarrow> c # t)"

definition open_token :: "string option \<Rightarrow> string option" where
  "open_token tok = (case tok of None \<Rightarrow> Some [] | Some t \<Rightarrow> Some t)"

fun shlex :: "shmode \<Rightarrow> string option \<Rightarrow> string \<Rightarrow> string list result" where
  "shlex mode tok [] =
     (case mode of
        ShWord \<Rightarrow> Inr (flush tok [])
      | ShEsc \<Rightarrow> Inl (ValueError ''No escaped character'')
      | ShEscDouble \<Rightarrow> Inl (ValueError ''No escaped character'')
      | _ \<Rightarrow> Inl (ValueError ''No closing quotation''))"
| "shlex mode tok (c # s) =
     (case mode of
        ShWord \<Rightarrow>
          (if shlex_space c then bind_result (shlex ShWord None s) (\<lambda>ts. Inr (flush tok ts))
           else if c = CHR 0x27 then shlex ShSingle (open_token tok) s
           else if c = dquote then shlex ShDouble (open_token tok) s
           else if c = backslash then shlex ShEsc (open_token tok) s
           else shlex ShWord (push_char c tok) s)
      | ShSingle \<Rightarrow> (if c = CHR 0x27 then shlex ShWord tok s else shlex ShSingle (push_char c tok) s)
      | ShDouble \<Rightarrow>
          (if c = dquote then shlex ShWord tok s
           else if c = backslash then shlex ShEscDouble tok s
           else shlex ShDouble (push_char c tok) s)
      | ShEsc \<Rightarrow> shlex ShWord (push_char c tok) s
      | ShEscDouble \<Rightarrow>
          (if c = dquote \<or> c = backslash then shlex ShDouble (push_char c tok) s
           else shlex ShDouble (push_char c (push_char backslash tok)) s))"

definition parse_command :: "string \<Rightarrow> string list result" where
  "parse_command command = shlex ShWord None command"

definition check_allowed :: "'w exec_env \<Rightarrow> string list \<Rightarrow> unit result" where
  "check_allowed E argv =
     (case argv of
        [] \<Rightarrow> Inl (OtherError ''list index out of range'')
      | a # _ \<Rightarrow>
          if path_name a \<notin> set (ee_allowed E)
          then Inl (HTTPException 400 (''Command '' @ py_repr (path_name a) @ '' not in allowed list. ''
                 @ ''Allowed: '' @ quoted (sort (remdups (ee_allowed E)))))
          else Inr ())"

section \<open>Endpoints\<close>

definition health :: "'w exec_env \<Rightarrow> json dict" where
  "health E = [(''status'', JStr ''ok''), (''workspace'', JStr (ee_workspace E))]"

record execute_request =
  er_command :: string
  er_timeout :: "int option"
  er_cwd :: "string option"

definition execute_cwd :: "'w exec_env \<Rightarrow> string option \<Rightarrow> 'w \<Rightarrow> string result" where
  "execute_cwd E c w =
     (case c of
        Some raw \<Rightarrow>
          if raw \<noteq> [] then bind_result (safe_path E raw w) (\<lambda>p.
            if ee_is_dir E p w then Inr p else Inl (HTTPException 400 (''cwd not a directory: '' @ py_repr raw)))
          else Inr (ee_workspace E)
      | None \<Rightarrow> Inr (ee_workspace E))"

definition execute :: "'w exec_env \<Rightarrow> execute_request \<Rightarrow> 'w \<Rightarrow> json dict result \<times> 'w" where
  "execute E req w =
     (case bind_result (parse_command (er_command req)) (\<lambda>argv.
             bind_result (check_allowed E argv) (\<lambda>_.
             bind_result (execute_cwd E (er_cwd req) w) (\<lambda>cwd. Inr (argv, cwd)))) of
        Inl e \<Rightarrow> (Inl e, w)
      | Inr (argv, cwd) \<Rightarrow>
          let timeout = (case er_timeout req of Some t \<Rightarrow> t | None \<Rightarrow> ee_timeout E) in
          case ee_run E argv cwd timeout w of
            (Inr p, w1) \<Rightarrow> (Inr [(''stdout'', JStr (pr_stdout p)), (''stderr'', JStr (pr_stderr p)),
                               (''exit_code'', JInt (pr_code p))], w1)
          | (Inl e, w1) \<Rightarrow>
              (Inl (if e = timeout_expired then HTTPException 408 (''Command timed out after '' @ int_str timeout @ ''s'')
                    else if e = file_not_found then HTTPException 400 (''Binary not found: '' @ py_repr (hd argv))
                    else e), w1))"

text \<open>The checks of \<open>/apply-patch\<close>; an accepted diff gives its number of changed lines.\<close>

definition check_diff :: "string \<Rightarrow> nat result" where
  "check_diff diff =
     (let n = length (filter (\<lambda>l. (startswith l ''+'' \<or> startswith l ''-'') \<and>
                   \<not> (startswith l ''+++'' \<or> startswith l ''---'')) (splitlines diff)) in
      if int (length diff) > 2000000 then Inl (HTTPException 400 ''Diff too large (>2 MB)'')
      else if strip diff = [] then Inl (HTTPException 400 ''Empty diff'')
      else if int n > 1000
      then Inl (HTTPException 400 (''Patch too large: '' @ nat_str n @ '' changed lines (limit 1000)''))
      else if contains ''GIT binary patch'' diff \<or> contains ''Binary files'' diff
      then Inl (HTTPException 400 ''Binary patches not allowed'')
      else if re_search mode_re diff \<noteq> None
      then Inl (HTTPException 400 ''Permission-change patches not allowed'')
      else Inr n)"

definition clean_diff :: "string \<Rightarrow> string" where
  "clean_diff diff = replace [cr] [nl] (replace [cr, nl] [nl] diff)"

text \<open>The target files are normalised one after the other; a rejected path ends the request.\<close>

fun normalize_targets :: "'w exec_env \<Rightarrow> string list \<Rightarrow> 'w \<Rightarrow> unit result \<times> 'w" where
  "normalize_targets E [] w = (Inr (), w)"
| "normalize_targets E (l # ls) w =
     (if startswith l ''+++ b/'' then
        (case safe_path E (strip (drop 6 l)) w of
           Inl e \<Rightarrow> (Inl e, w)
         | Inr p \<Rightarrow> normalize_targets E ls (if ee_exists E p w then normalize_crlf E p w else w))
      else normalize_targets E ls w)"

definition git_args :: "string \<Rightarrow> string \<Rightarrow> string list" where
  "git_args target patch_path =
     (if target = ''sandbox'' then [''/usr/bin/git'', ''apply'', ''--check'', ''--whitespace=fix'', patch_path]
      else [''/usr/bin/git'', ''apply'', ''--whitespace=fix'', patch_path])"

definition patch_reply :: "string \<Rightarrow> nat \<Rightarrow> proc \<Rightarrow> json dict" where
  "patch_reply target n p =
     (if pr_code p \<noteq> 0
      then [(''applied'', JBool False), (''message'', JStr (''git apply failed:'' @ [nl] @ strip (pr_stderr p)))]
      else [(''applied'', JBool True),
            (''message'', JStr ((if target = ''sandbox'' then ''Dry-run OK'' else ''Applied'')
               @ '' ('' @ nat_str n @ '' changed lines)''))])"

definition exec_apply_patch :: "'w exec_env \<Rightarrow> string \<Rightarrow> string \<Rightarrow> 'w \<Rightarrow> json dict result \<times> 'w" where
  "exec_apply_patch E diff target w =
     (if target \<noteq> ''sandbox'' \<and> target \<noteq> ''live''
      then (Inl (HTTPException 400 (''target must be '' @ py_repr ''sandbox'' @ '' or '' @ py_repr ''live'')), w)
      else case check_diff diff of
        Inl e \<Rightarrow> (Inl e, w)
      | Inr n \<Rightarrow>
          (case ee_mktemp E (clean_diff diff) w of (tmp, w1) \<Rightarrow>
             (case normalize_targets E (splitlines (clean_diff diff)) w1 of
                (Inl e, w2) \<Rightarrow> (Inl e, w2)
              | (Inr _, w2) \<Rightarrow>
                  (case ee_run E (git_args target tmp) (ee_workspace E) 30 w2 of (r, w3) \<Rightarrow>
                     (bind_result r (\<lambda>p. Inr (patch_reply target n p)), ee_unlink E tmp w3)))))"

definition read_file :: "'w exec_env \<Rightarrow> string \<Rightarrow> 'w \<Rightarrow> json dict result" where
  "read_file E raw w =
     bind_result (safe_path E raw w) (\<lambda>p.
       if \<not> ee_exists E p w then Inl (HTTPException 404 (''File not found: '' @ py_repr raw))
       else if \<not> ee_is_file E p w then Inl (HTTPException 400 (''Not a file: '' @ py_repr raw))
       else if ee_size E p w > 10000000
       then Inl (HTTPException 413 (''File too large to read: '' @ int_str (ee_size E p w) @ '' bytes''))
       else case ee_read E p w of
         Inl e \<Rightarrow> Inl (HTTPException 500 (''Read error: '' @ exn_text e))
       | Inr content \<Rightarrow> bind_result (relative_to (ee_workspace E) p) (\<lambda>rel.
           Inr [(''path'', JStr rel), (''content'', JStr content), (''size_bytes'', JInt (ee_size E p w))]))"

definition list_files :: "'w exec_env \<Rightarrow> string \<Rightarrow> 'w \<Rightarrow> string list result" where
  "list_files E pattern w =
     (if startswith pattern ''/'' \<or> contains ''..'' pattern
      then Inl (HTTPException 400 (''Pattern must be relative and contain no '' @ py_repr ''..''))
      else Inr (sort (concat (map (\<lambda>m.
             let p = ee_resolve E m w in
             if startswith p (ee_workspace E) \<and> ee_is_file E p w
             then (case relative_to (ee_workspace E) p of Inr rel \<Rightarrow> [rel] | Inl _ \<Rightarrow> []) else [])
           (ee_glob E (path_join (ee_workspace E) pattern) w)))))"

section \<open>Properties\<close>

definition inside :: "string \<Rightarrow> string \<Rightarrow> bool" where
  "inside base p \<longleftrightarrow> p = base \<or> startswith p (base @ ''/'')"

lemma relative_to_Inr: "relative_to base p = Inr rel \<Longrightarrow> inside base p \<and> (rel = ''.'' \<or> p = base @ ''/'' @ rel)"
  by (auto simp: relative_to_def inside_def prefix_def split: if_splits)

lemma execute_cwd_ok:
  "execute_cwd E c w = Inr cwd \<Longrightarrow> startswith cwd (ee_workspace E) \<and> (cwd = ee_workspace E \<or> ee_is_dir E cwd w)"
  by (auto simp: execute_cwd_def safe_path_def Let_def split: option.splits if_splits)

text \<open>C15: only allowed commands run.  A request to execute either is refused without any effect, or runs
  exactly the given words, the name of the first being in the list of allowed commands, in a
  directory whose path starts with that of the workspace.\<close>

theorem execute_confined:
  assumes "execute E req w = (r, w')"
  shows "(w' = w \<and> (case r of Inl _ \<Rightarrow> True | Inr _ \<Rightarrow> False)) \<or>
    (\<exists>argv cwd timeout. parse_command (er_command req) = Inr argv \<and> argv \<noteq> [] \<and>
       path_name (hd argv) \<in> set (ee_allowed E) \<and> startswith cwd (ee_workspace E) \<and>
       (cwd = ee_workspace E \<or> ee_is_dir E cwd w) \<and> w' = snd (ee_run E argv cwd timeout w))"
proof (cases "bind_result (parse_command (er_command req)) (\<lambda>argv. bind_result (check_allowed E argv) (\<lambda>_.
     bind_result (execute_cwd E (er_cwd req) w) (\<lambda>cwd. Inr (argv, cwd))))")
  case (Inl e)
  then show ?thesis using assms by (auto simp: execute_def)
next
  case (Inr p)
  then obtain argv cwd where p: "parse_command (er_command req) = Inr argv" "check_allowed E argv = Inr ()"
      "execute_cwd E (er_cwd req) w = Inr cwd" "p = (argv, cwd)" by auto
  let ?t = "case er_timeout req of Some t \<Rightarrow> t | None \<Rightarrow> ee_timeout E"
  have "argv \<noteq> []" "path_name (hd argv) \<in> set (ee_allowed E)"
    using p(2) by (auto simp: check_allowed_def split: list.splits if_splits)
  moreover have "w' = snd (ee_run E argv cwd ?t w)"
    using assms Inr p(4) by (auto simp: execute_def Let_def split: prod.splits sum.splits)
  ultimately show ?thesis using p(1) execute_cwd_ok [OF p(3)] by blast
qed

text \<open>The reading endpoints stay inside the workspace, as a path and not only as a text.\<close>

definition reading :: "'w exec_env \<Rightarrow> string \<Rightarrow> 'w \<Rightarrow> json dict \<Rightarrow> bool" where
  "reading E p w d \<longleftrightarrow> inside (ee_workspace E) p \<and> ee_is_file E p w \<and> ee_size E p w \<le> 10000000 \<and>
     (\<exists>rel content. ee_read E p w = Inr content \<and> relative_to (ee_workspace E) p = Inr rel \<and>
        d = [(''path'', JStr rel), (''content'', JStr content), (''size_bytes'', JInt (ee_size E p w))])"

lemma read_file_inside:
  assumes "read_file E raw w = Inr d"
  shows "reading E (ee_resolve E (path_join (ee_workspace E) raw) w) w d"
proof -
  let ?p = "ee_resolve E (path_join (ee_workspace E) raw) w"
  have "safe_path E raw w = Inr ?p" using assms by (auto simp: read_file_def safe_path_def Let_def split: if_splits)
  with assms obtain rel content where "ee_is_file E ?p w" "ee_size E ?p w \<le> 10000000" "ee_read E ?p w = Inr content"
      "relative_to (ee_workspace E) ?p = Inr rel"
      "d = [(''path'', JStr rel), (''content'', JStr content), (''size_bytes'', JInt (ee_size E ?p w))]"
    by (auto simp: read_file_def split: if_splits sum.splits)
  then show ?thesis using relative_to_Inr by (auto simp: reading_def)
qed

text \<open>Other contents outside the workspace, where the same reads succeed and fail with the same errors.\<close>

definition differs_outside :: "'w exec_env \<Rightarrow> (string \<Rightarrow> 'w \<Rightarrow> string result) \<Rightarrow> bool" where
  "differs_outside E rd \<longleftrightarrow> (\<forall>p w. if inside (ee_workspace E) p then rd p w = ee_read E p w
     else map_sum id (\<lambda>_. ()) (rd p w) = map_sum id (\<lambda>_. ()) (ee_read E p w))"

lemma relative_to_outside: "\<not> inside base p \<Longrightarrow> \<exists>e. relative_to base p = Inl e"
  by (simp add: relative_to_def inside_def)

lemma read_file_outside:
  assumes "differs_outside E rd"
  shows "read_file (E\<lparr>ee_read := rd\<rparr>) raw w = read_file E raw w"
proof -
  have "(case rd p w of Inl e \<Rightarrow> Inl (f e) | Inr c \<Rightarrow> bind_result (relative_to (ee_workspace E) p) (g c)) =
      (case ee_read E p w of Inl e \<Rightarrow> Inl (f e) | Inr c \<Rightarrow> bind_result (relative_to (ee_workspace E) p) (g c))"
    for p f and g :: "string \<Rightarrow> string \<Rightarrow> json dict result"
  proof (cases "inside (ee_workspace E) p")
    case True
    then show ?thesis using assms by (simp add: differs_outside_def)
  next
    case False
    then have "map_sum id (\<lambda>_. ()) (rd p w) = map_sum id (\<lambda>_. ()) (ee_read E p w)"
      using assms by (simp add: differs_outside_def)
    then show ?thesis using relative_to_outside [OF False]
      by (cases "rd p w"; cases "ee_read E p w") auto
  qed
  then show ?thesis by (simp add: read_file_def safe_path_def Let_def cong: sum.case_cong)
qed

lemma list_files_matches:
  assumes "list_files E pattern w = Inr fs"
  shows "set fs = {f. \<exists>m \<in> set (ee_glob E (path_join (ee_workspace E) pattern) w).
    ee_is_file E (ee_resolve E m w) w \<and> relative_to (ee_workspace E) (ee_resolve E m w) = Inr f}"
proof -
  have pre: "relative_to ws p = Inr f \<Longrightarrow> startswith p ws" for ws p f
    by (auto simp: relative_to_def prefix_def split: if_splits)
  have m: "set (if startswith p ws \<and> b then (case relative_to ws p of Inr rel \<Rightarrow> [rel] | Inl _ \<Rightarrow> []) else []) =
      {f. b \<and> relative_to ws p = Inr f}" for ws p b
  proof (cases "relative_to ws p")
    case (Inr rel)
    then have "startswith p ws" by (rule pre)
    then show ?thesis by (cases b) (simp_all add: Inr)
  next
    case (Inl e)
    then show ?thesis by (cases "startswith p ws"; cases b) simp_all
  qed
  have "(if c then Inl e else Inr (sort xs)) = (Inr ys :: string list result) \<Longrightarrow> set ys = set xs" for c e xs ys
    by (cases c) auto
  from this [OF assms [unfolded list_files_def Let_def]] show ?thesis
    unfolding set_concat set_map image_image m by blast
qed


text \<open>
  A file of a sibling directory whose name continues that of the workspace passes the text comparison and is
  read; only naming it relative to the workspace then fails.  Its content does not come out, but
  whether and how reading it fails does.
\<close>

lemma sibling_file_is_read:
  assumes "ee_resolve E (path_join (ee_workspace E) raw) w = ee_workspace E @ rest"
    and "rest \<noteq> []" "\<not> startswith rest ''/''" "ee_exists E (ee_workspace E @ rest) w"
    and "ee_is_file E (ee_workspace E @ rest) w" "ee_size E (ee_workspace E @ rest) w \<le> 10000000"
  shows "read_file E raw w = Inl (case ee_read E (ee_workspace E @ rest) w of
      Inl e \<Rightarrow> HTTPException 500 (''Read error: '' @ exn_text e)
    | Inr _ \<Rightarrow> ValueError (py_repr (ee_workspace E @ rest) @ '' is not in the subpath of '' @ py_repr (ee_workspace E)))"
  using assms by (simp add: read_file_def safe_path_def relative_to_def Let_def split: sum.splits)

text \<open>The working directory of a command may lie outside the workspace.  A directory whose name
  continues that of the workspace passes the check, which compares texts, so an allowed
  command is run in it.\<close>

theorem sibling_directory_accepted:
  assumes "ee_resolve E (path_join (ee_workspace E) raw) w = ee_workspace E @ rest" "raw \<noteq> []"
    and "ee_is_dir E (ee_workspace E @ rest) w" "parse_command (er_command req) = Inr argv"
    and "check_allowed E argv = Inr ()" "er_cwd req = Some raw" "er_timeout req = Some t"
  shows "snd (execute E req w) = snd (ee_run E argv (ee_workspace E @ rest) t w)"
  using assms
  by (auto simp: execute_def execute_cwd_def safe_path_def Let_def split: prod.splits sum.splits)

text \<open>A small operating system: paths are resolved by a table, commands are logged.\<close>

definition demo_os :: "string list exec_env" where
  "demo_os = \<lparr>ee_workspace = ''/workspace'', ee_timeout = 120, ee_allowed = [''ls'', ''git''],
     ee_resolve = (\<lambda>p _. if p = ''/workspace/../workspace-old'' then ''/workspace-old'' else p),
     ee_exists = (\<lambda>_ _. True), ee_is_dir = (\<lambda>_ _. True), ee_is_file = (\<lambda>_ _. True), ee_size = (\<lambda>_ _. 0),
     ee_read = (\<lambda>_ _. Inr []), ee_write = (\<lambda>_ _ w. (Inr (), w)), ee_glob = (\<lambda>_ _. []),
     ee_run = (\<lambda>argv cwd _ w. (Inr \<lparr>pr_stdout = [], pr_stderr = [], pr_code = 0\<rparr>, w @ [join '' '' (cwd # argv)])),
     ee_mktemp = (\<lambda>_ w. (''/tmp/x.patch'', w @ [''mktemp''])), ee_unlink = (\<lambda>_ w. w @ [''unlink''])\<rparr>"


theorem execute_confined_witness:
  "\<exists>cwd. startswith cwd ''/workspace'' \<and>
     snd (execute demo_os \<lparr>er_command = ''ls -l'', er_timeout = None, er_cwd = None\<rparr> []) = [cwd @ '' ls -l'']"
proof -
  let ?req = "\<lparr>er_command = ''ls -l'', er_timeout = None, er_cwd = None\<rparr>"
  have p: "parse_command ''ls -l'' = Inr [''ls'', ''-l'']" by code_simp
  have ok: "check_allowed demo_os [''ls'', ''-l''] = Inr ()" by code_simp
  have e: "execute demo_os ?req [] = (Inr [(''stdout'', JStr []), (''stderr'', JStr []), (''exit_code'', JInt 0)],
      [''/workspace ls -l''])"
    by (simp add: execute_def p ok execute_cwd_def) (simp add: demo_os_def)
  from execute_confined [OF e] p obtain argv cwd t where "startswith cwd (ee_workspace demo_os)"
      "[''/workspace ls -l''] = snd (ee_run demo_os argv cwd t [])" "argv = [''ls'', ''-l'']"
    by auto
  then show ?thesis using e by (auto simp: demo_os_def)
qed

theorem sibling_directory_accepted_witness:
  "snd (execute demo_os \<lparr>er_command = ''ls'', er_timeout = Some 5, er_cwd = Some ''../workspace-old''\<rparr> [])
     = [''/workspace-old ls'']"
proof -
  have j: "ee_resolve demo_os (path_join (ee_workspace demo_os) ''../workspace-old'') [] = ee_workspace demo_os @ ''-old''"
    by (simp add: demo_os_def path_join_def)
  have p: "parse_command ''ls'' = Inr [''ls'']" by code_simp
  have ok: "check_allowed demo_os [''ls''] = Inr ()" by code_simp
  have d: "ee_is_dir demo_os (ee_workspace demo_os @ ''-old'') []" by (simp add: demo_os_def)
  from sibling_directory_accepted [OF j _ d, of "\<lparr>er_command = ''ls'', er_timeout = Some 5, er_cwd = Some ''../workspace-old''\<rparr>"]
  show ?thesis using p ok by simp (simp add: demo_os_def)
qed

text \<open>The executor accepts what the patch queue accepted, except for its size.  On a diff that passed
  the validation of the queue, the checks of the executor fail exactly when it is longer than
  two megabytes, half of what the queue allows, and otherwise count the same lines.\<close>

theorem executor_accepts_validated:
  assumes "validate_patch diff = Inr ()"
  shows "check_diff diff = (if int (length diff) > 2000000 then Inl (HTTPException 400 ''Diff too large (>2 MB)'')
    else Inr (count_diff_lines diff))"
proof -
  have n: "length (filter (\<lambda>l. (startswith l ''+'' \<or> startswith l ''-'') \<and>
      \<not> (startswith l ''+++'' \<or> startswith l ''---'')) (splitlines diff)) = count_diff_lines diff"
    by (simp add: count_diff_lines_def changed_line_def [abs_def])
  have "strip diff \<noteq> []" "\<not> int (count_diff_lines diff) > 1000" "\<not> contains ''GIT binary patch'' diff"
      "\<not> contains ''Binary files'' diff"
    using assms by (auto simp: validate_patch_def Let_def max_diff_lines_def split: if_splits)
  moreover have "re_search mode_re diff = None"
    using assms by (cases "re_search mode_re diff") (auto simp: validate_patch_def Let_def split: if_splits)
  ultimately show ?thesis unfolding check_diff_def Let_def n by simp
qed

theorem executor_accepts_validated_witness:
  "check_diff small_diff = Inr (count_diff_lines small_diff)"
proof -
  have "validate_patch small_diff = Inr ()" "int (length small_diff) \<le> 2000000" by code_simp+
  from executor_accepts_validated [OF this(1)] this(2) show ?thesis by simp
qed

text \<open>A path that is rejected while the targets are normalised leaves the temporary file behind.\<close>

lemma rejected_path_leaks_file:
  assumes "target = ''sandbox'' \<or> target = ''live''" "check_diff diff = Inr n"
    and "ee_mktemp E (clean_diff diff) w = (tmp, w1)"
    and "normalize_targets E (splitlines (clean_diff diff)) w1 = (Inl e, w2)"
  shows "exec_apply_patch E diff target w = (Inl e, w2)"
  using assms by (auto simp: exec_apply_patch_def)

end
