(* ===== verification/Executor_Client.thy ===== *)
theory Executor_Client
  imports Executor
begin

text \<open>
  \<open>orchestrator/executor_client.py\<close> and its composition with the executor: the client calls
  over HTTP, a server that answers with the endpoints of \<open>Executor\<close>, and the two together as
  the executor of the patch queue.  The semaphore only delays calls and is not modelled.
\<close>

section \<open>The client\<close>

abbreviation cf_executor_url :: "config \<Rightarrow> string" where
  "cf_executor_url C \<equiv> sc_executor_url (cf_services C)"

definition reply_dict :: "http_reply result \<Rightarrow> json dict result" where
  "reply_dict r = bind_result (reply_doc r) as_dict"

definition client_execute :: "config \<Rightarrow> 'w http \<Rightarrow> string \<Rightarrow> int option \<Rightarrow> string option \<Rightarrow> 'w
    \<Rightarrow> json dict result \<times> 'w" where
  "client_execute C H command timeout cwd w =
     (case http_post H (cf_executor_url C @ ''/execute'')
             (JObj ([(''command'', JStr command)]
                @ (case timeout of None \<Rightarrow> [] | Some t \<Rightarrow> [(''timeout'', JInt t)])
                @ (case cwd of None \<Rightarrow> [] | Some d \<Rightarrow> [(''cwd'', JStr d)]))) w of
        (r, w1) \<Rightarrow> (reply_dict r, w1))"

definition client_apply_patch :: "config \<Rightarrow> 'w http \<Rightarrow> string \<Rightarrow> string \<Rightarrow> 'w \<Rightarrow> json dict result \<times> 'w" where
  "client_apply_patch C H diff target w =
     (case http_post H (cf_executor_url C @ ''/apply-patch'')
             (JObj [(''diff'', JStr diff), (''target'', JStr target)]) w of
        (r, w1) \<Rightarrow> (reply_dict r, w1))"

definition client_read_file :: "config \<Rightarrow> 'w http \<Rightarrow> string \<Rightarrow> 'w \<Rightarrow> json dict result \<times> 'w" where
  "client_read_file C H path w =
     (case http_post H (cf_executor_url C @ ''/read-file'') (JObj [(''path'', JStr path)]) w of
        (r, w1) \<Rightarrow> (reply_dict r, w1))"

definition client_list_files :: "config \<Rightarrow> 'w http \<Rightarrow> string \<Rightarrow> 'w \<Rightarrow> json result \<times> 'w" where
  "client_list_files C H pattern w =
     (case http_post H (cf_executor_url C @ ''/list-files'') (JObj [(''pattern'', JStr pattern)]) w of
        (r, w1) \<Rightarrow> (bind_result (reply_doc r) (\<lambda>d. json_get d ''files'' (JList [])), w1))"

definition client_health :: "config \<Rightarrow> 'w http \<Rightarrow> 'w \<Rightarrow> bool \<times> 'w" where
  "client_health C H w =
     (case http_get H (cf_executor_url C @ ''/health'') w of
        (Inr r, w1) \<Rightarrow> (hr_status r = 200, w1)
      | (Inl _, w1) \<Rightarrow> (False, w1))"

text \<open>The outcome of a test run, from the answer of \<open>execute\<close>.\<close>

definition test_report :: "json dict \<Rightarrow> json dict result" where
  "test_report d =
     (case get_or d ''stdout'' (JStr []) of
        JStr out \<Rightarrow>
          let err = get_or d ''stderr'' (JStr []); code = get_or d ''exit_code'' (JInt (-1));
              ls = filter (\<lambda>l. strip l \<noteq> []) (splitlines out)
          in Inr [(''passed'', JBool (code = JInt 0)), (''exit_code'', code), (''stdout'', JStr out),
                  (''stderr'', err), (''summary'', JStr (if ls = [] then [] else last ls))]
      | j \<Rightarrow> Inl (attr_error j ''splitlines''))"

definition client_run_tests :: "config \<Rightarrow> 'w http \<Rightarrow> string \<Rightarrow> int \<Rightarrow> 'w \<Rightarrow> json dict \<times> 'w" where
  "client_run_tests C H pattern timeout w =
     (case client_execute C H (''pytest '' @ pattern @ '' -v --tb=short --no-header'') (Some timeout) None w of
        (r, w1) \<Rightarrow>
          (case bind_result r test_report of
             Inr d \<Rightarrow> (d, w1)
           | Inl e \<Rightarrow> ([(''passed'', JBool False), (''exit_code'', JInt (-1)), (''stdout'', JStr []),
                       (''stderr'', JStr []), (''summary'', JStr []), (''error'', JStr (exn_text e))], w1)))"

section \<open>The server behind the client\<close>

definition http_error :: "exn \<Rightarrow> http_reply" where
  "http_error e = (case e of
     HTTPException n m \<Rightarrow> \<lparr>hr_status = n, hr_body = json_dumps (\<lambda>_. []) (JObj [(''detail'', JStr m)])\<rparr>
   | _ \<Rightarrow> \<lparr>hr_status = 500, hr_body = ''Internal Server Error''\<rparr>)"

definition http_answer :: "json dict result \<Rightarrow> http_reply" where
  "http_answer r = (case r of Inl e \<Rightarrow> http_error e
     | Inr d \<Rightarrow> \<lparr>hr_status = 200, hr_body = json_dumps (\<lambda>_. []) (JObj d)\<rparr>)"

definition str_field :: "json \<Rightarrow> string \<Rightarrow> string \<Rightarrow> string" where
  "str_field body k v = (case body of JObj d \<Rightarrow> (case get_or d k (JStr v) of JStr s \<Rightarrow> s | _ \<Rightarrow> v) | _ \<Rightarrow> v)"

definition body_field :: "json \<Rightarrow> string \<Rightarrow> json option" where
  "body_field body k = (case body of JObj d \<Rightarrow> map_of d k | _ \<Rightarrow> None)"

text \<open>The routes of the executor; the bodies are those the client sends.\<close>

definition executor_http :: "config \<Rightarrow> 'w exec_env \<Rightarrow> 'w http" where
  "executor_http C E =
     \<lparr>http_get = (\<lambda>url w. (if url = cf_executor_url C @ ''/health'' then Inr (http_answer (Inr (health E)))
                          else Inr (http_error (HTTPException 404 ''Not Found'')), w)),
      http_post = (\<lambda>url body w.
        if url = cf_executor_url C @ ''/execute'' then
          (case execute E \<lparr>er_command = str_field body ''command'' [],
                  er_timeout = (case body_field body ''timeout'' of Some (JInt t) \<Rightarrow> Some t | _ \<Rightarrow> None),
                  er_cwd = (case body_field body ''cwd'' of Some (JStr d) \<Rightarrow> Some d | _ \<Rightarrow> None)\<rparr> w of
             (r, w1) \<Rightarrow> (Inr (http_answer r), w1))
        else if url = cf_executor_url C @ ''/apply-patch'' then
          (case exec_apply_patch E (str_field body ''diff'' []) (str_field body ''target'' ''live'') w of
             (r, w1) \<Rightarrow> (Inr (http_answer r), w1))
        else if url = cf_executor_url C @ ''/read-file'' then
          (Inr (http_answer (read_file E (str_field body ''path'' []) w)), w)
        else if url = cf_executor_url C @ ''/list-files'' then
          (Inr (http_answer (bind_result (list_files E (str_field body ''pattern'' ''**/*'') w)
                  (\<lambda>fs. Inr [(''files'', JList (map JStr fs))]))), w)
        else (Inr (http_error (HTTPException 404 ''Not Found'')), w))\<rparr>"

section \<open>The client sees what the server did\<close>

lemma reply_dict_answer:
  "plain_json (JObj d) \<Longrightarrow> reply_dict (Inr (http_answer (Inr d))) = Inr d"
  by (simp add: reply_dict_def reply_doc_def http_answer_def raise_for_status_def reply_json_def
      json_loads_dumps as_dict_def del: json_dumps.simps)

lemma reply_dict_error:
  "(case e of HTTPException n _ \<Rightarrow> 400 \<le> n | _ \<Rightarrow> True) \<Longrightarrow> \<exists>x. reply_dict (Inr (http_answer (Inl e))) = Inl x"
  by (auto simp: reply_dict_def reply_doc_def http_answer_def http_error_def raise_for_status_def split: exn.splits)

lemma plain_patch_reply: "plain_json (JObj (patch_reply target n p))"
  by (simp add: patch_reply_def)

lemma exec_apply_patch_Inr:
  assumes "exec_apply_patch E diff target w = (Inr d, w')"
  obtains n tmp w1 w2 p w3 where "check_diff diff = Inr n" "ee_mktemp E (clean_diff diff) w = (tmp, w1)"
    "normalize_targets E (splitlines (clean_diff diff)) w1 = (Inr (), w2)"
    "ee_run E (git_args target tmp) (ee_workspace E) 30 w2 = (Inr p, w3)"
    "d = patch_reply target n p" "w' = ee_unlink E tmp w3"
  using assms that by (auto simp: exec_apply_patch_def split: if_splits sum.splits prod.splits)

lemma client_apply_patch_served:
  "client_apply_patch C (executor_http C E) diff target w =
     (case exec_apply_patch E diff target w of (r, w1) \<Rightarrow> (reply_dict (Inr (http_answer r)), w1))"
  by (simp add: client_apply_patch_def executor_http_def str_field_def get_or_def split: prod.splits)

lemma client_served_Inr:
  assumes "exec_apply_patch E diff target w = (Inr d, w1)"
  shows "client_apply_patch C (executor_http C E) diff target w = (Inr d, w1)"
proof -
  obtain n p where "d = patch_reply target n p" using assms by (auto elim: exec_apply_patch_Inr)
  then show ?thesis using assms by (simp add: client_apply_patch_served reply_dict_answer [OF plain_patch_reply])
qed

text \<open>The client sees what the executor did.  Whatever \<open>/apply-patch\<close> returns arrives unchanged at the
  caller of the client, through the JSON text of the answer, and the effects are the same.\<close>

theorem client_apply_patch_faithful:
  "snd (client_apply_patch C (executor_http C E) diff target w) = snd (exec_apply_patch E diff target w) \<and>
   (case fst (exec_apply_patch E diff target w) of
      Inr d \<Rightarrow> fst (client_apply_patch C (executor_http C E) diff target w) = Inr d
    | Inl e \<Rightarrow> fst (client_apply_patch C (executor_http C E) diff target w) = reply_dict (Inr (http_error e)))"
proof (cases "exec_apply_patch E diff target w")
  case (Pair r w1)
  show ?thesis
  proof (cases r)
    case (Inl e)
    then show ?thesis using Pair by (simp add: client_apply_patch_served http_answer_def)
  next
    case (Inr d)
    then show ?thesis using client_served_Inr [of E diff target w d w1 C] Pair by simp
  qed
qed

section \<open>From the queue to git\<close>

lemma http_error_not_applied: "reply_dict (Inr (http_error e)) = Inr d \<Longrightarrow> \<not> is_applied d"
proof -
  have "json_loads (json_dumps (\<lambda>_. []) (JObj [(''detail'', JStr m)])) = Some (JObj [(''detail'', JStr m)])" for m
    by (rule json_loads_dumps) simp
  then show "reply_dict (Inr (http_error e)) = Inr d \<Longrightarrow> \<not> is_applied d"
    by (auto simp: reply_dict_def reply_doc_def http_error_def raise_for_status_def reply_json_def as_dict_def
        is_applied_def simp del: json_dumps.simps split: exn.splits if_splits)
qed

lemma client_Inr:
  assumes "client_apply_patch C (executor_http C X) diff target w = (Inr d, w')" "is_applied d"
  obtains n tmp w1 w2 p w3 where "check_diff diff = Inr n" "ee_mktemp X (clean_diff diff) w = (tmp, w1)"
    "normalize_targets X (splitlines (clean_diff diff)) w1 = (Inr (), w2)"
    "ee_run X (git_args target tmp) (ee_workspace X) 30 w2 = (Inr p, w3)" "pr_code p = 0" "w' = ee_unlink X tmp w3"
  using assms(1)
proof (cases "exec_apply_patch X diff target w")
  case (Pair r w1)
  show thesis
  proof (cases r)
    case (Inl e)
    then have "reply_dict (Inr (http_error e)) = Inr d"
      using assms(1) Pair by (simp add: client_apply_patch_served http_answer_def)
    then show thesis using http_error_not_applied assms(2) by blast
  next
    case (Inr d')
    then have d: "d' = d" "w1 = w'"
      using assms(1) Pair client_served_Inr [of X diff target w d' w1 C] by simp_all
    then obtain n tmp w1 w2 p w3 where x: "check_diff diff = Inr n" "ee_mktemp X (clean_diff diff) w = (tmp, w1)"
      "normalize_targets X (splitlines (clean_diff diff)) w1 = (Inr (), w2)"
      "ee_run X (git_args target tmp) (ee_workspace X) 30 w2 = (Inr p, w3)" "d = patch_reply target n p"
      "w' = ee_unlink X tmp w3"
      using Pair Inr exec_apply_patch_Inr d by metis
    moreover have "pr_code p = 0" using x(5) assms(2) by (auto simp: patch_reply_def is_applied_def split: if_splits)
    ultimately show thesis using that by blast
  qed
qed

text \<open>
  One call of the executor that git accepted: the diff passes the checks, a temporary file is made of exactly
  this diff, with line feeds as line ends, git is run on that file inside the workspace and ends with exit code
  zero, and the file is removed.
\<close>

definition git_accepts :: "'w exec_env \<Rightarrow> string \<Rightarrow> string \<Rightarrow> 'w \<Rightarrow> 'w \<Rightarrow> bool" where
  "git_accepts X target diff w w' \<longleftrightarrow> (\<exists>n tmp w1 w2 p w3. check_diff diff = Inr n \<and>
     ee_mktemp X (clean_diff diff) w = (tmp, w1) \<and>
     normalize_targets X (splitlines (clean_diff diff)) w1 = (Inr (), w2) \<and>
     ee_run X (git_args target tmp) (ee_workspace X) 30 w2 = (Inr p, w3) \<and> pr_code p = 0 \<and>
     w' = ee_unlink X tmp w3)"

text \<open>The diff of an enqueued patch is written as it is.\<close>

lemma replace_absent: "c \<notin> set s \<Longrightarrow> replace (c # pat) new s = s"
  by (induction "c # pat" new s rule: replace.induct) auto

lemma clean_diff_id: "cr \<notin> set diff \<Longrightarrow> clean_diff diff = diff"
  by (simp add: clean_diff_def replace_absent)

lemma applied_runs:
  assumes "map_of (fst (apply_patch E a q w)) ''action'' = Some (JStr ''applied'')"
  obtains w1 s w2 l w3 where "check_conflict E (pq_get q a) w = (False, w1)"
    "pe_apply E (pt_diff (pq_get q a)) ''sandbox'' w1 = (Inr s, w2)" "is_applied s"
    "pe_apply E (pt_diff (pq_get q a)) ''live'' w2 = (Inr l, w3)" "is_applied l"
proof -
  obtain c w1 where c: "check_conflict E (pq_get q a) w = (c, w1)" by fastforce
  obtain s w2 where s: "pe_apply E (pt_diff (pq_get q a)) ''sandbox'' w1 = (s, w2)" by fastforce
  obtain l w3 where l: "pe_apply E (pt_diff (pq_get q a)) ''live'' w2 = (l, w3)" by fastforce
  note defs = apply_patch_def settle_def with_action_def Let_def c
  have "\<not> c" using assms by (auto simp: defs split: if_splits)
  moreover obtain s' where "s = Inr s'" "is_applied s'"
    using assms \<open>\<not> c\<close> s by (cases s) (auto simp: defs split: if_splits)
  moreover obtain l' where "l = Inr l'" "is_applied l'"
    using assms \<open>\<not> c\<close> s \<open>s = Inr s'\<close> \<open>is_applied s'\<close> l by (cases l) (auto simp: defs split: if_splits)
  ultimately show thesis using that c s l by simp
qed

text \<open>C13: a patch is reported as applied only when git applied it.  With the executor behind the client as the
  executor of the patch queue, the pipeline answers that a patch was applied only when git accepted, inside the
  workspace, a temporary file made of the diff of this very patch: first as a dry run, then, from
  the world the dry run left, for real.  After that only the record in Redis is removed and
  the event is published.\<close>

theorem applied_means_git_applied:
  assumes "pe_apply E = client_apply_patch C (executor_http C X)"
    and "map_of (fst (apply_patch E a q w)) ''action'' = Some (JStr ''applied'')"
  shows "\<exists>w1 w2 w3. check_conflict E (pq_get q a) w = (False, w1) \<and>
    git_accepts X ''sandbox'' (pt_diff (pq_get q a)) w1 w2 \<and> git_accepts X ''live'' (pt_diff (pq_get q a)) w2 w3 \<and>
    (let p = (pq_get q a)\<lparr>pt_status := PApplied\<rparr> in
      snd (apply_patch E a q w) = (pq_put a p q, publish_patch_applied E p (unpersist_patch E p w3)))"
proof -
  obtain w1 s w2 l w3 where x: "check_conflict E (pq_get q a) w = (False, w1)"
    "pe_apply E (pt_diff (pq_get q a)) ''sandbox'' w1 = (Inr s, w2)" "is_applied s"
    "pe_apply E (pt_diff (pq_get q a)) ''live'' w2 = (Inr l, w3)" "is_applied l"
    using applied_runs [OF assms(2)] by blast
  have "git_accepts X ''sandbox'' (pt_diff (pq_get q a)) w1 w2" "git_accepts X ''live'' (pt_diff (pq_get q a)) w2 w3"
    using x(2-5) unfolding assms(1) git_accepts_def by (metis client_Inr)+
  moreover have "snd (apply_patch E a q w) = (pq_put a ((pq_get q a)\<lparr>pt_status := PApplied\<rparr>) q,
      publish_patch_applied E ((pq_get q a)\<lparr>pt_status := PApplied\<rparr>)
        (unpersist_patch E ((pq_get q a)\<lparr>pt_status := PApplied\<rparr>) w3))"
    using x by (simp add: apply_patch_def Let_def)
  ultimately show ?thesis using x(1) by (auto simp: Let_def)
qed

definition wired_env :: "string list patch_env" where
  "wired_env = small_env\<lparr>pe_apply := client_apply_patch (projr (load_config (\<lambda>_. None) (Inl (OtherError []))))
     (executor_http (projr (load_config (\<lambda>_. None) (Inl (OtherError [])))) demo_os)\<rparr>"

lemma wired_runs:
  "exec_apply_patch demo_os small_diff ''sandbox'' [] = (Inr [(''applied'', JBool True),
      (''message'', JStr ''Dry-run OK (2 changed lines)'')],
      [''mktemp'', ''/workspace /usr/bin/git apply --check --whitespace=fix /tmp/x.patch'', ''unlink''])"
  "exec_apply_patch demo_os small_diff ''live'' w = (Inr [(''applied'', JBool True),
      (''message'', JStr ''Applied (2 changed lines)'')],
      w @ [''mktemp'', ''/workspace /usr/bin/git apply --whitespace=fix /tmp/x.patch'', ''unlink''])"
proof -
  show "exec_apply_patch demo_os small_diff ''sandbox'' [] = (Inr [(''applied'', JBool True),
      (''message'', JStr ''Dry-run OK (2 changed lines)'')],
      [''mktemp'', ''/workspace /usr/bin/git apply --check --whitespace=fix /tmp/x.patch'', ''unlink''])"
    by code_simp
  have c: "check_diff small_diff = Inr 2" by code_simp
  have l: "splitlines (clean_diff small_diff) = [''--- a/f'', ''+++ b/f'', ''@@ -1 +1 @@'', ''-x'', ''+y'']" by code_simp
  have a: "strip ''f'' = ''f''" by code_simp
  have n: "nat_str 2 = ''2''" by code_simp
  show "exec_apply_patch demo_os small_diff ''live'' w = (Inr [(''applied'', JBool True),
      (''message'', JStr ''Applied (2 changed lines)'')],
      w @ [''mktemp'', ''/workspace /usr/bin/git apply --whitespace=fix /tmp/x.patch'', ''unlink''])"
    by (simp add: exec_apply_patch_def c l a n safe_path_def path_join_def demo_os_def normalize_crlf_def
        git_args_def patch_reply_def)
qed

lemma wired_conflict: "check_conflict wired_env (pq_get one_patch 0) [] = (False, [])"
proof -
  have "pt_hashes (pq_get one_patch 0) = [(''f'', ''x'')]" by code_simp
  then show ?thesis
    by (simp add: check_conflict_def dict_keys_def wired_env_def small_env_def jget_str_def get_or_def)
qed

theorem applied_means_git_applied_witness:
  "\<exists>w2 w3. git_accepts demo_os ''sandbox'' small_diff [] w2 \<and> git_accepts demo_os ''live'' small_diff w2 w3 \<and>
     snd (snd (apply_patch wired_env 0 one_patch [])) = w3"
proof -
  have d: "pt_diff (pq_get one_patch 0) = small_diff" by code_simp
  have e: "pe_apply wired_env = client_apply_patch (projr (load_config (\<lambda>_. None) (Inl (OtherError []))))
     (executor_http (projr (load_config (\<lambda>_. None) (Inl (OtherError [])))) demo_os)"
    by (simp add: wired_env_def)
  have "map_of (fst (apply_patch wired_env 0 one_patch [])) ''action'' = Some (JStr ''applied'')"
    by (simp add: apply_patch_def wired_conflict d e client_served_Inr [OF wired_runs(1)]
        client_served_Inr [OF wired_runs(2)] is_applied_def with_action_def Let_def)
  moreover have "publish_patch_applied wired_env p v = v" "unpersist_patch wired_env p v = v" for p v
    by (simp_all add: publish_patch_applied_def unpersist_patch_def wired_env_def small_env_def)
  ultimately show ?thesis
    using applied_means_git_applied [OF e, of 0 one_patch "[]"] unfolding d wired_conflict by (auto simp: Let_def)
qed

end
