(* ===== verification/Executor_Start.thy ===== *)
theory Executor_Start
  imports Executor
begin

text \<open>
  What \<open>executor/main.py\<close> does outside its endpoints: the start of the service, which normalises the line
  ends of the text files and makes the workspace a \<open>git\<close> repository with a commit, and the resource
  limits of a child process; and the cache of parsers in \<open>orchestrator/ast_indexer.py\<close>.  The theorems show
  what the start leaves of the line ends and that the cache never changes an answer.
\<close>

section \<open>Start of the executor\<close>

text \<open>\<open>subprocess.run\<close> without a timeout: words and directory.\<close>

type_synonym 'w spawn = "string list \<Rightarrow> string \<Rightarrow> 'w \<Rightarrow> proc result \<times> 'w"

definition text_suffixes :: "string list" where
  "text_suffixes = [''.py'', ''.js'', ''.ts'', ''.md'', ''.txt'', ''.sh'', ''.yaml'', ''.yml'', ''.json'', ''.toml'']"

definition normalize_file :: "'w exec_env \<Rightarrow> string \<Rightarrow> 'w \<Rightarrow> 'w" where
  "normalize_file E p w = (if ee_is_file E p w \<and> path_suffix p \<in> set text_suffixes then normalize_crlf E p w else w)"

definition git_binary :: string where "git_binary = ''/usr/bin/git''"

definition setup_commands :: "bool \<Rightarrow> string list list" where
  "setup_commands is_repo =
     (if is_repo then [] else [[git_binary, ''init'']])
     @ [[git_binary, ''config'', ''user.email'', ''agent@local''], [git_binary, ''config'', ''user.name'', ''Agent''],
        [git_binary, ''add'', ''-A''], [git_binary, ''commit'', ''-m'', ''chore: baseline snapshot'']]"

text \<open>A command that cannot be started ends the start of the service; its exit code is only logged.\<close>

fun run_all :: "'w spawn \<Rightarrow> string \<Rightarrow> string list list \<Rightarrow> 'w \<Rightarrow> unit result \<times> 'w" where
  "run_all spawn cwd [] w = (Inr (), w)"
| "run_all spawn cwd (c # cs) w =
     (case spawn c cwd w of (Inl e, w1) \<Rightarrow> (Inl e, w1) | (Inr _, w1) \<Rightarrow> run_all spawn cwd cs w1)"

definition lifespan :: "'w exec_env \<Rightarrow> 'w spawn \<Rightarrow> 'w \<Rightarrow> unit result \<times> 'w" where
  "lifespan E spawn w =
     (let w1 = fold (normalize_file E) (ee_glob E ''**/*'' w) w in
      run_all spawn (ee_workspace E) (setup_commands (ee_exists E (ee_workspace E @ ''/.git'') w1)) w1)"

section \<open>Limits of a child process\<close>

definition limits :: "(string \<times> int) list" where
  "limits = [(''RLIMIT_CPU'', 60), (''RLIMIT_FSIZE'', 500 * 1024 * 1024), (''RLIMIT_NOFILE'', 256)]"

text \<open>The first limit that is refused ends the function without an error.\<close>

fun set_limits :: "(string \<Rightarrow> int \<Rightarrow> 'w \<Rightarrow> unit result \<times> 'w) \<Rightarrow> (string \<times> int) list \<Rightarrow> 'w \<Rightarrow> 'w" where
  "set_limits setrlimit [] w = w"
| "set_limits setrlimit ((r, n) # rs) w =
     (case setrlimit r n w of (Inl e, w1) \<Rightarrow> w1 | (Inr _, w1) \<Rightarrow> set_limits setrlimit rs w1)"

definition apply_execution_limits :: "(string \<Rightarrow> int \<Rightarrow> 'w \<Rightarrow> unit result \<times> 'w) \<Rightarrow> 'w \<Rightarrow> 'w" where
  "apply_execution_limits setrlimit w = set_limits setrlimit limits w"

section \<open>The cache of parsers\<close>

definition lang_modules :: "string list" where
  "lang_modules = [''python'', ''javascript'', ''typescript'', ''go'', ''rust'', ''java'', ''c'', ''cpp'']"

text \<open>Loading a grammar may raise; only a parser that was made is kept.\<close>

definition get_parser :: "bool \<Rightarrow> (string \<Rightarrow> 'p result) \<Rightarrow> string \<Rightarrow> 'p dict \<Rightarrow> 'p option \<times> 'p dict" where
  "get_parser available load language cache =
     (if \<not> available then (None, cache)
      else case map_of cache language of
        Some p \<Rightarrow> (Some p, cache)
      | None \<Rightarrow>
          if language \<notin> set lang_modules then (None, cache)
          else (case load language of Inl e \<Rightarrow> (None, cache) | Inr p \<Rightarrow> (Some p, dict_set cache language p)))"

fun get_parsers :: "bool \<Rightarrow> (string \<Rightarrow> 'p result) \<Rightarrow> string list \<Rightarrow> 'p dict \<Rightarrow> 'p option list \<times> 'p dict" where
  "get_parsers available load [] cache = ([], cache)"
| "get_parsers available load (l # ls) cache =
     (case get_parser available load l cache of (p, c1) \<Rightarrow>
        case get_parsers available load ls c1 of (ps, c2) \<Rightarrow> (p # ps, c2))"

section \<open>Properties\<close>

text \<open>The cache is invisible: any sequence of requests gets what loading each grammar anew would give.\<close>

lemma parser_cache_invisible:
  assumes "\<And>l p. map_of cache l = Some p \<Longrightarrow> l \<in> set lang_modules \<and> load l = Inr p"
  shows "fst (get_parsers available load ls cache) = map (\<lambda>l. fst (get_parser available load l [])) ls"
  using assms
proof (induction ls arbitrary: cache)
  case (Cons l ls)
  obtain p c1 where g: "get_parser available load l cache = (p, c1)" by fastforce
  have c1: "l' \<in> set lang_modules \<and> load l' = Inr q" if "map_of c1 l' = Some q" for l' q
    using that g Cons.prems [of l' q]
    by (auto simp: get_parser_def split: if_splits option.splits sum.splits)
  have "p = fst (get_parser available load l [])"
    using g Cons.prems [of l] by (auto simp: get_parser_def split: if_splits option.splits sum.splits)
  moreover have "fst (get_parsers available load ls c1) = map (\<lambda>l. fst (get_parser available load l [])) ls"
    by (rule Cons.IH) (rule c1)
  ultimately show ?case by (simp add: g case_prod_beta)
qed simp

text \<open>The start touches text files only.\<close>

definition writes_only :: "'w exec_env \<Rightarrow> bool" where
  "writes_only E \<longleftrightarrow> (\<forall>p q s w. q \<noteq> p \<longrightarrow> ee_read E q (snd (ee_write E p s w)) = ee_read E q w)"

lemma normalize_touches_text_files:
  assumes "writes_only E" "path_suffix q \<notin> set text_suffixes"
  shows "ee_read E q (fold (normalize_file E) ps w) = ee_read E q w"
proof (induction ps arbitrary: w)
  case (Cons p ps)
  have "ee_read E q (normalize_file E p w) = ee_read E q w"
    using assms unfolding normalize_file_def normalize_crlf_def writes_only_def
    by (cases "q = p") (auto split: sum.split)
  then show ?case using Cons.IH by simp
qed simp

text \<open>Line ends are replaced once: a carriage return before a line end becomes a new such end.\<close>

lemma normalize_leaves_crlf: "contains [cr, nl] (replace [cr, nl] [nl] [cr, cr, nl])"
  by code_simp

text \<open>A git that cannot be started keeps the service from starting.\<close>

lemma no_git_no_start:
  "(\<And>c cwd w. spawn c cwd w = (Inl file_not_found, w)) \<Longrightarrow> fst (lifespan E spawn w) = Inl file_not_found"
  by (simp add: lifespan_def setup_commands_def Let_def)

end
