(* ===== verification/File_Watcher.thy ===== *)
theory File_Watcher
  imports Redis Ast_Indexer Py_Json
begin

text \<open>
  \<open>orchestrator/file_watcher.py\<close>: file events are queued by the observer's thread, debounced per
  path by the worker, and processed by tasks that keep a Redis hash of the file hashes.  The
  steps of these activities interleave freely, except that timers, which all have the same
  delay, fire in the order in which they were set, and tasks start in the order in which they
  were created, as the event loop does it.  The registry commands, the publisher, the hash of
  a file and the scan are parameters.
\<close>

section \<open>Paths and events\<close>

definition watch_path :: string where "watch_path = ''/workspace''"
definition registry_key :: string where "registry_key = ''filewatch:hashes''"
definition event_channel :: string where "event_channel = ''filewatch:events''"

definition skip_extensions :: "string list" where
  "skip_extensions = [''.pyc'', ''.pyo'', ''.swp'', ''.tmp'', ''.log'']"

definition skip_parts :: "string list" where
  "skip_parts = [''.git'', ''__pycache__'', ''node_modules'', ''.venv'']"

definition path_parts :: "string \<Rightarrow> string list" where
  "path_parts p = filter (\<lambda>w. w \<noteq> [] \<and> w \<noteq> ''.'') (split_char (CHR ''/'') p)"

definition should_skip :: "string \<Rightarrow> bool" where
  "should_skip p \<longleftrightarrow> lower (path_suffix p) \<in> set skip_extensions \<or> list_ex (\<lambda>w. w \<in> set skip_parts) (path_parts p)"

definition rel_path :: "string \<Rightarrow> string" where
  "rel_path p =
     (if p = watch_path then ''.''
      else if startswith p (watch_path @ ''/'') then replace [backslash] ''/'' (drop (length watch_path + 1) p)
      else p)"

record fs_event =
  fv_type :: string
  fv_path :: string

datatype raw_event = Modified string bool | Created string bool | Deleted string bool | Moved string string bool
  \<comment> \<open>paths, and whether it is a directory\<close>

definition enqueue_event :: "string \<Rightarrow> string \<Rightarrow> fs_event list" where
  "enqueue_event ty p = (if should_skip p then [] else [\<lparr>fv_type = ty, fv_path = p\<rparr>])"

fun handler_events :: "raw_event \<Rightarrow> fs_event list" where
  "handler_events (Modified p d) = (if d then [] else enqueue_event ''modified'' p)"
| "handler_events (Created p d) = (if d then [] else enqueue_event ''created'' p)"
| "handler_events (Deleted p d) = (if d then [] else enqueue_event ''deleted'' p)"
| "handler_events (Moved p p' d) = (if d then [] else enqueue_event ''deleted'' p @ enqueue_event ''created'' p')"

section \<open>State\<close>

record 'w watch_env =
  we_redis :: "'w redis"
  we_publish :: "string \<Rightarrow> json \<Rightarrow> 'w \<Rightarrow> 'w"
  we_sha256 :: "string \<Rightarrow> 'w \<Rightarrow> string option" \<comment> \<open>of the file's bytes, if it can be read\<close>
  we_scan :: "'w \<Rightarrow> (string \<times> bool) list option" \<comment> \<open>the paths under the root and whether each is a file\<close>

text \<open>A processing task that has begun: about to hash the file, or holding the hash.\<close>

datatype task_state = Hashing fs_event | Writing fs_event string

record watcher =
  fw_queue :: "fs_event list"
  fw_pending :: "(string \<times> nat) list"   \<comment> \<open>\<open>_pending_debounce\<close>: path to handle\<close>
  fw_timers :: "(nat \<times> fs_event) list"  \<comment> \<open>the handles that are set, oldest first\<close>
  fw_next :: nat
  fw_created :: "fs_event list"         \<comment> \<open>tasks created and not yet begun\<close>
  fw_tasks :: "task_state list"
  fw_running :: bool

definition start_watcher :: watcher where
  "start_watcher = \<lparr>fw_queue = [], fw_pending = [], fw_timers = [], fw_next = 0, fw_created = [],
     fw_tasks = [], fw_running = True\<rparr>"

section \<open>Scanning and publishing\<close>

definition set_hash :: "'w watch_env \<Rightarrow> string \<Rightarrow> string \<Rightarrow> 'w \<Rightarrow> 'w" where
  "set_hash E rel v = r_hset (we_redis E) registry_key rel v"

definition del_hash :: "'w watch_env \<Rightarrow> string \<Rightarrow> 'w \<Rightarrow> 'w" where
  "del_hash E rel = r_hdel (we_redis E) registry_key rel"

definition get_hash :: "'w watch_env \<Rightarrow> string \<Rightarrow> 'w \<Rightarrow> string option" where
  "get_hash E rel = r_hget (we_redis E) registry_key rel"

definition publish_event :: "'w watch_env \<Rightarrow> string \<Rightarrow> string \<Rightarrow> 'w \<Rightarrow> 'w" where
  "publish_event E ty rel = we_publish E event_channel (JObj [(''event'', JStr ty), (''path'', JStr rel)])"

definition publish_codebase_updated :: "'w watch_env option \<Rightarrow> 'w \<Rightarrow> 'w" where
  "publish_codebase_updated E w = (case E of None \<Rightarrow> w
     | Some e \<Rightarrow> we_publish e event_channel (JObj [(''event'', JStr ''codebase_updated'')]) w)"

fun scan_files :: "'w watch_env \<Rightarrow> (string \<times> bool) list \<Rightarrow> 'w \<Rightarrow> 'w" where
  "scan_files E [] w = w"
| "scan_files E ((p, is_file) # ps) w =
     scan_files E ps
       (if is_file \<and> \<not> should_skip p
        then (case we_sha256 E p w of
                Some sha \<Rightarrow> if sha \<noteq> [] then set_hash E (rel_path p) sha w else w | None \<Rightarrow> w)
        else w)"

definition full_scan :: "'w watch_env \<Rightarrow> 'w \<Rightarrow> 'w" where
  "full_scan E w = (case we_scan E w of None \<Rightarrow> w | Some ps \<Rightarrow> scan_files E ps w)"

section \<open>Steps\<close>

definition notify :: "raw_event \<Rightarrow> watcher \<Rightarrow> watcher" where
  "notify r s = s\<lparr>fw_queue := fw_queue s @ handler_events r\<rparr>"

text \<open>The worker takes an event: the pending handle of its path is cancelled, a new one is set.\<close>

definition take_event :: "fs_event \<Rightarrow> watcher \<Rightarrow> watcher" where
  "take_event e s =
     s\<lparr>fw_queue := tl (fw_queue s),
       fw_timers := filter (\<lambda>(i, _). map_of (fw_pending s) (fv_path e) \<noteq> Some i) (fw_timers s) @ [(fw_next s, e)],
       fw_pending := dict_set (dict_del (fw_pending s) (fv_path e)) (fv_path e) (fw_next s),
       fw_next := Suc (fw_next s)\<rparr>"

definition fire_timer :: "watcher \<Rightarrow> watcher" where
  "fire_timer s = s\<lparr>fw_timers := tl (fw_timers s), fw_created := fw_created s @ [snd (hd (fw_timers s))]\<rparr>"

text \<open>A task begins: it forgets the handle of its path; a deletion is processed at once.\<close>

definition begin_task :: "'w watch_env \<Rightarrow> fs_event \<Rightarrow> watcher \<Rightarrow> 'w \<Rightarrow> watcher \<times> 'w" where
  "begin_task E e s w =
     (let s1 = s\<lparr>fw_created := tl (fw_created s), fw_pending := dict_del (fw_pending s) (fv_path e)\<rparr>;
          rel = rel_path (fv_path e)
      in if fv_type e = ''deleted'' then (s1, publish_event E ''deleted'' rel (del_hash E rel w))
         else (s1\<lparr>fw_tasks := fw_tasks s1 @ [Hashing e]\<rparr>, w))"

definition drop_task :: "nat \<Rightarrow> watcher \<Rightarrow> watcher" where
  "drop_task k s = s\<lparr>fw_tasks := take k (fw_tasks s) @ drop (Suc k) (fw_tasks s)\<rparr>"

definition go_on :: "'w watch_env \<Rightarrow> nat \<Rightarrow> task_state \<Rightarrow> watcher \<Rightarrow> 'w \<Rightarrow> watcher \<times> 'w" where
  "go_on E k t s w =
     (case t of
        Hashing e \<Rightarrow>
          (case we_sha256 E (fv_path e) w of
             Some sha \<Rightarrow> if sha \<noteq> [] then (s\<lparr>fw_tasks := (fw_tasks s)[k := Writing e sha]\<rparr>, w) else (drop_task k s, w)
           | None \<Rightarrow> (drop_task k s, w))
      | Writing e sha \<Rightarrow>
          (drop_task k s, publish_event E (fv_type e) (rel_path (fv_path e)) (set_hash E (rel_path (fv_path e)) sha w)))"

definition stop_watcher :: "watcher \<Rightarrow> watcher" where
  "stop_watcher s = s\<lparr>fw_running := False,
     fw_timers := filter (\<lambda>(i, _). i \<notin> snd ` set (fw_pending s)) (fw_timers s), fw_pending := []\<rparr>"

text \<open>
  The runs: states with the events taken by the worker and those whose tasks began, in order.
  The outside world may change at any time.
\<close>

inductive watch_run :: "'w watch_env \<Rightarrow> watcher \<Rightarrow> 'w \<Rightarrow> fs_event list \<Rightarrow> fs_event list \<Rightarrow> bool"
  for E where
  run_start: "watch_run E start_watcher w [] []"
| run_notify: "watch_run E s w taken began \<Longrightarrow> watch_run E (notify r s) w taken began"
| run_take: "watch_run E s w taken began \<Longrightarrow> fw_running s \<Longrightarrow> fw_queue s = e # q
    \<Longrightarrow> watch_run E (take_event e s) w (taken @ [e]) began"
| run_fire: "watch_run E s w taken began \<Longrightarrow> fw_timers s \<noteq> [] \<Longrightarrow> watch_run E (fire_timer s) w taken began"
| run_begin: "watch_run E s w taken began \<Longrightarrow> fw_created s = e # q \<Longrightarrow> begin_task E e s w = (s', w')
    \<Longrightarrow> watch_run E s' w' taken (began @ [e])"
| run_go_on: "watch_run E s w taken began \<Longrightarrow> k < length (fw_tasks s) \<Longrightarrow> go_on E k (fw_tasks s ! k) s w = (s', w')
    \<Longrightarrow> watch_run E s' w' taken began"
| run_stop: "watch_run E s w taken began \<Longrightarrow> watch_run E (stop_watcher s) w taken began"
| run_world: "watch_run E s w taken began \<Longrightarrow> watch_run E s w' taken began"

section \<open>The last event of a path is not lost\<close>

definition last_for :: "string \<Rightarrow> fs_event list \<Rightarrow> fs_event option" where
  "last_for p es = (case filter (\<lambda>e. fv_path e = p) (rev es) of [] \<Rightarrow> None | e # _ \<Rightarrow> Some e)"

lemma last_for_snoc [simp]: "last_for p (es @ [e]) = (if fv_path e = p then Some e else last_for p es)"
  by (simp add: last_for_def)

lemma last_for_drop:
  assumes "\<And>i e. (i, e) \<in> set ts \<Longrightarrow> fv_path e = p \<Longrightarrow> Q (i, e)"
  shows "last_for p (xs @ map snd (filter Q ts)) = last_for p (xs @ map snd ts)"
proof -
  have "filter (\<lambda>e. fv_path e = p) (map snd (filter Q ts)) = filter (\<lambda>e. fv_path e = p) (map snd ts)"
    using assms by (induction ts) auto
  then show ?thesis by (simp add: last_for_def rev_filter [symmetric] rev_map [symmetric])
qed

text \<open>A pending handle belongs to its path, and handles are younger than \<open>fw_next\<close>.\<close>

definition handles_ok :: "watcher \<Rightarrow> bool" where
  "handles_ok s \<longleftrightarrow> (\<forall>(i, e)\<in>set (fw_timers s). i < fw_next s \<and> (\<forall>p. map_of (fw_pending s) p = Some i \<longrightarrow> p = fv_path e)) \<and>
     (\<forall>p i. map_of (fw_pending s) p = Some i \<longrightarrow> i < fw_next s)"

definition in_flight :: "watcher \<Rightarrow> fs_event list" where
  "in_flight s = fw_created s @ map snd (fw_timers s)"

lemma handles_take:
  assumes "handles_ok s"
  shows "handles_ok (take_event e s)"
  using assms unfolding handles_ok_def take_event_def
  by (fastforce split: if_splits)

lemma take_in_flight:
  assumes "handles_ok s" "p \<noteq> fv_path e"
  shows "last_for p (began @ in_flight (take_event e s)) = last_for p (began @ in_flight s)"
proof -
  have "last_for p ((began @ fw_created s) @ map snd (filter (\<lambda>(i, _). map_of (fw_pending s) (fv_path e) \<noteq> Some i) (fw_timers s)))
      = last_for p ((began @ fw_created s) @ map snd (fw_timers s))"
    using assms by (intro last_for_drop) (auto simp: handles_ok_def)
  then show ?thesis
    using assms(2) last_for_snoc [of p "began @ fw_created s @ map snd (filter (\<lambda>(i, _). map_of (fw_pending s) (fv_path e) \<noteq> Some i) (fw_timers s))" e]
    by (simp add: in_flight_def take_event_def)
qed

lemma take_in_flight_same: "last_for (fv_path e) (began @ in_flight (take_event e s)) = Some e"
  using last_for_snoc [of "fv_path e" "began @ fw_created s @ map snd (filter (\<lambda>(i, _). map_of (fw_pending s) (fv_path e) \<noteq> Some i) (fw_timers s))" e]
  by (simp add: in_flight_def take_event_def)

lemma handles_fewer:
  assumes "handles_ok s" "fw_timers s' = fw_timers s" "fw_next s' = fw_next s"
    and "\<And>p i. map_of (fw_pending s') p = Some i \<Longrightarrow> map_of (fw_pending s) p = Some i"
  shows "handles_ok s'"
  using assms(1) unfolding handles_ok_def assms(2,3) by (blast dest: assms(4))

lemma watch_run_inv:
  "watch_run E s w taken began \<Longrightarrow>
   handles_ok s \<and> (fw_running s \<longrightarrow> (\<forall>p. last_for p (began @ in_flight s) = last_for p taken))"
proof (induction rule: watch_run.induct)
  case (run_start w)
  then show ?case by (simp add: handles_ok_def start_watcher_def in_flight_def)
next
  case (run_notify s w taken began r)
  then show ?case by (simp add: handles_ok_def notify_def in_flight_def)
next
  case (run_take s w taken began e q)
  then show ?case using handles_take take_in_flight take_in_flight_same by simp
next
  case (run_fire s w taken began)
  then show ?case by (cases "fw_timers s") (auto simp: handles_ok_def fire_timer_def in_flight_def)
next
  case (run_begin s w taken began e q s' w')
  have "handles_ok s'"
    using run_begin by (intro handles_fewer [of s s']) (auto simp: begin_task_def Let_def split: if_splits)
  moreover have "began @ in_flight s = (began @ [e]) @ in_flight s'"
    using run_begin by (auto simp: begin_task_def Let_def in_flight_def split: if_splits)
  moreover have "fw_running s' = fw_running s" using run_begin(3) by (auto simp: begin_task_def Let_def split: if_splits)
  ultimately show ?case using run_begin.IH by simp
next
  case (run_go_on s w taken began k s' w')
  then have "fw_timers s' = fw_timers s \<and> fw_pending s' = fw_pending s \<and> fw_next s' = fw_next s \<and> fw_created s' = fw_created s \<and>
      fw_running s' = fw_running s"
    by (auto simp: go_on_def drop_task_def split: task_state.splits option.splits if_splits)
  then show ?case using run_go_on.IH by (simp add: handles_ok_def in_flight_def)
next
  case (run_stop s w taken began)
  then show ?case by (auto simp: handles_ok_def stop_watcher_def)
qed simp

text \<open>C17: debouncing loses no final state.  However notifications, the worker, timers, tasks and changes of the
  outside world interleave, as long as the watcher has not been stopped, once no timer is set and no task waits to
  begin, the last event of every path that the worker took is also the last one of that path
  whose processing began.  Stopping the watcher cancels the pending timers, so their events are lost.\<close>

theorem debounce_keeps_last:
  assumes "watch_run E s w taken began" "fw_running s" "fw_timers s = []" "fw_created s = []"
  shows "last_for p began = last_for p taken"
  using watch_run_inv [OF assms(1)] assms(2-4) by (simp add: in_flight_def)

section \<open>A run in which a deleted file stays in the registry\<close>

definition demo_watch :: "mem watch_env" where
  "demo_watch = \<lparr>we_redis = mem_redis, we_publish = (\<lambda>_ _ w. w), we_sha256 = (\<lambda>_ _. Some ''h''), we_scan = (\<lambda>_. None)\<rparr>"

abbreviation changed_a :: fs_event where "changed_a \<equiv> \<lparr>fv_type = ''modified'', fv_path = ''/workspace/a''\<rparr>"
abbreviation deleted_a :: fs_event where "deleted_a \<equiv> \<lparr>fv_type = ''deleted'', fv_path = ''/workspace/a''\<rparr>"

text \<open>Schedules, to build runs by evaluation.\<close>

datatype watch_act = ANotify raw_event | ATake | AFire | ABegin | AGoOn nat

fun watch_exec :: "'w watch_env \<Rightarrow> watch_act list \<Rightarrow> watcher \<times> 'w \<times> fs_event list \<times> fs_event list
    \<Rightarrow> (watcher \<times> 'w \<times> fs_event list \<times> fs_event list) option" where
  "watch_exec E [] c = Some c"
| "watch_exec E (a # acts) (s, w, taken, began) =
     (case a of
        ANotify r \<Rightarrow> watch_exec E acts (notify r s, w, taken, began)
      | ATake \<Rightarrow>
          (case fw_queue s of
             e # _ \<Rightarrow> if fw_running s then watch_exec E acts (take_event e s, w, taken @ [e], began) else None
           | [] \<Rightarrow> None)
      | AFire \<Rightarrow> if fw_timers s \<noteq> [] then watch_exec E acts (fire_timer s, w, taken, began) else None
      | ABegin \<Rightarrow>
          (case fw_created s of
             e # _ \<Rightarrow> (case begin_task E e s w of (s', w') \<Rightarrow> watch_exec E acts (s', w', taken, began @ [e]))
           | [] \<Rightarrow> None)
      | AGoOn k \<Rightarrow>
          if k < length (fw_tasks s)
          then (case go_on E k (fw_tasks s ! k) s w of (s', w') \<Rightarrow> watch_exec E acts (s', w', taken, began))
          else None)"

lemma watch_exec_run:
  "watch_run E s w taken began \<Longrightarrow> watch_exec E acts (s, w, taken, began) = Some (s', w', taken', began')
     \<Longrightarrow> watch_run E s' w' taken' began'"
proof (induction acts arbitrary: s w taken began)
  case (Cons a acts)
  note run = Cons.prems(1) and ih = Cons.IH
  show ?case
  proof (cases a)
    case (ANotify r)
    then show ?thesis using ih [OF run_notify [OF run, of r]] Cons.prems(2) by simp
  next
    case ATake
    then show ?thesis using ih [OF run_take [OF run]] Cons.prems(2) by (auto split: list.splits if_splits)
  next
    case AFire
    then show ?thesis using ih [OF run_fire [OF run]] Cons.prems(2) by (auto split: if_splits)
  next
    case ABegin
    then show ?thesis using ih [OF run_begin [OF run]] Cons.prems(2) by (auto split: list.splits prod.splits)
  next
    case (AGoOn k)
    then show ?thesis using ih [OF run_go_on [OF run]] Cons.prems(2) by (auto split: if_splits prod.splits)
  qed
qed simp

definition late_hash_schedule :: "watch_act list" where
  "late_hash_schedule =
     [ANotify (Modified ''/workspace/a'' False), ATake, AFire, ABegin, AGoOn 0,
      ANotify (Deleted ''/workspace/a'' False), ATake, AFire, ABegin, AGoOn 0]"

text \<open>A deleted file can stay in the registry.  When the hash of a changed file is written only after the
  deletion of the file was processed, the run ends with nothing left to do, the deletion the
  last event that was processed, and the hash in the registry.\<close>

theorem late_hash_stays:
  "\<exists>s w. watch_run demo_watch s w [changed_a, deleted_a] [changed_a, deleted_a] \<and> fw_queue s = [] \<and>
     fw_timers s = [] \<and> fw_created s = [] \<and> fw_tasks s = [] \<and> get_hash demo_watch ''a'' w = Some ''h''"
proof -
  have x: "watch_exec demo_watch late_hash_schedule (start_watcher, [], [], []) =
      Some (start_watcher\<lparr>fw_next := 2\<rparr>, [(registry_key, RHash [(''a'', ''h'')], None)],
        [changed_a, deleted_a], [changed_a, deleted_a])"
    by code_simp
  have "get_hash demo_watch ''a'' [(registry_key, RHash [(''a'', ''h'')], None)] = Some ''h''" by code_simp
  then show ?thesis
    using watch_exec_run [OF run_start x] by (intro exI conjI) (auto simp: start_watcher_def)
qed

theorem debounce_keeps_last_witness:
  "last_for ''/workspace/a'' [changed_a, deleted_a] = Some deleted_a \<and>
   last_for ''/workspace/a'' [changed_a, deleted_a] = last_for ''/workspace/a'' [changed_a, deleted_a]"
proof -
  have x: "watch_exec demo_watch late_hash_schedule (start_watcher, [], [], []) =
      Some (start_watcher\<lparr>fw_next := 2\<rparr>, [(registry_key, RHash [(''a'', ''h'')], None)],
        [changed_a, deleted_a], [changed_a, deleted_a])"
    by code_simp
  have "last_for ''/workspace/a'' [changed_a, deleted_a] = Some deleted_a" by code_simp
  then show ?thesis
    using debounce_keeps_last [OF watch_exec_run [OF run_start x]] by (simp add: start_watcher_def)
qed

end
