(* ===== verification/Webhook.thy ===== *)
theory Webhook
  imports Patch_Queue Agent_Manager Model_Registry Task_Plan
begin

text \<open>
  \<open>orchestrator/webhook_handler.py\<close>: the signature of a GitHub webhook, the logs of failed jobs,
  and the handlers of the two events, on the models of the agent manager, the patch queue and
  the task queue.  GitHub and the HMAC are parameters; a request is its raw body with the two
  headers that are read.
\<close>

section \<open>Signatures\<close>

definition ascii :: "string \<Rightarrow> bool" where
  "ascii s \<longleftrightarrow> list_all (\<lambda>c. (of_char c :: nat) < 128) s"

text \<open>\<open>hmac.compare_digest\<close> on two texts.\<close>

definition compare_digest :: "string \<Rightarrow> string \<Rightarrow> bool result" where
  "compare_digest a b =
     (if ascii a \<and> ascii b then Inr (a = b)
      else Inl (TypeError ''comparing strings with non-ASCII characters is not supported''))"

definition verify_signature :: "config \<Rightarrow> (string \<Rightarrow> string \<Rightarrow> string) \<Rightarrow> string \<Rightarrow> string \<Rightarrow> unit result" where
  "verify_signature C hmac body header =
     (let secret = sc_webhook_secret (cf_services C) in
      if secret = []
      then Inl (WebhookSignatureError (''GITHUB_WEBHOOK_SECRET not configured '' @ em_dash
             @ '' rejecting all webhook requests''))
      else if header = [] \<or> \<not> startswith header ''sha256=''
      then Inl (WebhookSignatureError ''Missing or malformed X-Hub-Signature-256 header'')
      else bind_result (compare_digest (''sha256='' @ hmac secret body) header) (\<lambda>same.
        if same then Inr ()
        else Inl (WebhookSignatureError (''Signature mismatch '' @ em_dash @ '' request rejected''))))"

section \<open>GitHub\<close>

record 'w hook_env =
  he_config :: config
  he_hmac :: "string \<Rightarrow> string \<Rightarrow> string" \<comment> \<open>the hex digest, from secret and body\<close>
  he_github :: "string \<Rightarrow> string option \<Rightarrow> 'w \<Rightarrow> http_reply result \<times> 'w" \<comment> \<open>GET: path, bearer token\<close>
  he_redirected :: "string \<Rightarrow> string option \<Rightarrow> 'w \<Rightarrow> http_reply result \<times> 'w" \<comment> \<open>the same, following redirects\<close>
  he_decode :: "string \<Rightarrow> string option" \<comment> \<open>the text of a body in UTF-8\<close>
  he_fr :: "real \<Rightarrow> string"
  he_agents :: "'w agent_env"
  he_patches :: "'w patch_env"
  he_redis :: "'w redis"

definition bearer :: "config \<Rightarrow> string option" where
  "bearer C = (let token = sc_github_token (cf_services C) in if token \<noteq> [] then Some token else None)"

definition gh_get :: "'w hook_env \<Rightarrow> string \<Rightarrow> 'w \<Rightarrow> json result \<times> 'w" where
  "gh_get E path w = (case he_github E path (bearer (he_config E)) w of (r, w1) \<Rightarrow> (reply_doc r, w1))"

fun failed_jobs :: "json list \<Rightarrow> json list result" where
  "failed_jobs [] = Inr []"
| "failed_jobs (j # js) =
     bind_result (json_get j ''conclusion'' JNull) (\<lambda>c. bind_result (failed_jobs js) (\<lambda>rest.
       Inr (if c = JStr ''failure'' then j # rest else rest)))"

definition two_newlines :: string where "two_newlines = [nl, nl]"

text \<open>The log of one job; a failure to fetch it is part of the text.\<close>

definition job_log :: "'w hook_env \<Rightarrow> string \<Rightarrow> json \<Rightarrow> 'w \<Rightarrow> string result \<times> 'w" where
  "job_log E repo job w =
     (case bind_result (as_dict job) (\<lambda>d. case map_of d ''id'' of
             None \<Rightarrow> Inl (KeyError ''id'')
           | Some i \<Rightarrow> Inr (py_str (he_fr E) i, py_str (he_fr E) (get_or d ''name'' (JStr (py_str (he_fr E) i))))) of
        Inl e \<Rightarrow> (Inl e, w)
      | Inr (job_id, job_name) \<Rightarrow>
          (case he_redirected E (''/repos/'' @ repo @ ''/actions/jobs/'' @ job_id @ ''/logs'')
                  (bearer (he_config E)) w of
             (Inr resp, w1) \<Rightarrow> (Inr (''### Job: '' @ job_name @ [nl] @ take 4000 (hr_body resp)), w1)
           | (Inl e, w1) \<Rightarrow>
               (Inr (''### Job: '' @ job_name @ [nl] @ ''(log fetch failed: '' @ exc_str e @ '')''), w1)))"

fun job_logs :: "'w hook_env \<Rightarrow> string \<Rightarrow> json list \<Rightarrow> 'w \<Rightarrow> string list result \<times> 'w" where
  "job_logs E repo [] w = (Inr [], w)"
| "job_logs E repo (j # js) w =
     (case job_log E repo j w of
        (Inl e, w1) \<Rightarrow> (Inl e, w1)
      | (Inr part, w1) \<Rightarrow> (case job_logs E repo js w1 of (r, w2) \<Rightarrow> (bind_result r (\<lambda>ps. Inr (part # ps)), w2)))"

definition fetch_logs :: "'w hook_env \<Rightarrow> string \<Rightarrow> string \<Rightarrow> 'w \<Rightarrow> string result \<times> 'w" where
  "fetch_logs E repo run_id w =
     (case gh_get E (''/repos/'' @ repo @ ''/actions/runs/'' @ run_id @ ''/jobs'') w of
        (r, w1) \<Rightarrow>
          (case bind_result r (\<lambda>doc. bind_result (json_get doc ''jobs'' (JList [])) (\<lambda>js.
                  bind_result (iter_json js) failed_jobs)) of
             Inl e \<Rightarrow> (Inl e, w1)
           | Inr [] \<Rightarrow> (Inr ''No failed jobs found in this workflow run.'', w1)
           | Inr jobs \<Rightarrow> (case job_logs E repo (take 2 jobs) w1 of
               (ps, w2) \<Rightarrow> (bind_result ps (\<lambda>ps. Inr (join two_newlines ps)), w2))))"

definition fetch_failed_job_logs :: "'w hook_env \<Rightarrow> string \<Rightarrow> 'w \<Rightarrow> string \<times> 'w" where
  "fetch_failed_job_logs E run_id w =
     (let repo = sc_github_repo (cf_services (he_config E)) in
      if repo = [] then (''No GITHUB_REPO configured '' @ em_dash @ '' log fetch skipped.'', w)
      else case fetch_logs E repo run_id w of
        (Inr s, w1) \<Rightarrow> (s, w1)
      | (Inl e, w1) \<Rightarrow> (''Log fetch failed: '' @ exc_str e, w1))"

section \<open>A failed workflow run\<close>

definition fence3 :: string where "fence3 = [CHR 0x60, CHR 0x60, CHR 0x60]"

definition ci_fix_task :: "string \<Rightarrow> string \<Rightarrow> string \<Rightarrow> string" where
  "ci_fix_task run_name branch logs =
     ''The CI workflow '' @ [CHR 0x27] @ run_name @ [CHR 0x27] @ '' failed on branch ''
     @ [CHR 0x27] @ branch @ [CHR 0x27] @ ''.'' @ [nl]
     @ ''Analyze the following failure logs and produce a unified diff that fixes ''
     @ ''the failing tests or build errors. Output ONLY the diff in a '' @ fence3 @ ''diff block.'' @ two_newlines
     @ ''## Failure Logs'' @ [nl] @ fence3 @ [nl] @ take 6000 logs @ [nl] @ fence3"

text \<open>The diffs of the answer go to the patch queue; refused ones are only logged.\<close>

fun enqueue_fixes :: "'w patch_env \<Rightarrow> string \<Rightarrow> string \<Rightarrow> string list \<Rightarrow> patch_queue \<Rightarrow> 'w
    \<Rightarrow> nat \<times> patch_queue \<times> 'w" where
  "enqueue_fixes E run_id branch [] q w = (0, q, w)"
| "enqueue_fixes E run_id branch (d # ds) q w =
     (case enqueue E d (''ci-fix-'' @ run_id) (''ci-'' @ run_id) (''ci-fix-'' @ run_id)
             (''Auto-fix for failed CI run '' @ run_id @ '' on '' @ branch) q w of
        (r, q1, w1) \<Rightarrow>
          (case enqueue_fixes E run_id branch ds q1 w1 of
             (n, q2, w2) \<Rightarrow> ((case r of Inr _ \<Rightarrow> Suc n | Inl _ \<Rightarrow> n), q2, w2)))"

record run_event =
  re_action :: json
  re_conclusion :: json
  re_id :: json
  re_name :: json
  re_branch :: json

definition read_run :: "json \<Rightarrow> run_event result" where
  "read_run payload =
     bind_result (json_get payload ''action'' (JStr [])) (\<lambda>action.
     bind_result (json_get payload ''workflow_run'' (JObj [])) (\<lambda>run.
     bind_result (as_dict run) (\<lambda>d. Inr \<lparr>re_action = action, re_conclusion = get_or d ''conclusion'' (JStr []),
       re_id = get_or d ''id'' (JInt 0), re_name = get_or d ''name'' (JStr ''unknown''),
       re_branch = get_or d ''head_branch'' (JStr ''unknown'')\<rparr>)))"

definition handle_workflow_run :: "'w hook_env \<Rightarrow> json \<Rightarrow> agents \<Rightarrow> patch_queue \<Rightarrow> 'w
    \<Rightarrow> json dict result \<times> agents \<times> patch_queue \<times> 'w" where
  "handle_workflow_run E payload ags q w =
     (case read_run payload of
        Inl e \<Rightarrow> (Inl e, ags, q, w)
      | Inr v \<Rightarrow>
          let st = py_str (he_fr E); run_id = st (re_id v); branch = st (re_branch v) in
          if re_action v \<noteq> JStr ''completed'' \<or> re_conclusion v \<noteq> JStr ''failure''
          then (Inr [(''skipped'', JBool True),
                  (''reason'', JStr (''action='' @ st (re_action v) @ '' conclusion='' @ st (re_conclusion v)))],
                ags, q, w)
          else case fetch_failed_job_logs E run_id w of (logs, w1) \<Rightarrow>
            (case spawn_and_run (he_agents E) ''coder'' (ci_fix_task (st (re_name v)) branch logs)
                    (''ci-fix-'' @ run_id) [] ags w1 of
               (Inl e, _, ags1, w2) \<Rightarrow> (Inl e, ags1, q, w2)
             | (Inr reply, _, ags1, w2) \<Rightarrow>
                 let diff_list = extract_diffs_from_result (reply_text reply) in
                 (case enqueue_fixes (he_patches E) run_id branch diff_list q w2 of (n, q1, w3) \<Rightarrow>
                    (Inr [(''event'', JStr ''workflow_run''), (''run_id'', re_id v),
                          (''session_id'', JStr (''ci-fix-'' @ run_id)),
                          (''diffs_found'', JInt (int (length diff_list))), (''enqueued'', JInt (int n)),
                          (''agent_status'', get_or reply ''status'' JNull)], ags1, q1, w3))))"

section \<open>A new issue\<close>

text \<open>\<open>f"{body[:3000]}"\<close>.\<close>

definition body_start :: "(real \<Rightarrow> string) \<Rightarrow> json \<Rightarrow> string result" where
  "body_start fr b = (case b of
     JStr s \<Rightarrow> Inr (take 3000 s)
   | JList xs \<Rightarrow> Inr (py_str fr (JList (take 3000 xs)))
   | JObj _ \<Rightarrow> Inl (TypeError ''unhashable type: slice'')
   | _ \<Rightarrow> Inl (TypeError ([CHR 0x27] @ type_name b @ [CHR 0x27] @ '' object is not subscriptable'')))"

definition issue_task :: "string \<Rightarrow> string \<Rightarrow> string \<Rightarrow> string" where
  "issue_task number title body =
     ''GitHub Issue #'' @ number @ '': '' @ title @ two_newlines @ body @ two_newlines
     @ ''Produce an implementation plan for this issue.''"

definition handle_issue_opened :: "'w hook_env \<Rightarrow> json \<Rightarrow> agents \<Rightarrow> 'w \<Rightarrow> json dict result \<times> agents \<times> 'w" where
  "handle_issue_opened E payload ags w =
     (case bind_result (json_get payload ''action'' (JStr [])) (\<lambda>a.
             bind_result (json_get payload ''issue'' (JObj [])) (\<lambda>i. Inr (a, i))) of
        Inl e \<Rightarrow> (Inl e, ags, w)
      | Inr (action, issue) \<Rightarrow>
          let st = py_str (he_fr E) in
          if action \<noteq> JStr ''opened''
          then (Inr [(''skipped'', JBool True), (''reason'', JStr (''action='' @ st action))], ags, w)
          else case bind_result (as_dict issue) (\<lambda>d.
                 bind_result (body_start (he_fr E) (json_or (get_or d ''body'' (JStr [])) (JStr []))) (\<lambda>b.
                   Inr (get_or d ''number'' (JInt 0), st (get_or d ''title'' (JStr [])), b))) of
            Inl e \<Rightarrow> (Inl e, ags, w)
          | Inr (number, title, body) \<Rightarrow>
              let sid = ''issue-'' @ st number in
              (case spawn_and_run (he_agents E) ''architect'' (issue_task (st number) title body) sid [] ags w of
                 (Inl e, _, ags1, w1) \<Rightarrow> (Inl e, ags1, w1)
               | (Inr reply, _, ags1, w1) \<Rightarrow>
                   (case decompose_plan_to_tasks (he_agents E) (he_fr E) (reply_text reply) sid ags1 w1 of
                      (Inl e, ags2, w2) \<Rightarrow> (Inl e, ags2, w2)
                    | (Inr tasks, ags2, w2) \<Rightarrow>
                        (case (if tasks \<noteq> [] then load_plan (he_redis E) sid tasks w2 else (Inr 0, w2)) of
                           (Inl e, w3) \<Rightarrow> (Inl e, ags2, w3)
                         | (Inr _, w3) \<Rightarrow>
                             (Inr [(''event'', JStr ''issues''), (''issue_number'', number),
                                   (''session_id'', JStr sid), (''tasks_loaded'', JInt (int (length tasks))),
                                   (''plan_preview'', JStr (take 300 (reply_text reply)))], ags2, w3)))))"

section \<open>The endpoint\<close>

text \<open>\<open>github_webhook\<close> of \<open>main.py\<close>: only a signature error becomes the answer 401.\<close>

definition github_webhook :: "'w hook_env \<Rightarrow> string \<Rightarrow> string \<Rightarrow> string \<Rightarrow> agents \<Rightarrow> patch_queue \<Rightarrow> 'w
    \<Rightarrow> json dict result \<times> agents \<times> patch_queue \<times> 'w" where
  "github_webhook E body signature ev ags q w =
     (case verify_signature (he_config E) (he_hmac E) body signature of
        Inl e \<Rightarrow> (Inl (case e of WebhookSignatureError m \<Rightarrow> HTTPException 401 m | _ \<Rightarrow> e), ags, q, w)
      | Inr _ \<Rightarrow>
          (case Option.bind (he_decode E body) json_loads of
             None \<Rightarrow> (Inl (HTTPException 400 ''Invalid JSON payload''), ags, q, w)
           | Some payload \<Rightarrow>
               if ev = ''workflow_run'' then handle_workflow_run E payload ags q w
               else if ev = ''issues'' then
                 (case handle_issue_opened E payload ags w of (r, ags1, w1) \<Rightarrow> (r, ags1, q, w1))
               else (Inr [(''skipped'', JBool True), (''reason'', JStr (''unsupported event: '' @ ev))], ags, q, w)))"

section \<open>Properties\<close>

definition authentic :: "'w hook_env \<Rightarrow> string \<Rightarrow> string \<Rightarrow> bool" where
  "authentic E body signature \<longleftrightarrow> sc_webhook_secret (cf_services (he_config E)) \<noteq> [] \<and>
     signature = ''sha256='' @ he_hmac E (sc_webhook_secret (cf_services (he_config E))) body"

lemma verify_signature_Inr:
  "verify_signature (he_config E) (he_hmac E) body signature = Inr () \<Longrightarrow> authentic E body signature"
  by (auto simp: verify_signature_def authentic_def compare_digest_def Let_def split: if_splits)

text \<open>C8: nothing happens without the signature.  A request whose signature is not the one of its body under
  the configured secret, or that arrives when no secret is configured, ends in an error and
  changes neither the agents nor the patch queue nor the world.\<close>

theorem unsigned_webhook_inert:
  "authentic E body signature \<or>
   (\<exists>e. github_webhook E body signature ev ags q w = (Inl e, ags, q, w))"
proof (cases "verify_signature (he_config E) (he_hmac E) body signature")
  case (Inr u)
  then show ?thesis using verify_signature_Inr [of E body signature] by simp
qed (simp add: github_webhook_def)

text \<open>A signature with a character outside ASCII is not answered with 401.\<close>

lemma non_ascii_signature:
  assumes "sc_webhook_secret (cf_services (he_config E)) \<noteq> []" "startswith signature ''sha256=''" "\<not> ascii signature"
  shows "fst (github_webhook E body signature ev ags q w) =
    Inl (TypeError ''comparing strings with non-ASCII characters is not supported'')"
  using assms by (auto simp: github_webhook_def verify_signature_def compare_digest_def Let_def)

text \<open>What enqueueing does to the queue: pending patches are added at the end.\<close>

definition only_added :: "(patch \<Rightarrow> bool) \<Rightarrow> patch_queue \<Rightarrow> patch_queue \<Rightarrow> nat \<Rightarrow> bool" where
  "only_added P q q' n \<longleftrightarrow> (\<exists>ps. length ps = n \<and> list_all P ps \<and> pq_store q' = pq_store q @ ps \<and>
     pq_queue q' = pq_queue q @ [length (pq_store q)..<length (pq_store q) + n])"

lemma only_added_refl: "only_added P q q 0"
  by (simp add: only_added_def)

lemma only_added_step:
  assumes "pq_store q1 = pq_store q @ [p]" "pq_queue q1 = pq_queue q @ [length (pq_store q)]" "P p"
    and "only_added P q1 q2 n"
  shows "only_added P q q2 (Suc n)"
proof -
  obtain ps where "length ps = n" "list_all P ps" "pq_store q2 = pq_store q1 @ ps"
    "pq_queue q2 = pq_queue q1 @ [length (pq_store q1)..<length (pq_store q1) + n]"
    using assms(4) by (auto simp: only_added_def)
  moreover have "[k..<k + Suc n] = k # [Suc k..<Suc k + n]" for k by (simp add: upt_conv_Cons)
  ultimately show ?thesis using assms(1-3) unfolding only_added_def
    by (intro exI [of _ "p # ps"]) (simp del: upt_Suc)
qed

text \<open>A patch as the handler of a failed run proposes it: pending, of the session, the agent and the
  task of that run, with line feeds only.\<close>

definition fresh_fix :: "string \<Rightarrow> patch \<Rightarrow> bool" where
  "fresh_fix run_id p \<longleftrightarrow> pt_status p = PPending \<and> pt_session p = ''ci-fix-'' @ run_id \<and>
     pt_agent p = ''ci-fix-'' @ run_id \<and> pt_task p = ''ci-'' @ run_id \<and> pt_retries p = 0 \<and>
     cr \<notin> set (pt_diff p)"

text \<open>The run a payload tells of, when it tells of one that failed.\<close>

definition failed_run :: "(real \<Rightarrow> string) \<Rightarrow> json \<Rightarrow> string option" where
  "failed_run fr payload =
     (case read_run payload of
        Inl _ \<Rightarrow> None
      | Inr v \<Rightarrow> if re_action v = JStr ''completed'' \<and> re_conclusion v = JStr ''failure''
                then Some (py_str fr (re_id v)) else None)"

lemma enqueue_fixes_added:
  "enqueue_fixes E i b ds q w = (n, q', w') \<Longrightarrow> n \<le> length ds \<and> only_added (fresh_fix i) q q' n"
proof (induction ds arbitrary: q w n q' w')
  case Nil
  then show ?case by (simp add: only_added_refl)
next
  case (Cons d ds)
  obtain r q1 w1 where r: "enqueue E d (''ci-fix-'' @ i) (''ci-'' @ i) (''ci-fix-'' @ i)
      (''Auto-fix for failed CI run '' @ i @ '' on '' @ b) q w = (r, q1, w1)" by (metis prod_cases3)
  obtain k q2 w2 where k: "enqueue_fixes E i b ds q1 w1 = (k, q2, w2)" by (metis prod_cases3)
  note rest = Cons.IH [OF k]
  from r show ?case
  proof (cases rule: enqueue_cases)
    case (refused e)
    then show ?thesis using Cons.prems r k rest by auto
  next
    case (added p w3)
    obtain a q3 where a: "enqueue_append p q = (a, q3)" by fastforce
    have "fresh_fix i p"
      using make_patch_fields [OF added(2)] by (simp add: fresh_fix_def normalize_no_cr)
    then have "only_added (fresh_fix i) q q2 (Suc k)"
      using rest added(4) enqueue_append_simps [OF a] a by (intro only_added_step) auto
    then show ?thesis using Cons.prems r k rest added(3) by auto
  qed
qed

text \<open>What a handled event did to the queue: nothing, or the patches of the failed run it told of.\<close>

definition proposed :: "(real \<Rightarrow> string) \<Rightarrow> json \<Rightarrow> json dict result \<Rightarrow> patch_queue \<Rightarrow> patch_queue \<Rightarrow> bool" where
  "proposed fr payload r q q' \<longleftrightarrow>
     q' = q \<and> (case r of Inl _ \<Rightarrow> True | Inr d \<Rightarrow> map_of d ''enqueued'' = None) \<or>
     (\<exists>i n d. failed_run fr payload = Some i \<and> r = Inr d \<and> only_added (fresh_fix i) q q' n \<and>
        map_of d ''session_id'' = Some (JStr (''ci-fix-'' @ i)) \<and>
        map_of d ''enqueued'' = Some (JInt (int n)))"

lemma handle_workflow_run_proposed:
  assumes "handle_workflow_run E payload ags q w = (r, ags', q', w')"
  shows "proposed (he_fr E) payload r q q'"
proof (cases "read_run payload")
  case (Inl e)
  then show ?thesis using assms by (auto simp: handle_workflow_run_def proposed_def)
next
  case run: (Inr v)
  define i where "i = py_str (he_fr E) (re_id v)"
  show ?thesis
  proof (cases "re_action v \<noteq> JStr ''completed'' \<or> re_conclusion v \<noteq> JStr ''failure''")
    case True
    then show ?thesis using assms run by (auto simp: handle_workflow_run_def proposed_def Let_def)
  next
    case failed: False
    obtain logs w1 where logs: "fetch_failed_job_logs E i w = (logs, w1)" by fastforce
    obtain x tk ags1 w2 where sp: "spawn_and_run (he_agents E) ''coder''
        (ci_fix_task (py_str (he_fr E) (re_name v)) (py_str (he_fr E) (re_branch v)) logs) (''ci-fix-'' @ i) [] ags w1
        = (x, tk, ags1, w2)" by (metis prod_cases4)
    show ?thesis
    proof (cases x)
      case (Inl e)
      then show ?thesis using assms run failed logs sp
        by (auto simp: handle_workflow_run_def proposed_def Let_def i_def [symmetric])
    next
      case (Inr reply)
      obtain n q1 w3 where enq: "enqueue_fixes (he_patches E) i (py_str (he_fr E) (re_branch v))
          (extract_diffs_from_result (reply_text reply)) q w2 = (n, q1, w3)" by (metis prod_cases3)
      have "q' = q1" "\<exists>d. r = Inr d \<and> map_of d ''session_id'' = Some (JStr (''ci-fix-'' @ i)) \<and>
          map_of d ''enqueued'' = Some (JInt (int n))"
        using assms run failed logs sp Inr enq by (auto simp: handle_workflow_run_def Let_def i_def [symmetric])
      moreover have "failed_run (he_fr E) payload = Some i" using run failed by (simp add: failed_run_def i_def)
      ultimately show ?thesis using enqueue_fixes_added [OF enq] unfolding proposed_def by blast
    qed
  qed
qed

text \<open>C7: a webhook only proposes.  A request that is not the authentic, readable event of a workflow run
  leaves the patch queue as it is.  The event of a failed run adds patches at the end of the queue and touches no
  patch that was there: every added patch is pending and belongs to the session, the agent and
  the task named after the id of that very run, and the report of the request names that session and counts
  exactly these patches.  Every other event of a run leaves the queue as it is.\<close>

theorem webhook_only_proposes:
  "case github_webhook E body signature ev ags q w of (r, ags', q', w') \<Rightarrow>
     (case (verify_signature (he_config E) (he_hmac E) body signature, Option.bind (he_decode E body) json_loads) of
        (Inr _, Some payload) \<Rightarrow>
          if ev = ''workflow_run'' then proposed (he_fr E) payload r q q' else q' = q
      | _ \<Rightarrow> q' = q)"
proof -
  obtain r ags' q' w' where g: "github_webhook E body signature ev ags q w = (r, ags', q', w')"
    by (metis prod_cases4)
  then show ?thesis
    by (auto simp: github_webhook_def intro: handle_workflow_run_proposed split: sum.splits option.splits prod.splits if_splits)
qed

end
