(* ===== verification/Api_Sessions.thy ===== *)
theory Api_Sessions
  imports Session_Props Session_Hooks Webhook
begin

text \<open>
  The session and agent endpoints of \<open>orchestrator/main.py\<close>: their guards, the operation each
  calls and the answer it gives.  A request body is given by its fields, each of the documented
  type and present or not; an answer is a JSON object or the error that is raised, an
  \<open>HTTPException\<close> carrying the status the client sees.
\<close>

section \<open>Sessions\<close>

definition given :: "'a option \<Rightarrow> 'a \<Rightarrow> 'a" where
  "given x v = (case x of None \<Rightarrow> v | Some y \<Rightarrow> y)"

definition session_not_found :: "string \<Rightarrow> exn" where
  "session_not_found sid = HTTPException 404 (''Session '' @ py_repr sid @ '' not found'')"

definition list_sessions_ep :: "'w session_env \<Rightarrow> string option \<Rightarrow> 'w \<Rightarrow> json dict result" where
  "list_sessions_ep E status w =
     (case status of
        Some s \<Rightarrow>
          if s \<notin> set [''active'', ''paused'', ''ended'']
          then Inl (HTTPException 400 (''Invalid status filter '' @ py_repr s
                 @ ''. Must be one of: active, paused, ended''))
          else (let ss = list_sessions E (Some s) w in
                Inr [(''sessions'', JList (map state_json ss)), (''count'', JInt (int (length ss))),
                     (''filter'', JStr s)])
      | None \<Rightarrow>
          let ss = list_sessions E None w in
          Inr [(''sessions'', JList (map state_json ss)), (''count'', JInt (int (length ss))),
               (''filter'', JNull)])"

definition get_session_ep :: "'w session_env \<Rightarrow> string \<Rightarrow> 'w \<Rightarrow> json result" where
  "get_session_ep E sid w =
     (case read_state E sid w of None \<Rightarrow> Inl (session_not_found sid) | Some s \<Rightarrow> Inr (state_json s))"

text \<open>The check of model names, shared by the two endpoints that store them.\<close>

definition unknown_models :: "registry \<Rightarrow> string dict \<Rightarrow> string list" where
  "unknown_models g models =
     filter (\<lambda>m. m \<notin> set (map mn_name (catalog_with_status g))) (map snd models)"

definition bad_models_error :: "string list \<Rightarrow> exn" where
  "bad_models_error bad = HTTPException 400 (''Unknown model(s): '' @ quoted bad
     @ ''. Check GET /v1/models/catalog for valid names.'')"

record create_body =
  cb_task :: "string option"
  cb_session :: "string option"
  cb_models :: "string dict option"
  cb_metadata :: "json dict option"

definition create_session_ep :: "'w session_env \<Rightarrow> registry \<Rightarrow> create_body \<Rightarrow> 'w \<Rightarrow> json result \<times> 'w" where
  "create_session_ep E g b w =
     (let tsk = strip (given (cb_task b) []) in
      if tsk = [] then (Inl (HTTPException 400 ''task is required''), w)
      else
        let sid = (if given (cb_session b) [] \<noteq> [] then given (cb_session b) [] else se_uuid E w);
            models = given (cb_models b) []; metadata = given (cb_metadata b) []
        in if models \<noteq> [] \<and> unknown_models g models \<noteq> []
           then (Inl (bad_models_error (unknown_models g models)), w)
           else (case create_session E tsk (Some sid) models metadata w of
             (r, w1) \<Rightarrow> (bind_result r (\<lambda>s. Inr (state_json s)), w1)))"

record end_body =
  eb_summary :: "string option"
  eb_transcript :: "json list option"
  eb_failures :: "json list option"

text \<open>\<open>except KeyError\<close> covers the whole of the operation, its hooks included.\<close>

definition key_error_404 :: "string \<Rightarrow> 'a result \<Rightarrow> 'a result" where
  "key_error_404 sid r = (case r of Inl (KeyError _) \<Rightarrow> Inl (session_not_found sid) | _ \<Rightarrow> r)"

definition end_session_ep :: "'w session_env \<Rightarrow> string \<Rightarrow> end_body \<Rightarrow> 'w \<Rightarrow> json result \<times> 'w" where
  "end_session_ep E sid b w =
     (case end_session E sid (given (eb_summary b) []) (given (eb_transcript b) []) (given (eb_failures b) []) w of
        (r, w1) \<Rightarrow> (bind_result (key_error_404 sid r) (\<lambda>s. Inr (state_json s)), w1))"

definition pause_session_ep :: "'w session_env \<Rightarrow> string \<Rightarrow> 'w \<Rightarrow> json result \<times> 'w" where
  "pause_session_ep E sid w =
     (case pause_session E sid w of
        (r, w1) \<Rightarrow> (bind_result (key_error_404 sid r) (\<lambda>s. Inr (state_json s)), w1))"

definition resume_session_ep :: "'w session_env \<Rightarrow> string \<Rightarrow> 'w \<Rightarrow> json result \<times> 'w" where
  "resume_session_ep E sid w =
     (case resume_session E sid w of
        (Inr s, w1) \<Rightarrow> (Inr (state_json s), w1)
      | (Inl (KeyError m), w1) \<Rightarrow> (Inl (HTTPException 404 (exc_str (KeyError m))), w1)
      | (Inl (ValueError m), w1) \<Rightarrow> (Inl (HTTPException 409 m), w1)
      | (Inl e, w1) \<Rightarrow> (Inl e, w1))"

definition session_configure_ep :: "config \<Rightarrow> 'w session_env \<Rightarrow> registry \<Rightarrow> string option \<Rightarrow> string dict option \<Rightarrow> 'w
    \<Rightarrow> json dict result \<times> 'w" where
  "session_configure_ep C E g sid_opt models_opt w =
     (let sid = given sid_opt (se_uuid E w); models = given models_opt [] in
      if models = [] then (Inl (HTTPException 400 ''models dict is required''), w)
      else if unknown_models g models \<noteq> [] then (Inl (bad_models_error (unknown_models g models)), w)
      else case configure_models E sid models w of
        (s, w1) \<Rightarrow> (Inr [(''session_id'', JStr sid), (''models'', JObj (map (\<lambda>(r, m). (r, JStr m)) (ss_models s))),
                      (''configured'', JBool True), (''ttl_seconds'', JInt (limit C ''SESSION_TTL''))], w1))"

definition get_session_models_ep :: "'w model_store option \<Rightarrow> string \<Rightarrow> 'w \<Rightarrow> json dict" where
  "get_session_models_ep R sid w =
     (let models = get_session_models R sid w in
      [(''session_id'', JStr sid), (''models'', JObj (map (\<lambda>(r, m). (r, JStr m)) models)),
       (''using_defaults'', JBool (length models = 0))])"

section \<open>Agents\<close>

definition agent_not_found :: "string \<Rightarrow> exn" where
  "agent_not_found aid = HTTPException 404 (''Agent '' @ py_repr aid @ '' not found'')"

definition agent_message_ep :: "string \<Rightarrow> string \<Rightarrow> agents \<Rightarrow> json dict result \<times> agents" where
  "agent_message_ep aid msg ags =
     (case send_message aid msg ags of
        (True, ags1) \<Rightarrow> (Inr [(''delivered'', JBool True), (''agent_id'', JStr aid)], ags1)
      | (False, ags1) \<Rightarrow>
          (case map_of ags1 aid of
             None \<Rightarrow> (Inl (agent_not_found aid), ags1)
           | Some a \<Rightarrow> (Inl (HTTPException 409 (''Agent '' @ py_repr aid @ '' is in terminal state (''
               @ agent_state_str (ag_status a) @ '') and cannot receive messages'')), ags1)))"

text \<open>
  The token stream: the registry is looked at up to twenty times, then the tokens are followed
  by the closing sentinel when the stream of the agent ends.
\<close>

definition agent_stream_ep :: "string \<Rightarrow> agents list \<Rightarrow> stream_turn list \<Rightarrow> string list result" where
  "agent_stream_ep aid polls turns =
     (case find (\<lambda>ags. aid \<in> fst ` set ags) (take 20 polls) of
        None \<Rightarrow> Inl (HTTPException 404 (''Agent '' @ py_repr aid @ '' not found after 2s '' @ em_dash
            @ '' check that spawn_and_run() was called first''))
      | Some ags \<Rightarrow>
          (case subscribe_stream aid ags turns of
             (tokens, fin) \<Rightarrow> Inr (tokens @ (if fin then [''[DONE]''] else []))))"

text \<open>The channel of a session: events are sent until one cannot be sent.\<close>

fun send_events :: "(json \<Rightarrow> 'w \<Rightarrow> unit result \<times> 'w) \<Rightarrow> event list \<Rightarrow> 'w \<Rightarrow> event list \<times> 'w" where
  "send_events send [] w = ([], w)"
| "send_events send (ev # evs) w =
     (case send (event_json ev) w of
        (Inl _, w1) \<Rightarrow> ([], w1)
      | (Inr _, w1) \<Rightarrow> (case send_events send evs w1 of (sent, w2) \<Rightarrow> (ev # sent, w2)))"

definition ws_session :: "(json \<Rightarrow> 'w \<Rightarrow> unit result \<times> 'w) \<Rightarrow> real \<Rightarrow> (string \<times> json) list \<Rightarrow> 'w
    \<Rightarrow> event list \<times> 'w" where
  "ws_session send now frames w = send_events send (fst (subscribe_session now frames)) w"

definition heartbeat_frame :: "string \<Rightarrow> real \<Rightarrow> json" where
  "heartbeat_frame sid now = JObj [(''type'', JStr ''heartbeat''), (''session_id'', JStr sid), (''ts'', JFloat now)]"

definition spawn_agent_ep :: "'w agent_env \<Rightarrow> ('w \<Rightarrow> string) \<Rightarrow> string option \<Rightarrow> string option \<Rightarrow> string option
    \<Rightarrow> agents \<Rightarrow> 'w \<Rightarrow> json dict result \<times> agents \<times> 'w" where
  "spawn_agent_ep E uuid role tsk sid ags w =
     (if given tsk [] = [] then (Inl (HTTPException 400 ''task is required''), ags, w)
      else case spawn_and_run E (given role ''coder'') (given tsk []) (given sid (uuid w)) [] ags w of
        (r, _, ags1, w1) \<Rightarrow> (r, ags1, w1))"

definition agent_status_ep :: "agents \<Rightarrow> json dict" where
  "agent_status_ep ags = map (\<lambda>(k, n). (k, JInt (int n))) (agents_status ags)"

definition agent_list_ep :: "agents \<Rightarrow> json dict" where
  "agent_list_ep ags = [(''agents'', JList (map JObj (list_agents ags)))]"

definition agent_logs_ep :: "string \<Rightarrow> agents \<Rightarrow> json dict result" where
  "agent_logs_ep aid ags =
     (case map_of ags aid of None \<Rightarrow> Inl (agent_not_found aid) | Some a \<Rightarrow> Inr (agent_dict a))"

definition cleanup_agents_ep :: "config \<Rightarrow> 'w agent_env \<Rightarrow> agents \<Rightarrow> 'w \<Rightarrow> json dict \<times> agents" where
  "cleanup_agents_ep C E ags w =
     (case cleanup_idle_agents E ags w of
        (n, ags1) \<Rightarrow> ([(''removed'', JInt (int n)), (''idle_timeout_s'', JInt (limit C ''AGENT_IDLE_TIMEOUT''))], ags1))"

section \<open>Hooks called directly\<close>

definition learn_skill_ep :: "'w memory_env \<Rightarrow> (real \<Rightarrow> string) \<Rightarrow> json list option \<Rightarrow> memory \<Rightarrow> 'w
    \<Rightarrow> json dict result \<times> memory \<times> 'w" where
  "learn_skill_ep E fr transcript m w =
     (if given transcript [] = [] then (Inl (HTTPException 400 ''transcript is required''), m, w)
      else case extract_skills E fr (given transcript []) m w of
        (r, m1, w1) \<Rightarrow> (bind_result r (\<lambda>s. Inr [(''skill_extracted'', JBool (s \<noteq> None)),
           (''skill_name'', case s of None \<Rightarrow> JNull | Some n \<Rightarrow> JStr n)]), m1, w1))"

definition hit_json :: "hit \<Rightarrow> json" where
  "hit_json h = JObj ([(''content'', JStr (ht_content h)), (''metadata'', JObj (ht_meta h)),
     (''distance'', JFloat (ht_distance h)), (''collection'', JStr (ht_col h))]
     @ (case ht_score h of None \<Rightarrow> [] | Some x \<Rightarrow> [(''rerank_score'', JFloat x)]))"

definition session_start_ep :: "'w memory_env \<Rightarrow> ('w \<Rightarrow> string) \<Rightarrow> string option \<Rightarrow> string option \<Rightarrow> memory \<Rightarrow> 'w
    \<Rightarrow> json dict result \<times> memory \<times> 'w" where
  "session_start_ep E uuid sid tsk m w =
     (case on_session_start E (given sid (uuid w)) (given tsk []) m w of
        (r, m1, w1) \<Rightarrow> (bind_result r (\<lambda>(i, past, t). Inr [(''session_id'', JStr i),
           (''past_context'', JList (map hit_json past)), (''started_at'', JFloat t)]), m1, w1))"

definition session_end_ep :: "'w memory_env \<Rightarrow> 'w agent_env \<Rightarrow> (real \<Rightarrow> string) \<Rightarrow> ('w \<Rightarrow> string \<times> 'w) \<Rightarrow> string option
    \<Rightarrow> end_body \<Rightarrow> agents \<Rightarrow> memory \<Rightarrow> 'w \<Rightarrow> json dict result \<times> agents \<times> memory \<times> 'w" where
  "session_end_ep E AE fr uuid sid b ags m w =
     (if given (eb_summary b) [] = [] then (Inl (HTTPException 400 ''summary is required''), ags, m, w)
      else case on_session_end E fr uuid (given sid ''default'') (given (eb_summary b) [])
             (given (eb_transcript b) []) (given (eb_failures b) []) m w of
        (Inl e, m1, w1) \<Rightarrow> (Inl e, ags, m1, w1)
      | (Inr rep, m1, w1) \<Rightarrow> (Inr (report_json rep), snd (cleanup_idle_agents AE ags w1), m1, w1))"

section \<open>Properties\<close>

lemma create_session_cases:
  assumes "create_session E tsk (Some sid) models md w = (r, w')"
  obtains (refused) e sid' where "r = Inl e" "se_on_start E sid' tsk w = (Inl e, w')"
    | (created) s where "r = Inr s" "ss_status s = ''active''" "ss_task s = tsk" "ss_models s = models"
proof (cases "se_on_start E (if sid \<noteq> [] then sid else se_uuid E w) tsk w")
  case (Pair x w1)
  show thesis
  proof (cases x)
    case (Inl e)
    then have "r = Inl e" "se_on_start E (if sid \<noteq> [] then sid else se_uuid E w) tsk w = (Inl e, w')"
      using assms Pair by (auto simp: create_session_def)
    then show thesis by (rule refused)
  next
    case (Inr u)
    then show thesis using assms Pair created
      by (simp add: create_session_def write_state_def Let_def) (metis session_state.select_convs(2,5,6))
  qed
qed

text \<open>Creating a session.  A request without a task or with a model that is not in the catalog is refused
  with status 400 and changes nothing; a session that is created is active, has the stripped
  task, and names only models of the catalog.\<close>

theorem create_endpoint_spec:
  "case create_session_ep E g b w of
     (Inr j, w') \<Rightarrow> (\<exists>s. j = state_json s \<and> ss_status s = ''active'' \<and> ss_task s = strip (given (cb_task b) []) \<and>
        ss_task s \<noteq> [] \<and> unknown_models g (ss_models s) = [])
   | (Inl e, w') \<Rightarrow>
       (w' = w \<and> (strip (given (cb_task b) []) = [] \<or> 0 < length (unknown_models g (given (cb_models b) []))) \<and>
          (\<exists>m. e = HTTPException 400 m)) \<or>
       (\<exists>sid. se_on_start E sid (strip (given (cb_task b) [])) w = (Inl e, w'))"
proof -
  let ?t = "strip (given (cb_task b) [])" and ?ms = "given (cb_models b) []"
  let ?sid = "if given (cb_session b) [] \<noteq> [] then given (cb_session b) [] else se_uuid E w"
  obtain r w' where c: "create_session E ?t (Some ?sid) ?ms (given (cb_metadata b) []) w = (r, w')" by fastforce
  show ?thesis
  proof (cases "?t = [] \<or> (?ms \<noteq> [] \<and> unknown_models g ?ms \<noteq> [])")
    case True
    then show ?thesis by (auto simp: create_session_ep_def bad_models_error_def Let_def)
  next
    case False
    then have ok: "\<not> (?ms \<noteq> [] \<and> unknown_models g ?ms \<noteq> [])" by blast
    have "create_session_ep E g b w = (bind_result r (\<lambda>s. Inr (state_json s)), w')"
      using c False unfolding create_session_ep_def Let_def if_not_P [OF ok] by (simp only: if_False) simp
    moreover have "unknown_models g ?ms = []" using False by (auto simp: unknown_models_def)
    moreover note False
    ultimately show ?thesis using c by (cases rule: create_session_cases [OF c]) auto
  qed
qed

text \<open>A full inbox is reported as the end of the agent.  For an agent that is running but has not taken its
  messages, the endpoint answers 409 and says that the agent is in a terminal state.\<close>

theorem full_inbox_is_terminal:
  assumes "map_of ags aid = Some a" "\<not> terminal (ag_status a)" "length (ag_inbox a) = inbox_maxsize"
  shows "agent_message_ep aid msg ags = (Inl (HTTPException 409 (''Agent '' @ py_repr aid
    @ '' is in terminal state ('' @ agent_state_str (ag_status a) @ '') and cannot receive messages'')), ags)"
  using assms by (simp add: agent_message_ep_def send_message_def put_nowait_def)

definition busy_agent :: agent where
  "busy_agent = \<lparr>ag_id = ''a'', ag_role = ''coder'', ag_session = ''s'', ag_status = Agent_Running, ag_model = None,
     ag_created = 0, ag_started = None, ag_ended = None, ag_task = None, ag_result = None, ag_error = None,
     ag_history = [], ag_inbox = replicate 256 ''hi'', ag_outbox = []\<rparr>"

theorem full_inbox_is_terminal_witness:
  "fst (agent_message_ep ''a'' ''x'' [(''a'', busy_agent)]) =
     Inl (HTTPException 409 (''Agent '' @ py_repr ''a'' @ '' is in terminal state (running) and cannot receive messages''))"
proof -
  have "map_of [(''a'', busy_agent)] ''a'' = Some busy_agent" by simp
  from full_inbox_is_terminal [OF this, of "''x''"] show ?thesis
    by (simp add: busy_agent_def terminal_def inbox_maxsize_def)
qed

text \<open>The end of a session can be reported as a missing session.  When the end hook raises a
  \<open>KeyError\<close>, as the memory manager does for an answer of the embedding server without an
  embedding, the endpoint answers 404 although the session exists and is stored as ended.\<close>

theorem hook_key_error_is_404:
  assumes "session_host R db ttl E" "sessions_ok (db w, ttl w)" "read_state E sid w = Some s"
    and "\<And>sm tr fl w. se_on_end E sid sm tr fl w = (Inl (KeyError k), w)"
  shows "\<exists>w'. end_session_ep E sid b w = (Inl (session_not_found sid), w') \<and>
    (case read_state E sid w' of Some s' \<Rightarrow> ss_status s' = ''ended'' | None \<Rightarrow> False)"
proof -
  from failed_end_hook [OF assms(1-3) assms(4)] obtain w' where
    "end_session E sid (given (eb_summary b) []) (given (eb_transcript b) []) (given (eb_failures b) []) w
       = (Inl (KeyError k), w')"
    "(case read_state E sid w' of Some s' \<Rightarrow> ss_status s' = ''ended'' | None \<Rightarrow> False)" by blast
  then show ?thesis by (simp add: end_session_ep_def key_error_404_def)
qed

definition lost_embedding :: "mem session_env" where
  "lost_embedding = demo_sessions\<lparr>se_on_end := \<lambda>_ _ _ _ w. (Inl (KeyError ''embedding''), w)\<rparr>"

interpretation lost_host: session_host mem_redis mem_db mem_ttl lost_embedding
  by unfold_locales (simp_all add: lost_embedding_def demo_sessions_def same_sessions_def)

theorem hook_key_error_is_404_witness:
  "\<exists>w'. end_session_ep lost_embedding ''s'' \<lparr>eb_summary = None, eb_transcript = None, eb_failures = None\<rparr> demo_ended
     = (Inl (HTTPException 404 (''Session '' @ py_repr ''s'' @ '' not found'')), w')"
proof -
  have reach: "sess_reach demo_sessions [] demo_ended"
    unfolding demo_ended_def by (intro sess_step sess_start)
  have ok: "sessions_ok (mem_db demo_ended, mem_ttl demo_ended)"
    using demo_host.reach_ok [OF reach sessions_ok_empty] .
  have "read_state lost_embedding ''s'' demo_ended \<noteq> None" by code_simp
  then obtain s where "read_state lost_embedding ''s'' demo_ended = Some s" by auto
  from hook_key_error_is_404 [OF lost_host.session_host_axioms ok this, of "''embedding''"]
  show ?thesis unfolding session_not_found_def by (auto simp: lost_embedding_def)
qed

end
