(* ===== verification/Api_Work.thy ===== *)
theory Api_Work
  imports Api_Sessions Debate Skill_Loader Task_Exec
begin

text \<open>
  The other endpoints of \<open>orchestrator/main.py\<close>: models, skills, memory, patches, tasks,
  debates, metrics and training data, each with its guards and the operation it calls.
\<close>

section \<open>Health and models\<close>

definition main_health_ep :: "config \<Rightarrow> json dict" where
  "main_health_ep C = [(''status'', JStr ''ok''), (''profile'', JStr (cf_profile C)), (''version'', JStr ''0.5.0'')]"

definition model_entry_json :: "model_entry \<Rightarrow> json" where
  "model_entry_json m = JObj
     [(''name'', JStr (mn_name m)), (''display_name'', JStr (mm_display (mn_meta m))),
      (''tags'', JList (map JStr (mm_tags (mn_meta m)))), (''context_length'', JInt (mm_context (mn_meta m))),
      (''vram_approx_gb'', JInt (mm_vram (mn_meta m))), (''backend'', JList (map JStr (mm_backend (mn_meta m)))),
      (''on_disk'', JBool (mn_on_disk m))]"

definition models_catalog_ep :: "config \<Rightarrow> registry \<Rightarrow> json dict" where
  "models_catalog_ep C g =
     [(''profile'', JStr (cf_profile C)), (''models'', JList (map model_entry_json (catalog_with_status g))),
      (''roles'', JList (map JStr all_roles))]"

definition models_for_role_ep :: "registry \<Rightarrow> string \<Rightarrow> json dict" where
  "models_for_role_ep g role =
     (let ms = get_models_for_role g role in
      [(''role'', JStr role), (''models'', JList (map model_entry_json ms)), (''count'', JInt (int (length ms)))])"

definition pull_model_ep :: "config \<Rightarrow> 'w http \<Rightarrow> string option \<Rightarrow> agents \<Rightarrow> registry \<Rightarrow> 'w
    \<Rightarrow> json dict result \<times> registry \<times> 'w" where
  "pull_model_ep C H name_opt ags g w =
     (let name = strip (given name_opt []); running = get_or (agents_status ags) ''running'' 0 in
      if name = [] then (Inl (HTTPException 400 ''name is required''), g, w)
      else if running > 0
      then (Inl (HTTPException 409 (''Cannot pull model while '' @ nat_str running @ '' agent(s) are running.'')), g, w)
      else case pull_model C H name g w of
        (Inl (ValueError m), g1, w1) \<Rightarrow> (Inl (HTTPException 400 m), g1, w1)
      | (Inl (RuntimeError m), g1, w1) \<Rightarrow> (Inl (HTTPException 502 m), g1, w1)
      | (r, g1, w1) \<Rightarrow> (r, g1, w1))"

definition refresh_models_ep :: "config \<Rightarrow> 'w http \<Rightarrow> registry \<Rightarrow> 'w \<Rightarrow> json dict \<times> registry \<times> 'w" where
  "refresh_models_ep C H g w =
     (case detect_available C H g w of (avail, g1, w1) \<Rightarrow>
        ([(''refreshed'', JBool True),
          (''available'', JObj (map (\<lambda>(b, ms). (b, JInt (int (length ms)))) avail))], g1, w1))"

definition list_models_ep :: "real \<Rightarrow> json dict" where
  "list_models_ep now =
     [(''object'', JStr ''list''),
      (''data'', JList [JObj [(''id'', JStr ''orchestrator''), (''object'', JStr ''model''),
         (''created'', JInt \<lfloor>now\<rfloor>), (''owned_by'', JStr ''local'')]])]"

definition list_skills_ep :: "skill_dirs \<Rightarrow> skill_loader \<Rightarrow> json dict" where
  "list_skills_ep D L =
     [(''skills'', JList (list_skills L)), (''commands'', JList (map JStr (list_commands D)))]"

section \<open>Memory\<close>

definition index_json :: "index_counts \<Rightarrow> json dict" where
  "index_json n =
     [(''files_indexed'', JInt (int (ic_indexed n))), (''files_unchanged'', JInt (int (ic_unchanged n))),
      (''chunks'', JInt (int (ic_chunks n))), (''skipped'', JInt (int (ic_skipped n)))]"

definition index_codebase_ep :: "'w memory_env \<Rightarrow> memory \<Rightarrow> 'w \<Rightarrow> json dict result \<times> memory \<times> 'w" where
  "index_codebase_ep E m w =
     (case index_codebase E ''/workspace'' m w of (r, m1, w1) \<Rightarrow> (bind_result r (\<lambda>n. Inr (index_json n)), m1, w1))"

definition recall_ep :: "'w memory_env \<Rightarrow> string \<Rightarrow> memory \<Rightarrow> 'w \<Rightarrow> json dict result \<times> memory \<times> 'w" where
  "recall_ep E q m w =
     (case recall E q 5 m w of (r, m1, w1) \<Rightarrow>
        (bind_result r (\<lambda>hs. Inr [(''query'', JStr q), (''results'', JList (map hit_json hs))]), m1, w1))"

definition symbol_search_ep :: "'w memory_env \<Rightarrow> string \<Rightarrow> nat option \<Rightarrow> memory \<Rightarrow> 'w
    \<Rightarrow> json dict result \<times> memory \<times> 'w" where
  "symbol_search_ep E name k m w =
     (if name = [] then (Inl (HTTPException 400 ''name is required''), m, w)
      else case search_symbol E name (given k 5) m w of (r, m1, w1) \<Rightarrow>
        (bind_result r (\<lambda>hs. Inr [(''query'', JStr name), (''results'', JList (map hit_json hs)),
           (''count'', JInt (int (length hs)))]), m1, w1))"

definition save_memory_ep :: "'w memory_env \<Rightarrow> ('w \<Rightarrow> string) \<Rightarrow> string option \<Rightarrow> string option \<Rightarrow> json dict option
    \<Rightarrow> memory \<Rightarrow> 'w \<Rightarrow> json dict result \<times> memory \<times> 'w" where
  "save_memory_ep E uuid sid content md m w =
     (if given content [] = [] then (Inl (HTTPException 400 ''content is required''), m, w)
      else case save_session E (given sid (uuid w)) (given content []) (given md []) m w of
        (r, m1, w1) \<Rightarrow> (bind_result r (\<lambda>_. Inr [(''saved'', JBool True),
           (''session_id'', JStr (given sid (uuid w)))]), m1, w1))"

section \<open>Patches\<close>

record patch_body =
  pb_diff :: "string option"
  pb_agent :: "string option"
  pb_task :: "string option"
  pb_session :: "string option"
  pb_descr :: "string option"

definition patch_error_400 :: "'a result \<Rightarrow> 'a result" where
  "patch_error_400 r = (case r of Inl (PatchValidationError m) \<Rightarrow> Inl (HTTPException 400 m) | _ \<Rightarrow> r)"

definition enqueue_body :: "'w patch_env \<Rightarrow> ('w \<Rightarrow> string) \<Rightarrow> patch_body \<Rightarrow> patch_queue \<Rightarrow> 'w
    \<Rightarrow> nat result \<times> patch_queue \<times> 'w" where
  "enqueue_body E uuid b q w =
     (if given (pb_diff b) [] = [] then (Inl (HTTPException 400 ''diff is required''), q, w)
      else case enqueue E (given (pb_diff b) []) (given (pb_agent b) ''manual'') (given (pb_task b) (uuid w))
             (given (pb_session b) ''default'') (given (pb_descr b) []) q w of
        (r, q1, w1) \<Rightarrow> (patch_error_400 r, q1, w1))"

definition submit_patch_ep :: "'w patch_env \<Rightarrow> ('w \<Rightarrow> string) \<Rightarrow> patch_body \<Rightarrow> patch_queue \<Rightarrow> 'w
    \<Rightarrow> json dict result \<times> patch_queue \<times> 'w" where
  "submit_patch_ep E uuid b q w =
     (case enqueue_body E uuid b q w of
        (Inl e, q1, w1) \<Rightarrow> (Inl e, q1, w1)
      | (Inr a, q1, w1) \<Rightarrow> (Inr (patch_dict (pq_get q1 a)), q1, w1))"

definition process_patches_ep :: "'w patch_env \<Rightarrow> patch_queue \<Rightarrow> 'w \<Rightarrow> json dict \<times> patch_queue \<times> 'w" where
  "process_patches_ep E q w =
     (case process_all E [] q w of (rs, q1, w1) \<Rightarrow>
        ([(''processed'', JInt (int (length rs))), (''results'', JList (map JObj rs))], q1, w1))"

definition patches_status_ep :: "patch_queue \<Rightarrow> json dict" where
  "patches_status_ep q = map (\<lambda>(k, n). (k, JInt (int n))) (queue_depth q)"

definition patches_list_ep :: "string option \<Rightarrow> patch_queue \<Rightarrow> json dict" where
  "patches_list_ep sid q = [(''patches'', JList (map JObj (list_patches q sid)))]"

definition patch_and_test_ep :: "'w patch_env \<Rightarrow> ('w \<Rightarrow> string) \<Rightarrow> patch_body \<Rightarrow> string option \<Rightarrow> patch_queue \<Rightarrow> 'w
    \<Rightarrow> json dict result \<times> patch_queue \<times> 'w" where
  "patch_and_test_ep E uuid b pattern q w =
     (case enqueue_body E uuid b q w of
        (Inl e, q1, w1) \<Rightarrow> (Inl e, q1, w1)
      | (Inr a, q1, w1) \<Rightarrow> test_fix_loop E a (given pattern ''tests/'') None q1 w1)"

section \<open>Tasks\<close>

fun register_tasks :: "'w session_env \<Rightarrow> string \<Rightarrow> task list \<Rightarrow> 'w \<Rightarrow> 'w" where
  "register_tasks E sid [] w = w"
| "register_tasks E sid (t # ts) w = register_tasks E sid ts (register_task E sid (task_id t) w)"

definition load_tasks_ep :: "'w redis \<Rightarrow> 'w session_env \<Rightarrow> string option \<Rightarrow> task list option \<Rightarrow> 'w
    \<Rightarrow> json dict result \<times> 'w" where
  "load_tasks_ep R SE sid_opt tasks_opt w =
     (let sid = given sid_opt (se_uuid SE w); tasks = given tasks_opt [] in
      if tasks = [] then (Inl (HTTPException 400 ''tasks list is required''), w)
      else case load_plan R sid tasks w of
        (Inl (ValueError m), w1) \<Rightarrow> (Inl (HTTPException 400 m), w1)
      | (Inl e, w1) \<Rightarrow> (Inl e, w1)
      | (Inr n, w1) \<Rightarrow> (Inr [(''session_id'', JStr sid), (''tasks_loaded'', JInt (int n))],
                        register_tasks SE sid tasks w1))"

definition run_status_str :: "run_status \<Rightarrow> string" where
  "run_status_str s = (case s of RComplete \<Rightarrow> ''complete'' | RFailed \<Rightarrow> ''failed'' | RSkipped \<Rightarrow> ''skipped'')"

definition run_json :: "task_run \<Rightarrow> json" where
  "run_json r =
     (case task_json (run_task r) of
        JObj d \<Rightarrow> JObj (dict_set d ''status'' (JStr (run_status_str (run_outcome r)))
          @ (case run_patches r of
               Some (ok, bad) \<Rightarrow> [(''patches_applied'', JInt (int ok)), (''patches_failed'', JInt (int bad))]
             | None \<Rightarrow> [])
          @ (if run_outcome r = RSkipped then [(''reason'', JStr ''lease_held'')] else []))
      | j \<Rightarrow> j)"

definition report_dict :: "plan_report \<Rightarrow> json dict" where
  "report_dict r =
     [(''executed'', JInt (int (pr_executed r))), (''complete'', JInt (int (pr_complete r))),
      (''failed'', JInt (int (pr_failed r))), (''blocked'', JInt (int (pr_blocked r))),
      (''remaining'', JInt (int (pr_remaining r))), (''tasks'', JList (map run_json (pr_tasks r)))]"

definition execute_tasks_ep :: "nat \<Rightarrow> 'w task_env \<Rightarrow> string option \<Rightarrow> 'w \<Rightarrow> (json dict \<times> 'w) option" where
  "execute_tasks_ep fuel E sid w =
     map_option (\<lambda>(r, w1). (report_dict r, w1)) (execute_plan fuel E (given sid ''default'') w)"

definition task_status_ep :: "'w redis \<Rightarrow> string option \<Rightarrow> 'w \<Rightarrow> json dict" where
  "task_status_ep R sid_opt w =
     (let sid = given sid_opt ''default''; s = get_session_status R sid w in
      [(''session_id'', JStr sid), (''total'', JInt (int (ss_total s))), (''pending'', JInt (int (ss_pending s))),
       (''running'', JInt (int (ss_running s))), (''complete'', JInt (int (ss_complete s))),
       (''failed'', JInt (int (ss_failed s))), (''blocked'', JInt (int (ss_blocked s))),
       (''tasks'', JList (map task_json (ss_tasks s)))])"

section \<open>Debates, metrics and training data\<close>

definition debate_json :: "debate \<Rightarrow> json dict" where
  "debate_json d =
     [(''final_plan'', JStr (db_plan d)), (''consensus'', JBool (db_consensus d)),
      (''rounds'', JInt (int (db_rounds d))), (''transcript'', JList (map turn_json (db_transcript d))),
      (''session_id'', JStr (db_session d)), (''topic'', JStr (db_topic d))]"

definition debate_ep :: "config \<Rightarrow> 'w spawner \<Rightarrow> ('w \<Rightarrow> string) \<Rightarrow> string option \<Rightarrow> string option \<Rightarrow> int option
    \<Rightarrow> string option \<Rightarrow> 'w \<Rightarrow> json dict result \<times> 'w" where
  "debate_ep C S uuid topic sid rounds plan w =
     (if given topic [] = [] then (Inl (HTTPException 400 ''topic is required''), w)
      else case run_debate C S (given topic []) (given sid (uuid w)) (given plan [])
             (Some (given rounds (limit C ''MAX_DEBATE_ROUNDS''))) w of
        (r, w1) \<Rightarrow> (bind_result r (\<lambda>d. Inr (debate_json d)), w1))"

definition get_metrics_ep :: "string option \<Rightarrow> metrics \<Rightarrow> json dict" where
  "get_metrics_ep sid m = (if given sid [] \<noteq> [] then get_session_summary (given sid []) m else get_summary m)"

definition finetune_export_ep :: "'w ft_env \<Rightarrow> (real \<Rightarrow> string) \<Rightarrow> int option \<Rightarrow> 'w \<Rightarrow> string" where
  "finetune_export_ep E fr mx w =
     (let records = read_records E mx w in
      if records = [] then [] else join [nl] (map (json_dumps fr) records) @ [nl])"

definition finetune_clear_ep :: "'w ft_env \<Rightarrow> 'w \<Rightarrow> json dict \<times> 'w" where
  "finetune_clear_ep E w = (case clear_records E w of (n, w1) \<Rightarrow> ([(''deleted'', n)], w1))"

end
