(* ===== verification/Api_Chat.thy ===== *)
theory Api_Chat
  imports Api_Work Command_Parser
begin

text \<open>
  The chat endpoint of \<open>orchestrator/main.py\<close>: slash commands, their answers, and the requests
  that go to a model.  The components are reached through the record \<open>app\<close>; the state they
  keep in the process is \<open>app_state\<close>.
\<close>

section \<open>The application\<close>

record 'w app =
  ap_config :: config
  ap_agents :: "'w agent_env"
  ap_spawner :: "'w spawner" \<comment> \<open>the agent manager as the debate engine uses it\<close>
  ap_tasks :: "'w task_env"
  ap_memory :: "'w memory_env"
  ap_sessions :: "'w session_env"
  ap_train :: "'w ft_env"
  ap_router :: "'w router_env"
  ap_uuid :: "'w \<Rightarrow> string"
  ap_hex12 :: "'w \<Rightarrow> string"
  ap_now :: "'w \<Rightarrow> real"
  ap_fr :: "real \<Rightarrow> string"
  ap_fuel :: nat \<comment> \<open>for the loop of \<open>execute_plan\<close>\<close>

record app_state =
  as_agents :: agents
  as_patches :: patch_queue
  as_memory :: memory
  as_metrics :: metrics
  as_registry :: registry
  as_health :: health_cache

definition check_mark :: string where "check_mark = [CHR 0x8D]"

section \<open>Commands\<close>

text \<open>The commands that run one agent; \<open>r.get('result', '')\<close> is shown as Python shows it.\<close>

definition agent_command :: "'w app \<Rightarrow> string \<Rightarrow> string \<Rightarrow> string \<Rightarrow> string \<Rightarrow> app_state \<Rightarrow> 'w
    \<Rightarrow> string result \<times> app_state \<times> 'w" where
  "agent_command A role title args sid s w =
     (case spawn_and_run (ap_agents A) role args sid [] (as_agents s) w of
        (r, _, ags1, w1) \<Rightarrow>
          (bind_result r (\<lambda>d. Inr (''**'' @ title @ ''**'' @ [nl, nl] @ py_str (ap_fr A) (get_or d ''result'' (JStr [])))),
           s\<lparr>as_agents := ags1\<rparr>, w1))"

definition debate_text :: "debate \<Rightarrow> string" where
  "debate_text d =
     ''**Debate Result** ('' @ nat_str (db_rounds d) @ '' round(s), ''
     @ (if db_consensus d then check_mark @ '' Consensus reached'' else warn_sign @ '' No consensus'')
     @ '')'' @ [nl, nl] @ db_plan d"

definition execution_text :: "plan_report \<Rightarrow> string" where
  "execution_text r =
     ''**Execution complete**'' @ [nl]
     @ ''- Tasks executed: '' @ nat_str (pr_executed r) @ [nl]
     @ ''- Complete: '' @ nat_str (pr_complete r) @ [nl]
     @ ''- Failed: '' @ nat_str (pr_failed r)"

definition memories_text :: "string \<Rightarrow> hit list \<Rightarrow> string" where
  "memories_text q hs =
     (if hs = [] then ''No memories found for: *'' @ q @ ''*''
      else join [nl] ((''**Memory search:** '' @ q @ [nl]) #
        map (\<lambda>(i, h). nat_str i @ ''. ['' @ ht_col h @ ''] '' @ take 200 (ht_content h)) (enumerate 1 hs)))"

definition learn_text :: "string option \<Rightarrow> string" where
  "learn_text skill = (case skill of
     Some n \<Rightarrow> if n \<noteq> [] then check_mark @ '' Skill extracted: **'' @ n @ ''**'' else ''No reusable skill identified.''
   | None \<Rightarrow> ''No reusable skill identified.'')"

definition index_text :: "index_counts \<Rightarrow> string" where
  "index_text n =
     check_mark @ '' Codebase indexed'' @ [nl]
     @ ''- Files indexed: '' @ nat_str (ic_indexed n) @ [nl]
     @ ''- Files unchanged: '' @ nat_str (ic_unchanged n) @ [nl]
     @ ''- Chunks: '' @ nat_str (ic_chunks n) @ [nl]
     @ ''- Skipped: '' @ nat_str (ic_skipped n)"

text \<open>The status report, from the states of all components.\<close>

text \<open>The line of the sessions; it is left out when listing them raises.\<close>

definition session_line :: "'s list result \<Rightarrow> string" where
  "session_line r = (case r of
     Inr ss \<Rightarrow> ''- Sessions: '' @ nat_str (length ss) @ '' active'' @ [nl]
   | Inl _ \<Rightarrow> [])"

text \<open>The database of the model does not raise, so the line is there.\<close>

definition status_text :: "'w app \<Rightarrow> app_state \<Rightarrow> 'w \<Rightarrow> string" where
  "status_text A s w =
     (let C = ap_config A; ag = agents_status (as_agents s); pq = queue_depth (as_patches s);
          ms = get_summary (as_metrics s); ft = get_stats (ap_train A) w;
          catalog = catalog_with_status (as_registry s);
          shown = (\<lambda>j. py_str (ap_fr A) j); num = (\<lambda>d k. nat_str (get_or d k 0));
          tok = (\<lambda>k. case get_or ms k (JInt 0) of JInt n \<Rightarrow> n | _ \<Rightarrow> 0)
      in ''**System Status** (v0.5.0  profile='' @ cf_profile C @ '')'' @ [nl]
         @ ''- Agents: '' @ num ag ''total'' @ '' total, '' @ num ag ''running'' @ '' running, ''
         @ num ag ''done'' @ '' done, '' @ num ag ''failed'' @ '' failed'' @ [nl]
         @ session_line (Inr (list_sessions (ap_sessions A) (Some ''active'') w))
         @ ''- Patches: '' @ num pq ''total'' @ '' total ('' @ num pq ''pending'' @ '' pending), ''
         @ ''depth limit '' @ int_str (limit C ''MAX_PATCH_QUEUE_DEPTH'') @ [nl]
         @ ''- Metrics: '' @ shown (get_or ms ''total_requests'' (JInt 0)) @ '' requests, ''
         @ int_str (tok ''total_tokens_in'' + tok ''total_tokens_out'') @ '' tokens, ''
         @ ''avg '' @ shown (get_or ms ''avg_latency_ms'' (JInt 0)) @ ''ms'' @ [nl]
         @ ''- Training data: '' @ shown (get_or ft ''records'' (JInt 0)) @ '' examples'' @ [nl]
         @ ''- Models: '' @ nat_str (length (filter mn_on_disk catalog)) @ ''/'' @ nat_str (length catalog) @ '' on disk'' @ [nl]
         @ ''- Embed cache: '' @ int_str (limit C ''EMBED_CACHE_MAX_SIZE'') @ '' max entries (LRU)'' @ [nl]
         @ ''- Executor slots: '' @ int_str (limit C ''MAX_EXECUTOR_CONCURRENCY''))"

definition with_memory :: "app_state \<Rightarrow> ('a \<Rightarrow> string) \<Rightarrow> 'a result \<times> memory \<times> 'w \<Rightarrow> string result \<times> app_state \<times> 'w" where
  "with_memory s f x = (case x of (r, m1, w1) \<Rightarrow> (bind_result r (\<lambda>y. Inr (f y)), s\<lparr>as_memory := m1\<rparr>, w1))"

text \<open>No value means that the loop of \<open>execute_plan\<close> has not ended within the fuel.\<close>

definition execute_command :: "nat \<Rightarrow> 'w task_env \<Rightarrow> string \<Rightarrow> 'w \<Rightarrow> (string \<times> 'w) option" where
  "execute_command fuel E sid w = map_option (\<lambda>(r, w1). (execution_text r, w1)) (execute_plan fuel E sid w)"

definition handle_command :: "'w app \<Rightarrow> parsed_command \<Rightarrow> message list \<Rightarrow> app_state \<Rightarrow> 'w
    \<Rightarrow> (string result \<times> app_state \<times> 'w) option" where
  "handle_command A c msgs s w =
     (let sid = ap_uuid A w; name = cm_name c; args = cm_args c in
      if name = ''architect'' then Some (agent_command A ''architect'' ''Architect Plan'' args sid s w)
      else if name = ''debate'' then
        (case run_debate (ap_config A) (ap_spawner A) args sid [] None w of
           (r, w1) \<Rightarrow> Some (bind_result r (\<lambda>d. Inr (debate_text d)), s, w1))
      else if name = ''review'' then Some (agent_command A ''reviewer'' ''Review'' args sid s w)
      else if name = ''test'' then Some (agent_command A ''tester'' ''Tests'' args sid s w)
      else if name = ''execute'' then
        map_option (\<lambda>(t, w1). (Inr t, s, w1)) (execute_command (ap_fuel A) (ap_tasks A) sid w)
      else if name = ''memory'' then
        Some (with_memory s (memories_text args) (recall (ap_memory A) args 5 (as_memory s) w))
      else if name = ''learn'' then
        Some (with_memory s learn_text
          (extract_skills (ap_memory A) (ap_fr A) (map message_json msgs) (as_memory s) w))
      else if name = ''status'' then Some (Inr (status_text A s w), s, w)
      else if name = ''index'' then
        Some (with_memory s index_text (index_codebase (ap_memory A) ''/workspace'' (as_memory s) w))
      else Some (Inr (''Unknown command: `'' @ args @ ''`'' @ [nl, nl] @ help_text), s, w))"

section \<open>The endpoint\<close>

definition make_response :: "'w app \<Rightarrow> string \<Rightarrow> string \<Rightarrow> 'w \<Rightarrow> json dict" where
  "make_response A content model w =
     [(''id'', JStr (''chatcmpl-'' @ ap_hex12 A w)), (''object'', JStr ''chat.completion''),
      (''created'', JInt \<lfloor>ap_now A w\<rfloor>), (''model'', JStr model),
      (''choices'', JList [JObj [(''index'', JInt 0),
         (''message'', JObj [(''role'', JStr ''assistant''), (''content'', JStr content)]),
         (''finish_reason'', JStr ''stop'')]]),
      (''usage'', JObj [(''prompt_tokens'', JInt 0), (''completion_tokens'', JInt 0), (''total_tokens'', JInt 0)])]"

text \<open>A list of blocks becomes one text before the commands are looked for.\<close>

definition flatten_message :: "message \<Rightarrow> message" where
  "flatten_message m = (case msg_content m of
     CBlocks bs \<Rightarrow> m\<lparr>msg_content := CText (join '' ''
         (map (\<lambda>b. case b of BText t \<Rightarrow> t | BDict None \<Rightarrow> [] | BDict (Some t) \<Rightarrow> t) bs))\<rparr>
   | _ \<Rightarrow> m)"

definition chat_completions :: "'w app \<Rightarrow> chat_request \<Rightarrow> app_state \<Rightarrow> 'w
    \<Rightarrow> (raw_answer result \<times> app_state \<times> 'w) option" where
  "chat_completions A rq s w =
     (case parse (ap_uuid A w) (map flatten_message (rq_messages rq)) of
        Some c \<Rightarrow>
          map_option (\<lambda>(r, s1, w1). (bind_result r (\<lambda>t. Inr (RawDict (make_response A t ''orchestrator'' w1))), s1, w1))
            (handle_command A c (rq_messages rq) s w)
      | None \<Rightarrow>
          (case dispatch (ap_router A) rq ''coder'' [] ''default'' (as_health s) w of
             (r, hc1, w1) \<Rightarrow>
               Some ((case r of Inl e \<Rightarrow> Inl (HTTPException 502 (''Model backend error: '' @ exc_str e)) | Inr x \<Rightarrow> Inr x),
                     s\<lparr>as_health := hc1\<rparr>, w1)))"

end
