(* ===== verification/Api_Props.thy ===== *)
theory Api_Props
  imports Api_Chat Task_Props
begin

text \<open>
  Properties of the endpoints together with the components behind them: loading a plan and
  executing it, loading a plan that does not validate, and the command \<open>/execute\<close>.
\<close>

section \<open>Loading and executing\<close>

lemma same_sched_frame:
  "(\<And>k. \<not> session_key k \<Longrightarrow> d' k = d k) \<Longrightarrow> same_sched d d'"
  by (auto simp: same_sched_def session_key_def prefix_def)

lemma register_task_frame:
  assumes "redis_server R db ttl" "se_redis SE = R"
  shows "same_sched (db w) (db (register_task SE sid tid w))"
proof (rule same_sched_frame)
  fix k assume "\<not> session_key k"
  then have "k \<noteq> state_key i" for i by auto
  then show "db (register_task SE sid tid w) k = db w k"
    using assms(2)
    by (auto simp: register_task_def write_state_def Let_def redis_server.setex_db [OF assms(1)]
        redis_server.expire_db [OF assms(1)] split: option.splits)
qed

lemma register_tasks_frame:
  assumes "redis_server R db ttl" "se_redis SE = R"
  shows "same_sched (db w) (db (register_tasks SE sid ts w))"
proof (induction ts arbitrary: w)
  case (Cons t ts)
  then show ?case using register_task_frame [OF assms] same_sched_trans by fastforce
qed simp

lemma idle_plan_sched:
  assumes "idle_plan d sid ts" "same_sched d d'"
  shows "idle_plan d' sid ts"
proof -
  have "plan_at d' sid ts" using assms by (auto simp: idle_plan_def same_sched_def intro: plan_at_cong)
  then show ?thesis using assms by (simp add: idle_plan_def no_lease_def same_sched_def lease_key_def)
qed

text \<open>C2: a plan that was loaded is carried out.  When the endpoint that loads tasks accepts them, the
  endpoint that executes the session answers, for every behaviour of the agents and every
  interleaving, that no task remains and that each task is complete, failed or blocked.\<close>

theorem load_then_execute:
  assumes "task_host R db ttl TE" "0 < te_max_parallel TE" "se_redis SE = R"
    and "list_at (db w) (list_key sid) = Some ids" "\<forall>t\<in>set ts. db w (lease_key sid (task_id t)) = None"
    and "load_tasks_ep R SE (Some sid) (Some ts) w = (Inr d, w1)"
  shows "\<exists>d2 w2 c f b. execute_tasks_ep (length ts + 1) TE (Some sid) w1 = Some (d2, w2) \<and>
    map_of d2 ''remaining'' = Some (JInt 0) \<and> map_of d2 ''complete'' = Some (JInt c) \<and>
    map_of d2 ''failed'' = Some (JInt f) \<and> map_of d2 ''blocked'' = Some (JInt b) \<and> c + f + b = int (length ts)"
proof -
  let ?ts = "map (\<lambda>t. t\<lparr>task_status := Pending\<rparr>) ts"
  have R: "redis_server R db ttl" using assms(1) by (simp add: task_host_def)
  have valid: "validate_dag ts = Inr ()" and w1: "w1 = register_tasks SE sid ts (snd (load_plan R sid ts w))"
    using assms(6) by (auto simp: load_tasks_ep_def load_plan_def Let_def given_def split: sum.splits exn.splits if_splits)
  have "idle_plan (db w1) sid ?ts"
    using redis_server.loaded_idle [OF R assms(4) valid assms(5)] register_tasks_frame [OF R assms(3)]
    unfolding w1 by (rule idle_plan_sched)
  moreover have "through ?ts = {}" by (auto simp: through_def status_of_def dest!: find_SomeD)
  ultimately obtain rep w2 where "execute_plan (length ts + 1) TE sid w1 = Some (rep, w2)" "pr_remaining rep = 0"
      "pr_complete rep + pr_failed rep + pr_blocked rep = length ts"
    using task_host.execute_plan_ends [OF assms(1) _ assms(2)] by fastforce
  then show ?thesis by (auto simp: execute_tasks_ep_def given_def report_dict_def)
qed

theorem load_then_execute_witness:
  "\<exists>d w1 d2 w2. load_tasks_ep mem_redis demo_sessions (Some ''s'') (Some demo_plan) [] = (Inr d, w1) \<and>
     execute_tasks_ep (length demo_plan + 1) demo_env (Some ''s'') w1 = Some (d2, w2) \<and>
     map_of d2 ''remaining'' = Some (JInt 0)"
proof -
  have v: "validate_dag demo_plan = Inr ()" by code_simp
  have "\<exists>d w1. load_tasks_ep mem_redis demo_sessions (Some ''s'') (Some demo_plan) [] = (Inr d, w1)"
    by (simp add: load_tasks_ep_def load_plan_def Let_def given_def v) (simp add: demo_plan_def)
  then obtain d w1 where l: "load_tasks_ep mem_redis demo_sessions (Some ''s'') (Some demo_plan) [] = (Inr d, w1)"
    by blast
  have "list_at (mem_db []) (list_key ''s'') = Some []" "0 < te_max_parallel demo_env"
      "se_redis demo_sessions = mem_redis" "\<forall>t\<in>set demo_plan. mem_db [] (lease_key ''s'' (task_id t)) = None"
    by (simp_all add: mem_db_def demo_env_def demo_sessions_def)
  from load_then_execute [OF demo.task_host_axioms this(2,3,1,4) l] l show ?thesis by blast
qed

section \<open>A plan that does not validate\<close>

text \<open>A refused plan destroys the stored one.  When the tasks do not validate, the endpoint answers 400,
  and the session, whatever plan it held before, has no task any more.\<close>

theorem refused_plan_destroys:
  assumes "redis_server R db ttl" "list_at (db w) (list_key sid) = Some ids"
    and "ts \<noteq> []" "validate_dag ts = Inl (ValueError m)"
  shows "fst (load_tasks_ep R SE (Some sid) (Some ts) w) = Inl (HTTPException 400 m) \<and>
    all_tasks R sid (snd (load_tasks_ep R SE (Some sid) (Some ts) w)) = []"
  using redis_server.load_plan_error [OF assms(1,2,4)] assms(3)
  by (auto simp: load_tasks_ep_def given_def Let_def split: prod.splits)

theorem refused_plan_destroys_witness:
  "all_tasks mem_redis ''s'' (snd (load_plan mem_redis ''s'' demo_plan [])) \<noteq> [] \<and>
   all_tasks mem_redis ''s'' (snd (load_tasks_ep mem_redis demo_sessions (Some ''s'') (Some [demo_task ''x'' [''y'']])
     (snd (load_plan mem_redis ''s'' demo_plan [])))) = []"
proof -
  have v: "validate_dag demo_plan = Inr ()" by code_simp
  have l: "list_at (mem_db []) (list_key ''s'') = Some []" by (simp add: mem_db_def)
  note ok = memr.load_plan_ok [OF l v]
  have "all_tasks mem_redis ''s'' (snd (load_plan mem_redis ''s'' demo_plan [])) = map (\<lambda>t. t\<lparr>task_status := Pending\<rparr>) demo_plan"
    by (rule memr.all_tasks_plan) (use ok in blast)
  then have "all_tasks mem_redis ''s'' (snd (load_plan mem_redis ''s'' demo_plan [])) \<noteq> []"
    by (simp add: demo_plan_def)
  moreover from ok have "list_at (mem_db (snd (load_plan mem_redis ''s'' demo_plan []))) (list_key ''s'') =
      Some (task_ids (map (\<lambda>t. t\<lparr>task_status := Pending\<rparr>) demo_plan))" by (simp add: plan_at_def)
  moreover have "\<exists>m. validate_dag [demo_task ''x'' [''y'']] = Inl (ValueError m)"
    by (simp add: validate_dag_def demo_task_def task_ids_def)
  ultimately show ?thesis using refused_plan_destroys [OF memr.redis_server_axioms] by blast
qed

section \<open>The execute command\<close>

text \<open>\<open>/execute\<close> executes nothing.  The command looks for tasks under a session id made for the request; no
  plan is stored under it, so the answer counts no task and the world is unchanged.\<close>

theorem execute_command_runs_nothing:
  assumes "redis_server (te_redis TE) db ttl" "list_at (db w) (list_key sid) = Some []" "0 < fuel"
  shows "execute_command fuel TE sid w = Some (execution_text \<lparr>pr_executed = 0, pr_complete = 0, pr_failed = 0,
    pr_blocked = 0, pr_remaining = 0, pr_tasks = []\<rparr>, w)"
proof -
  have "plan_at (db w) sid []" using assms(2) by (simp add: plan_at_def task_ids_def)
  from redis_server.all_tasks_plan [OF assms(1) this] have "all_tasks (te_redis TE) sid w = []" .
  moreover obtain n where "fuel = Suc n" using assms(3) by (cases fuel) auto
  ultimately show ?thesis
    by (simp add: execute_command_def execute_plan_def get_ready_tasks_def ready_of_def get_session_status_def get_or_def)
qed

theorem execute_command_runs_nothing_witness:
  "\<exists>w. all_tasks mem_redis ''s'' w \<noteq> [] \<and> map_option snd (execute_command 1 demo_env ''u'' w) = Some w"
proof -
  let ?w = "snd (load_plan mem_redis ''s'' [demo_task ''x'' []] [])"
  have "mem_db ?w (list_key ''u'') = None \<and> all_tasks mem_redis ''s'' ?w \<noteq> []" by code_simp
  then have l: "list_at (mem_db ?w) (list_key ''u'') = Some []" "all_tasks mem_redis ''s'' ?w \<noteq> []"
    by (simp_all add: list_at_def)
  have "redis_server (te_redis demo_env) mem_db mem_ttl"
    using memr.redis_server_axioms by (simp add: demo_env_def)
  from execute_command_runs_nothing [OF this l(1), of 1] l(2) show ?thesis by fastforce
qed

end
