(* ===== verification/Tui_State.thy ===== *)
theory Tui_State
  imports Py_Json
begin

text \<open>
  \<open>tui/tui/state.py\<close>: the state of the terminal interface.  Values taken from documents of the
  orchestrator keep their JSON form; the clock is a parameter.  The theorem is the invariant of
  the state: the bounds of its lists and the patch counter, kept by every operation.
\<close>

section \<open>State\<close>

record ui_state =
  ui_screen :: string
  ui_focus :: string
  ui_connection :: string
  ui_dag_open :: bool
  ui_following :: string
  ui_notes :: "string list"

record project_state =
  pj_id :: json
  pj_name :: json
  pj_workspace :: json
  pj_sessions :: "json list"
  pj_branch :: string
  pj_dirty :: bool
  pj_url :: json

record agent_info =
  ai_id :: string
  ai_role :: json
  ai_status :: json
  ai_model :: json
  ai_task :: json
  ai_started :: json
  ai_ended :: json

record task_info =
  ti_id :: string
  ti_role :: json
  ti_desc :: json
  ti_status :: json
  ti_deps :: json
  ti_preview :: json

record patch_info =
  pi_id :: string
  pi_agent :: json
  pi_descr :: json
  pi_status :: json
  pi_files :: json
  pi_created :: json

record log_entry =
  le_ts :: real
  le_source :: json
  le_type :: string
  le_content :: json

record tui_session =
  ts_id :: string
  ts_status :: json
  ts_task :: json
  ts_agents :: "agent_info dict"
  ts_tasks :: "task_info dict"
  ts_patches :: "patch_info dict"
  ts_tokens :: int
  ts_patch_count :: nat
  ts_start :: real
  ts_models :: json
  ts_log :: "log_entry list"

record tui =
  tu_ui :: ui_state
  tu_project :: "project_state option"
  tu_session :: "tui_session option"

definition initial_ui :: ui_state where
  "initial_ui = \<lparr>ui_screen = ''launcher'', ui_focus = [], ui_connection = ''disconnected'', ui_dag_open = True,
     ui_following = [], ui_notes = []\<rparr>"

definition initial_tui :: tui where
  "initial_tui = \<lparr>tu_ui = initial_ui, tu_project = None, tu_session = None\<rparr>"

section \<open>Queries\<close>

definition live_states :: "json list" where
  "live_states = map JStr [''idle'', ''running'', ''done'', ''failed'', ''killed'']"

definition active_agents :: "tui_session \<Rightarrow> agent_info list" where
  "active_agents s = filter (\<lambda>a. ai_status a \<in> set live_states) (dict_values (ts_agents s))"

definition running_agents :: "tui_session \<Rightarrow> agent_info list" where
  "running_agents s = filter (\<lambda>a. ai_status a = JStr ''running'') (dict_values (ts_agents s))"

definition tasks_list :: "tui_session \<Rightarrow> task_info list" where
  "tasks_list s = dict_values (ts_tasks s)"

fun created_at :: "json \<Rightarrow> real" where
  "created_at (JFloat x) = x"
| "created_at (JInt n) = of_int n"
| "created_at _ = 0"

definition patches_list :: "tui_session \<Rightarrow> patch_info list" where
  "patches_list s = sort_key (\<lambda>p. - created_at (pi_created p)) (dict_values (ts_patches s))"

section \<open>The user interface\<close>

definition set_connection :: "string \<Rightarrow> tui \<Rightarrow> tui" where
  "set_connection v t = t\<lparr>tu_ui := (tu_ui t)\<lparr>ui_connection := v\<rparr>\<rparr>"

definition set_following :: "string \<Rightarrow> tui \<Rightarrow> tui" where
  "set_following aid t = t\<lparr>tu_ui := (tu_ui t)\<lparr>ui_following := aid\<rparr>\<rparr>"

definition toggle_dag :: "tui \<Rightarrow> bool \<times> tui" where
  "toggle_dag t = (let b = (\<not> ui_dag_open (tu_ui t)) in (b, t\<lparr>tu_ui := (tu_ui t)\<lparr>ui_dag_open := b\<rparr>\<rparr>))"

definition push_notification :: "string \<Rightarrow> tui \<Rightarrow> tui" where
  "push_notification msg t =
     (let ns = ui_notes (tu_ui t) @ [msg]
      in t\<lparr>tu_ui := (tu_ui t)\<lparr>ui_notes := (if length ns > 10 then tl ns else ns)\<rparr>\<rparr>)"

section \<open>The session\<close>

definition init_session :: "real \<Rightarrow> string \<Rightarrow> json \<Rightarrow> json \<Rightarrow> tui \<Rightarrow> tui" where
  "init_session now sid tsk models t =
     t\<lparr>tu_session := Some \<lparr>ts_id = sid, ts_status = JStr [], ts_task = tsk, ts_agents = [], ts_tasks = [],
       ts_patches = [], ts_tokens = 0, ts_patch_count = 0, ts_start = now,
       ts_models = json_or models (JObj []), ts_log = []\<rparr>\<rparr>"

definition clear_session :: "tui \<Rightarrow> tui" where
  "clear_session t = t\<lparr>tu_session := None\<rparr>"

text \<open>An operation on the session, which does nothing when there is none.  An operation that raises
  keeps what it had changed before.\<close>

definition on_session :: "(tui_session \<Rightarrow> unit result \<times> tui_session) \<Rightarrow> tui \<Rightarrow> unit result \<times> tui" where
  "on_session f t = (case tu_session t of None \<Rightarrow> (Inr (), t)
     | Some s \<Rightarrow> (case f s of (r, s1) \<Rightarrow> (r, t\<lparr>tu_session := Some s1\<rparr>)))"

text \<open>\<open>d[k]\<close> used as the key of a dict: the ids are texts.\<close>

definition id_field :: "json dict \<Rightarrow> string \<Rightarrow> string result" where
  "id_field d k = (case map_of d k of
     None \<Rightarrow> Inl (KeyError k) | Some (JStr i) \<Rightarrow> Inr i | Some j \<Rightarrow> Inl (TypeError (type_name j)))"

definition upsert_agent :: "real \<Rightarrow> json dict \<Rightarrow> tui_session \<Rightarrow> unit result \<times> tui_session" where
  "upsert_agent now d s =
     (case id_field d ''agent_id'' of
        Inl e \<Rightarrow> (Inl e, s)
      | Inr aid \<Rightarrow> (Inr (), s\<lparr>ts_agents := dict_set (ts_agents s) aid
         (case map_of (ts_agents s) aid of
            Some a \<Rightarrow> a\<lparr>ai_status := get_or d ''status'' (ai_status a),
                        ai_model := json_or (get_or d ''model'' (ai_model a)) (ai_model a),
                        ai_task := json_or (get_or d ''task'' (ai_task a)) (ai_task a),
                        ai_ended := json_or (get_or d ''ended_at'' JNull) (ai_ended a)\<rparr>
          | None \<Rightarrow> \<lparr>ai_id = aid, ai_role = get_or d ''role'' (JStr []), ai_status = get_or d ''status'' (JStr ''idle''),
                      ai_model = get_or d ''model'' (JStr []), ai_task = get_or d ''task'' (JStr []),
                      ai_started = get_or d ''started_at'' (JFloat now), ai_ended = JFloat 0\<rparr>)\<rparr>))"

text \<open>\<open>v[:n]\<close>.\<close>

definition slice_to :: "nat \<Rightarrow> json \<Rightarrow> json result" where
  "slice_to n v = (case v of
     JStr t \<Rightarrow> Inr (JStr (take n t))
   | JList xs \<Rightarrow> Inr (JList (take n xs))
   | _ \<Rightarrow> Inl (TypeError ([CHR 0x27] @ type_name v @ [CHR 0x27] @ '' object is not subscriptable'')))"

definition upsert_task :: "json dict \<Rightarrow> tui_session \<Rightarrow> unit result \<times> tui_session" where
  "upsert_task d s =
     (case id_field d ''id'' of
        Inl e \<Rightarrow> (Inl e, s)
      | Inr tid \<Rightarrow>
         (case map_of (ts_tasks s) tid of
            Some t \<Rightarrow>
              let t1 = t\<lparr>ti_status := get_or d ''status'' (ti_status t)\<rparr> in
              (case slice_to 100 (get_or d ''result'' (JStr [])) of
                 Inl e \<Rightarrow> (Inl e, s\<lparr>ts_tasks := dict_set (ts_tasks s) tid t1\<rparr>)
               | Inr p \<Rightarrow> (Inr (), s\<lparr>ts_tasks := dict_set (ts_tasks s) tid (t1\<lparr>ti_preview := p\<rparr>)\<rparr>))
          | None \<Rightarrow>
              (Inr (), s\<lparr>ts_tasks := dict_set (ts_tasks s) tid
                \<lparr>ti_id = tid, ti_role = get_or d ''role'' (JStr []), ti_desc = get_or d ''desc'' (JStr []),
                 ti_status = get_or d ''status'' (JStr ''pending''), ti_deps = get_or d ''deps'' (JList []),
                 ti_preview = JStr []\<rparr>\<rparr>)))"

definition applied_count :: "patch_info dict \<Rightarrow> nat" where
  "applied_count ps = length (filter (\<lambda>p. pi_status p = JStr ''applied'') (dict_values ps))"

definition upsert_patch :: "real \<Rightarrow> json dict \<Rightarrow> tui_session \<Rightarrow> unit result \<times> tui_session" where
  "upsert_patch now d s =
     (case id_field d ''patch_id'' of
        Inl e \<Rightarrow> (Inl e, s)
      | Inr pid \<Rightarrow> let ps = dict_set (ts_patches s) pid
         (case map_of (ts_patches s) pid of
            None \<Rightarrow> \<lparr>pi_id = pid, pi_agent = get_or d ''agent_id'' (JStr []),
                      pi_descr = get_or d ''description'' (JStr []), pi_status = get_or d ''status'' (JStr ''pending''),
                      pi_files = get_or d ''files'' (JList []), pi_created = get_or d ''created_at'' (JFloat now)\<rparr>
          | Some p \<Rightarrow> p\<lparr>pi_status := get_or d ''status'' (JStr ''pending'')\<rparr>)
       in (Inr (), s\<lparr>ts_patches := ps, ts_patch_count := applied_count ps\<rparr>))"

definition add_tokens :: "int \<Rightarrow> tui_session \<Rightarrow> tui_session" where
  "add_tokens n s = s\<lparr>ts_tokens := ts_tokens s + n\<rparr>"

definition log_event :: "real \<Rightarrow> json \<Rightarrow> string \<Rightarrow> json \<Rightarrow> tui_session \<Rightarrow> tui_session" where
  "log_event now source ty content s =
     (let log = ts_log s @ [\<lparr>le_ts = now, le_source = source, le_type = ty, le_content = content\<rparr>]
      in s\<lparr>ts_log := (if length log > 500 then drop (length log - 500) log else log)\<rparr>)"

section \<open>The invariant\<close>

definition session_ok :: "tui_session \<Rightarrow> bool" where
  "session_ok s \<longleftrightarrow> ts_patch_count s = applied_count (ts_patches s) \<and> length (ts_log s) \<le> 500 \<and>
     distinct (map fst (ts_agents s)) \<and> distinct (map fst (ts_tasks s)) \<and> distinct (map fst (ts_patches s)) \<and>
     (\<forall>i a. map_of (ts_agents s) i = Some a \<longrightarrow> ai_id a = i)"

definition tui_ok :: "tui \<Rightarrow> bool" where
  "tui_ok t \<longleftrightarrow> length (ui_notes (tu_ui t)) \<le> 10 \<and> (case tu_session t of None \<Rightarrow> True | Some s \<Rightarrow> session_ok s)"

lemma upsert_agent_ok: "session_ok s \<Longrightarrow> upsert_agent now d s = (r, s1) \<Longrightarrow> session_ok s1"
  by (auto simp: upsert_agent_def session_ok_def Let_def split: if_splits sum.splits) (auto split: option.splits)

lemma upsert_task_ok: "session_ok s \<Longrightarrow> upsert_task d s = (r, s1) \<Longrightarrow> session_ok s1"
  by (auto simp: upsert_task_def session_ok_def distinct_dict_set Let_def split: option.splits sum.splits)

lemma upsert_patch_ok: "session_ok s \<Longrightarrow> upsert_patch now d s = (r, s1) \<Longrightarrow> session_ok s1"
  by (auto simp: upsert_patch_def session_ok_def distinct_dict_set Let_def split: sum.splits)

lemma add_tokens_ok: "session_ok s \<Longrightarrow> session_ok (add_tokens n s)"
  by (simp add: add_tokens_def session_ok_def)

lemma log_event_ok: "session_ok s \<Longrightarrow> session_ok (log_event now a b c s)"
  by (simp add: log_event_def session_ok_def Let_def)

lemma init_session_ok: "tui_ok t \<Longrightarrow> tui_ok (init_session now sid tsk models t)"
  by (simp add: tui_ok_def init_session_def session_ok_def applied_count_def dict_values_def)

lemma on_session_ok:
  assumes "tui_ok t" "\<And>s r s1. session_ok s \<Longrightarrow> f s = (r, s1) \<Longrightarrow> session_ok s1"
  shows "tui_ok (snd (on_session f t))"
  using assms by (auto simp: tui_ok_def on_session_def split: option.splits prod.splits)

text \<open>The operations of the state, as the services call them.\<close>

datatype tui_op =
    Tui_Connection string | Tui_Following string | Tui_Toggle | Tui_Notify string
  | Tui_Init real string json json | Tui_Clear
  | Tui_Agent real "json dict" | Tui_Task "json dict" | Tui_Patch real "json dict"
  | Tui_Tokens int | Tui_Log real json string json

fun tui_step :: "tui_op \<Rightarrow> tui \<Rightarrow> unit result \<times> tui" where
  "tui_step (Tui_Connection v) t = (Inr (), set_connection v t)"
| "tui_step (Tui_Following i) t = (Inr (), set_following i t)"
| "tui_step Tui_Toggle t = (Inr (), snd (toggle_dag t))"
| "tui_step (Tui_Notify m) t = (Inr (), push_notification m t)"
| "tui_step (Tui_Init now sid tsk ms) t = (Inr (), init_session now sid tsk ms t)"
| "tui_step Tui_Clear t = (Inr (), clear_session t)"
| "tui_step (Tui_Agent now d) t = on_session (upsert_agent now d) t"
| "tui_step (Tui_Task d) t = on_session (upsert_task d) t"
| "tui_step (Tui_Patch now d) t = on_session (upsert_patch now d) t"
| "tui_step (Tui_Tokens n) t = on_session (\<lambda>s. (Inr (), add_tokens n s)) t"
| "tui_step (Tui_Log now a b c) t = on_session (\<lambda>s. (Inr (), log_event now a b c s)) t"

inductive tui_reach :: "tui \<Rightarrow> bool" where
  tui_start: "tui_reach initial_tui"
| tui_go: "tui_reach t \<Longrightarrow> tui_reach (snd (tui_step oper t))"

lemma tui_step_ok: "tui_ok t \<Longrightarrow> tui_ok (snd (tui_step oper t))"
proof (cases oper)
  case (Tui_Init now sid tsk ms)
  then show "tui_ok t \<Longrightarrow> ?thesis" using init_session_ok by auto
next
  case (Tui_Agent now d)
  then show "tui_ok t \<Longrightarrow> ?thesis" using on_session_ok [OF _ upsert_agent_ok] by simp
next
  case (Tui_Task d)
  then show "tui_ok t \<Longrightarrow> ?thesis" using on_session_ok [OF _ upsert_task_ok] by simp
next
  case (Tui_Patch now d)
  then show "tui_ok t \<Longrightarrow> ?thesis" using on_session_ok [OF _ upsert_patch_ok] by simp
next
  case (Tui_Tokens n)
  then show "tui_ok t \<Longrightarrow> ?thesis" using on_session_ok [of t "\<lambda>s. (Inr (), add_tokens n s)"] add_tokens_ok by auto
next
  case (Tui_Log now a b c)
  then show "tui_ok t \<Longrightarrow> ?thesis" using on_session_ok [of t "\<lambda>s. (Inr (), log_event now a b c s)"] log_event_ok by auto
qed (auto simp: tui_ok_def set_connection_def set_following_def toggle_dag_def push_notification_def clear_session_def Let_def)

text \<open>The state of the interface stays within its bounds.  In every reachable state there are at most ten
  notifications and five hundred log entries, no two agents, tasks or patches share an id, and
  the patch counter is the number of applied patches.\<close>

theorem tui_state_invariant:
  assumes "tui_reach t"
  shows "length (ui_notes (tu_ui t)) \<le> 10 \<and>
    (case tu_session t of None \<Rightarrow> True
     | Some s \<Rightarrow> length (ts_log s) \<le> 500 \<and> distinct (map fst (ts_agents s)) \<and> distinct (map fst (ts_tasks s)) \<and>
         distinct (map fst (ts_patches s)) \<and> ts_patch_count s = applied_count (ts_patches s))"
proof -
  have "tui_ok initial_tui" by (simp add: tui_ok_def initial_tui_def initial_ui_def)
  with assms have "tui_ok t" by (induction rule: tui_reach.induct) (auto intro: tui_step_ok)
  then show ?thesis by (auto simp: tui_ok_def session_ok_def split: option.splits)
qed

definition demo_patch :: "string \<Rightarrow> json dict" where
  "demo_patch st = [(''patch_id'', JStr ''p''), (''status'', JStr st)]"

theorem tui_state_invariant_witness:
  "\<exists>t s. tui_reach t \<and> tu_session t = Some s \<and> ts_patch_count s = 1 \<and> applied_count (ts_patches s) = 1"
proof -
  let ?t1 = "init_session 0 ''s'' (JStr ''t'') JNull initial_tui"
  let ?t2 = "snd (tui_step (Tui_Patch 0 (demo_patch ''applied'')) ?t1)"
  have "tui_reach ?t1" using tui_go [OF tui_start, of "Tui_Init 0 ''s'' (JStr ''t'') JNull"] by simp
  then have r: "tui_reach ?t2" by (rule tui_go)
  have s: "\<exists>s. tu_session ?t2 = Some s \<and> ts_patch_count s = 1"
    by (simp add: on_session_def init_session_def upsert_patch_def demo_patch_def id_field_def applied_count_def
        dict_values_def get_or_def Let_def)
  with tui_state_invariant [OF r] r show ?thesis by fastforce
qed

end
