(* ===== verification/Tui_Layout.thy ===== *)
theory Tui_Layout
  imports Tui_State "HOL-Library.Multiset"
begin

text \<open>
  \<open>tui/tui/layout/session_layout.py\<close> and \<open>tui/tui/utils/format.py\<close>: the grid of agent panes and the
  display helpers.  The formatting of a float with one decimal is a parameter; characters outside
  Latin-1 are the control characters named below.  The theorem shows that the panes of a layout do
  not overlap and show every agent once.
\<close>

section \<open>The grid\<close>

definition role_priority :: "string list" where
  "role_priority = [''coder'', ''architect'', ''reviewer'', ''tester'', ''documenter'']"

record pane =
  pa_agent :: string
  pa_role :: json
  pa_css :: string
  pa_col :: nat
  pa_row :: nat
  pa_large :: bool

definition get_layout_class :: "int \<Rightarrow> string" where
  "get_layout_class n =
     (if n \<le> 1 then ''layout-full'' else if n = 2 then ''layout-half-half'' else if n = 3 then ''layout-two-one''
      else if n = 4 then ''layout-two-two'' else ''layout-scroll'')"

fun index_of :: "json \<Rightarrow> string list \<Rightarrow> nat option" where
  "index_of r [] = None"
| "index_of r (x # xs) = (if r = JStr x then Some 0 else map_option Suc (index_of r xs))"

definition priority :: "agent_info \<Rightarrow> nat" where
  "priority a = (case index_of (ai_role a) role_priority of Some i \<Rightarrow> i | None \<Rightarrow> 99)"

definition pane_at :: "nat \<Rightarrow> nat \<Rightarrow> bool \<Rightarrow> agent_info \<Rightarrow> pane" where
  "pane_at col row large a =
     \<lparr>pa_agent = ai_id a, pa_role = ai_role a, pa_css = ''agent-pane-'' @ ai_id a, pa_col = col, pa_row = row, pa_large = large\<rparr>"

text \<open>The panes of agents in order, with the positions given by the index.\<close>

definition panes :: "(nat \<Rightarrow> nat \<times> nat) \<Rightarrow> agent_info list \<Rightarrow> pane list" where
  "panes pos xs = map (\<lambda>(i, a). pane_at (fst (pos i)) (snd (pos i)) (i = 0) a) (enumerate 0 xs)"

definition assign_panes :: "agent_info list \<Rightarrow> pane list" where
  "assign_panes agents =
     (let xs = sort_key priority agents; n = length xs in
      if n = 0 then []
      else if n = 1 then [pane_at 0 0 True (hd xs)]
      else if n = 2 then panes (\<lambda>i. (i, 0)) xs
      else if n = 3 then
        (let coder = (case find (\<lambda>a. ai_role a = JStr ''coder'') xs of Some a \<Rightarrow> a | None \<Rightarrow> hd xs);
             others = filter (\<lambda>a. ai_id a \<noteq> ai_id coder) xs
         in pane_at 1 0 True coder # map (\<lambda>(i, a). pane_at 0 i False a) (enumerate 0 others))
      else panes (\<lambda>i. (i mod 2, i div 2)) xs)"

definition should_show_agent :: "agent_info \<Rightarrow> bool" where
  "should_show_agent a \<longleftrightarrow> truthy (ai_started a) \<and> ai_status a \<noteq> JStr []"

definition filter_display_agents :: "agent_info list \<Rightarrow> agent_info list" where
  "filter_display_agents ags = filter should_show_agent ags"

section \<open>Formatting\<close>

definition ellipsis :: string where "ellipsis = [CHR 0x83]"
definition full_block :: char where "full_block = CHR 0x89"
definition light_block :: char where "light_block = CHR 0x8A"

definition fmt_tokens :: "(real \<Rightarrow> string) \<Rightarrow> int \<Rightarrow> string" where
  "fmt_tokens f1 n =
     (if n < 1000 then int_str n
      else if n < 1000000 then f1 (of_int n / 1000) @ ''k'' else f1 (of_int n / 1000000) @ ''M'')"

text \<open>\<open>int(x)\<close> of a float, and a number with two digits.\<close>

definition trunc :: "real \<Rightarrow> int" where "trunc x = (if x < 0 then - \<lfloor>- x\<rfloor> else \<lfloor>x\<rfloor>)"

definition two_digits :: "int \<Rightarrow> string" where
  "two_digits n = (if 0 \<le> n \<and> n < 10 then CHR ''0'' # int_str n else int_str n)"

definition fmt_elapsed :: "real \<Rightarrow> real \<Rightarrow> string" where
  "fmt_elapsed now start =
     (let secs = trunc (now - start); h = secs div 3600; rest = secs mod 3600; m = rest div 60; s = rest mod 60 in
      if h \<noteq> 0 then two_digits h @ '':'' @ two_digits m @ '':'' @ two_digits s
      else two_digits m @ '':'' @ two_digits s)"

definition plural :: "int \<Rightarrow> string \<Rightarrow> string" where
  "plural n unit = int_str n @ '' '' @ unit @ (if n > 1 then ''s'' else []) @ '' ago''"

definition fmt_relative :: "real \<Rightarrow> real \<Rightarrow> string" where
  "fmt_relative now ts =
     (let delta = now - ts in
      if ts = 0 then ''never''
      else if delta < 60 then ''just now''
      else if delta < 3600 then int_str \<lfloor>delta / 60\<rfloor> @ '' min ago''
      else if delta < 86400 then plural \<lfloor>delta / 3600\<rfloor> ''hour''
      else plural \<lfloor>delta / 86400\<rfloor> ''day'')"

text \<open>\<open>s[:k]\<close>, where a negative \<open>k\<close> counts from the end.\<close>

definition slice_end :: "int \<Rightarrow> string \<Rightarrow> string" where
  "slice_end k s = (if 0 \<le> k then take (nat k) s else take (length s - nat (- k)) s)"

definition truncate :: "string \<Rightarrow> int \<Rightarrow> string \<Rightarrow> string" where
  "truncate s max_len suffx =
     (if int (length s) \<le> max_len then s else slice_end (max_len - int (length suffx)) s @ suffx)"

definition fmt_path :: "string \<Rightarrow> string \<Rightarrow> int \<Rightarrow> string" where
  "fmt_path home path max_len =
     truncate (if startswith path home then CHR ''~'' # drop (length home) path else path) max_len ellipsis"

definition fmt_model :: "string \<Rightarrow> string" where
  "fmt_model model =
     (let m = last (split_char (CHR ''/'') model)
      in replace ''-A22B'' [] (replace ''-A3B'' [] (replace ''-Instruct'' [] m)))"

definition progress_bar :: "real \<Rightarrow> nat \<Rightarrow> string" where
  "progress_bar ratio width =
     (let filled = trunc (ratio * of_nat width)
      in replicate (nat filled) full_block @ replicate (nat (int width - filled)) light_block)"

section \<open>Panes do not overlap\<close>

definition position :: "pane \<Rightarrow> nat \<times> nat" where "position p = (pa_col p, pa_row p)"

lemma panes_maps:
  "map position (panes pos xs) = map pos [0..<length xs]"
  "map pa_agent (panes pos xs) = map ai_id xs"
  "map pa_large (panes pos xs) = map (\<lambda>i. i = 0) [0..<length xs]"
  by (rule nth_equalityI; simp add: panes_def enumerate_eq_zip pane_at_def position_def)+

lemma large_first: "xs \<noteq> [] \<Longrightarrow> map pa_agent (filter pa_large (panes pos xs)) = [ai_id (hd xs)]"
proof (cases xs)
  case (Cons y ys)
  have "filter pa_large (map (\<lambda>(i, a). pane_at (fst (pos i)) (snd (pos i)) (i = 0) a) (zip [1..<Suc (length ys)] ys)) = []"
    by (auto simp: filter_empty_conv pane_at_def dest: set_zip_leftD)
  then show ?thesis using Cons
    by (simp add: panes_def enumerate_eq_zip upt_rec [of 0] pane_at_def del: upt_Suc)
qed simp

lemma grid_injective: "inj (\<lambda>i::nat. (i mod 2, i div 2))"
  by (rule injI) (metis Pair_inject mult_div_mod_eq)

lemma hd_priority:
  assumes "agents \<noteq> []"
  shows "hd (sort_key priority agents) \<in> set agents \<and> (\<forall>b\<in>set agents. priority (hd (sort_key priority agents)) \<le> priority b)"
proof -
  have ne: "sort_key priority agents \<noteq> []" using assms by (metis length_0_conv length_sort)
  moreover have "sorted (map priority (sort_key priority agents))" by simp
  ultimately show ?thesis
    by (cases "sort_key priority agents") (auto simp: set_sort [symmetric, of agents priority] simp del: set_sort)
qed

definition three_panes :: "agent_info \<Rightarrow> agent_info \<Rightarrow> agent_info \<Rightarrow> pane list" where
  "three_panes a b c = [pane_at 1 0 True a, pane_at 0 0 False b, pane_at 0 1 False c]"

lemma find_first_or: "P a \<or> \<not> P b \<and> \<not> P c \<Longrightarrow> (case find P [a, b, c] of Some x \<Rightarrow> x | None \<Rightarrow> hd [a, b, c]) = a"
  by auto

lemma length_three: "length xs = 3 \<Longrightarrow> \<exists>a b c. xs = [a, b, c]"
  by (auto simp: numeral_3_eq_3 length_Suc_conv)

text \<open>With three agents the coder, or the first agent, takes the right column.\<close>

lemma assign_three:
  assumes "sort_key priority agents = [a, b, c]" "distinct (map ai_id [a, b, c])"
  shows "assign_panes agents = three_panes a b c"
proof -
  have p: "priority a \<le> priority b" "priority a \<le> priority c"
    using assms(1) sorted_sort_key [of priority agents] by simp_all
  have coder: "priority x = 0 \<longleftrightarrow> ai_role x = JStr ''coder''" for x
    by (auto simp: priority_def role_priority_def split: option.split)
  have "ai_role a = JStr ''coder'' \<or> ai_role b \<noteq> JStr ''coder'' \<and> ai_role c \<noteq> JStr ''coder''"
    using p coder [of a] coder [of b] coder [of c] by auto
  then have "(case find (\<lambda>a. ai_role a = JStr ''coder'') [a, b, c] of Some a \<Rightarrow> a | None \<Rightarrow> hd [a, b, c]) = a"
    by (rule find_first_or)
  moreover have "filter (\<lambda>x. ai_id x \<noteq> ai_id a) [a, b, c] = [b, c]" using assms(2) by auto
  ultimately show ?thesis
    unfolding assign_panes_def Let_def assms(1) three_panes_def by (simp only:) (simp add: enumerate_eq_zip)
qed

text \<open>The panes of a layout do not overlap.  For agents with distinct ids no two panes have the same cell
  of the grid, every agent has exactly one pane, and the only large pane belongs to an agent whose
  role comes first in the order of priority.\<close>

theorem panes_disjoint:
  assumes "distinct (map ai_id agents)" "agents \<noteq> []"
  shows "distinct (map position (assign_panes agents)) \<and>
    mset (map pa_agent (assign_panes agents)) = mset (map ai_id agents) \<and>
    (\<exists>a\<in>set agents. map pa_agent (filter pa_large (assign_panes agents)) = [ai_id a] \<and>
       (\<forall>b\<in>set agents. priority a \<le> priority b))"
proof -
  let ?xs = "sort_key priority agents"
  have ne: "?xs \<noteq> []" using assms(2) by (metis length_0_conv length_sort)
  have d: "distinct (map ai_id ?xs)"
    using assms(1) by (metis mset_map mset_sort mset_eq_imp_distinct_iff)
  have ids: "mset (map ai_id ?xs) = mset (map ai_id agents)" by simp
  have "distinct (map position (assign_panes agents)) \<and> mset (map pa_agent (assign_panes agents)) = mset (map ai_id ?xs) \<and>
      map pa_agent (filter pa_large (assign_panes agents)) = [ai_id (hd ?xs)]"
  proof (cases "length ?xs = 3")
    case True
    from length_three [OF this] obtain a b c where xs: "?xs = [a, b, c]" by (elim exE)
    show ?thesis using assign_three [OF xs] d xs
      by (simp add: three_panes_def pane_at_def position_def)
  next
    case False
    have one: "length ?xs = 1 \<Longrightarrow> assign_panes agents = panes (\<lambda>i. (i, 0)) ?xs"
      by (cases ?xs) (auto simp: assign_panes_def panes_def enumerate_eq_zip)
    obtain pos where p: "assign_panes agents = panes pos ?xs" "inj pos"
    proof (cases "length ?xs \<le> 2")
      case True
      moreover have "length ?xs \<noteq> 0" using ne by blast
      ultimately consider "length ?xs = 1" | "length ?xs = 2" by linarith
      then have "assign_panes agents = panes (\<lambda>i. (i, 0)) ?xs"
        by cases (use one ne in \<open>simp_all add: assign_panes_def Let_def\<close>)
      then show ?thesis by (rule that) (simp add: inj_def)
    next
      case False2: False
      then have "assign_panes agents = panes (\<lambda>i. (i mod 2, i div 2)) ?xs"
        using False ne by (auto simp: assign_panes_def Let_def)
      then show ?thesis using grid_injective by (rule that)
    qed
    then show ?thesis
      using ne large_first by (simp add: panes_maps distinct_map inj_on_subset [OF p(2)])
  qed
  then show ?thesis using ids hd_priority [OF assms(2)] by auto
qed

definition grid_agent :: "string \<Rightarrow> string \<Rightarrow> agent_info" where
  "grid_agent i role = \<lparr>ai_id = i, ai_role = JStr role, ai_status = JStr ''running'', ai_model = JStr [], ai_task = JStr [],
     ai_started = JFloat 1, ai_ended = JFloat 0\<rparr>"

theorem panes_disjoint_witness:
  "distinct (map position (assign_panes [grid_agent ''1'' ''tester'', grid_agent ''2'' ''coder'', grid_agent ''3'' ''architect''])) \<and>
   map pa_agent (filter pa_large (assign_panes
     [grid_agent ''1'' ''tester'', grid_agent ''2'' ''coder'', grid_agent ''3'' ''architect''])) = [''2'']"
proof -
  let ?ags = "[grid_agent ''1'' ''tester'', grid_agent ''2'' ''coder'', grid_agent ''3'' ''architect'']"
  have d: "distinct (map ai_id ?ags)" "?ags \<noteq> []" by (simp_all add: grid_agent_def)
  have p: "map priority ?ags = [3, 0, 1]" by code_simp
  from panes_disjoint [OF d] p show ?thesis by (auto simp: grid_agent_def)
qed

lemma progress_bar_length: "0 \<le> ratio \<Longrightarrow> ratio \<le> 1 \<Longrightarrow> length (progress_bar ratio width) = width"
proof -
  assume r: "0 \<le> ratio" "ratio \<le> 1"
  then have "ratio * of_nat width \<le> of_nat width" "0 \<le> ratio * of_nat width" by (simp_all add: mult_left_le_one_le)
  moreover from this have "\<not> ratio * of_nat width < 0" by linarith
  ultimately have "0 \<le> trunc (ratio * of_nat width)" "trunc (ratio * of_nat width) \<le> int width"
    unfolding trunc_def by (simp_all add: floor_le_iff)
  then show ?thesis by (simp add: progress_bar_def Let_def)
qed

end
