(* ===== verification/Tui_Client.thy ===== *)
theory Tui_Client
  imports Agent_Manager Model_Registry
begin

text \<open>
  \<open>tui/tui/client.py\<close>: the calls of the terminal interface to the orchestrator, the two token
  streams, and the supervisor of the connection.  HTTP is a parameter; a call that fails raises
  \<open>AicafConnectionError\<close> (\<open>Conn\<close>), an answer of an unexpected form another exception.
\<close>

section \<open>Calls\<close>

datatype client_error = Conn string | Unexpected exn

type_synonym 'a called = "client_error + 'a"

definition bind_called :: "'a called \<Rightarrow> ('a \<Rightarrow> 'b called) \<Rightarrow> 'b called" where
  "bind_called r f = (case r of Inl e \<Rightarrow> Inl e | Inr x \<Rightarrow> f x)"

lemma bind_called_simps [simp]: "bind_called (Inl e) f = Inl e" "bind_called (Inr x) f = f x"
  by (simp_all add: bind_called_def)

record 'w client_env =
  cl_base :: string
  cl_connected :: bool
  cl_get :: "string \<Rightarrow> (string \<times> string) list \<Rightarrow> 'w \<Rightarrow> http_reply result \<times> 'w" \<comment> \<open>path, parameters\<close>
  cl_post :: "string \<Rightarrow> json \<Rightarrow> 'w \<Rightarrow> http_reply result \<times> 'w"
  cl_fr :: "real \<Rightarrow> string"

definition client_base :: "string \<Rightarrow> string" where
  "client_base url = rstrip_char (CHR ''/'') url"

definition not_connected :: client_error where
  "not_connected = Conn (''Client not connected '' @ em_dash @ '' call connect() first'')"

definition get_call :: "'w client_env \<Rightarrow> string \<Rightarrow> (string \<times> string option) list \<Rightarrow> 'w \<Rightarrow> json called \<times> 'w" where
  "get_call E path params w =
     (if \<not> cl_connected E then (Inl not_connected, w)
      else case cl_get E path (List.map_filter (\<lambda>(k, v). map_option (Pair k) v) params) w of
        (Inl e, w1) \<Rightarrow> (Inl (Conn (exn_text e)), w1)
      | (Inr r, w1) \<Rightarrow>
          ((case raise_for_status r of
              Inl _ \<Rightarrow> Inl (Conn (''HTTP '' @ nat_str (hr_status r) @ '': '' @ path))
            | Inr _ \<Rightarrow> (case reply_json r of Inl e \<Rightarrow> Inl (Conn (exn_text e)) | Inr j \<Rightarrow> Inr j)), w1))"

text \<open>The detail of an error answer, when it is a JSON object that has one.\<close>

definition error_detail :: "http_reply \<Rightarrow> json" where
  "error_detail r = (case reply_json r of Inr (JObj d) \<Rightarrow> get_or d ''detail'' (JStr []) | _ \<Rightarrow> JStr [])"

definition post_call :: "'w client_env \<Rightarrow> string \<Rightarrow> json dict \<Rightarrow> 'w \<Rightarrow> json called \<times> 'w" where
  "post_call E path body w =
     (if \<not> cl_connected E then (Inl not_connected, w)
      else case cl_post E path (JObj body) w of
        (Inl e, w1) \<Rightarrow> (Inl (Conn (exn_text e)), w1)
      | (Inr r, w1) \<Rightarrow>
          ((case raise_for_status r of
              Inl _ \<Rightarrow> Inl (Conn (''HTTP '' @ nat_str (hr_status r) @ '': ''
                @ py_str (cl_fr E) (json_or (error_detail r) (JStr path))))
            | Inr _ \<Rightarrow> (case reply_json r of Inl e \<Rightarrow> Inl (Conn (exn_text e)) | Inr j \<Rightarrow> Inr j)), w1))"

text \<open>\<open>data.get(key, [])\<close> of an answer.\<close>

definition list_of :: "string \<Rightarrow> json called \<times> 'w \<Rightarrow> json called \<times> 'w" where
  "list_of key x = (case x of (r, w) \<Rightarrow>
     (bind_called r (\<lambda>j. case json_get j key (JList []) of Inl e \<Rightarrow> Inl (Unexpected e) | Inr v \<Rightarrow> Inr v), w))"

definition tc_health :: "'w client_env \<Rightarrow> 'w \<Rightarrow> json called \<times> 'w" where
  "tc_health E = get_call E ''/health'' []"

definition tc_list_sessions :: "'w client_env \<Rightarrow> string option \<Rightarrow> 'w \<Rightarrow> json called \<times> 'w" where
  "tc_list_sessions E status w = list_of ''sessions'' (get_call E ''/v1/sessions'' [(''status'', status)] w)"

definition tc_get_session :: "'w client_env \<Rightarrow> string \<Rightarrow> 'w \<Rightarrow> json called \<times> 'w" where
  "tc_get_session E sid = get_call E (''/v1/sessions/'' @ sid) []"

definition tc_create_session :: "'w client_env \<Rightarrow> string \<Rightarrow> string option \<Rightarrow> json dict option \<Rightarrow> 'w
    \<Rightarrow> json called \<times> 'w" where
  "tc_create_session E tsk sid models =
     post_call E ''/v1/sessions'' ([(''task'', JStr tsk)]
       @ (case sid of Some s \<Rightarrow> if s \<noteq> [] then [(''session_id'', JStr s)] else [] | None \<Rightarrow> [])
       @ (case models of Some m \<Rightarrow> if m \<noteq> [] then [(''models'', JObj m)] else [] | None \<Rightarrow> []))"

definition tc_end_session :: "'w client_env \<Rightarrow> string \<Rightarrow> string \<Rightarrow> 'w \<Rightarrow> json called \<times> 'w" where
  "tc_end_session E sid summary = post_call E (''/v1/sessions/'' @ sid @ ''/end'') [(''summary'', JStr summary)]"

definition tc_pause_session :: "'w client_env \<Rightarrow> string \<Rightarrow> 'w \<Rightarrow> json called \<times> 'w" where
  "tc_pause_session E sid = post_call E (''/v1/sessions/'' @ sid @ ''/pause'') []"

definition tc_resume_session :: "'w client_env \<Rightarrow> string \<Rightarrow> 'w \<Rightarrow> json called \<times> 'w" where
  "tc_resume_session E sid = post_call E (''/v1/sessions/'' @ sid @ ''/resume'') []"

definition tc_configure_models :: "'w client_env \<Rightarrow> string \<Rightarrow> json dict \<Rightarrow> 'w \<Rightarrow> json called \<times> 'w" where
  "tc_configure_models E sid models =
     post_call E ''/v1/session/configure'' [(''session_id'', JStr sid), (''models'', JObj models)]"

definition tc_get_session_models :: "'w client_env \<Rightarrow> string \<Rightarrow> 'w \<Rightarrow> json called \<times> 'w" where
  "tc_get_session_models E sid = get_call E ''/v1/session/models'' [(''session_id'', Some sid)]"

definition tc_list_agents :: "'w client_env \<Rightarrow> 'w \<Rightarrow> json called \<times> 'w" where
  "tc_list_agents E w = list_of ''agents'' (get_call E ''/v1/agents/list'' [] w)"

definition tc_spawn_agent :: "'w client_env \<Rightarrow> string \<Rightarrow> string \<Rightarrow> string \<Rightarrow> 'w \<Rightarrow> json called \<times> 'w" where
  "tc_spawn_agent E role tsk sid =
     post_call E ''/v1/agents/spawn'' [(''role'', JStr role), (''task'', JStr tsk), (''session_id'', JStr sid)]"

definition tc_send_message :: "'w client_env \<Rightarrow> string \<Rightarrow> string \<Rightarrow> string \<Rightarrow> 'w \<Rightarrow> json called \<times> 'w" where
  "tc_send_message E aid message sender =
     post_call E (''/v1/agents/'' @ aid @ ''/message'') [(''message'', JStr message), (''sender'', JStr sender)]"

definition tc_task_status :: "'w client_env \<Rightarrow> string \<Rightarrow> 'w \<Rightarrow> json called \<times> 'w" where
  "tc_task_status E sid = get_call E ''/v1/tasks/status'' [(''session_id'', Some sid)]"

definition tc_load_tasks :: "'w client_env \<Rightarrow> string \<Rightarrow> json list \<Rightarrow> 'w \<Rightarrow> json called \<times> 'w" where
  "tc_load_tasks E sid tasks =
     post_call E ''/v1/tasks/load'' [(''session_id'', JStr sid), (''tasks'', JList tasks)]"

definition tc_execute_tasks :: "'w client_env \<Rightarrow> string \<Rightarrow> 'w \<Rightarrow> json called \<times> 'w" where
  "tc_execute_tasks E sid = post_call E ''/v1/tasks/execute'' [(''session_id'', JStr sid)]"

definition tc_list_patches :: "'w client_env \<Rightarrow> string \<Rightarrow> 'w \<Rightarrow> json called \<times> 'w" where
  "tc_list_patches E sid w = list_of ''patches'' (get_call E ''/v1/patches/list'' [(''session_id'', Some sid)] w)"

definition tc_process_patches :: "'w client_env \<Rightarrow> 'w \<Rightarrow> json called \<times> 'w" where
  "tc_process_patches E = post_call E ''/v1/patches/process'' []"

definition tc_get_catalog :: "'w client_env \<Rightarrow> 'w \<Rightarrow> json called \<times> 'w" where
  "tc_get_catalog E w = list_of ''models'' (get_call E ''/v1/models/catalog'' [] w)"

definition tc_models_for_role :: "'w client_env \<Rightarrow> string \<Rightarrow> 'w \<Rightarrow> json called \<times> 'w" where
  "tc_models_for_role E role w = list_of ''models'' (get_call E ''/v1/models/for-role'' [(''role'', Some role)] w)"

definition tc_refresh_models :: "'w client_env \<Rightarrow> 'w \<Rightarrow> json called \<times> 'w" where
  "tc_refresh_models E = post_call E ''/v1/models/refresh'' []"

definition tc_index_codebase :: "'w client_env \<Rightarrow> 'w \<Rightarrow> json called \<times> 'w" where
  "tc_index_codebase E = post_call E ''/v1/index'' []"

definition tc_recall :: "'w client_env \<Rightarrow> string \<Rightarrow> 'w \<Rightarrow> json called \<times> 'w" where
  "tc_recall E query w = list_of ''results'' (get_call E ''/v1/memory/recall'' [(''q'', Some query)] w)"

section \<open>Token streams\<close>

text \<open>The payload of a line of an event stream.\<close>

definition sse_data :: "string \<Rightarrow> string option" where
  "sse_data line = (let l = strip line in
     if l = [] \<or> \<not> startswith l ''data:'' then None else Some (strip (drop 5 l)))"

text \<open>The token in a chunk of a chat completion, if it has one.\<close>

definition sse_token :: "json \<Rightarrow> json option result" where
  "sse_token chunk =
     bind_result (json_get chunk ''choices'' (JList [])) (\<lambda>choices.
       if \<not> truthy choices then Inr None
       else bind_result (item0 choices) (\<lambda>c. bind_result (json_get c ''delta'' (JObj [])) (\<lambda>delta.
         bind_result (json_get delta ''content'' (JStr [])) (\<lambda>x.
           Inr (if truthy x then Some x else None)))))"

fun chat_stream :: "string result list \<Rightarrow> json list \<times> client_error option" where
  "chat_stream [] = ([], None)"
| "chat_stream (Inl e # ls) = ([], Some (Conn (exn_text e)))"
| "chat_stream (Inr line # ls) =
     (case sse_data line of
        None \<Rightarrow> chat_stream ls
      | Some data \<Rightarrow>
          if data = ''[DONE]'' then ([], None)
          else case json_loads data of
            None \<Rightarrow> chat_stream ls
          | Some chunk \<Rightarrow>
              (case sse_token chunk of
                 Inl e \<Rightarrow> ([], Some (Conn (exn_text e)))
               | Inr None \<Rightarrow> chat_stream ls
               | Inr (Some x) \<Rightarrow> (case chat_stream ls of (xs, e) \<Rightarrow> (x # xs, e))))"

text \<open>The stream of an agent's tokens; an error ends it quietly.\<close>

fun stream_agent_tokens :: "string result list \<Rightarrow> string list" where
  "stream_agent_tokens [] = []"
| "stream_agent_tokens (Inl e # ls) = []"
| "stream_agent_tokens (Inr line # ls) =
     (case sse_data line of
        None \<Rightarrow> stream_agent_tokens ls
      | Some token \<Rightarrow>
          if token = ''[DONE]'' then []
          else if token \<noteq> [] then token # stream_agent_tokens ls else stream_agent_tokens ls)"

definition ws_uri :: "string \<Rightarrow> string \<Rightarrow> string" where
  "ws_uri base sid = replace ''https://'' ''wss://'' (replace ''http://'' ''ws://'' base) @ ''/ws/session/'' @ sid"

definition stream_session_events :: "string list \<Rightarrow> json list" where
  "stream_session_events msgs = List.map_filter json_loads msgs"

section \<open>The supervisor\<close>

datatype ping = Ping_Ok | Ping_Down | Ping_Error

record supervisor =
  sv_status :: string
  sv_retries :: nat
  sv_alive :: bool
  sv_notices :: "string list" \<comment> \<open>the calls of \<open>on_status_change\<close>\<close>
  sv_sleeps :: "nat list"     \<comment> \<open>seconds\<close>

definition ping_interval :: nat where "ping_interval = 10"
definition retry_delays :: "nat list" where "retry_delays = [1, 2, 4, 8, 16, 30]"
definition reconnect_limit :: nat where "reconnect_limit = 10"

definition new_supervisor :: supervisor where
  "new_supervisor = \<lparr>sv_status = ''disconnected'', sv_retries = 0, sv_alive = True, sv_notices = [], sv_sleeps = []\<rparr>"

definition set_sv_status :: "string \<Rightarrow> supervisor \<Rightarrow> supervisor" where
  "set_sv_status v s = (if v \<noteq> sv_status s then s\<lparr>sv_status := v, sv_notices := sv_notices s @ [v]\<rparr> else s)"

definition sleep :: "nat \<Rightarrow> supervisor \<Rightarrow> supervisor" where
  "sleep n s = s\<lparr>sv_sleeps := sv_sleeps s @ [n]\<rparr>"

fun supervise :: "ping \<Rightarrow> supervisor \<Rightarrow> supervisor" where
  "supervise p s =
     (if \<not> sv_alive s then s
      else case p of
        Ping_Ok \<Rightarrow> sleep ping_interval (set_sv_status ''connected'' (s\<lparr>sv_retries := 0\<rparr>))
      | Ping_Error \<Rightarrow> sleep 5 s
      | Ping_Down \<Rightarrow>
          let s1 = (if sv_status s = ''connected'' then set_sv_status ''disconnected'' s else s) in
          if sv_retries s1 < reconnect_limit
          then (sleep (retry_delays ! min (sv_retries s1) (length retry_delays - 1))
                  (set_sv_status ''reconnecting'' s1))\<lparr>sv_retries := sv_retries s1 + 1\<rparr>
          else (set_sv_status ''failed'' s1)\<lparr>sv_alive := False\<rparr>)"

definition supervise_all :: "ping list \<Rightarrow> supervisor" where
  "supervise_all ps = fold supervise ps new_supervisor"

section \<open>Properties\<close>

text \<open>Pings that failed since the last one that succeeded.\<close>

fun downs :: "ping list \<Rightarrow> nat" where
  "downs ps = length (filter (\<lambda>p. p = Ping_Down) (takeWhile (\<lambda>p. p \<noteq> Ping_Ok) (rev ps)))"

lemma downs_snoc:
  "downs (ps @ [p]) = (case p of Ping_Ok \<Rightarrow> 0 | Ping_Down \<Rightarrow> Suc (downs ps) | Ping_Error \<Rightarrow> downs ps)"
  by (cases p) auto

lemma supervise_all_snoc: "supervise_all (ps @ [p]) = supervise p (supervise_all ps)"
  by (simp add: supervise_all_def)

lemma set_sv_status_simps [simp]:
  "sv_alive (set_sv_status v s) = sv_alive s" "sv_retries (set_sv_status v s) = sv_retries s"
  "sv_status (set_sv_status v s) = v" "sv_alive (sleep n s) = sv_alive s" "sv_status (sleep n s) = sv_status s"
  "sv_retries (sleep n s) = sv_retries s"
  by (simp_all add: set_sv_status_def sleep_def)

definition never_lost :: "ping list \<Rightarrow> bool" where
  "never_lost ps \<longleftrightarrow> list_all (\<lambda>k. downs (take k ps) \<le> reconnect_limit) [0..<Suc (length ps)]"

lemma never_lost_snoc: "never_lost (ps @ [p]) \<longleftrightarrow> never_lost ps \<and> downs (ps @ [p]) \<le> reconnect_limit"
  by (auto simp: never_lost_def list_all_iff less_Suc_eq simp del: downs.simps)

lemma supervise_inv:
  "(sv_alive (supervise_all ps) \<longleftrightarrow> never_lost ps) \<and>
   (sv_alive (supervise_all ps) \<longrightarrow> sv_retries (supervise_all ps) = downs ps) \<and>
   (\<not> sv_alive (supervise_all ps) \<longrightarrow> sv_status (supervise_all ps) = ''failed'')"
proof (induction ps rule: rev_induct)
  case Nil
  then show ?case by (simp add: supervise_all_def new_supervisor_def never_lost_def)
next
  case (snoc p ps)
  let ?s = "supervise_all ps"
  show ?case
  proof (cases "sv_alive ?s")
    case False
    then show ?thesis using snoc by (simp add: supervise_all_snoc never_lost_snoc)
  next
    case True
    then have r: "sv_retries ?s = downs ps" "never_lost ps" using snoc by simp_all
    then have "downs ps \<le> reconnect_limit"
      by (auto simp: never_lost_def list_all_iff simp del: downs.simps)
    then show ?thesis using True r
      by (cases p) (auto simp: supervise_all_snoc never_lost_snoc downs_snoc Let_def simp del: downs.simps)
  qed
qed

text \<open>The supervisor gives up exactly when the orchestrator is gone.  It ends, with the status
  \<open>failed\<close>, exactly when more than ten pings failed without one that succeeded in between.\<close>

theorem supervisor_gives_up:
  "sv_alive (supervise_all ps) = never_lost ps \<and>
   (sv_alive (supervise_all ps) \<or> sv_status (supervise_all ps) = ''failed'')"
  using supervise_inv [of ps] by blast

lemma supervisor_demo:
  "sv_notices (supervise_all (Ping_Ok # replicate 11 Ping_Down)) =
     [''connected'', ''disconnected'', ''reconnecting'', ''failed'']"
  "sum_list (sv_sleeps (supervise_all (replicate 11 Ping_Down))) = 181"
  by code_simp+

text \<open>How the server frames a token without line breaks: one data line and an empty line.\<close>

definition framed :: "(string \<Rightarrow> string list) \<Rightarrow> string \<Rightarrow> bool" where
  "framed frame t \<longleftrightarrow> frame t = [''data: '' @ t, []]"

lemma rstrip_snoc: "rstrip (s @ [c]) = (if py_space c then rstrip s else s @ [c])"
  by (simp add: rstrip_def)

lemma lstrip_snoc:
  "lstrip (s @ [c]) = (if list_all py_space s then (if py_space c then [] else [c]) else lstrip s @ [c])"
  by (induction s) (auto simp: lstrip_def)

lemma strip_snoc_space: "py_space c \<Longrightarrow> strip (s @ [c]) = strip s"
proof -
  assume c: "py_space c"
  have "lstrip s = []" if "list_all py_space s"
    using that by (induction s) (auto simp: lstrip_def)
  then show ?thesis using c by (simp add: strip_def lstrip_snoc rstrip_snoc)
qed

lemma strip_rstrip: "strip (rstrip s) = strip s"
  by (induction s rule: rev_induct) (auto simp: rstrip_snoc strip_snoc_space rstrip_def)

lemma rstrip_append: "xs \<noteq> [] \<Longrightarrow> \<not> py_space (last xs) \<Longrightarrow> rstrip (xs @ ys) = xs @ rstrip ys"
proof (induction ys rule: rev_induct)
  case Nil
  then show ?case by (cases xs rule: rev_cases) (auto simp: rstrip_def)
next
  case (snoc y ys)
  then show ?case using rstrip_snoc [of "xs @ ys" y] by (simp add: rstrip_snoc)
qed

lemma sse_data_frame:
  "sse_data (''data: '' @ t) = Some (strip t)" "sse_data [] = None"
proof -
  have "lstrip (''data: '' @ t) = ''data:'' @ CHR '' '' # t"
    by (simp add: lstrip_def py_space_def)
  then have "strip (''data: '' @ t) = ''data:'' @ rstrip (CHR '' '' # t)"
    using rstrip_append [of "''data:''" "CHR '' '' # t"] by (simp add: strip_def py_space_def)
  moreover have "strip (rstrip (CHR '' '' # t)) = strip t"
    by (simp add: strip_rstrip) (simp add: strip_def lstrip_def py_space_def)
  ultimately show "sse_data (''data: '' @ t) = Some (strip t)" by (simp add: sse_data_def Let_def)
  show "sse_data [] = None" by (simp add: sse_data_def)
qed

lemma stream_frame:
  "framed frame t \<Longrightarrow> stream_agent_tokens (map Inr (frame t) @ ls) =
     (if strip t = ''[DONE]'' then []
      else if strip t \<noteq> [] then strip t # stream_agent_tokens ls else stream_agent_tokens ls)"
proof -
  assume "framed frame t"
  then have "map Inr (frame t) @ ls = Inr (''data: '' @ t) # Inr [] # ls" by (simp add: framed_def)
  moreover have "stream_agent_tokens (Inr (''data: '' @ t) # Inr [] # ls) = (if strip t = ''[DONE]'' then []
      else if strip t \<noteq> [] then strip t # stream_agent_tokens ls else stream_agent_tokens ls)"
    by (simp only: stream_agent_tokens.simps sse_data_frame option.case)
  ultimately show ?thesis by simp
qed

lemma stream_frames:
  assumes "list_all (framed frame) ts" and "''[DONE]'' \<notin> set (map strip ts)"
  shows "stream_agent_tokens (map Inr (concat (map frame ts) @ rest)) =
         filter (\<lambda>t. t \<noteq> []) (map strip ts) @ stream_agent_tokens (map Inr rest)"
  using assms by (induction ts) (auto simp: stream_frame)

text \<open>C32: what the client makes of an agent's stream.  The server frames each token, which holds no line break, as
  one data line followed by an empty line.  The client then yields exactly the tokens in order, each stripped of
  the blanks at both ends, leaving out the blank ones, up to the end marker: the blanks between words
  that a model sends as part of its tokens are lost.\<close>

theorem agent_stream_strips:
  assumes "list_all (framed frame) (tokens @ [''[DONE]''])" and "''[DONE]'' \<notin> set (map strip tokens)"
  shows "stream_agent_tokens (map Inr (concat (map frame (tokens @ [''[DONE]''])))) =
         filter (\<lambda>t. t \<noteq> []) (map strip tokens)"
proof -
  have "strip ''[DONE]'' = ''[DONE]''" by code_simp
  then show ?thesis
    using assms stream_frames [of frame tokens "frame ''[DONE]''"]
      stream_frame [of frame "''[DONE]''" "[]"] by simp
qed

theorem agent_stream_strips_witness:
  "stream_agent_tokens (map Inr (concat (map (\<lambda>t. [''data: '' @ t, []]) [''Hello'', '' world'', ''[DONE]'']))) =
   [''Hello'', ''world'']"
proof -
  have "map strip [''Hello'', '' world''] = [''Hello'', ''world'']" by code_simp
  then show ?thesis
    using agent_stream_strips [of "\<lambda>t. [''data: '' @ t, []]" "[''Hello'', '' world'']"]
    by (simp add: framed_def)
qed

end
