(* ===== verification/Tui_Store.thy ===== *)
theory Tui_Store
  imports Tui_State
begin

text \<open>
  \<open>tui/tui/store.py\<close>: the local store of projects, chats and interface preferences.  A file holds
  either a JSON document or a text that is no JSON; the store keeps the two files it writes.  The
  values of a loaded document keep their JSON form, as the dataclasses do not check them; the clock
  and the fresh ids are parameters.  A write that fails is not modelled.  The theorems show that a
  restart finds what the last save stored, and when a load loses it.
\<close>

section \<open>Data\<close>

definition default_orch_url :: string where "default_orch_url = ''http://localhost:9000''"

record local_project =
  lp_id :: json
  lp_name :: json
  lp_workspace :: json
  lp_url :: json
  lp_created :: json
  lp_active :: json
  lp_sessions :: json
  lp_models :: json
  lp_meta :: json

record chat_record =
  ch_id :: json
  ch_role :: json
  ch_model :: json
  ch_url :: json
  ch_started :: json

record ui_prefs =
  up_version :: json
  up_project :: json
  up_session :: json
  up_screen :: json
  up_dag :: json
  up_url :: json

text \<open>What a file holds.\<close>

datatype stored = Missing | Garbage | Document json

record store =
  so_projects :: "local_project list"
  so_chats :: "chat_record list"
  so_url :: json
  so_prefs :: ui_prefs
  so_projects_file :: stored
  so_prefs_file :: stored

definition default_prefs :: ui_prefs where
  "default_prefs = \<lparr>up_version = JInt 1, up_project = JStr [], up_session = JStr [], up_screen = JStr ''launcher'',
     up_dag = JBool True, up_url = JStr default_orch_url\<rparr>"

section \<open>Documents\<close>

text \<open>\<open>asdict\<close> and \<open>Project(**d)\<close>: the fields of a project, its defaults and the refusal of
  missing or unknown names.\<close>

definition project_dict :: "local_project \<Rightarrow> json dict" where
  "project_dict p = [(''id'', lp_id p), (''name'', lp_name p), (''workspace'', lp_workspace p),
     (''orchestrator_url'', lp_url p), (''created_at'', lp_created p), (''last_active'', lp_active p),
     (''session_ids'', lp_sessions p), (''default_models'', lp_models p), (''metadata'', lp_meta p)]"

definition chat_dict :: "chat_record \<Rightarrow> json dict" where
  "chat_dict c = [(''id'', ch_id c), (''role'', ch_role c), (''model'', ch_model c),
     (''orchestrator_url'', ch_url c), (''started_at'', ch_started c)]"

definition prefs_dict :: "ui_prefs \<Rightarrow> json dict" where
  "prefs_dict u = [(''version'', up_version u), (''last_project_id'', up_project u), (''last_session_id'', up_session u),
     (''last_screen'', up_screen u), (''dag_sidebar_open'', up_dag u), (''last_orchestrator_url'', up_url u)]"

text \<open>The keyword arguments \<open>**j\<close> of a call that takes the names \<open>need\<close> and, with defaults, \<open>may\<close>.\<close>

definition keywords_of :: "string list \<Rightarrow> string list \<Rightarrow> json \<Rightarrow> json dict result" where
  "keywords_of need may j = (case j of
     JObj d \<Rightarrow>
       if list_all (\<lambda>k. k \<in> set (need @ may)) (map fst d) \<and> list_all (\<lambda>k. k \<in> set (map fst d)) need then Inr d
       else Inl (TypeError ''unexpected or missing keyword argument'')
   | _ \<Rightarrow> Inl (TypeError ''argument after ** must be a mapping''))"

definition project_of :: "real \<Rightarrow> json \<Rightarrow> local_project result" where
  "project_of now j =
     bind_result (keywords_of [''id'', ''name'', ''workspace'']
         [''orchestrator_url'', ''created_at'', ''last_active'', ''session_ids'', ''default_models'', ''metadata''] j) (\<lambda>d.
       Inr \<lparr>lp_id = get_or d ''id'' JNull, lp_name = get_or d ''name'' JNull, lp_workspace = get_or d ''workspace'' JNull,
            lp_url = get_or d ''orchestrator_url'' (JStr default_orch_url), lp_created = get_or d ''created_at'' (JFloat now),
            lp_active = get_or d ''last_active'' (JFloat now), lp_sessions = get_or d ''session_ids'' (JList []),
            lp_models = get_or d ''default_models'' (JObj []), lp_meta = get_or d ''metadata'' (JObj [])\<rparr>)"

definition chat_of :: "real \<Rightarrow> json \<Rightarrow> chat_record result" where
  "chat_of now j =
     bind_result (keywords_of [''id'', ''role'', ''model''] [''orchestrator_url'', ''started_at''] j) (\<lambda>d.
       Inr \<lparr>ch_id = get_or d ''id'' JNull, ch_role = get_or d ''role'' JNull, ch_model = get_or d ''model'' JNull,
            ch_url = get_or d ''orchestrator_url'' (JStr default_orch_url), ch_started = get_or d ''started_at'' (JFloat now)\<rparr>)"

text \<open>\<open>for x in j\<close>.\<close>

definition py_iter :: "json \<Rightarrow> json list result" where
  "py_iter j = (case j of
     JList xs \<Rightarrow> Inr xs
   | JObj d \<Rightarrow> Inr (map (JStr \<circ> fst) d)
   | JStr s \<Rightarrow> Inr (map (\<lambda>c. JStr [c]) s)
   | _ \<Rightarrow> Inl (TypeError ([CHR 0x27] @ type_name j @ [CHR 0x27] @ '' object is not iterable'')))"

fun each :: "('a \<Rightarrow> 'b result) \<Rightarrow> 'a list \<Rightarrow> 'b list result" where
  "each f [] = Inr []"
| "each f (x # xs) = bind_result (f x) (\<lambda>y. bind_result (each f xs) (\<lambda>ys. Inr (y # ys)))"

section \<open>Migration\<close>

text \<open>\<open>v < 1\<close>, and \<open>setdefault\<close>.\<close>

definition below_one :: "json \<Rightarrow> bool result" where
  "below_one v = (case v of
     JInt n \<Rightarrow> Inr (n < 1) | JFloat x \<Rightarrow> Inr (x < 1) | JBool b \<Rightarrow> Inr (\<not> b)
   | _ \<Rightarrow> Inl (TypeError (''< not supported between instances of '' @ type_name v @ '' and int'')))"

definition setdefault :: "json dict \<Rightarrow> string \<Rightarrow> json \<Rightarrow> json dict" where
  "setdefault d k v = (if map_of d k = None then dict_set d k v else d)"

definition migrate :: "(string \<times> json) list \<Rightarrow> json \<Rightarrow> json dict result" where
  "migrate defaults raw =
     bind_result (as_dict raw) (\<lambda>d. bind_result (below_one (get_or d ''version'' (JInt 0))) (\<lambda>old.
       Inr (if old then dict_set (foldl (\<lambda>d (k, v). setdefault d k v) d defaults) ''version'' (JInt 1) else d)))"

definition migrate_projects :: "json \<Rightarrow> json dict result" where
  "migrate_projects = migrate [(''chat_history'', JList []), (''last_orchestrator_url'', JStr default_orch_url)]"

definition migrate_ui_state :: "json \<Rightarrow> json dict result" where
  "migrate_ui_state = migrate [(''dag_sidebar_open'', JBool True), (''last_orchestrator_url'', JStr default_orch_url)]"

section \<open>Loading and saving\<close>

definition load_projects_file :: "real \<Rightarrow> store \<Rightarrow> store" where
  "load_projects_file now S = (case so_projects_file S of
     Missing \<Rightarrow> S
   | Garbage \<Rightarrow> S\<lparr>so_projects := []\<rparr>
   | Document raw \<Rightarrow>
       (case bind_result (migrate_projects raw) (\<lambda>d.
          bind_result (py_iter (get_or d ''projects'' (JList []))) (\<lambda>ps. bind_result (each (project_of now) ps) (\<lambda>projects.
          bind_result (py_iter (get_or d ''chat_history'' (JList []))) (\<lambda>cs. bind_result (each (chat_of now) cs) (\<lambda>chats.
            Inr (projects, chats, get_or d ''last_orchestrator_url'' (JStr default_orch_url))))))) of
          Inl e \<Rightarrow> S\<lparr>so_projects := []\<rparr>
        | Inr (projects, chats, url) \<Rightarrow> S\<lparr>so_projects := projects, so_chats := chats, so_url := url\<rparr>))"

definition load_prefs_file :: "store \<Rightarrow> store" where
  "load_prefs_file S = (case so_prefs_file S of
     Missing \<Rightarrow> S
   | Garbage \<Rightarrow> S\<lparr>so_prefs := default_prefs\<rparr>
   | Document raw \<Rightarrow>
       (case migrate_ui_state raw of
          Inl e \<Rightarrow> S\<lparr>so_prefs := default_prefs\<rparr>
        | Inr d \<Rightarrow> S\<lparr>so_prefs := \<lparr>up_version = get_or d ''version'' (JInt 1),
            up_project = get_or d ''last_project_id'' (JStr []), up_session = get_or d ''last_session_id'' (JStr []),
            up_screen = get_or d ''last_screen'' (JStr ''launcher''), up_dag = get_or d ''dag_sidebar_open'' (JBool True),
            up_url = get_or d ''last_orchestrator_url'' (JStr default_orch_url)\<rparr>\<rparr>))"

text \<open>A new \<open>ProjectStore\<close> over the two files.\<close>

definition open_store :: "real \<Rightarrow> stored \<Rightarrow> stored \<Rightarrow> store" where
  "open_store now projects_file prefs_file =
     load_prefs_file (load_projects_file now
       \<lparr>so_projects = [], so_chats = [], so_url = JStr default_orch_url, so_prefs = default_prefs,
        so_projects_file = projects_file, so_prefs_file = prefs_file\<rparr>)"

definition save_projects :: "store \<Rightarrow> store" where
  "save_projects S = S\<lparr>so_projects_file := Document (JObj
     [(''version'', JInt 1), (''projects'', JList (map (JObj \<circ> project_dict) (so_projects S))),
      (''chat_history'', JList (map (JObj \<circ> chat_dict) (so_chats S))), (''last_orchestrator_url'', so_url S)])\<rparr>"

definition save_prefs_file :: "store \<Rightarrow> store" where
  "save_prefs_file S = S\<lparr>so_prefs_file := Document (JObj (prefs_dict (so_prefs S)))\<rparr>"

section \<open>Operations\<close>

definition get_project :: "string \<Rightarrow> store \<Rightarrow> local_project option" where
  "get_project pid S = find (\<lambda>p. lp_id p = JStr pid) (so_projects S)"

text \<open>A change of the object \<open>get_project\<close> returns.\<close>

fun change_first :: "('a \<Rightarrow> bool) \<Rightarrow> ('a \<Rightarrow> 'a) \<Rightarrow> 'a list \<Rightarrow> 'a list" where
  "change_first P f [] = []"
| "change_first P f (x # xs) = (if P x then f x # xs else x # change_first P f xs)"

definition change_project :: "string \<Rightarrow> (local_project \<Rightarrow> local_project) \<Rightarrow> store \<Rightarrow> store" where
  "change_project pid f S = S\<lparr>so_projects := change_first (\<lambda>p. lp_id p = JStr pid) f (so_projects S)\<rparr>"

definition create_project ::
  "real \<Rightarrow> string \<Rightarrow> string \<Rightarrow> string \<Rightarrow> string \<Rightarrow> json dict \<Rightarrow> store \<Rightarrow> local_project \<times> store" where
  "create_project now hex8 name workspace url models S =
     (let p = \<lparr>lp_id = JStr (''proj-'' @ hex8), lp_name = JStr name, lp_workspace = JStr workspace, lp_url = JStr url,
               lp_created = JFloat now, lp_active = JFloat now, lp_sessions = JList [], lp_models = JObj models,
               lp_meta = JObj []\<rparr>
      in (p, save_projects (S\<lparr>so_projects := p # so_projects S\<rparr>)))"

text \<open>The projects, the most recently active first; the time stamps are numbers.\<close>

definition list_projects :: "store \<Rightarrow> local_project list" where
  "list_projects S = sort_key (\<lambda>p. - created_at (lp_active p)) (so_projects S)"

text \<open>\<open>setattr\<close> of a field by its name; other names are ignored.\<close>

definition set_field :: "string \<times> json \<Rightarrow> local_project \<Rightarrow> local_project" where
  "set_field kv p = (case kv of (k, v) \<Rightarrow>
     if k = ''id'' then p\<lparr>lp_id := v\<rparr> else if k = ''name'' then p\<lparr>lp_name := v\<rparr>
     else if k = ''workspace'' then p\<lparr>lp_workspace := v\<rparr> else if k = ''orchestrator_url'' then p\<lparr>lp_url := v\<rparr>
     else if k = ''created_at'' then p\<lparr>lp_created := v\<rparr> else if k = ''last_active'' then p\<lparr>lp_active := v\<rparr>
     else if k = ''session_ids'' then p\<lparr>lp_sessions := v\<rparr> else if k = ''default_models'' then p\<lparr>lp_models := v\<rparr>
     else if k = ''metadata'' then p\<lparr>lp_meta := v\<rparr> else p)"

definition update_project :: "string \<Rightarrow> json dict \<Rightarrow> store \<Rightarrow> local_project option \<times> store" where
  "update_project pid kwargs S = (case get_project pid S of
     None \<Rightarrow> (None, S)
   | Some p \<Rightarrow> (Some (fold set_field kwargs p), save_projects (change_project pid (fold set_field kwargs) S)))"

definition delete_project :: "string \<Rightarrow> store \<Rightarrow> bool \<times> store" where
  "delete_project pid S =
     (let left = filter (\<lambda>p. lp_id p \<noteq> JStr pid) (so_projects S); S1 = S\<lparr>so_projects := left\<rparr>
      in if length left < length (so_projects S) then (True, save_projects S1) else (False, S1))"

text \<open>\<open>session_id not in p.session_ids\<close> and the append; only a list can take the id.\<close>

definition append_session :: "string \<Rightarrow> json \<Rightarrow> json option result" where
  "append_session sid v = (case v of
     JList xs \<Rightarrow> Inr (if JStr sid \<in> set xs then None else Some (JList (xs @ [JStr sid])))
   | JStr s \<Rightarrow> if contains sid s then Inr None else Inl (attr_error v ''append'')
   | JObj d \<Rightarrow> if sid \<in> set (map fst d) then Inr None else Inl (attr_error v ''append'')
   | _ \<Rightarrow> Inl (TypeError (''argument of type '' @ type_name v @ '' is not iterable'')))"

definition add_session_to_project :: "real \<Rightarrow> string \<Rightarrow> string \<Rightarrow> store \<Rightarrow> store result" where
  "add_session_to_project now pid sid S = (case get_project pid S of
     None \<Rightarrow> Inr S
   | Some p \<Rightarrow> bind_result (append_session sid (lp_sessions p)) (\<lambda>v. Inr (case v of
       None \<Rightarrow> S
     | Some v \<Rightarrow> save_projects (change_project pid (\<lambda>p. p\<lparr>lp_sessions := v, lp_active := JFloat now\<rparr>) S))))"

definition touch_project :: "real \<Rightarrow> string \<Rightarrow> store \<Rightarrow> store" where
  "touch_project now pid S = (case get_project pid S of
     None \<Rightarrow> S
   | Some p \<Rightarrow> save_projects (change_project pid (\<lambda>p. p\<lparr>lp_active := JFloat now\<rparr>) S))"

definition add_chat_record ::
  "real \<Rightarrow> string \<Rightarrow> string \<Rightarrow> string \<Rightarrow> string \<Rightarrow> store \<Rightarrow> chat_record \<times> store" where
  "add_chat_record now hex8 role model url S =
     (let c = \<lparr>ch_id = JStr (''chat-'' @ hex8), ch_role = JStr role, ch_model = JStr model, ch_url = JStr url,
               ch_started = JFloat now\<rparr>
      in (c, save_projects (S\<lparr>so_chats := take 20 (c # so_chats S)\<rparr>)))"

definition set_orchestrator_url :: "string \<Rightarrow> store \<Rightarrow> store" where
  "set_orchestrator_url url S =
     (let u = JStr (rstrip_char (CHR ''/'') url)
      in save_prefs_file (save_projects (S\<lparr>so_url := u, so_prefs := (so_prefs S)\<lparr>up_url := u\<rparr>\<rparr>)))"

text \<open>An argument that is None leaves its preference.\<close>

definition kept :: "'a option \<Rightarrow> ('a \<Rightarrow> json) \<Rightarrow> json \<Rightarrow> json" where
  "kept x f old = (case x of None \<Rightarrow> old | Some v \<Rightarrow> f v)"

definition save_ui_state :: "string option \<Rightarrow> string option \<Rightarrow> string option \<Rightarrow> bool option \<Rightarrow> store \<Rightarrow> store" where
  "save_ui_state project session screen dag S =
     (let u = so_prefs S in
      save_prefs_file (S\<lparr>so_prefs := u\<lparr>up_project := kept project JStr (up_project u),
        up_session := kept session JStr (up_session u), up_screen := kept screen JStr (up_screen u),
        up_dag := kept dag JBool (up_dag u)\<rparr>\<rparr>))"

section \<open>A restart finds what was saved\<close>

datatype store_op =
    Create_Project real string string string string "json dict"
  | Update_Project string "json dict"
  | Delete_Project string
  | Add_Session real string string
  | Touch_Project real string
  | Add_Chat real string string string string
  | Set_Url string
  | Save_Prefs "string option" "string option" "string option" "bool option"

fun store_step :: "store_op \<Rightarrow> store \<Rightarrow> store" where
  "store_step (Create_Project now h n ws u ms) S = snd (create_project now h n ws u ms S)"
| "store_step (Update_Project pid kw) S = snd (update_project pid kw S)"
| "store_step (Delete_Project pid) S = snd (delete_project pid S)"
| "store_step (Add_Session now pid sid) S = (case add_session_to_project now pid sid S of Inl e \<Rightarrow> S | Inr S1 \<Rightarrow> S1)"
| "store_step (Touch_Project now pid) S = touch_project now pid S"
| "store_step (Add_Chat now h r m u) S = snd (add_chat_record now h r m u S)"
| "store_step (Set_Url u) S = set_orchestrator_url u S"
| "store_step (Save_Prefs p s c d) S = save_ui_state p s c d S"

definition reopen :: "real \<Rightarrow> store \<Rightarrow> store" where
  "reopen now S = open_store now (so_projects_file S) (so_prefs_file S)"

lemma each_map: "list_all (\<lambda>x. f (g x) = Inr (h x)) xs \<Longrightarrow> each f (map g xs) = Inr (map h xs)"
  by (induction xs) auto

lemma project_of_dict: "project_of now (JObj (project_dict p)) = Inr p"
  by (simp add: project_of_def keywords_of_def project_dict_def get_or_def)

lemma chat_of_dict: "chat_of now (JObj (chat_dict c)) = Inr c"
  by (simp add: chat_of_def keywords_of_def chat_dict_def get_or_def)

lemma each_projects: "each (project_of now) (map (JObj \<circ> project_dict) ps) = Inr ps"
  using each_map [of "project_of now" "JObj \<circ> project_dict" id ps] by (simp add: list_all_iff project_of_dict)

lemma each_chats: "each (chat_of now) (map (JObj \<circ> chat_dict) cs) = Inr cs"
  using each_map [of "chat_of now" "JObj \<circ> chat_dict" id cs] by (simp add: list_all_iff chat_of_dict)

definition project_data :: "store \<Rightarrow> local_project list \<times> chat_record list \<times> json" where
  "project_data S = (so_projects S, so_chats S, so_url S)"

lemma load_prefs_data [simp]: "project_data (load_prefs_file S) = project_data S"
  by (simp add: load_prefs_file_def project_data_def split: stored.splits sum.splits)

lemma load_projects_prefs [simp]:
  "so_prefs (load_projects_file now S) = so_prefs S" "so_prefs_file (load_projects_file now S) = so_prefs_file S"
  by (auto simp: load_projects_file_def split: stored.splits sum.splits)

lemma saved_project_data:
  assumes "so_projects_file S = so_projects_file (save_projects S)"
  shows "project_data (reopen now S) = project_data S"
  using assms
  by (simp add: reopen_def open_store_def load_projects_file_def save_projects_def migrate_projects_def migrate_def
      as_dict_def below_one_def get_or_def py_iter_def each_projects each_chats project_data_def
      load_prefs_data [unfolded project_data_def, simplified])

definition prefs_ok :: "ui_prefs \<Rightarrow> bool" where
  "prefs_ok u \<longleftrightarrow> below_one (up_version u) = Inr False"

lemma saved_prefs:
  assumes "so_prefs_file S = Document (JObj (prefs_dict (so_prefs S)))" "prefs_ok (so_prefs S)"
  shows "so_prefs (reopen now S) = so_prefs S"
  using assms
  by (simp add: reopen_def open_store_def load_prefs_file_def prefs_dict_def migrate_ui_state_def migrate_def
      as_dict_def get_or_def prefs_ok_def)

lemma below_one_default: "below_one (get_or d k (JInt 0)) = Inr b \<Longrightarrow> \<not> b \<Longrightarrow> below_one (get_or d k (JInt 1)) = Inr False"
  by (auto simp: get_or_def below_one_def split: option.splits)

lemma migrate_version:
  assumes "migrate ds raw = Inr d"
  shows "below_one (get_or d ''version'' (JInt 1)) = Inr False"
proof -
  obtain d0 old where v: "below_one (get_or d0 ''version'' (JInt 0)) = Inr old"
    and d: "d = (if old then dict_set (foldl (\<lambda>d (k, v). setdefault d k v) d0 ds) ''version'' (JInt 1) else d0)"
    using assms by (auto simp: migrate_def)
  show ?thesis
  proof (cases old)
    case True
    then show ?thesis by (simp add: d get_or_def below_one_def)
  next
    case False
    then show ?thesis using below_one_default [OF v] by (simp add: d)
  qed
qed

lemma open_prefs_ok: "prefs_ok (so_prefs (open_store now f1 f2))"
proof -
  have "prefs_ok default_prefs" by (simp add: prefs_ok_def default_prefs_def below_one_def)
  moreover have "below_one (get_or d ''version'' (JInt 1)) = Inr False" if "migrate_ui_state raw = Inr d" for raw d
    using migrate_version [OF that [unfolded migrate_ui_state_def]] .
  ultimately show ?thesis
    by (auto simp: open_store_def load_prefs_file_def prefs_ok_def split: stored.splits sum.splits)
qed

text \<open>What a step does to each half of the store: nothing, or it saves it.\<close>

lemma projects_step:
  assumes T_def: "T = store_step oper S"
  shows "(project_data T = project_data S \<and> so_projects_file T = so_projects_file S) \<or>
     so_projects_file T = so_projects_file (save_projects T)"
proof (cases oper)
  case (Delete_Project pid)
  have "left = so_projects S" if "left = filter (\<lambda>p. lp_id p \<noteq> JStr pid) (so_projects S)"
      "\<not> length left < length (so_projects S)" for left
    using that by (metis length_filter_less filter_id_conv)
  with Delete_Project show ?thesis
    by (auto simp: T_def delete_project_def Let_def project_data_def save_projects_def)
qed (auto simp: T_def project_data_def save_projects_def save_prefs_file_def create_project_def update_project_def
    add_session_to_project_def touch_project_def add_chat_record_def set_orchestrator_url_def save_ui_state_def
    change_project_def Let_def bind_result_def split: option.splits sum.splits)

lemma prefs_step:
  assumes T_def: "T = store_step oper S"
  shows "(so_prefs T = so_prefs S \<and> so_prefs_file T = so_prefs_file S) \<or>
     so_prefs_file T = Document (JObj (prefs_dict (so_prefs T)))" and "up_version (so_prefs T) = up_version (so_prefs S)"
  by (cases oper; auto simp: T_def save_projects_def save_prefs_file_def create_project_def update_project_def
    add_session_to_project_def touch_project_def add_chat_record_def set_orchestrator_url_def save_ui_state_def
      delete_project_def change_project_def Let_def bind_result_def split: option.splits sum.splits)+

text \<open>C33: a restart of the interface finds what was stored.  After any history of operations on a store that was
  opened on any two files, opening the files again gives the same projects, chats and address, and
  the same preferences, except where nothing was stored since the store was opened.\<close>

theorem store_survives_restart:
  "let S0 = open_store now f1 f2; S = fold store_step ops S0 in
     (project_data (reopen later S) = project_data S \<or> project_data S = project_data S0 \<and> so_projects_file S = f1) \<and>
     (so_prefs (reopen later S) = so_prefs S \<or> so_prefs S = so_prefs S0 \<and> so_prefs_file S = f2)"
proof -
  define S0 where "S0 = open_store now f1 f2"
  define S where "S = fold store_step ops S0"
  have files: "so_projects_file S0 = f1" "so_prefs_file S0 = f2"
    by (auto simp: S0_def open_store_def load_prefs_file_def load_projects_file_def split: stored.splits sum.splits)
  have "prefs_ok (so_prefs S) \<and>
      (project_data S = project_data S0 \<and> so_projects_file S = f1 \<or> so_projects_file S = so_projects_file (save_projects S)) \<and>
      (so_prefs S = so_prefs S0 \<and> so_prefs_file S = f2 \<or> so_prefs_file S = Document (JObj (prefs_dict (so_prefs S))))"
    unfolding S_def
  proof (induction ops rule: rev_induct)
    case Nil
    then show ?case using files open_prefs_ok by (simp add: S0_def)
  next
    case (snoc oper ops)
    define U where "U = fold store_step ops S0"
    define T where "T = store_step oper U"
    have keep: "so_projects_file T = so_projects_file (save_projects T)"
      if "project_data T = project_data U" "so_projects_file T = so_projects_file U"
        "so_projects_file U = so_projects_file (save_projects U)"
      using that by (simp add: project_data_def save_projects_def)
    have u: "prefs_ok (so_prefs U)"
      "project_data U = project_data S0 \<and> so_projects_file U = f1 \<or> so_projects_file U = so_projects_file (save_projects U)"
      "so_prefs U = so_prefs S0 \<and> so_prefs_file U = f2 \<or> so_prefs_file U = Document (JObj (prefs_dict (so_prefs U)))"
      using snoc by (simp_all add: U_def)
    have "prefs_ok (so_prefs T)" using u(1) prefs_step(2) [OF T_def] by (simp add: prefs_ok_def)
    moreover have "project_data T = project_data S0 \<and> so_projects_file T = f1 \<or>
        so_projects_file T = so_projects_file (save_projects T)"
      using projects_step [OF T_def] u(2) keep by metis
    moreover have "so_prefs T = so_prefs S0 \<and> so_prefs_file T = f2 \<or>
        so_prefs_file T = Document (JObj (prefs_dict (so_prefs T)))"
      using prefs_step(1) [OF T_def] u(3) by metis
    ultimately show ?case by (simp add: T_def U_def)
  qed
  then show ?thesis
    using saved_project_data [of S later] saved_prefs [of S later] unfolding Let_def S_def S0_def by blast
qed

section \<open>A document the store does not understand\<close>

text \<open>One project with a field the store does not know is enough to open it without any project, and
  the next save replaces the file.\<close>

lemma each_Inl: "x \<in> set xs \<Longrightarrow> f x = Inl e \<Longrightarrow> \<exists>e1. each f xs = Inl e1"
proof (induction xs)
  case (Cons y ys)
  then show ?case by (cases "f y") auto
qed simp

text \<open>An unknown field loses every project.  When the stored document holds a project with a field the store
  does not know, it opens without any project; creating a project then leaves that one as the only
  project of the file.\<close>

theorem unknown_field_loses_projects:
  assumes "map_of d ''projects'' = Some (JList ps)" "map_of d ''version'' = Some (JInt 1)"
    and "JObj p \<in> set ps" "(k, v) \<in> set p" "k \<notin> fst ` set (project_dict q)"
    and "S = open_store now (Document (JObj d)) f2"
  shows "so_projects S = [] \<and>
    so_projects (reopen later (snd (create_project t h n ws u ms S))) = [fst (create_project t h n ws u ms S)]"
proof -
  have "project_of now (JObj p) = Inl (TypeError ''unexpected or missing keyword argument'')"
  proof -
    have "k \<in> set (map fst p)" using assms(4) by force
    moreover have "k \<notin> set ([''id'', ''name'', ''workspace''] @ [''orchestrator_url'', ''created_at'', ''last_active'',
        ''session_ids'', ''default_models'', ''metadata''])"
      using assms(5) unfolding project_dict_def by simp
    ultimately have "\<not> list_all (\<lambda>k. k \<in> set ([''id'', ''name'', ''workspace''] @ [''orchestrator_url'', ''created_at'',
        ''last_active'', ''session_ids'', ''default_models'', ''metadata''])) (map fst p)"
      unfolding list_all_iff by blast
    then show ?thesis by (simp only: project_of_def keywords_of_def json.case if_False bind_result_simps simp_thms)
  qed
  from each_Inl [OF assms(3), of "project_of now", OF this] obtain e where "each (project_of now) ps = Inl e" by blast
  then have e: "so_projects S = []"
    using assms(1,2,6)
    by (simp add: open_store_def load_projects_file_def migrate_projects_def migrate_def as_dict_def get_or_def
        below_one_def py_iter_def load_prefs_file_def split: stored.splits sum.splits)
  let ?T = "snd (create_project t h n ws u ms S)"
  have "so_projects_file ?T = so_projects_file (save_projects ?T)"
    by (simp add: create_project_def Let_def save_projects_def)
  from saved_project_data [OF this, of later] show ?thesis
    using e by (auto simp: project_data_def create_project_def Let_def save_projects_def)
qed

definition old_document :: "(string \<times> json) list" where
  "old_document = [(''version'', JInt 1), (''projects'', JList
     [JObj [(''id'', JStr ''proj-1''), (''name'', JStr ''a''), (''workspace'', JStr ''/a'')],
      JObj [(''id'', JStr ''proj-2''), (''name'', JStr ''b''), (''workspace'', JStr ''/b''), (''color'', JStr ''red'')]])]"

theorem unknown_field_loses_projects_witness:
  "so_projects (open_store 0 (Document (JObj old_document)) Missing) = [] \<and>
   map (\<lambda>p. lp_id p) (so_projects (reopen 1 (snd (create_project 1 ''3'' ''c'' ''/c'' ''u'' []
     (open_store 0 (Document (JObj old_document)) Missing))))) = [JStr ''proj-3'']"
proof -
  let ?ps = "[JObj [(''id'', JStr ''proj-1''), (''name'', JStr ''a''), (''workspace'', JStr ''/a'')],
      JObj [(''id'', JStr ''proj-2''), (''name'', JStr ''b''), (''workspace'', JStr ''/b''), (''color'', JStr ''red'')]]"
  let ?p = "[(''id'', JStr ''proj-2''), (''name'', JStr ''b''), (''workspace'', JStr ''/b''), (''color'', JStr ''red'')]"
  have "map_of old_document ''projects'' = Some (JList ?ps)" "map_of old_document ''version'' = Some (JInt 1)"
      "JObj ?p \<in> set ?ps" "(''color'', JStr ''red'') \<in> set ?p" "''color'' \<notin> fst ` set (project_dict undefined)"
    by (simp_all add: old_document_def project_dict_def)
  note lost = unknown_field_loses_projects [OF this refl, of 0 Missing 1 1 "''3''" "''c''" "''/c''" "''u''" "[]"]
  then show ?thesis by (simp only: list.map conjunct2 [OF lost]) (simp add: create_project_def Let_def)
qed

end
