(* ===== verification/Tui_Service.thy ===== *)
theory Tui_Service
  imports Tui_Client Tui_Store
begin

text \<open>
  \<open>tui/tui/services/session_service.py\<close>: loading and refreshing a session, routing a message to an
  agent, the commands of the input bar and the events of the session's WebSocket.  The server is
  reached through the client of \<open>Tui_Client\<close>; the state is the one of \<open>Tui_State\<close>; the clock is a
  function of the world.  Token counts of events are integers.
\<close>

section \<open>Environment\<close>

record 'w tui_env =
  tv_client :: "'w client_env"
  tv_now :: "'w \<Rightarrow> real"

text \<open>An action answers or raises, and leaves a state and a world.\<close>

type_synonym ('a, 'w) act = "'a result \<times> tui \<times> 'w"

definition arrow_right :: string where "arrow_right = [CHR 0x8C]"
definition tick_mark :: string where "tick_mark = [CHR 0x9E]"
definition plain_warn :: string where "plain_warn = [CHR 0x8E]"

text \<open>A call whose \<open>AicafConnectionError\<close> is caught and logged; other exceptions pass through.\<close>

definition guarded :: "json called \<times> 'w \<Rightarrow> tui \<Rightarrow> (json \<Rightarrow> 'w \<Rightarrow> (unit, 'w) act) \<Rightarrow> (unit, 'w) act" where
  "guarded x t f = (case x of
     (Inl (Conn m), w) \<Rightarrow> (Inr (), t, w)
   | (Inl (Unexpected e), w) \<Rightarrow> (Inl e, t, w)
   | (Inr j, w) \<Rightarrow> f j w)"

definition add_log :: "'w tui_env \<Rightarrow> json \<Rightarrow> string \<Rightarrow> json \<Rightarrow> 'w \<Rightarrow> tui \<Rightarrow> tui" where
  "add_log E source ty content w t = snd (on_session (\<lambda>s. (Inr (), log_event (tv_now E w) source ty content s)) t)"

section \<open>Loading and refreshing\<close>

text \<open>An element of a list of documents, used as a dict.\<close>

definition obj_of :: "json \<Rightarrow> json dict result" where
  "obj_of j = (case j of JObj d \<Rightarrow> Inr d
     | _ \<Rightarrow> Inl (TypeError ([CHR 0x27] @ type_name j @ [CHR 0x27] @ '' indices must be integers'')))"

fun for_each :: "(json \<Rightarrow> tui \<Rightarrow> unit result \<times> tui) \<Rightarrow> json list \<Rightarrow> tui \<Rightarrow> unit result \<times> tui" where
  "for_each f [] t = (Inr (), t)"
| "for_each f (x # xs) t = (case f x t of (Inl e, t1) \<Rightarrow> (Inl e, t1) | (Inr _, t1) \<Rightarrow> for_each f xs t1)"

text \<open>\<open>for x in j: f(x)\<close>.\<close>

definition for_items :: "(json \<Rightarrow> tui \<Rightarrow> unit result \<times> tui) \<Rightarrow> json \<Rightarrow> tui \<Rightarrow> unit result \<times> tui" where
  "for_items f j t = (case py_iter j of Inl e \<Rightarrow> (Inl e, t) | Inr xs \<Rightarrow> for_each f xs t)"

definition upsert_own_agent :: "real \<Rightarrow> string \<Rightarrow> json \<Rightarrow> tui \<Rightarrow> unit result \<times> tui" where
  "upsert_own_agent now sid a t =
     (case json_get a ''session_id'' JNull of
        Inl e \<Rightarrow> (Inl e, t)
      | Inr v \<Rightarrow> if v \<noteq> JStr sid then (Inr (), t)
          else case obj_of a of Inl e \<Rightarrow> (Inl e, t) | Inr d \<Rightarrow> on_session (upsert_agent now d) t)"

definition refresh_agents :: "'w tui_env \<Rightarrow> string \<Rightarrow> tui \<Rightarrow> 'w \<Rightarrow> (unit, 'w) act" where
  "refresh_agents E sid t w =
     guarded (tc_list_agents (tv_client E) w) t (\<lambda>ags w1.
       case for_items (upsert_own_agent (tv_now E w1) sid) ags t of (r, t1) \<Rightarrow> (r, t1, w1))"

definition upsert_task_item :: "json \<Rightarrow> tui \<Rightarrow> unit result \<times> tui" where
  "upsert_task_item j t = (if tu_session t = None then (Inr (), t)
     else case obj_of j of Inl e \<Rightarrow> (Inl e, t) | Inr d \<Rightarrow> on_session (upsert_task d) t)"

definition refresh_tasks :: "'w tui_env \<Rightarrow> string \<Rightarrow> tui \<Rightarrow> 'w \<Rightarrow> (unit, 'w) act" where
  "refresh_tasks E sid t w =
     guarded (tc_task_status (tv_client E) sid w) t (\<lambda>data w1.
       case json_get data ''tasks'' (JList []) of
         Inl e \<Rightarrow> (Inl e, t, w1)
       | Inr xs \<Rightarrow> (case for_items upsert_task_item xs t of (r, t1) \<Rightarrow> (r, t1, w1)))"

definition upsert_patch_item :: "real \<Rightarrow> json \<Rightarrow> tui \<Rightarrow> unit result \<times> tui" where
  "upsert_patch_item now j t = (if tu_session t = None then (Inr (), t)
     else case obj_of j of Inl e \<Rightarrow> (Inl e, t) | Inr d \<Rightarrow> on_session (upsert_patch now d) t)"

definition refresh_patches :: "'w tui_env \<Rightarrow> string \<Rightarrow> tui \<Rightarrow> 'w \<Rightarrow> (unit, 'w) act" where
  "refresh_patches E sid t w =
     guarded (tc_list_patches (tv_client E) sid w) t (\<lambda>ps w1.
       case for_items (upsert_patch_item (tv_now E w1)) ps t of (r, t1) \<Rightarrow> (r, t1, w1))"

text \<open>One action after another, unless the first raises.\<close>

definition and_then :: "(unit, 'w) act \<Rightarrow> (tui \<Rightarrow> 'w \<Rightarrow> (unit, 'w) act) \<Rightarrow> (unit, 'w) act" where
  "and_then x f = (case x of (Inl e, t, w) \<Rightarrow> (Inl e, t, w) | (Inr _, t, w) \<Rightarrow> f t w)"

definition set_session_status :: "json \<Rightarrow> tui_session \<Rightarrow> tui_session" where
  "set_session_status v s = s\<lparr>ts_status := v\<rparr>"

definition load_session :: "'w tui_env \<Rightarrow> string \<Rightarrow> tui \<Rightarrow> 'w \<Rightarrow> (unit, 'w) act" where
  "load_session E sid t w =
     guarded (tc_get_session (tv_client E) sid w) t (\<lambda>sess w1.
       case bind_result (json_get sess ''task'' (JStr [])) (\<lambda>tsk.
            bind_result (json_get sess ''models'' (JObj [])) (\<lambda>ms.
            bind_result (json_get sess ''status'' (JStr ''active'')) (\<lambda>st. Inr (tsk, ms, st)))) of
         Inl e \<Rightarrow> (Inl e, t, w1)
       | Inr (tsk, ms, st) \<Rightarrow>
           let t1 = init_session (tv_now E w1) sid tsk ms t;
               t2 = snd (on_session (\<lambda>s. (Inr (), set_session_status st s)) t1)
           in and_then (refresh_agents E sid t2 w1) (\<lambda>t3 w3.
              and_then (refresh_tasks E sid t3 w3) (\<lambda>t4 w4. refresh_patches E sid t4 w4)))"

section \<open>Messages\<close>

text \<open>The pattern \<open>^@(\S+)\s*(.*)\<close>: the target and the rest of the line.\<close>

definition at_target :: "string \<Rightarrow> (string \<times> string) option" where
  "at_target s = (case s of
     [] \<Rightarrow> None
   | c # r \<Rightarrow>
       if c \<noteq> CHR 0x40 \<or> takeWhile (\<lambda>x. \<not> py_space x) r = [] then None
       else Some (takeWhile (\<lambda>x. \<not> py_space x) r, dropWhile py_space (dropWhile (\<lambda>x. \<not> py_space x) r)))"

definition resolve_agent :: "string \<Rightarrow> tui \<Rightarrow> string option" where
  "resolve_agent hint t = (case tu_session t of
     None \<Rightarrow> None
   | Some s \<Rightarrow>
       if hint \<in> fst ` set (ts_agents s) then Some hint
       else let by_role = filter (\<lambda>a. ai_role a = JStr hint) (dict_values (ts_agents s));
                running = filter (\<lambda>a. ai_status a = JStr ''running'') by_role
            in if by_role = [] then None
               else Some (ai_id (hd (if running \<noteq> [] then running else by_role))))"

definition deliver :: "'w tui_env \<Rightarrow> string \<Rightarrow> string \<Rightarrow> string \<Rightarrow> tui \<Rightarrow> 'w \<Rightarrow> (unit, 'w) act" where
  "deliver E aid message entry t w =
     guarded (tc_send_message (tv_client E) aid message ''user'' w) t (\<lambda>_ w1.
       (Inr (), add_log E (JStr ''user'') ''message'' (JStr entry) w1 t, w1))"

definition svc_send_message :: "'w tui_env \<Rightarrow> string \<Rightarrow> tui \<Rightarrow> 'w \<Rightarrow> (unit, 'w) act" where
  "svc_send_message E raw t w = (case tu_session t of
     None \<Rightarrow> (Inr (), t, w)
   | Some s \<Rightarrow>
       (case at_target (strip raw) of
          Some (hint, rest) \<Rightarrow>
            let message = strip rest in
            if message = [] then (Inr (), t, w)
            else (case resolve_agent hint t of
                    None \<Rightarrow> (Inr (), t, w)
                  | Some aid \<Rightarrow> deliver E aid message (CHR 0x40 # hint @ '': '' @ message) t w)
        | None \<Rightarrow>
            let message = strip raw in
            (case (case resolve_agent ''architect'' t of
                     Some aid \<Rightarrow> Some aid
                   | None \<Rightarrow> (case running_agents s of [] \<Rightarrow> None | a # _ \<Rightarrow> Some (ai_id a))) of
               None \<Rightarrow> (Inr (), t, w)
             | Some aid \<Rightarrow> deliver E aid message message t w)))"

section \<open>The end of a session\<close>

definition svc_end_session :: "'w tui_env \<Rightarrow> string \<Rightarrow> tui \<Rightarrow> 'w \<Rightarrow> (unit, 'w) act" where
  "svc_end_session E summary t w = (case tu_session t of
     None \<Rightarrow> (Inr (), t, w)
   | Some s \<Rightarrow> and_then (guarded (tc_end_session (tv_client E) (ts_id s) summary w) t (\<lambda>_ w1. (Inr (), t, w1)))
       (\<lambda>t1 w1. (Inr (), clear_session t1, w1)))"

section \<open>Commands of the input bar\<close>

definition lift_called :: "'a result \<Rightarrow> 'a called" where
  "lift_called r = (case r of Inl e \<Rightarrow> Inl (Unexpected e) | Inr x \<Rightarrow> Inr x)"

text \<open>A call followed by what is made of its answer.\<close>

definition answer :: "json called \<times> 'w \<Rightarrow> (json \<Rightarrow> 'a result) \<Rightarrow> 'a called \<times> 'w" where
  "answer x f = (case x of (r, w) \<Rightarrow> (bind_called r (\<lambda>j. lift_called (f j)), w))"

text \<open>A command handed to the orchestrator as a chat message, and the text of its answer.\<close>

definition first_content :: "json \<Rightarrow> json result" where
  "first_content j =
     bind_result (json_get j ''choices'' (JList [JObj []])) (\<lambda>cs. bind_result (item0 cs) (\<lambda>c.
     bind_result (json_get c ''message'' (JObj [])) (\<lambda>m. json_get m ''content'' (JStr []))))"

definition ask_orchestrator :: "'w tui_env \<Rightarrow> string \<Rightarrow> string \<Rightarrow> 'w \<Rightarrow> json called \<times> 'w" where
  "ask_orchestrator E content otherwise w =
     answer (post_call (tv_client E) ''/v1/chat/completions''
       [(''model'', JStr ''orchestrator''),
        (''messages'', JList [JObj [(''role'', JStr ''user''), (''content'', JStr content)]]),
        (''stream'', JBool False)] w)
       (\<lambda>j. bind_result (first_content j) (\<lambda>x. Inr (json_or x (JStr otherwise))))"

definition shown :: "'w tui_env \<Rightarrow> json \<Rightarrow> string" where
  "shown E j = py_str (cl_fr (tv_client E)) j"

definition execute_inline :: "'w tui_env \<Rightarrow> string \<Rightarrow> 'w \<Rightarrow> json called \<times> 'w" where
  "execute_inline E sid w = answer (tc_execute_tasks (tv_client E) sid w) (\<lambda>j.
     bind_result (json_get j ''executed'' (JInt 0)) (\<lambda>e. bind_result (json_get j ''complete'' (JInt 0)) (\<lambda>c.
     bind_result (json_get j ''failed'' (JInt 0)) (\<lambda>f.
       Inr (JStr (''Execution complete '' @ em_dash @ '' '' @ shown E e @ '' tasks run, '' @ shown E c
         @ '' complete, '' @ shown E f @ '' failed''))))))"

definition index_inline :: "'w tui_env \<Rightarrow> 'w \<Rightarrow> json called \<times> 'w" where
  "index_inline E w = answer (tc_index_codebase (tv_client E) w) (\<lambda>j.
     bind_result (json_get j ''files_indexed'' (JInt 0)) (\<lambda>i. bind_result (json_get j ''files_unchanged'' (JInt 0)) (\<lambda>u.
     bind_result (json_get j ''chunks'' (JInt 0)) (\<lambda>c.
       Inr (JStr (''Indexed '' @ shown E i @ '' files ('' @ shown E u @ '' unchanged), '' @ shown E c @ '' chunks''))))))"

definition memory_line :: "'w tui_env \<Rightarrow> nat \<times> json \<Rightarrow> string result" where
  "memory_line E ir = (case ir of (i, r) \<Rightarrow>
     bind_result (json_get r ''collection'' (JStr ''?'')) (\<lambda>col.
     bind_result (json_get r ''content'' (JStr [])) (\<lambda>x. bind_result (slice_to 120 x) (\<lambda>x.
       Inr (''  '' @ nat_str i @ ''. ['' @ shown E col @ ''] '' @ shown E x)))))"

definition memory_inline :: "'w tui_env \<Rightarrow> string \<Rightarrow> 'w \<Rightarrow> json called \<times> 'w" where
  "memory_inline E args w = answer (tc_recall (tv_client E) args w) (\<lambda>results.
     if \<not> truthy results then Inr (JStr (''No memories found for: '' @ args))
     else bind_result (slice_to 5 results) (\<lambda>top. bind_result (py_iter top) (\<lambda>rs.
       bind_result (each (memory_line E) (zip [1..<Suc (length rs)] rs)) (\<lambda>ls.
         Inr (JStr (join [nl] ((''Memory search: '' @ args) # ls)))))))"

definition debate_inline :: "'w tui_env \<Rightarrow> string \<Rightarrow> string \<Rightarrow> 'w \<Rightarrow> json called \<times> 'w" where
  "debate_inline E sid args w =
     answer (post_call (tv_client E) ''/v1/agents/debate'' [(''topic'', JStr args), (''session_id'', JStr sid)] w) (\<lambda>j.
       bind_result (json_get j ''consensus'' JNull) (\<lambda>c. bind_result (json_get j ''rounds'' (JInt 0)) (\<lambda>n.
       bind_result (json_get j ''final_plan'' (JStr [])) (\<lambda>p. bind_result (slice_to 300 p) (\<lambda>p.
         Inr (JStr (''Debate ('' @ shown E n @ '' rounds, ''
           @ (if truthy c then tick_mark @ '' consensus'' else plain_warn @ '' no consensus'') @ '')'' @ [nl] @ shown E p)))))))"

definition log_entry_json :: "log_entry \<Rightarrow> json" where
  "log_entry_json l = JObj [(''ts'', JFloat (le_ts l)), (''source'', le_source l), (''type'', JStr (le_type l)),
     (''content'', le_content l)]"

text \<open>The last twenty entries of the event log are sent as the transcript.\<close>

definition learn_inline :: "'w tui_env \<Rightarrow> tui_session \<Rightarrow> 'w \<Rightarrow> json called \<times> 'w" where
  "learn_inline E s w =
     answer (post_call (tv_client E) ''/v1/skills/learn'' [(''session_id'', JStr (ts_id s)),
       (''transcript'', JList (map log_entry_json (drop (length (ts_log s) - 20) (ts_log s))))] w) (\<lambda>j.
       bind_result (json_get j ''skill_name'' JNull) (\<lambda>k.
         Inr (JStr (if truthy k then ''Skill extracted: '' @ shown E k
                    else ''No reusable skill identified in recent events.''))))"

definition spawn_inline :: "'w tui_env \<Rightarrow> string \<Rightarrow> string \<Rightarrow> 'w \<Rightarrow> json called \<times> 'w" where
  "spawn_inline E sid args w =
     (let role = (if args = [] then ''coder'' else args) in
      if role \<notin> set [''architect'', ''coder'', ''reviewer'', ''tester'', ''documenter'']
      then (Inr (JStr (''Unknown role: '' @ role)), w)
      else answer (tc_spawn_agent (tv_client E) role ''(standby)'' sid w) (\<lambda>j.
        bind_result (json_get j ''agent_id'' (JStr ''?'')) (\<lambda>i.
          Inr (JStr (''Spawned '' @ role @ '' agent: '' @ shown E i)))))"

definition kill_inline :: "'w tui_env \<Rightarrow> string \<Rightarrow> 'w \<Rightarrow> json called \<times> 'w" where
  "kill_inline E args w =
     answer (tc_send_message (tv_client E) args ''__interrupt__'' ''system'' w) (\<lambda>_.
       Inr (JStr (''Interrupt sent to agent '' @ args)))"

text \<open>\<open>cmd_str.strip().split(None, 1)\<close>: the name in lower case and its stripped arguments.\<close>

definition command_name :: "string \<Rightarrow> string" where
  "command_name cmd = lower (takeWhile (\<lambda>c. \<not> py_space c) (strip cmd))"

definition command_args :: "string \<Rightarrow> string" where
  "command_args cmd = strip (dropWhile (\<lambda>c. \<not> py_space c) (strip cmd))"

text \<open>The commands that do not end the session.\<close>

definition served_inline :: "'w tui_env \<Rightarrow> tui_session \<Rightarrow> string \<Rightarrow> string \<Rightarrow> 'w \<Rightarrow> json called \<times> 'w" where
  "served_inline E s name args w =
     (let say = (\<lambda>m. (Inr (JStr m), w)) in
      if name = ''architect'' then
        (if args = [] then say ''Usage: /architect <task description>''
         else ask_orchestrator E (''/architect '' @ args) ''(no response)'' w)
      else if name = ''execute'' then execute_inline E (ts_id s) w
      else if name = ''status'' then ask_orchestrator E ''/status'' ''(no status)'' w
      else if name = ''index'' then index_inline E w
      else if name = ''memory'' then
        (if args = [] then say ''Usage: /memory <query>'' else memory_inline E args w)
      else if name = ''review'' then
        (if args = [] then say ''Usage: /review <text or task>''
         else ask_orchestrator E (''/review '' @ args) ''(no response)'' w)
      else if name = ''test'' then
        (if args = [] then say ''Usage: /test <task>'' else ask_orchestrator E (''/test '' @ args) ''(no response)'' w)
      else if name = ''debate'' then
        (if args = [] then say ''Usage: /debate <topic>'' else debate_inline E (ts_id s) args w)
      else if name = ''learn'' then learn_inline E s w
      else if name = ''spawn'' then spawn_inline E (ts_id s) args w
      else if name = ''kill'' then
        (if args = [] then say ''Usage: /kill <agent_id>'' else kill_inline E args w)
      else if name = ''model'' then say ''__open_model_config__''
      else if name = ''help'' then say ''__open_help__''
      else say ''__open_command_palette__'')"

text \<open>Errors become texts.\<close>

definition error_text :: "client_error \<Rightarrow> json" where
  "error_text e = (case e of Conn m \<Rightarrow> JStr (''Connection error: '' @ m) | Unexpected x \<Rightarrow> JStr (''Error: '' @ exc_str x))"

definition handle_inline_command :: "'w tui_env \<Rightarrow> string \<Rightarrow> tui \<Rightarrow> 'w \<Rightarrow> json \<times> tui \<times> 'w" where
  "handle_inline_command E cmd t w = (case tu_session t of
     None \<Rightarrow> (JStr ''No active session.'', t, w)
   | Some s \<Rightarrow>
       if command_name cmd = ''end'' then
         (case svc_end_session E ''Session ended by user.'' t w of
            (Inl e, t1, w1) \<Rightarrow> (error_text (Unexpected e), t1, w1)
          | (Inr _, t1, w1) \<Rightarrow> (JStr ''Session ended.'', t1, w1))
       else (case served_inline E s (command_name cmd) (command_args cmd) w of
               (Inl e, w1) \<Rightarrow> (error_text e, t, w1)
             | (Inr j, w1) \<Rightarrow> (j, t, w1)))"

section \<open>Events of the WebSocket\<close>

text \<open>\<open>agent_id and agent_id in agents\<close>: the id when it names an agent of the session.\<close>

definition known_agent :: "tui_session \<Rightarrow> json \<Rightarrow> string option result" where
  "known_agent s j = (case j of
     JStr i \<Rightarrow> Inr (if i \<noteq> [] \<and> i \<in> fst ` set (ts_agents s) then Some i else None)
   | JList xs \<Rightarrow> if xs = [] then Inr None else Inl (TypeError ''unhashable type: list'')
   | JObj d \<Rightarrow> if d = [] then Inr None else Inl (TypeError ''unhashable type: dict'')
   | _ \<Rightarrow> Inr None)"

definition mark_agent :: "string \<Rightarrow> string \<Rightarrow> tui_session \<Rightarrow> tui_session" where
  "mark_agent aid st s = (case map_of (ts_agents s) aid of
     None \<Rightarrow> s | Some a \<Rightarrow> s\<lparr>ts_agents := dict_set (ts_agents s) aid (a\<lparr>ai_status := JStr st\<rparr>)\<rparr>)"

definition pane_id :: "string \<Rightarrow> string" where "pane_id aid = ''agent-pane-'' @ aid"

text \<open>\<open>t_in + t_out\<close> and its addition to the token count: integers and booleans add up.\<close>

definition int_of_json :: "json \<Rightarrow> int option" where
  "int_of_json j = (case j of JInt n \<Rightarrow> Some n | JBool b \<Rightarrow> Some (if b then 1 else 0) | _ \<Rightarrow> None)"

definition add_counts :: "json \<Rightarrow> json \<Rightarrow> int result" where
  "add_counts a b = (case (int_of_json a, int_of_json b) of
     (Some m, Some n) \<Rightarrow> Inr (m + n)
   | _ \<Rightarrow> Inl (TypeError (''unsupported operand type(s) for +: '' @ type_name a @ '' and '' @ type_name b)))"

text \<open>An agent reports that it has finished, well or not: its status, the widgets to refresh and the
  log entry, whose content is a field of the payload.\<close>

definition agent_finished :: "real \<Rightarrow> json \<Rightarrow> string \<Rightarrow> string \<Rightarrow> string \<Rightarrow> json \<Rightarrow> tui_session
    \<Rightarrow> string list result \<times> tui_session" where
  "agent_finished now aid st ty field payload s =
     (case known_agent s aid of
        Inl e \<Rightarrow> (Inl e, s)
      | Inr known \<Rightarrow>
          let s1 = (case known of None \<Rightarrow> s | Some i \<Rightarrow> mark_agent i st s) in
          (case json_get payload field (JStr []) of
             Inl e \<Rightarrow> (Inl e, s1)
           | Inr content \<Rightarrow>
               (Inr (case known of None \<Rightarrow> [] | Some i \<Rightarrow> [''dag-sidebar'', pane_id i]),
                log_event now (json_or aid (JStr ''system'')) ty content s1)))"

definition on_work_complete :: "real \<Rightarrow> json \<Rightarrow> json \<Rightarrow> tui_session \<Rightarrow> string list result \<times> tui_session" where
  "on_work_complete now aid payload s =
     (case agent_finished now aid ''done'' ''work_complete'' ''result_preview'' payload s of
        (Inl e, s1) \<Rightarrow> (Inl e, s1)
      | (Inr ids, s1) \<Rightarrow>
          (case bind_result (json_get payload ''tokens_in'' (JInt 0)) (\<lambda>i.
                bind_result (json_get payload ''tokens_out'' (JInt 0)) (\<lambda>o1. Inr (i, o1))) of
             Inl e \<Rightarrow> (Inl e, s1)
           | Inr (i, o1) \<Rightarrow>
               if \<not> truthy i \<and> \<not> truthy o1 then (Inr ids, s1)
               else (case add_counts i o1 of
                       Inl e \<Rightarrow> (Inl e, s1)
                     | Inr n \<Rightarrow> (Inr (ids @ [''header-bar'']), add_tokens n s1))))"

definition applied_patch :: "json \<Rightarrow> json dict \<Rightarrow> json dict" where
  "applied_patch aid p =
     [(''patch_id'', get_or p ''patch_id'' (JStr [])), (''agent_id'', get_or p ''agent_id'' (json_or aid (JStr []))),
      (''description'', get_or p ''description'' (JStr [])), (''status'', JStr ''applied''),
      (''files'', get_or p ''files'' (JList []))]"

text \<open>\<open>'', ''.join(x)\<close>.\<close>

definition str_item :: "json \<Rightarrow> string result" where
  "str_item j = (case j of JStr x \<Rightarrow> Inr x | _ \<Rightarrow> Inl (TypeError ''sequence item: expected str instance''))"

definition joined :: "json \<Rightarrow> string result" where
  "joined j = bind_result (py_iter j) (\<lambda>xs. bind_result (each str_item xs) (\<lambda>ss. Inr (join '', '' ss)))"

definition on_patch_applied :: "(real \<Rightarrow> string) \<Rightarrow> real \<Rightarrow> json \<Rightarrow> json \<Rightarrow> tui_session \<Rightarrow> string list result \<times> tui_session" where
  "on_patch_applied fr now aid payload s =
     (case as_dict payload of
        Inl e \<Rightarrow> (Inl e, s)
      | Inr p \<Rightarrow>
          (case upsert_patch now (applied_patch aid p) s of
             (Inl e, s1) \<Rightarrow> (Inl e, s1)
           | (Inr _, s1) \<Rightarrow>
               (case joined (get_or p ''files'' (JList [])) of
                  Inl e \<Rightarrow> (Inl e, s1)
                | Inr names \<Rightarrow>
                    (Inr [''dag-sidebar''],
                     log_event now (JStr ''system'') ''patch_applied''
                       (JStr (''patch '' @ py_str fr (get_or p ''patch_id'' JNull) @ '' '' @ arrow_right @ '' '' @ names)) s1))))"

definition on_test_result :: "(real \<Rightarrow> string) \<Rightarrow> real \<Rightarrow> json \<Rightarrow> tui_session \<Rightarrow> string list result \<times> tui_session" where
  "on_test_result fr now payload s =
     (case json_get payload ''summary'' (JStr []) of
        Inl e \<Rightarrow> (Inl e, s)
      | Inr v \<Rightarrow> (Inr [''dag-sidebar''], log_event now (JStr ''system'') ''test_result'' (JStr (py_str fr v)) s))"

definition on_status :: "json \<Rightarrow> tui_session \<Rightarrow> string list result \<times> tui_session" where
  "on_status payload s =
     (case json_get payload ''lifecycle'' (JStr []) of
        Inl e \<Rightarrow> (Inl e, s)
      | Inr v \<Rightarrow> if v = JStr ''ended'' then (Inr [''header-bar''], set_session_status (JStr ''ended'') s) else (Inr [], s))"

definition session_event :: "(real \<Rightarrow> string) \<Rightarrow> real \<Rightarrow> json dict \<Rightarrow> tui_session \<Rightarrow> string list result \<times> tui_session" where
  "session_event fr now ev s =
     (let ty = get_or ev ''type'' (JStr []); payload = get_or ev ''payload'' (JObj []); aid = get_or ev ''agent_id'' JNull in
      if ty = JStr ''work_complete'' then on_work_complete now aid payload s
      else if ty = JStr ''work_failed'' then agent_finished now aid ''failed'' ''work_failed'' ''error'' payload s
      else if ty = JStr ''patch_applied'' then on_patch_applied fr now aid payload s
      else if ty = JStr ''test_result'' then on_test_result fr now payload s
      else if ty = JStr ''status'' then on_status payload s
      else (Inr [], s))"

definition handle_ws_event :: "(real \<Rightarrow> string) \<Rightarrow> real \<Rightarrow> json \<Rightarrow> tui \<Rightarrow> string list result \<times> tui" where
  "handle_ws_event fr now ev t = (case tu_session t of
     None \<Rightarrow> (Inr [], t)
   | Some s \<Rightarrow>
       (case as_dict ev of
          Inl e \<Rightarrow> (Inl e, t)
        | Inr d \<Rightarrow> (case session_event fr now d s of (r, s1) \<Rightarrow> (r, t\<lparr>tu_session := Some s1\<rparr>))))"

section \<open>The state stays in order\<close>

lemma py_items_ok:
  assumes "\<And>x u. tui_ok u \<Longrightarrow> tui_ok (snd (f x u))"
  shows "tui_ok t \<Longrightarrow> tui_ok (snd (for_items f j t))"
proof -
  have "tui_ok u \<Longrightarrow> tui_ok (snd (for_each f xs u))" for xs u
  proof (induction xs arbitrary: u)
    case (Cons x xs)
    then show ?case using assms [OF Cons.prems, of x] by (auto split: prod.split sum.split)
  qed simp
  then show "tui_ok t \<Longrightarrow> ?thesis" by (simp add: for_items_def split: sum.split)
qed

lemma items_eq_ok:
  assumes "for_items f j t = (r, u)" "tui_ok t" "\<And>x v. tui_ok v \<Longrightarrow> tui_ok (snd (f x v))"
  shows "tui_ok u"
  using py_items_ok [of f t j] assms by simp

lemma guarded_ok:
  assumes "tui_ok t" "\<And>j w1. tui_ok (fst (snd (f j w1)))"
  shows "tui_ok (fst (snd (guarded x t f)))"
  using assms by (auto simp: guarded_def split: prod.split sum.split client_error.split)

lemma and_then_ok:
  assumes "tui_ok (fst (snd x))" "\<And>u w. tui_ok u \<Longrightarrow> tui_ok (fst (snd (f u w)))"
  shows "tui_ok (fst (snd (and_then x f)))"
  using assms by (auto simp: and_then_def split: prod.split sum.split)

lemma upsert_own_agent_ok: "tui_ok u \<Longrightarrow> tui_ok (snd (upsert_own_agent now sid x u))"
  using on_session_ok [OF _ upsert_agent_ok] by (auto simp: upsert_own_agent_def split: sum.split)

lemma upsert_task_item_ok: "tui_ok u \<Longrightarrow> tui_ok (snd (upsert_task_item x u))"
  using on_session_ok [OF _ upsert_task_ok] by (auto simp: upsert_task_item_def split: sum.split)

lemma upsert_patch_item_ok: "tui_ok u \<Longrightarrow> tui_ok (snd (upsert_patch_item now x u))"
  using on_session_ok [OF _ upsert_patch_ok] by (auto simp: upsert_patch_item_def split: sum.split)

lemma refresh_agents_ok: "tui_ok t \<Longrightarrow> tui_ok (fst (snd (refresh_agents E sid t w)))"
  unfolding refresh_agents_def
  by (rule guarded_ok) (auto intro: items_eq_ok upsert_own_agent_ok split: prod.split)

lemma refresh_tasks_ok: "tui_ok t \<Longrightarrow> tui_ok (fst (snd (refresh_tasks E sid t w)))"
  unfolding refresh_tasks_def
  by (rule guarded_ok) (auto intro: items_eq_ok upsert_task_item_ok split: prod.split sum.split)

lemma refresh_patches_ok: "tui_ok t \<Longrightarrow> tui_ok (fst (snd (refresh_patches E sid t w)))"
  unfolding refresh_patches_def
  by (rule guarded_ok) (auto intro: items_eq_ok upsert_patch_item_ok split: prod.split)

lemma set_session_status_ok: "session_ok s \<Longrightarrow> session_ok (set_session_status v s)"
  by (simp add: session_ok_def set_session_status_def)

lemma load_session_ok: "tui_ok t \<Longrightarrow> tui_ok (fst (snd (load_session E sid t w)))"
proof -
  assume t: "tui_ok t"
  have "tui_ok (snd (on_session (\<lambda>s. (Inr (), set_session_status st s)) (init_session now sid tsk ms t)))" for now tsk ms st
    using on_session_ok [OF init_session_ok [OF t], of "\<lambda>s. (Inr (), set_session_status st s)"]
      set_session_status_ok by auto
  then show ?thesis
    unfolding load_session_def Let_def
    by (intro guarded_ok t)
      (auto simp: t intro!: and_then_ok refresh_agents_ok refresh_tasks_ok refresh_patches_ok split: sum.split)
qed

lemma add_log_ok: "tui_ok t \<Longrightarrow> tui_ok (add_log E a b c w t)"
  unfolding add_log_def using on_session_ok [of t "\<lambda>s. (Inr (), log_event (tv_now E w) a b c s)"] log_event_ok by auto

lemma svc_send_message_ok: "tui_ok t \<Longrightarrow> tui_ok (fst (snd (svc_send_message E raw t w)))"
proof -
  assume t: "tui_ok t"
  then have "tui_ok (fst (snd (deliver E aid m e t w)))" for aid m e
    unfolding deliver_def by (rule guarded_ok) (simp add: add_log_ok t)
  then show ?thesis using t by (auto simp: svc_send_message_def Let_def split: option.split list.split)
qed

lemma post_call_error: "fst (post_call E path body w) = Inl e \<Longrightarrow> \<exists>m. e = Conn m"
  by (auto simp: post_call_def not_connected_def split: if_splits prod.splits sum.splits)

lemma svc_end_session_eq:
  "svc_end_session E summary t w = (Inr (), clear_session t, snd (snd (svc_end_session E summary t w)))"
proof (cases "tu_session t")
  case None
  then show ?thesis by (simp add: svc_end_session_def clear_session_def)
next
  case (Some s)
  obtain r w1 where p: "tc_end_session (tv_client E) (ts_id s) summary w = (r, w1)" by fastforce
  with post_call_error [of "tv_client E" _ _ w] have "r = Inl e \<Longrightarrow> \<exists>m. e = Conn m" for e
    by (metis tc_end_session_def fst_conv)
  then show ?thesis using Some p
    by (cases r) (auto simp: svc_end_session_def guarded_def and_then_def)
qed

lemma clear_session_ok: "tui_ok t \<Longrightarrow> tui_ok (clear_session t)"
  by (simp add: tui_ok_def clear_session_def)

text \<open>What a command does to the state.\<close>

lemma handle_inline_state:
  "fst (snd (handle_inline_command E cmd t w)) = (if command_name cmd = ''end'' then clear_session t else t)"
  using svc_end_session_eq [of E "''Session ended by user.''" t w]
  by (auto simp: handle_inline_command_def clear_session_def split: option.split prod.splits sum.split)

lemma mark_agent_ok: "session_ok s \<Longrightarrow> session_ok (mark_agent aid st s)"
  by (auto simp: mark_agent_def session_ok_def simp del: map_of_eq_Some_iff split: option.split if_splits)

lemma agent_finished_ok: "session_ok s \<Longrightarrow> session_ok (snd (agent_finished now aid st ty field payload s))"
  by (auto simp: agent_finished_def Let_def mark_agent_ok log_event_ok split: sum.split option.split)

lemma on_work_complete_ok: "session_ok s \<Longrightarrow> session_ok (snd (on_work_complete now aid payload s))"
  using agent_finished_ok [of s now aid "''done''" "''work_complete''" "''result_preview''" payload]
  by (auto simp: on_work_complete_def add_tokens_ok split: sum.split prod.split)

lemma on_patch_applied_ok: "session_ok s \<Longrightarrow> session_ok (snd (on_patch_applied fr now aid payload s))"
  by (auto simp: on_patch_applied_def intro!: log_event_ok intro: upsert_patch_ok split: sum.split prod.split)

lemma session_event_ok: "session_ok s \<Longrightarrow> session_ok (snd (session_event fr now ev s))"
  by (auto simp: session_event_def Let_def on_work_complete_ok agent_finished_ok on_patch_applied_ok
      on_test_result_def on_status_def log_event_ok set_session_status_ok split: sum.split)

lemma handle_ws_event_ok: "tui_ok t \<Longrightarrow> tui_ok (snd (handle_ws_event fr now ev t))"
proof -
  assume t: "tui_ok t"
  have "session_ok s1" if "session_event fr now d s = (r, s1)" "session_ok s" for d s r s1
    using session_event_ok [OF that(2), of fr now d] that(1) by simp
  then show ?thesis using t
    by (auto simp: handle_ws_event_def tui_ok_def split: option.splits sum.split prod.split)
qed

text \<open>The operations of the interface on its state, over any server and any clock.\<close>

datatype svc_op =
    Load_Session string | Refresh_Agents string | Refresh_Tasks string | Refresh_Patches string
  | Send_Message string | Inline_Command string | Ws_Event json | End_Session string | Ui_Step tui_op

fun svc_step :: "'w tui_env \<Rightarrow> svc_op \<Rightarrow> tui \<Rightarrow> 'w \<Rightarrow> tui \<times> 'w" where
  "svc_step E (Load_Session sid) t w = snd (load_session E sid t w)"
| "svc_step E (Refresh_Agents sid) t w = snd (refresh_agents E sid t w)"
| "svc_step E (Refresh_Tasks sid) t w = snd (refresh_tasks E sid t w)"
| "svc_step E (Refresh_Patches sid) t w = snd (refresh_patches E sid t w)"
| "svc_step E (Send_Message raw) t w = snd (svc_send_message E raw t w)"
| "svc_step E (Inline_Command cmd) t w = snd (handle_inline_command E cmd t w)"
| "svc_step E (Ws_Event ev) t w = (snd (handle_ws_event (cl_fr (tv_client E)) (tv_now E w) ev t), w)"
| "svc_step E (End_Session summary) t w = snd (svc_end_session E summary t w)"
| "svc_step E (Ui_Step oper) t w = (snd (tui_step oper t), w)"

inductive svc_reach :: "'w tui_env \<Rightarrow> tui \<Rightarrow> 'w \<Rightarrow> bool" for E where
  svc_start: "svc_reach E initial_tui w"
| svc_go: "svc_reach E t w \<Longrightarrow> svc_step E oper t w = (t1, w1) \<Longrightarrow> svc_reach E t1 w1"
| svc_world: "svc_reach E t w \<Longrightarrow> svc_reach E t w1"

lemma svc_step_ok: "tui_ok t \<Longrightarrow> tui_ok (fst (svc_step E oper t w))"
proof (cases oper)
  case (Inline_Command cmd)
  then show "tui_ok t \<Longrightarrow> ?thesis" using handle_inline_state [of E cmd t w] clear_session_ok by simp
next
  case (End_Session summary)
  then show "tui_ok t \<Longrightarrow> ?thesis"
    using svc_end_session_eq [of E summary t w] clear_session_ok by (metis fst_conv snd_conv svc_step.simps(8))
qed (simp_all add: load_session_ok refresh_agents_ok refresh_tasks_ok refresh_patches_ok svc_send_message_ok
    handle_ws_event_ok tui_step_ok)

lemma svc_reach_ok: "svc_reach E t w \<Longrightarrow> tui_ok t"
proof (induction rule: svc_reach.induct)
  case (svc_start w)
  show ?case by (simp add: tui_ok_def initial_tui_def initial_ui_def)
next
  case (svc_go t w oper t1 w1)
  then show ?case using svc_step_ok [of t E oper w] by simp
qed

lemma resolved_registered:
  assumes "tui_ok t" "resolve_agent hint t = Some aid"
  obtains s a where "tu_session t = Some s" "map_of (ts_agents s) aid = Some a" "ai_id a = aid"
proof -
  obtain s where s: "tu_session t = Some s" "session_ok s"
    using assms by (auto simp: resolve_agent_def tui_ok_def split: option.splits)
  show ?thesis
  proof (cases "hint \<in> fst ` set (ts_agents s)")
    case True
    then obtain a where "map_of (ts_agents s) hint = Some a" by (metis map_of_eq_None_iff option.exhaust)
    then show ?thesis using True s assms(2) that by (auto simp: resolve_agent_def session_ok_def)
  next
    case False
    define xs where "xs = (let by_role = filter (\<lambda>a. ai_role a = JStr hint) (dict_values (ts_agents s));
      running = filter (\<lambda>a. ai_status a = JStr ''running'') by_role in if running \<noteq> [] then running else by_role)"
    have "xs \<noteq> []" "aid = ai_id (hd xs)" "set xs \<subseteq> set (dict_values (ts_agents s))"
      using False s(1) assms(2) by (auto simp: xs_def resolve_agent_def Let_def split: if_splits)
    then have "hd xs \<in> set (dict_values (ts_agents s))" by (meson hd_in_set subsetD)
    then obtain k where "(k, hd xs) \<in> set (ts_agents s)" by (auto simp: dict_values_def)
    then have "map_of (ts_agents s) k = Some (hd xs)" using s(2) by (simp add: session_ok_def)
    then show ?thesis using s \<open>aid = ai_id (hd xs)\<close> that by (auto simp: session_ok_def)
  qed
qed

end
