(* ===== verification/Tui_Project.thy ===== *)
theory Tui_Project
  imports Tui_Service
begin

text \<open>
  \<open>tui/tui/utils/git.py\<close>, \<open>tui/tui/services/project_service.py\<close> and the choice of project and session in
  \<open>tui/tui/main.py\<close>.  Running a git command and looking at a path are parameters; the server is
  reached through the client.  The session ids of answers are texts, and the
  default models of a project a dict.
\<close>

section \<open>Git\<close>

record git_host =
  gh_exists :: "string \<Rightarrow> bool"
  gh_run :: "string list \<Rightarrow> string \<Rightarrow> (int \<times> string) option" \<comment> \<open>words, directory; none when it cannot run\<close>

record repo_info =
  gr_is_repo :: bool
  gr_root :: string
  gr_branch :: string
  gr_changes :: bool
  gr_ahead :: int
  gr_behind :: int

definition git_run :: "git_host \<Rightarrow> string list \<Rightarrow> string \<Rightarrow> int \<times> string" where
  "git_run G args cwd = (case gh_run G args cwd of Some (rc, out) \<Rightarrow> (rc, strip out) | None \<Rightarrow> (-1, []))"

definition no_repo :: "string \<Rightarrow> repo_info" where
  "no_repo path = \<lparr>gr_is_repo = False, gr_root = path, gr_branch = [], gr_changes = False, gr_ahead = 0, gr_behind = 0\<rparr>"

text \<open>The two counts of \<open>git rev-list --left-right --count\<close>: behind and ahead.\<close>

definition left_right :: "string \<Rightarrow> int \<times> int" where
  "left_right out = (case split_ws out of
     [a, b] \<Rightarrow> (case (parse_int a, parse_int b) of (Some m, Some n) \<Rightarrow> (m, n) | _ \<Rightarrow> (0, 0))
   | _ \<Rightarrow> (0, 0))"

definition detect_repo :: "git_host \<Rightarrow> string \<Rightarrow> repo_info" where
  "detect_repo G path =
     (if \<not> gh_exists G path then no_repo path
      else case git_run G [''git'', ''rev-parse'', ''--show-toplevel''] path of (rc, repo_top) \<Rightarrow>
        if rc \<noteq> 0 then no_repo path
        else
          let branch = snd (git_run G [''git'', ''rev-parse'', ''--abbrev-ref'', ''HEAD''] repo_top);
              status = git_run G [''git'', ''status'', ''--porcelain''] repo_top;
              counts = left_right (snd (git_run G [''git'', ''rev-list'', ''--left-right'', ''--count'',
                branch @ ''@'' @ ''{u}...HEAD''] repo_top))
          in \<lparr>gr_is_repo = True, gr_root = repo_top, gr_branch = (if branch = [] then ''HEAD'' else branch),
              gr_changes = (fst status = 0 \<and> strip (snd status) \<noteq> []), gr_ahead = snd counts, gr_behind = fst counts\<rparr>)"

definition arrow_up :: string where "arrow_up = [CHR 0x86]"
definition arrow_down :: string where "arrow_down = [CHR 0x87]"

definition short_status :: "repo_info \<Rightarrow> string" where
  "short_status g =
     (if \<not> gr_is_repo g then ''not a git repo''
      else join (''  '' @ [CHR 0xB7] @ ''  '') ([gr_branch g]
        @ (if gr_changes g then [''uncommitted changes''] else [])
        @ (if gr_ahead g \<noteq> 0 then [arrow_up @ int_str (gr_ahead g)] else [])
        @ (if gr_behind g \<noteq> 0 then [arrow_down @ int_str (gr_behind g)] else [])))"

section \<open>The project service\<close>

text \<open>An action of the service answers or raises, and leaves the store and the world.\<close>

type_synonym ('a, 'w) store_act = "'a called \<times> store \<times> 'w"

definition given_models :: "json dict option \<Rightarrow> json dict" where
  "given_models ms = (case ms of None \<Rightarrow> [] | Some d \<Rightarrow> d)"

text \<open>Configuring the models of a session; a connection error is logged.\<close>

definition configure_quietly :: "'w tui_env \<Rightarrow> string \<Rightarrow> json dict \<Rightarrow> store \<Rightarrow> 'w \<Rightarrow> (unit, 'w) store_act" where
  "configure_quietly E sid ms S w =
     (if ms = [] then (Inr (), S, w)
      else case tc_configure_models (tv_client E) sid ms w of
        (Inl (Unexpected e), w1) \<Rightarrow> (Inl (Unexpected e), S, w1) | (_, w1) \<Rightarrow> (Inr (), S, w1))"

text \<open>\<open>sess[k]\<close> of an answer.\<close>

definition answer_id :: "json \<Rightarrow> string called" where
  "answer_id j = lift_called (bind_result (obj_of j) (\<lambda>d. id_field d ''session_id''))"

definition add_session :: "'w tui_env \<Rightarrow> string \<Rightarrow> string \<Rightarrow> store \<Rightarrow> 'w \<Rightarrow> (unit, 'w) store_act" where
  "add_session E pid sid S w = (case add_session_to_project (tv_now E w) pid sid S of
     Inl e \<Rightarrow> (Inl (Unexpected e), S, w) | Inr S1 \<Rightarrow> (Inr (), S1, w))"

definition create_project_svc ::
  "'w tui_env \<Rightarrow> string \<Rightarrow> string \<Rightarrow> string \<Rightarrow> string \<Rightarrow> json dict option \<Rightarrow> store \<Rightarrow> 'w
    \<Rightarrow> (string \<times> string, 'w) store_act" where
  "create_project_svc E hex8 name workspace tsk models S w =
     (let pid = ''proj-'' @ hex8;
          S1 = snd (create_project (tv_now E w) hex8 name workspace (cl_base (tv_client E)) (given_models models) S)
      in case tc_create_session (tv_client E) tsk None models w of
        (Inl e, w1) \<Rightarrow> (Inl e, S1, w1)
      | (Inr sess, w1) \<Rightarrow>
          (case answer_id sess of
             Inl e \<Rightarrow> (Inl e, S1, w1)
           | Inr sid \<Rightarrow>
               (case add_session E pid sid S1 w1 of
                  (Inl e, S2, w2) \<Rightarrow> (Inl e, S2, w2)
                | (Inr _, S2, w2) \<Rightarrow>
                    (case configure_quietly E sid (given_models models) S2 w2 of
                       (Inl e, S3, w3) \<Rightarrow> (Inl e, S3, w3) | (Inr _, S3, w3) \<Rightarrow> (Inr (pid, sid), S3, w3)))))"

definition load_project :: "git_host \<Rightarrow> real \<Rightarrow> string \<Rightarrow> store \<Rightarrow> tui \<Rightarrow> bool result \<times> store \<times> tui" where
  "load_project G now pid S t = (case get_project pid S of
     None \<Rightarrow> (Inr False, S, t)
   | Some p \<Rightarrow>
       (case lp_workspace p of
          JStr ws \<Rightarrow>
            (let g = detect_repo G ws in
             case py_iter (lp_sessions p) of
               Inl e \<Rightarrow> (Inl e, S, t)
             | Inr sids \<Rightarrow>
                 (Inr True, touch_project now pid S,
                  t\<lparr>tu_project := Some \<lparr>pj_id = lp_id p, pj_name = lp_name p, pj_workspace = lp_workspace p,
                    pj_sessions = sids, pj_branch = gr_branch g, pj_dirty = gr_changes g, pj_url = lp_url p\<rparr>\<rparr>))
        | j \<Rightarrow> (Inl (TypeError ''expected str, bytes or os.PathLike object''), S, t)))"

text \<open>The sessions of a project, the newest first; one the server does not give is shown as expired.\<close>

definition expired_session :: "string \<Rightarrow> json" where
  "expired_session sid = JObj [(''session_id'', JStr sid), (''status'', JStr ''expired''), (''task'', JStr ''(expired)''),
     (''expired'', JBool True), (''created_at'', JInt 0), (''updated_at'', JInt 0)]"

fun project_sessions :: "'w tui_env \<Rightarrow> string list \<Rightarrow> 'w \<Rightarrow> json list called \<times> 'w" where
  "project_sessions E [] w = (Inr [], w)"
| "project_sessions E (sid # sids) w =
     (case tc_get_session (tv_client E) sid w of
        (Inl (Unexpected e), w1) \<Rightarrow> (Inl (Unexpected e), w1)
      | (Inl (Conn m), w1) \<Rightarrow>
          (case project_sessions E sids w1 of (r, w2) \<Rightarrow> (bind_called r (\<lambda>xs. Inr (expired_session sid # xs)), w2))
      | (Inr sess, w1) \<Rightarrow>
          (case obj_of sess of
             Inl e \<Rightarrow> (Inl (Unexpected e), w1)
           | Inr d \<Rightarrow> (case project_sessions E sids w1 of (r, w2) \<Rightarrow>
               (bind_called r (\<lambda>xs. Inr (JObj (dict_set d ''expired'' (JBool False)) # xs)), w2))))"

definition str_list :: "json \<Rightarrow> string list result" where
  "str_list j = bind_result (py_iter j) (each str_item)"

definition get_project_sessions :: "'w tui_env \<Rightarrow> string \<Rightarrow> store \<Rightarrow> 'w \<Rightarrow> json list called \<times> 'w" where
  "get_project_sessions E pid S w = (case get_project pid S of
     None \<Rightarrow> (Inr [], w)
   | Some p \<Rightarrow> (case str_list (lp_sessions p) of
       Inl e \<Rightarrow> (Inl (Unexpected e), w) | Inr sids \<Rightarrow> project_sessions E (rev sids) w))"

definition new_session :: "'w tui_env \<Rightarrow> string \<Rightarrow> string \<Rightarrow> json dict option \<Rightarrow> store \<Rightarrow> 'w \<Rightarrow> (string, 'w) store_act" where
  "new_session E pid tsk models S w = (case get_project pid S of
     None \<Rightarrow> (Inl (Unexpected (ValueError (''Project '' @ py_repr pid @ '' not found''))), S, w)
   | Some p \<Rightarrow>
       let ms = (if given_models models \<noteq> [] then given_models models
                 else case lp_models p of JObj d \<Rightarrow> d | _ \<Rightarrow> []) in
       (case tc_create_session (tv_client E) tsk None (Some ms) w of
          (Inl e, w1) \<Rightarrow> (Inl e, S, w1)
        | (Inr sess, w1) \<Rightarrow>
            (case answer_id sess of
               Inl e \<Rightarrow> (Inl e, S, w1)
             | Inr sid \<Rightarrow>
                 (case configure_quietly E sid ms S w1 of
                    (Inl e, S1, w2) \<Rightarrow> (Inl e, S1, w2)
                  | (Inr _, S1, w2) \<Rightarrow>
                      (case add_session E pid sid S1 w2 of
                         (Inl e, S2, w3) \<Rightarrow> (Inl e, S2, w3) | (Inr _, S2, w3) \<Rightarrow> (Inr sid, S2, w3))))))"

text \<open>Active sessions that belong to no local project.\<close>

fun known_sessions :: "local_project list \<Rightarrow> json list result" where
  "known_sessions [] = Inr []"
| "known_sessions (p # ps) =
     bind_result (py_iter (lp_sessions p)) (\<lambda>xs. bind_result (known_sessions ps) (\<lambda>ys. Inr (xs @ ys)))"

fun unknown_sessions :: "json list \<Rightarrow> json list \<Rightarrow> json list result" where
  "unknown_sessions known [] = Inr []"
| "unknown_sessions known (s # ss) =
     bind_result (bind_result (obj_of s) (\<lambda>d. id_field d ''session_id'')) (\<lambda>sid.
     bind_result (unknown_sessions known ss) (\<lambda>rest. Inr (if JStr sid \<in> set known then rest else s # rest)))"

definition find_orphan_sessions :: "'w tui_env \<Rightarrow> store \<Rightarrow> 'w \<Rightarrow> json list called \<times> 'w" where
  "find_orphan_sessions E S w =
     (case tc_list_sessions (tv_client E) (Some ''active'') w of
        (Inl (Conn m), w1) \<Rightarrow> (Inr [], w1)
      | (Inl e, w1) \<Rightarrow> (Inl e, w1)
      | (Inr active, w1) \<Rightarrow>
          (lift_called (bind_result (py_iter active) (\<lambda>ss. bind_result (known_sessions (list_projects S)) (\<lambda>known.
             unknown_sessions known ss))), w1))"

section \<open>Start of the program\<close>

record cli_args =
  ca_url :: "string option"
  ca_project :: "string option"
  ca_session :: "string option"
  ca_chat :: bool
  ca_role :: string

definition resolve_url :: "cli_args \<Rightarrow> store \<Rightarrow> json \<times> store" where
  "resolve_url A S = (case ca_url A of
     Some u \<Rightarrow>
       if u \<noteq> [] then (let v = rstrip_char (CHR ''/'') u in (JStr v, set_orchestrator_url v S))
       else (json_or (so_url S) (JStr default_orch_url), S)
   | None \<Rightarrow> (json_or (so_url S) (JStr default_orch_url), S))"

text \<open>The project that holds the session, when only the session is given.\<close>

definition project_of_session :: "string \<Rightarrow> store \<Rightarrow> json option" where
  "project_of_session sid S =
     map_option lp_id (find (\<lambda>p. case lp_sessions p of JList xs \<Rightarrow> JStr sid \<in> set xs | _ \<Rightarrow> False) (list_projects S))"

definition resolve_project :: "cli_args \<Rightarrow> store \<Rightarrow> json option" where
  "resolve_project A S = (case (ca_project A, ca_session A) of
     (Some p, _) \<Rightarrow> if p = [] then (case ca_session A of Some s \<Rightarrow> if s = [] then Some (JStr []) else
         (case project_of_session s S of None \<Rightarrow> Some (JStr []) | x \<Rightarrow> x) | None \<Rightarrow> Some (JStr [])) else Some (JStr p)
   | (None, Some s) \<Rightarrow> if s = [] then None else project_of_session s S
   | (None, None) \<Rightarrow> None)"

datatype first_screen = Chat_Screen string | Session_Screen json string | Project_Screen json | Launcher_Screen

definition initial_screen :: "cli_args \<Rightarrow> store \<Rightarrow> first_screen" where
  "initial_screen A S =
     (if ca_chat A \<and> ca_role A \<noteq> [] then Chat_Screen (ca_role A)
      else case resolve_project A S of
        None \<Rightarrow> Launcher_Screen
      | Some p \<Rightarrow>
          if \<not> truthy p then Launcher_Screen
          else (case ca_session A of
                  Some s \<Rightarrow> if s \<noteq> [] then Session_Screen p s else Project_Screen p
                | None \<Rightarrow> Project_Screen p))"

section \<open>A new project\<close>

lemma known_sessions_cover:
  "known_sessions ps = Inr ks \<Longrightarrow> p \<in> set ps \<Longrightarrow> lp_sessions p = JList xs \<Longrightarrow> set xs \<subseteq> set ks"
  by (induction ps arbitrary: ks) (auto simp: py_iter_def)

lemma unknown_sessions_sound:
  "unknown_sessions known ss = Inr rs \<Longrightarrow>
     list_all (\<lambda>r. \<exists>sid. answer_id r = Inr sid \<and> JStr sid \<notin> set known) rs"
proof (induction ss arbitrary: rs)
  case (Cons s ss)
  then obtain sid rest where a: "bind_result (obj_of s) (\<lambda>d. id_field d ''session_id'') = Inr sid"
      "unknown_sessions known ss = Inr rest" "rs = (if JStr sid \<in> set known then rest else s # rest)"
    by auto
  have "answer_id s = Inr sid" unfolding answer_id_def a(1) by (simp add: lift_called_def)
  then show ?case using Cons.IH [OF a(2)] a(3) by auto
qed simp

lemma find_orphans_sound:
  assumes "find_orphan_sessions E S w = (Inr rs, w1)" "p \<in> set (so_projects S)" "lp_sessions p = JList xs"
  shows "list_all (\<lambda>r. \<exists>sid. answer_id r = Inr sid \<and> JStr sid \<notin> set xs) rs"
proof (cases "rs = []")
  case False
  then obtain ss known where k: "known_sessions (list_projects S) = Inr known" "unknown_sessions known ss = Inr rs"
    using assms(1) by (auto simp: find_orphan_sessions_def lift_called_def split: prod.splits sum.splits client_error.splits)
  have "p \<in> set (list_projects S)" using assms(2) by (simp add: list_projects_def)
  then have "set xs \<subseteq> set known" using known_sessions_cover [OF k(1)] assms(3) by blast
  then show ?thesis using unknown_sessions_sound [OF k(2)] unfolding list_all_iff by blast
qed simp

lemma configure_quietly_store: "configure_quietly E sid ms S w = (r, S1, w1) \<Longrightarrow> S1 = S"
  by (auto simp: configure_quietly_def split: if_splits prod.splits sum.splits client_error.splits)

lemma created_project:
  "so_projects (snd (create_project now h n ws u ms S)) = fst (create_project now h n ws u ms S) # so_projects S"
  "lp_id (fst (create_project now h n ws u ms S)) = JStr (''proj-'' @ h)"
  "lp_sessions (fst (create_project now h n ws u ms S)) = JList []"
  by (simp_all add: create_project_def save_projects_def Let_def)

text \<open>C37: a project that was created is there after a restart.  When the service returns a project and its first
  session, opening the files again finds the project with exactly that session, and the launcher
  never offers that session as one without a project.\<close>

theorem created_project_survives:
  assumes "create_project_svc E hex8 name ws tsk models S w = (Inr (pid, sid), S1, w1)"
  shows "(\<exists>p. get_project pid (reopen later S1) = Some p \<and> lp_sessions p = JList [JStr sid]) \<and>
    (case find_orphan_sessions E2 (reopen later S1) v of
       (Inr rs, _) \<Rightarrow> list_all (\<lambda>r. answer_id r \<noteq> Inr sid) rs | _ \<Rightarrow> True)"
proof -
  let ?c = "create_project (tv_now E w) hex8 name ws (cl_base (tv_client E)) (given_models models) S"
  obtain S2 w2 w3 where pid: "pid = ''proj-'' @ hex8" and a: "add_session E pid sid (snd ?c) w2 = (Inr (), S2, w3)"
    and "S1 = S2"
    using assms
    by (auto simp: create_project_svc_def Let_def dest!: configure_quietly_store split: prod.splits sum.splits)
  have g: "get_project pid (snd ?c) = Some (fst ?c)" by (simp add: get_project_def created_project pid)
  have "S1 = save_projects (change_project pid (\<lambda>p. p\<lparr>lp_sessions := JList [JStr sid], lp_active := JFloat (tv_now E w2)\<rparr>) (snd ?c))"
    using a \<open>S1 = S2\<close>
    by (auto simp: add_session_def add_session_to_project_def g created_project append_session_def split: sum.splits)
  then have s: "so_projects_file S1 = so_projects_file (save_projects S1)"
    and ps: "so_projects S1 = (fst ?c)\<lparr>lp_sessions := JList [JStr sid], lp_active := JFloat (tv_now E w2)\<rparr> # so_projects S"
    by (simp_all add: save_projects_def change_project_def created_project pid)
  let ?p = "(fst ?c)\<lparr>lp_sessions := JList [JStr sid], lp_active := JFloat (tv_now E w2)\<rparr>"
  have r: "so_projects (reopen later S1) = ?p # so_projects S"
    using saved_project_data [OF s, of later] ps by (simp add: project_data_def)
  then have "get_project pid (reopen later S1) = Some ?p" by (simp add: get_project_def created_project pid)
  moreover have "list_all (\<lambda>r. answer_id r \<noteq> Inr sid) rs"
    if "find_orphan_sessions E2 (reopen later S1) v = (Inr rs, v1)" for rs v1
    using find_orphans_sound [OF that, of ?p "[JStr sid]"] r by (auto simp: list_all_iff)
  ultimately show ?thesis by (auto split: prod.split sum.split)
qed

text \<open>A project whose first session could not be created stays.  When the orchestrator refuses the session or
  cannot be reached, the service raises, but the project is stored without any session.\<close>

theorem failed_creation_keeps_project:
  assumes "fst (tc_create_session (tv_client E) tsk None models w) = Inl e"
  shows "\<exists>S1 w1 p. create_project_svc E hex8 name ws tsk models S w = (Inl e, S1, w1) \<and>
    get_project (''proj-'' @ hex8) (reopen later S1) = Some p \<and> lp_sessions p = JList []"
proof -
  let ?c = "create_project (tv_now E w) hex8 name ws (cl_base (tv_client E)) (given_models models) S"
  have "so_projects_file (snd ?c) = so_projects_file (save_projects (snd ?c))"
    by (simp add: create_project_def Let_def save_projects_def)
  from saved_project_data [OF this, of later]
  have "get_project (''proj-'' @ hex8) (reopen later (snd ?c)) = Some (fst ?c)"
    by (simp add: project_data_def get_project_def created_project)
  moreover obtain w1 where "tc_create_session (tv_client E) tsk None models w = (Inl e, w1)"
    using assms by (metis prod.collapse)
  ultimately show ?thesis using created_project(3)
    by (simp add: create_project_svc_def Let_def)
qed

text \<open>A server that gives one answer to every request.\<close>

definition text_server :: "nat \<Rightarrow> json dict \<Rightarrow> unit tui_env" where
  "text_server status d =
     (let r = \<lparr>hr_status = status, hr_body = json_dumps (\<lambda>_. []) (JObj d)\<rparr>
      in \<lparr>tv_client = \<lparr>cl_base = ''http://localhost:9000'', cl_connected = True, cl_get = (\<lambda>path ps w. (Inr r, w)),
            cl_post = (\<lambda>path body w. (Inr r, w)), cl_fr = (\<lambda>_. [])\<rparr>, tv_now = (\<lambda>_. 0)\<rparr>)"

definition empty_store :: store where "empty_store = open_store 0 Missing Missing"

lemma text_server_post:
  "plain_json (JObj d) \<Longrightarrow> post_call (tv_client (text_server status d)) path body w =
     (if 200 \<le> status \<and> status < 300 then Inr (JObj d)
      else Inl (Conn (''HTTP '' @ nat_str status @ '': ''
        @ py_str (\<lambda>_. []) (json_or (get_or d ''detail'' (JStr [])) (JStr path)))), w)"
  by (simp add: post_call_def text_server_def Let_def raise_for_status_def reply_json_def error_detail_def
      json_loads_dumps del: json_dumps.simps)

theorem created_project_survives_witness:
  "\<exists>S1 p. create_project_svc (text_server 200 [(''session_id'', JStr ''s1'')]) ''1'' ''n'' ''/n'' ''t'' None empty_store () =
       (Inr (''proj-1'', ''s1''), S1, ()) \<and>
     get_project ''proj-1'' (reopen 1 S1) = Some p \<and> lp_sessions p = JList [JStr ''s1'']"
proof -
  let ?E = "text_server 200 [(''session_id'', JStr ''s1'')]"
  have "tc_create_session (tv_client ?E) ''t'' None None () = (Inr (JObj [(''session_id'', JStr ''s1'')]), ())"
    unfolding tc_create_session_def by (subst text_server_post) simp_all
  moreover have "answer_id (JObj [(''session_id'', JStr ''s1'')]) = Inr ''s1''"
    by (simp add: answer_id_def obj_of_def id_field_def lift_called_def)
  ultimately obtain S1 where c: "create_project_svc ?E ''1'' ''n'' ''/n'' ''t'' None empty_store () =
      (Inr (''proj-1'', ''s1''), S1, ())"
    by (simp add: create_project_svc_def Let_def add_session_def add_session_to_project_def get_project_def
        created_project append_session_def configure_quietly_def given_models_def)
  from conjunct1 [OF created_project_survives [OF c, of 1 ?E "()"]] c show ?thesis by (elim exE) (intro exI conjI, auto)
qed

theorem failed_creation_keeps_project_witness:
  "\<exists>e S1 w1 p. create_project_svc (text_server 503 []) ''1'' ''n'' ''/n'' ''t'' None empty_store () = (Inl e, S1, w1) \<and>
     get_project ''proj-1'' (reopen 1 S1) = Some p \<and> lp_sessions p = JList []"
proof -
  have "\<exists>e. fst (tc_create_session (tv_client (text_server 503 [])) ''t'' None None ()) = Inl e"
    unfolding tc_create_session_def by (subst text_server_post) simp_all
  then obtain e where "fst (tc_create_session (tv_client (text_server 503 [])) ''t'' None None ()) = Inl e" ..
  from failed_creation_keeps_project [OF this, of "''1''" "''n''" "''/n''" empty_store 1] show ?thesis
    by (simp only: append.simps) (intro exI [of _ e])
qed

end
