(* ===== verification/Tui_Theme.thy ===== *)
theory Tui_Theme
  imports Tui_Layout Tui_Project
begin

text \<open>
  \<open>tui/tui/theme.py\<close> and what the widgets show: the task sidebar (\<open>widgets/dag_sidebar.py\<close>), the header
  and footer bars (\<open>header_bar.py\<close>, \<open>footer_bar.py\<close>), the cards (\<open>project_card.py\<close>, \<open>session_card.py\<close>) and the
  pane of an agent (\<open>agent_pane.py\<close>), as the markup text they hand to the library.  Code points outside
  Latin-1 are the control characters named below.  The theorems show that the stream buffer of
  a pane neither loses nor reorders text and when the sidebar cannot be drawn.
\<close>

section \<open>Colours and symbols\<close>

definition SURFACE1 :: string where "SURFACE1 = ''#45475a''"
definition SURFACE2 :: string where "SURFACE2 = ''#585b70''"
definition OVERLAY0 :: string where "OVERLAY0 = ''#6c7086''"
definition OVERLAY1 :: string where "OVERLAY1 = ''#7f849c''"
definition SUBTEXT0 :: string where "SUBTEXT0 = ''#a6adc8''"
definition TEXT :: string where "TEXT = ''#cdd6f4''"
definition MAUVE :: string where "MAUVE = ''#cba6f7''"
definition RED :: string where "RED = ''#f38ba8''"
definition PEACH :: string where "PEACH = ''#fab387''"
definition YELLOW :: string where "YELLOW = ''#f9e2af''"
definition GREEN :: string where "GREEN = ''#a6e3a1''"
definition SKY :: string where "SKY = ''#89dceb''"
definition BLUE :: string where "BLUE = ''#89b4fa''"
definition LAVENDER :: string where "LAVENDER = ''#b4befe''"
definition SUCCESS :: string where "SUCCESS = GREEN"
definition ERROR :: string where "ERROR = RED"

definition sym_dot :: string where "sym_dot = [CHR 0x80]"         \<comment> \<open>U+25CF\<close>
definition sym_left :: string where "sym_left = [CHR 0x81]"       \<comment> \<open>U+25D0\<close>
definition sym_ring :: string where "sym_ring = [CHR 0x82]"       \<comment> \<open>U+25CB\<close>
definition sym_right :: string where "sym_right = [CHR 0x84]"     \<comment> \<open>U+25D1\<close>
definition sym_target :: string where "sym_target = [CHR 0x88]"   \<comment> \<open>U+25C9\<close>
definition sym_odot :: string where "sym_odot = [CHR 0x8B]"       \<comment> \<open>U+2299\<close>
definition sym_cross :: string where "sym_cross = [CHR 0x90]"     \<comment> \<open>U+2715\<close>
definition sym_slash :: string where "sym_slash = [CHR 0x91]"     \<comment> \<open>U+2298\<close>
definition sym_minus :: string where "sym_minus = [CHR 0x92]"     \<comment> \<open>U+2212\<close>
definition sym_angle :: string where "sym_angle = [CHR 0x93]"     \<comment> \<open>U+203A\<close>
definition sym_bar :: string where "sym_bar = [CHR 0x94]"         \<comment> \<open>U+2502\<close>
definition sym_line :: char where "sym_line = CHR 0x95"           \<comment> \<open>U+2500\<close>
definition sym_play :: string where "sym_play = [CHR 0x96]"       \<comment> \<open>U+25B6\<close>
definition sym_tick :: string where "sym_tick = [CHR 0x9E]"       \<comment> \<open>U+2713\<close>
definition sym_warn :: string where "sym_warn = [CHR 0x8E]"       \<comment> \<open>U+26A0\<close>
definition sym_middot :: string where "sym_middot = [CHR 0xB7]"

text \<open>\<open>[style]text[/]\<close>.\<close>

definition paint :: "string \<Rightarrow> string \<Rightarrow> string" where
  "paint style txt = ''['' @ style @ '']'' @ txt @ ''[/]''"

definition bold :: "string \<Rightarrow> string" where "bold col = ''bold '' @ col"

definition rule_line :: "nat \<Rightarrow> string" where "rule_line n = paint SURFACE1 (replicate n sym_line)"

definition ROLE_COLORS :: "(string \<times> string) list" where
  "ROLE_COLORS = [(''architect'', BLUE), (''coder'', GREEN), (''reviewer'', PEACH), (''tester'', YELLOW),
     (''documenter'', MAUVE), (''general'', LAVENDER)]"

definition INDICATOR :: "(string \<times> string \<times> string) list" where
  "INDICATOR = [(''streaming'', sym_dot, SKY), (''active'', sym_target, GREEN), (''idle'', sym_target, GREEN),
     (''waiting'', sym_ring, OVERLAY0), (''done'', sym_odot, BLUE), (''hibernating'', sym_odot, BLUE),
     (''failed'', sym_cross, RED), (''killed'', sym_cross, RED), (''running'', sym_dot, SKY)]"

definition STREAMING_FRAMES :: "string list" where
  "STREAMING_FRAMES = [sym_dot, sym_left, sym_ring, sym_right]"

definition CONNECTION_INDICATORS :: "(string \<times> string \<times> string) list" where
  "CONNECTION_INDICATORS = [(''connected'', sym_dot, GREEN), (''reconnecting'', sym_left, YELLOW),
     (''disconnected'', sym_ring, OVERLAY0), (''failed'', sym_cross, RED)]"

definition TASK_STATUS :: "(string \<times> string \<times> string) list" where
  "TASK_STATUS = [(''pending'', sym_ring, OVERLAY0), (''running'', sym_dot, SKY), (''complete'', sym_tick, GREEN),
     (''failed'', sym_cross, RED), (''blocked'', sym_slash, PEACH), (''skipped'', sym_minus, OVERLAY0)]"

definition PATCH_STATUS :: "(string \<times> string \<times> string) list" where
  "PATCH_STATUS = [(''pending'', sym_dot, YELLOW), (''applied'', sym_tick, GREEN), (''rejected'', sym_cross, RED),
     (''conflict'', sym_warn, PEACH), (''processing'', sym_left, SKY)]"

text \<open>\<open>d.get(key, default)\<close> for a key that came from a document: a list or dict is not hashable.\<close>

definition keyed :: "(string \<times> 'a) list \<Rightarrow> 'a \<Rightarrow> json \<Rightarrow> 'a result" where
  "keyed d dflt k = (case k of
     JStr s \<Rightarrow> Inr (get_or d s dflt)
   | JList _ \<Rightarrow> Inl (TypeError ''unhashable type: list'')
   | JObj _ \<Rightarrow> Inl (TypeError ''unhashable type: dict'')
   | _ \<Rightarrow> Inr dflt)"

definition role_color :: "json \<Rightarrow> string result" where "role_color = keyed ROLE_COLORS LAVENDER"
definition indicator :: "json \<Rightarrow> (string \<times> string) result" where "indicator = keyed INDICATOR (''?'', OVERLAY0)"
definition task_indicator :: "json \<Rightarrow> (string \<times> string) result" where
  "task_indicator = keyed TASK_STATUS (''?'', OVERLAY0)"
definition patch_indicator :: "json \<Rightarrow> (string \<times> string) result" where
  "patch_indicator = keyed PATCH_STATUS (''?'', OVERLAY0)"

section \<open>Values of documents in texts\<close>

text \<open>\<open>truncate(v, n)\<close>: a value without length raises, and so does one that has to be cut and is no text.\<close>

definition no_len :: "json \<Rightarrow> exn" where
  "no_len v = TypeError (''object of type '' @ [CHR 0x27] @ type_name v @ [CHR 0x27] @ '' has no len()'')"

definition truncate_value :: "int \<Rightarrow> json \<Rightarrow> json result" where
  "truncate_value n v = (case v of
     JStr s \<Rightarrow> Inr (JStr (Tui_Layout.truncate s n ellipsis))
   | JList xs \<Rightarrow> if int (length xs) \<le> n then Inr v else Inl (TypeError ''can only concatenate list (not str) to list'')
   | JObj d \<Rightarrow> if int (length d) \<le> n then Inr v else Inl (TypeError ''unhashable type: slice'')
   | _ \<Rightarrow> Inl (no_len v))"

text \<open>\<open>fmt_model(v)\<close>.\<close>

definition fmt_model_value :: "json \<Rightarrow> string result" where
  "fmt_model_value v = (case v of
     JStr s \<Rightarrow> Inr (fmt_model s)
   | JList xs \<Rightarrow> Inl (attr_error v (if JStr ''/'' \<in> set xs then ''split'' else ''replace''))
   | JObj d \<Rightarrow> Inl (attr_error v (if ''/'' \<in> set (map fst d) then ''split'' else ''replace''))
   | _ \<Rightarrow> Inl (TypeError (''argument of type '' @ [CHR 0x27] @ type_name v @ [CHR 0x27] @ '' is not iterable'')))"

definition ljust :: "nat \<Rightarrow> string \<Rightarrow> string" where
  "ljust n s = s @ replicate (n - length s) (CHR '' '')"

text \<open>\<open>f"{v:<n}"\<close> of a value that \<open>truncate\<close> returned.\<close>

definition pad_value :: "nat \<Rightarrow> json \<Rightarrow> string result" where
  "pad_value n v = (case v of JStr s \<Rightarrow> Inr (ljust n s)
     | _ \<Rightarrow> Inl (TypeError (''unsupported format string passed to '' @ type_name v @ ''.__format__'')))"

section \<open>The sidebar\<close>

definition section_head :: "string \<Rightarrow> string list" where
  "section_head name = [paint (bold OVERLAY0) name, rule_line 30]"

definition task_line :: "(real \<Rightarrow> string) \<Rightarrow> task_info \<Rightarrow> string result" where
  "task_line fr t =
     bind_result (task_indicator (ti_status t)) (\<lambda>(sy, col).
     bind_result (role_color (ti_role t)) (\<lambda>role_col.
     bind_result (truncate_value 4 (JStr (ti_id t))) (\<lambda>tid.
     bind_result (truncate_value 18 (ti_desc t)) (\<lambda>desc.
     bind_result (truncate_value 8 (ti_status t)) (\<lambda>st.
       Inr (paint col sy @ ''  '' @ paint OVERLAY0 (py_str fr tid) @ ''  '' @ paint role_col (py_str fr desc) @ ''  ''
            @ paint col (py_str fr st)))))))"

definition agent_ratio :: "json \<Rightarrow> real" where
  "agent_ratio st = (if st = JStr ''done'' then 1 else if st = JStr ''running'' then 1 / 2 else 0)"

definition agent_line :: "(real \<Rightarrow> string) \<Rightarrow> agent_info \<Rightarrow> string result" where
  "agent_line fr a =
     bind_result (indicator (ai_status a)) (\<lambda>(sy, col).
     bind_result (role_color (ai_role a)) (\<lambda>role_col.
     bind_result (truncate_value 10 (ai_role a)) (\<lambda>role_s.
     bind_result (pad_value 10 role_s) (\<lambda>role_p.
       Inr (paint col sy @ '' '' @ paint role_col role_p @ ''  ''
            @ paint SURFACE2 (progress_bar (agent_ratio (ai_status a)) 8) @ ''  ''
            @ paint col (py_str fr (ai_status a)))))))"

text \<open>\<open>", ".join(p.files[:2])\<close>, when there are files.\<close>

definition files_text :: "json \<Rightarrow> string result" where
  "files_text files =
     (if \<not> truthy files then Inr []
      else case files of
        JList xs \<Rightarrow> bind_result (each (\<lambda>x. case x of JStr s \<Rightarrow> Inr s
            | _ \<Rightarrow> Inl (TypeError (''sequence item: expected str instance, '' @ type_name x @ '' found''))) (take 2 xs))
          (\<lambda>names. Inr (Tui_Layout.truncate (join '', '' names) 14 ellipsis))
      | JStr s \<Rightarrow> Inr (Tui_Layout.truncate (join '', '' (map (\<lambda>c. [c]) (take 2 s))) 14 ellipsis)
      | _ \<Rightarrow> Inl (TypeError ([CHR 0x27] @ type_name files @ [CHR 0x27] @ '' object is not subscriptable'')))"

definition patch_line :: "(real \<Rightarrow> string) \<Rightarrow> patch_info \<Rightarrow> string result" where
  "patch_line fr p =
     bind_result (patch_indicator (pi_status p)) (\<lambda>(sy, col).
     bind_result (files_text (pi_files p)) (\<lambda>files.
       Inr (paint col sy @ '' '' @ paint OVERLAY1 (Tui_Layout.truncate (pi_id p) 10 ellipsis) @ ''  '' @ paint OVERLAY0 files @ ''  ''
            @ paint col (py_str fr (pi_status p)))))"

definition model_line :: "string \<times> json \<Rightarrow> string result" where
  "model_line rm = (case rm of (role, model) \<Rightarrow>
     bind_result (role_color (JStr role)) (\<lambda>rc.
     bind_result (fmt_model_value model) (\<lambda>m. Inr (paint rc (ljust 10 role) @ ''  '' @ paint OVERLAY1 m))))"

text \<open>One section: nothing when it has no entries.\<close>

definition part :: "string list \<Rightarrow> ('a \<Rightarrow> string result) \<Rightarrow> 'a list \<Rightarrow> string list \<Rightarrow> string list result" where
  "part heading line xs closing =
     (if xs = [] then Inr [] else bind_result (each line xs) (\<lambda>ls. Inr (heading @ ls @ closing)))"

definition models_head :: "string list" where
  "models_head = [paint (bold OVERLAY0) ''MODELS'' @ ''  '' @ paint BLUE ([CHR 0x5C] @ ''[m] reconfigure''), rule_line 30]"

definition models_part :: "json \<Rightarrow> string list result" where
  "models_part ms = (if \<not> truthy ms then Inr []
     else bind_result (case ms of JObj d \<Rightarrow> Inr d | _ \<Rightarrow> Inl (attr_error ms ''items'')) (\<lambda>d. part models_head model_line d []))"

definition sidebar_markup :: "(real \<Rightarrow> string) \<Rightarrow> tui \<Rightarrow> string result" where
  "sidebar_markup fr t = (case tu_session t of
     None \<Rightarrow> Inr (paint OVERLAY0 ''No active session'')
   | Some s \<Rightarrow>
       bind_result (part (section_head ''TASKS'') (task_line fr) (tasks_list s) [[]]) (\<lambda>tasks.
       bind_result (part (section_head ''AGENTS'') (agent_line fr) (active_agents s) [[]]) (\<lambda>agents.
       bind_result (part (section_head ''PATCHES'') (patch_line fr) (take 6 (patches_list s)) [[]]) (\<lambda>patches.
       bind_result (models_part (ts_models s)) (\<lambda>models.
         let ls = tasks @ agents @ patches @ models in
         Inr (if ls = [] then paint OVERLAY0 ''No data yet'' else join [nl] ls))))))"

section \<open>Header and footer\<close>

definition header_left :: "(real \<Rightarrow> string) \<Rightarrow> tui \<Rightarrow> string list result" where
  "header_left fr t =
     bind_result (case tu_project t of
         None \<Rightarrow> Inr []
       | Some p \<Rightarrow> bind_result (truncate_value 20 (pj_name p)) (\<lambda>n. let name = py_str fr n in
           case tu_session t of
             None \<Rightarrow> Inr [''  '' @ paint SUBTEXT0 name]
           | Some s \<Rightarrow> bind_result (truncate_value 30 (ts_task s)) (\<lambda>k.
               Inr [''  '' @ paint SUBTEXT0 name,
                    ''  '' @ paint OVERLAY0 sym_angle @ ''  '' @ paint TEXT (py_str fr k)]))) (\<lambda>proj.
     bind_result (case tu_session t of
         None \<Rightarrow> Inr []
       | Some s \<Rightarrow> if \<not> truthy (ts_models s) then Inr []
           else bind_result (json_get (ts_models s) ''coder'' (JStr [])) (\<lambda>m.
             if truthy m then bind_result (fmt_model_value m) (\<lambda>x.
               Inr [''  '' @ paint OVERLAY0 sym_middot @ ''  '' @ paint OVERLAY1 x]) else Inr [])) (\<lambda>model.
       Inr (paint (bold BLUE) ''AICAF'' # proj @ model)))"

definition header_right :: "(real \<Rightarrow> string) \<Rightarrow> real \<Rightarrow> tui \<Rightarrow> string list" where
  "header_right f1 now t =
     (case tu_session t of
        None \<Rightarrow> []
      | Some s \<Rightarrow>
          [paint OVERLAY1 ''tokens:'' @ '' '' @ paint TEXT (fmt_tokens f1 (ts_tokens s))]
          @ (if ts_patch_count s \<noteq> 0
             then [paint OVERLAY1 ''patches:'' @ '' '' @ paint SUCCESS (nat_str (ts_patch_count s))] else [])
          @ [paint OVERLAY0 (fmt_elapsed now (ts_start s))])
     @ [case get_or CONNECTION_INDICATORS (ui_connection (tu_ui t)) (''?'', OVERLAY0) of (sy, col) \<Rightarrow> paint col sy]"

definition header_markup :: "(real \<Rightarrow> string) \<Rightarrow> (real \<Rightarrow> string) \<Rightarrow> real \<Rightarrow> tui \<Rightarrow> string result" where
  "header_markup fr f1 now t =
     bind_result (header_left fr t) (\<lambda>left.
       Inr (join ''  '' left @ ''   '' @ paint OVERLAY0 ''|'' @ ''   '' @ join ''  '' (header_right f1 now t)))"

definition HINTS :: "(string \<times> (string \<times> string) list) list" where
  "HINTS = [
     (''launcher'', [(arrow_up @ arrow_down, ''navigate''), (''Enter'', ''open''), (''n'', ''new project''),
        (''c'', ''chat''), (''q'', ''quit'')]),
     (''project'', [(''Enter'', ''open session''), (''n'', ''new session''), (''i'', ''index''), (''Esc'', ''back'')]),
     (''new_project'', [(''Tab'', ''next field''), (''Enter'', ''create''), (''Esc'', ''back'')]),
     (''new_session'', [(''Tab'', ''next field''), (''Enter'', ''start''), (''Esc'', ''back'')]),
     (''session'', [(''Tab'', ''pane''), (''f'', ''follow''), (''d'', ''DAG''), (''l'', ''logs''), (''m'', ''models''),
        (''/'', ''commands''), (''Ctrl+C'', ''cancel''), (''?'', ''help''), (''Ctrl+Q'', ''quit'')]),
     (''chat'', [(''r'', ''role''), (''m'', ''model''), (''/'', ''commands''), (''p'', ''projects''), (''Ctrl+Q'', ''quit'')]),
     (''logs'', [(''/'', ''search''), (''Esc'', ''back'')]),
     (''help'', [(''Esc'', ''close'')]),
     (''model_config'', [(''Tab'', ''next role''), (''Enter'', ''apply''), (''Esc'', ''cancel'')]),
     (''command_palette'', [(arrow_up @ arrow_down, ''navigate''), (''Enter'', ''run''), (''Esc'', ''dismiss'')])]"

definition footer_markup :: "string \<Rightarrow> string" where
  "footer_markup screen =
     join ''  '' (map (\<lambda>(key, desc). paint (bold OVERLAY1) (replace ''['' [CHR 0x5C, CHR ''[''] key) @ '' '' @ paint OVERLAY0 desc)
       (get_or HINTS screen []))"

section \<open>Cards\<close>

text \<open>\<open>fmt_relative(v)\<close>.\<close>

definition relative_value :: "real \<Rightarrow> json \<Rightarrow> string result" where
  "relative_value now v =
     (if \<not> truthy v then Inr ''never''
      else case v of
        JInt n \<Rightarrow> Inr (fmt_relative now (of_int n))
      | JFloat x \<Rightarrow> Inr (fmt_relative now x)
      | JBool b \<Rightarrow> Inr (fmt_relative now 1)
      | _ \<Rightarrow> Inl (TypeError (''unsupported operand type(s) for -: float and '' @ type_name v)))"

text \<open>\<open>fmt_path(v, n)\<close>: a value that is no text is only cut.\<close>

definition path_value :: "string \<Rightarrow> int \<Rightarrow> json \<Rightarrow> json result" where
  "path_value home n v = (case v of JStr s \<Rightarrow> Inr (JStr (fmt_path home s n)) | _ \<Rightarrow> truncate_value n v)"

definition len_value :: "json \<Rightarrow> nat result" where
  "len_value v = (case v of JStr s \<Rightarrow> Inr (length s) | JList xs \<Rightarrow> Inr (length xs) | JObj d \<Rightarrow> Inr (length d)
     | _ \<Rightarrow> Inl (no_len v))"

definition project_card :: "string \<Rightarrow> real \<Rightarrow> bool \<Rightarrow> local_project \<Rightarrow> string result" where
  "project_card home now active p =
     bind_result (truncate_value 24 (lp_name p)) (\<lambda>name.
     bind_result (path_value home 28 (lp_workspace p)) (\<lambda>path.
     bind_result (relative_value now (lp_active p)) (\<lambda>rel.
     bind_result (len_value (lp_sessions p)) (\<lambda>n.
     bind_result (pad_value 24 name) (\<lambda>name_p.
     bind_result (pad_value 30 path) (\<lambda>path_p.
       Inr ((if active then paint GREEN sym_play @ ''  '' else ''   '')
            @ paint (bold (if active then BLUE else TEXT)) name_p @ ''  '' @ paint OVERLAY0 path_p @ ''  ''
            @ paint OVERLAY0 (nat_str n @ '' session'' @ (if n \<noteq> 1 then ''s'' else [])) @ ''  '' @ paint OVERLAY0 rel)))))))"

definition session_badge :: "json dict \<Rightarrow> string \<times> string \<times> string" where
  "session_badge d =
     (if truthy (get_or d ''expired'' (JBool False)) then (sym_slash, SURFACE2, ''expired'')
      else if get_or d ''status'' (JStr []) = JStr ''active'' then (sym_dot, GREEN, ''active'')
      else if get_or d ''status'' (JStr []) = JStr ''paused'' then (sym_left, YELLOW, ''paused'')
      else (sym_odot, OVERLAY0, ''ended''))"

definition session_card :: "real \<Rightarrow> json dict \<Rightarrow> string result" where
  "session_card now d =
     bind_result (truncate_value 44 (get_or d ''task'' (JStr ''(no task)''))) (\<lambda>tsk.
     bind_result (relative_value now
       (json_or (json_or (get_or d ''updated_at'' JNull) (get_or d ''created_at'' JNull)) (JInt 0))) (\<lambda>rel.
     bind_result (pad_value 44 tsk) (\<lambda>task_p.
       case session_badge d of (dot, col, st) \<Rightarrow>
         Inr (paint col dot @ ''  '' @ paint TEXT task_p @ ''  '' @ paint col (ljust 8 st) @ ''  '' @ paint OVERLAY0 rel))))"

section \<open>The pane of an agent\<close>

record agent_pane =
  pn_agent :: agent_info
  pn_buffer :: "string list"
  pn_closed :: bool          \<comment> \<open>the flushing task has been cancelled\<close>
  pn_frame :: nat
  pn_tokens :: nat
  pn_animated :: bool        \<comment> \<open>the animation task is alive\<close>
  pn_class :: "string option"
  pn_log :: "string list"    \<comment> \<open>what was written to the log of the pane\<close>

definition pane_class :: "json \<Rightarrow> string option" where
  "pane_class st =
     (if st = JStr ''running'' then Some ''streaming''
      else if st = JStr ''failed'' \<or> st = JStr ''killed'' then Some ''failed''
      else if st = JStr ''done'' then Some ''hibernating'' else None)"

definition status_labels :: "(string \<times> string) list" where
  "status_labels = [(''running'', paint SKY ''streaming''), (''idle'', paint OVERLAY0 ''idle''),
     (''done'', paint BLUE ''done''), (''failed'', paint RED ''failed''), (''killed'', paint RED ''killed''),
     (''waiting'', paint OVERLAY0 ''waiting'')]"

definition header_text :: "(real \<Rightarrow> string) \<Rightarrow> agent_pane \<Rightarrow> string result" where
  "header_text fr p = (let a = pn_agent p; st = ai_status a in
     bind_result (indicator st) (\<lambda>(sym0, col0).
     bind_result (role_color (ai_role a)) (\<lambda>role_col.
     bind_result (case ai_role a of JStr r \<Rightarrow> Inr (upper r) | v \<Rightarrow> Inl (attr_error v ''upper'')) (\<lambda>role_up.
     bind_result (if truthy (ai_model a) then map_sum id (paint OVERLAY0) (fmt_model_value (ai_model a)) else Inr []) (\<lambda>model_str.
     bind_result (keyed status_labels (paint OVERLAY0 (py_str fr st)) st) (\<lambda>label.
       let live = (st = JStr ''running'' \<or> st = JStr ''streaming'');
           sy = (if live then STREAMING_FRAMES ! (pn_frame p mod length STREAMING_FRAMES) else sym0);
           col = (if live then SKY else col0);
           tok = (if pn_tokens p \<noteq> 0 then paint OVERLAY0 (nat_str (pn_tokens p) @ '' tok'') else [])
       in Inr ('' '' @ paint col sy @ '' '' @ paint (bold role_col) role_up @ ''  '' @ model_str
               @ ''  '' @ paint OVERLAY0 sym_bar @ ''  '' @ tok @ ''  '' @ label @ '' '')))))))"

text \<open>The buffer writes what it holds in one piece.\<close>

definition flush_buffer :: "agent_pane \<Rightarrow> agent_pane" where
  "flush_buffer p = (if pn_buffer p = [] then p
     else p\<lparr>pn_buffer := [], pn_log := pn_log p @ [concat (pn_buffer p)]\<rparr>)"

definition open_pane :: "agent_info \<Rightarrow> agent_pane" where
  "open_pane a = \<lparr>pn_agent = a, pn_buffer = [], pn_closed = False, pn_frame = 0, pn_tokens = 0, pn_animated = False,
     pn_class = pane_class (ai_status a), pn_log = []\<rparr>"

text \<open>The tasks of a pane are resumed by their timers; a cancelled one is never resumed.\<close>

datatype pane_event = Push_Token string | Flush_Timer | Animation_Timer | Update_Agent agent_info | Unmount

definition push_token :: "string \<Rightarrow> agent_pane \<Rightarrow> agent_pane" where
  "push_token x p = p\<lparr>pn_buffer := pn_buffer p @ [x], pn_tokens := pn_tokens p + length x, pn_animated := True\<rparr>"

definition flush_timer :: "agent_pane \<Rightarrow> agent_pane" where
  "flush_timer p = (if pn_closed p then p else flush_buffer p)"

definition animate :: "agent_pane \<Rightarrow> agent_pane" where
  "animate p =
     (if \<not> pn_animated p then p
      else if ai_status (pn_agent p) = JStr ''running'' then p\<lparr>pn_frame := (pn_frame p + 1) mod 4\<rparr>
      else p\<lparr>pn_animated := False\<rparr>)"

definition update_agent :: "agent_info \<Rightarrow> agent_pane \<Rightarrow> agent_pane" where
  "update_agent a p = p\<lparr>pn_agent := a, pn_class := pane_class (ai_status a),
     pn_animated := (pn_animated p \<and> ai_status a = JStr ''running'')\<rparr>"

definition unmount_pane :: "agent_pane \<Rightarrow> agent_pane" where
  "unmount_pane p = (flush_buffer p)\<lparr>pn_closed := True, pn_animated := False\<rparr>"

definition pane_step :: "pane_event \<Rightarrow> agent_pane \<Rightarrow> agent_pane" where
  "pane_step e = (case e of
     Push_Token x \<Rightarrow> push_token x | Flush_Timer \<Rightarrow> flush_timer | Animation_Timer \<Rightarrow> animate
   | Update_Agent a \<Rightarrow> update_agent a | Unmount \<Rightarrow> unmount_pane)"

lemmas pane_defs = pane_step_def push_token_def flush_timer_def animate_def update_agent_def unmount_pane_def flush_buffer_def

definition pane_run :: "pane_event list \<Rightarrow> agent_info \<Rightarrow> agent_pane" where
  "pane_run es a = fold pane_step es (open_pane a)"

fun pushed :: "pane_event list \<Rightarrow> string" where
  "pushed [] = []"
| "pushed (Push_Token x # es) = x @ pushed es"
| "pushed (_ # es) = pushed es"

lemma pushed_append: "pushed (es @ fs) = pushed es @ pushed fs"
  by (induction es rule: pushed.induct) simp_all

text \<open>Whatever the order of tokens, timers and updates, what the log shows followed by what the buffer holds is
  the text of the tokens in order, and the header counts its characters.\<close>

lemma pane_loses_nothing:
  "concat (pn_log (pane_run es a)) @ concat (pn_buffer (pane_run es a)) = pushed es \<and>
   pn_tokens (pane_run es a) = length (pushed es) \<and> pn_frame (pane_run es a) < 4"
proof (induction es rule: rev_induct)
  case Nil show ?case by (simp add: pane_run_def open_pane_def)
next
  case (snoc e es)
  then show ?case
    by (cases e) (auto simp: pane_run_def pane_defs pushed_append)
qed

text \<open>Once a pane is unmounted and no token follows, its log holds the whole text.\<close>

lemma unmounted_pane_complete: "concat (pn_log (pane_run (es @ [Unmount]) a)) = pushed es"
  using pane_loses_nothing [of es a] by (auto simp: pane_run_def pane_defs)

text \<open>The class of a pane follows the status of its agent.\<close>

lemma pane_class_follows: "pn_class (pane_run es a) = pane_class (ai_status (pn_agent (pane_run es a)))"
proof (induction es rule: rev_induct)
  case Nil show ?case by (simp add: pane_run_def open_pane_def)
next
  case (snoc e es)
  then show ?case by (cases e) (auto simp: pane_run_def pane_defs)
qed

section \<open>When the sidebar can be drawn\<close>

text \<open>The session has texts where the documents of the orchestrator have texts.\<close>

definition is_text :: "json \<Rightarrow> bool" where "is_text v \<longleftrightarrow> (case v of JStr _ \<Rightarrow> True | _ \<Rightarrow> False)"

definition plain_session :: "tui_session \<Rightarrow> bool" where
  "plain_session s \<longleftrightarrow>
     list_all (\<lambda>t. is_text (ti_role t) \<and> is_text (ti_desc t) \<and> is_text (ti_status t)) (tasks_list s) \<and>
     list_all (\<lambda>a. is_text (ai_role a)) (active_agents s) \<and>
     list_all (\<lambda>p. is_text (pi_status p) \<and> (\<exists>xs. pi_files p = JList (map JStr xs))) (patches_list s) \<and>
     (\<exists>d. ts_models s = JObj (map (\<lambda>(r, m). (r, JStr m)) d))"

lemma is_textE: "is_text v \<Longrightarrow> (\<And>s. v = JStr s \<Longrightarrow> P) \<Longrightarrow> P"
  by (cases v) (simp_all add: is_text_def)

lemma each_total: "list_all (\<lambda>x. \<exists>y. f x = Inr y) xs \<Longrightarrow> \<exists>ys. each f xs = Inr ys"
  by (induction xs) auto

lemma part_total: "list_all (\<lambda>x. \<exists>y. f x = Inr y) xs \<Longrightarrow> \<exists>ls. part h f xs c = Inr ls"
  using each_total [of f xs] by (auto simp: part_def)

lemma each_texts: "each (\<lambda>x. case x of JStr s \<Rightarrow> Inr s | _ \<Rightarrow> Inl (e x)) (map JStr xs) = Inr xs"
  by (induction xs) simp_all

lemma task_line_total:
  "is_text (ti_role t) \<Longrightarrow> is_text (ti_desc t) \<Longrightarrow> is_text (ti_status t) \<Longrightarrow> \<exists>l. task_line fr t = Inr l"
  by (elim is_textE)
     (simp add: task_line_def task_indicator_def role_color_def keyed_def truncate_value_def split: prod.splits)

lemma agent_line_total: "is_text (ai_role a) \<Longrightarrow> ai_status a \<in> set live_states \<Longrightarrow> \<exists>l. agent_line fr a = Inr l"
  by (elim is_textE)
     (auto simp: agent_line_def indicator_def role_color_def keyed_def truncate_value_def pad_value_def live_states_def
        split: prod.splits)

lemma files_text_total: "\<exists>l. files_text (JList (map JStr xs)) = Inr l"
  by (simp add: files_text_def take_map each_texts)

lemma patch_line_total: "is_text (pi_status p) \<Longrightarrow> pi_files p = JList (map JStr xs) \<Longrightarrow> \<exists>l. patch_line fr p = Inr l"
  using files_text_total [of xs]
  by (elim is_textE exE) (simp add: patch_line_def patch_indicator_def keyed_def split: prod.splits)

text \<open>A session with texts where texts are documented can always be drawn.\<close>

lemma sidebar_total:
  assumes "\<And>s. tu_session t = Some s \<Longrightarrow> plain_session s"
  shows "\<exists>m. sidebar_markup fr t = Inr m"
proof (cases "tu_session t")
  case None then show ?thesis by (simp add: sidebar_markup_def)
next
  case (Some s)
  then have ok: "plain_session s" by (rule assms)
  have t: "\<exists>ls. part h (task_line fr) (tasks_list s) c = Inr ls" for h c
    by (rule part_total) (use ok task_line_total in \<open>fastforce simp: plain_session_def list_all_iff\<close>)
  have a: "\<exists>ls. part h (agent_line fr) (active_agents s) c = Inr ls" for h c
    by (rule part_total) (use ok agent_line_total in \<open>fastforce simp: plain_session_def list_all_iff active_agents_def\<close>)
  have "list_all (\<lambda>p. \<exists>l. patch_line fr p = Inr l) (take 6 (patches_list s))"
    using ok patch_line_total by (auto simp: plain_session_def list_all_iff dest!: in_set_takeD)
  then have p: "\<exists>ls. part h (patch_line fr) (take 6 (patches_list s)) c = Inr ls" for h c
    by (rule part_total)
  obtain d where d: "ts_models s = JObj (map (\<lambda>(r, m). (r, JStr m)) d)"
    using ok by (auto simp: plain_session_def)
  have "\<exists>ls. part h model_line (map (\<lambda>(r, m). (r, JStr m)) d) c = Inr ls" for h c
    by (rule part_total)
       (auto simp: list_all_iff model_line_def role_color_def keyed_def fmt_model_value_def)
  then obtain ms where ms: "models_part (ts_models s) = Inr ms"
    unfolding models_part_def d by (cases "truthy (JObj (map (\<lambda>(r, m). (r, JStr m)) d))") auto
  from t a p obtain ts as ps where
    "part (section_head ''TASKS'') (task_line fr) (tasks_list s) [[]] = Inr ts"
    "part (section_head ''AGENTS'') (agent_line fr) (active_agents s) [[]] = Inr as"
    "part (section_head ''PATCHES'') (patch_line fr) (take 6 (patches_list s)) [[]] = Inr ps" by metis
  then show ?thesis using ms by (simp add: sidebar_markup_def Some Let_def)
qed

end
