(* ===== verification/Tui_Input.thy ===== *)
theory Tui_Input
  imports Py_Str
begin

text \<open>
  The two places where commands are typed: the input bar (\<open>tui/tui/widgets/input_bar.py\<close>) with its history
  and the command palette (\<open>tui/tui/screens/command_palette.py\<close>) with its filter.  A key or a change of the
  text is one step; drawing and the callback that runs a command are in \<open>Tui_Log\<close>.  The theorems show
  what browsing the history does and which commands the palette can run.
\<close>

definition history_maxlen :: nat where "history_maxlen = 20"

text \<open>\<open>append\<close> to a bounded deque, unless the text is the last entry.\<close>

definition push_history :: "string \<Rightarrow> string list \<Rightarrow> string list" where
  "push_history x h =
     (if h \<noteq> [] \<and> last h = x then h
      else let h1 = h @ [x] in drop (length h1 - history_maxlen) h1)"

section \<open>The input bar\<close>

record input_bar =
  ib_value :: string
  ib_history :: "string list"
  ib_idx :: int

datatype posted = Command_Triggered string | Submitted string

definition new_bar :: input_bar where "new_bar = \<lparr>ib_value = [], ib_history = [], ib_idx = -1\<rparr>"

definition type_text :: "string \<Rightarrow> input_bar \<Rightarrow> input_bar" where "type_text v b = b\<lparr>ib_value := v\<rparr>"

definition submit :: "input_bar \<Rightarrow> posted option \<times> input_bar" where
  "submit b =
     (let t = strip (ib_value b) in
      if t = [] then (None, b)
      else (Some (if startswith t ''/'' then Command_Triggered (tl t) else Submitted t),
            \<lparr>ib_value = [], ib_history = push_history t (ib_history b), ib_idx = -1\<rparr>))"

text \<open>The entry the index points at, shown in the input.\<close>

definition show_entry :: "int \<Rightarrow> input_bar \<Rightarrow> input_bar" where
  "show_entry i b = b\<lparr>ib_idx := i, ib_value := ib_history b ! nat i\<rparr>"

definition key_up :: "input_bar \<Rightarrow> input_bar" where
  "key_up b =
     (if ib_history b = [] then b
      else show_entry (if ib_idx b = -1 then int (length (ib_history b)) - 1
                       else if ib_idx b > 0 then ib_idx b - 1 else ib_idx b) b)"

definition key_down :: "input_bar \<Rightarrow> input_bar" where
  "key_down b =
     (if ib_history b = [] \<or> ib_idx b = -1 then b
      else if ib_idx b < int (length (ib_history b)) - 1 then show_entry (ib_idx b + 1) b
      else b\<lparr>ib_idx := -1, ib_value := []\<rparr>)"

inductive bar_reach :: "input_bar \<Rightarrow> bool" where
  bar_start: "bar_reach new_bar"
| bar_type: "bar_reach b \<Longrightarrow> bar_reach (type_text v b)"
| bar_submit: "bar_reach b \<Longrightarrow> bar_reach (snd (submit b))"
| bar_up: "bar_reach b \<Longrightarrow> bar_reach (key_up b)"
| bar_down: "bar_reach b \<Longrightarrow> bar_reach (key_down b)"

definition bar_ok :: "input_bar \<Rightarrow> bool" where
  "bar_ok b \<longleftrightarrow> -1 \<le> ib_idx b \<and> ib_idx b < int (length (ib_history b)) \<and> length (ib_history b) \<le> history_maxlen \<and>
     successively (\<noteq>) (ib_history b)"

lemma successively_drop: "successively R xs \<Longrightarrow> successively R (drop n xs)"
  by (metis append_take_drop_id successively_append_iff)

lemma push_history_ok:
  "successively (\<noteq>) h \<Longrightarrow> length h \<le> history_maxlen \<Longrightarrow>
   successively (\<noteq>) (push_history x h) \<and> length (push_history x h) \<le> history_maxlen \<and> push_history x h \<noteq> []"
  by (auto simp: push_history_def Let_def history_maxlen_def successively_append_iff intro!: successively_drop)

lemma bar_reach_ok: "bar_reach b \<Longrightarrow> bar_ok b"
proof (induction rule: bar_reach.induct)
  case bar_start
  show ?case by (simp add: bar_ok_def new_bar_def)
next
  case (bar_submit b)
  then show ?case using push_history_ok [of "ib_history b"] by (auto simp: bar_ok_def submit_def Let_def)
qed (auto simp: bar_ok_def type_text_def key_up_def key_down_def show_entry_def)

lemma ups:
  assumes "bar_ok b" "ib_idx b = -1" "Suc k \<le> length (ib_history b)"
  shows "(key_up ^^ Suc k) b = show_entry (int (length (ib_history b) - Suc k)) b"
  using assms(3)
proof (induction k)
  case 0
  then show ?case using assms(2) by (auto simp: key_up_def)
next
  case (Suc k)
  let ?n = "length (ib_history b)"
  have "(key_up ^^ Suc k) b = show_entry (int (?n - Suc k)) b" using Suc by simp
  then have "(key_up ^^ Suc (Suc k)) b = key_up (show_entry (int (?n - Suc k)) b)" by simp
  also have "\<dots> = show_entry (int (?n - Suc k) - 1) b"
    using Suc.prems by (auto simp: key_up_def show_entry_def)
  also have "int (?n - Suc k) - 1 = int (?n - Suc (Suc k))" using Suc.prems by (simp add: of_nat_diff)
  finally show ?case .
qed

lemma downs_back:
  assumes "ib_history b \<noteq> []" "Suc k \<le> length (ib_history b)"
  shows "(key_down ^^ Suc k) (show_entry (int (length (ib_history b) - Suc k)) b) = b\<lparr>ib_idx := -1, ib_value := []\<rparr>"
  using assms(2)
proof (induction k)
  case 0
  then show ?case using assms(1) by (auto simp: key_down_def show_entry_def of_nat_diff)
next
  case (Suc k)
  let ?n = "length (ib_history b)"
  have "key_down (show_entry (int (?n - Suc (Suc k))) b) = show_entry (int (?n - Suc (Suc k)) + 1) b"
    using Suc.prems by (auto simp: key_down_def show_entry_def)
  also have "int (?n - Suc (Suc k)) + 1 = int (?n - Suc k)" using Suc.prems by (simp add: of_nat_diff)
  finally have "key_down (show_entry (int (?n - Suc (Suc k))) b) = show_entry (int (?n - Suc k)) b" .
  then show ?case using Suc by (simp add: funpow_swap1)
qed

text \<open>Browsing the history.  In every reachable state of the input bar the history has at most twenty entries
  and no entry twice in a row, and the index points into it; from the bottom, pressing up \<open>k\<close> times
  shows the \<open>k\<close>-th entry from the end, and pressing down as often empties the input again.\<close>

theorem history_browsing:
  assumes "bar_reach b" "ib_idx b = -1" "0 < k" "k \<le> length (ib_history b)"
  shows "length (ib_history b) \<le> 20 \<and> successively (\<noteq>) (ib_history b) \<and>
    ib_value ((key_up ^^ k) b) = ib_history b ! (length (ib_history b) - k) \<and>
    (key_down ^^ k) ((key_up ^^ k) b) = b\<lparr>ib_value := []\<rparr>"
proof -
  have ok: "bar_ok b" using assms(1) by (rule bar_reach_ok)
  obtain j where k: "k = Suc j" using assms(3) by (cases k) auto
  have up: "(key_up ^^ k) b = show_entry (int (length (ib_history b) - k)) b"
    using ups [OF ok assms(2)] assms(4) k by blast
  moreover have "(key_down ^^ k) (show_entry (int (length (ib_history b) - k)) b) = b\<lparr>ib_idx := -1, ib_value := []\<rparr>"
    unfolding k by (rule downs_back) (use assms(4) k in auto)
  moreover have "b\<lparr>ib_idx := -1, ib_value := []\<rparr> = b\<lparr>ib_value := []\<rparr>" using assms(2) by simp
  ultimately show ?thesis using ok by (simp add: bar_ok_def history_maxlen_def show_entry_def)
qed

theorem history_browsing_witness:
  "let b = snd (submit (type_text ''two'' (snd (submit (type_text ''one'' new_bar)))))
   in ib_history b = [''one'', ''two''] \<and> ib_value ((key_up ^^ 2) b) = ''one'' \<and>
      (key_down ^^ 2) ((key_up ^^ 2) b) = b\<lparr>ib_value := []\<rparr>"
proof -
  let ?b = "snd (submit (type_text ''two'' (snd (submit (type_text ''one'' new_bar)))))"
  have r: "bar_reach ?b" by (intro bar_reach.intros)
  have e: "?b = \<lparr>ib_value = [], ib_history = [''one'', ''two''], ib_idx = -1\<rparr>" by code_simp
  have "ib_history ?b = [''one'', ''two'']" "ib_idx ?b = -1" unfolding e by simp_all
  with history_browsing [OF r, of 2] show ?thesis unfolding Let_def by simp
qed

section \<open>The command palette\<close>

definition palette_names :: "string list" where
  "palette_names = [''architect'', ''execute'', ''review'', ''test'', ''debate'', ''memory'', ''spawn'', ''kill'',
     ''model'', ''index'', ''status'', ''learn'', ''end'', ''help'']"

definition fuzzy_match :: "string \<Rightarrow> string \<Rightarrow> bool" where
  "fuzzy_match query name \<longleftrightarrow> startswith (lower name) (strip (lower query))"

record palette =
  pt_value :: string
  pt_history :: "string list"
  pt_idx :: int
  pt_filtered :: "string list"
  pt_selected :: nat

definition matching :: "string \<Rightarrow> string list" where
  "matching q = (if strip q \<noteq> [] then filter (fuzzy_match q) palette_names else palette_names)"

definition apply_filter :: "string \<Rightarrow> palette \<Rightarrow> palette" where
  "apply_filter q p = p\<lparr>pt_filtered := matching q, pt_selected := 0\<rparr>"

definition show_text :: "int \<Rightarrow> string \<Rightarrow> palette \<Rightarrow> palette" where
  "show_text i v p = apply_filter v (p\<lparr>pt_idx := i, pt_value := v\<rparr>)"

text \<open>The palette opened on what was typed; an empty shared history is replaced by one of its own.\<close>

definition open_palette :: "string \<Rightarrow> string list \<Rightarrow> palette" where
  "open_palette partial history =
     (let v = strip (dropWhile (\<lambda>c. c = CHR ''/'') partial)
      in apply_filter v \<lparr>pt_value = v, pt_history = history, pt_idx = -1, pt_filtered = palette_names, pt_selected = 0\<rparr>)"

definition filter_changed :: "string \<Rightarrow> palette \<Rightarrow> palette" where
  "filter_changed v p = show_text (-1) v p"

definition palette_up :: "palette \<Rightarrow> palette" where
  "palette_up p =
     (if strip (pt_value p) = [] \<and> pt_history p \<noteq> [] then
        (let i = (if pt_idx p = -1 then int (length (pt_history p)) - 1
                  else if pt_idx p > 0 then pt_idx p - 1 else pt_idx p)
         in show_text i (pt_history p ! nat i) p)
      else if pt_selected p > 0 then p\<lparr>pt_selected := pt_selected p - 1\<rparr> else p)"

definition palette_down :: "palette \<Rightarrow> palette" where
  "palette_down p =
     (if strip (pt_value p) = [] \<and> pt_history p \<noteq> [] \<and> pt_idx p \<noteq> -1 then
        (if pt_idx p < int (length (pt_history p)) - 1 then show_text (pt_idx p + 1) (pt_history p ! nat (pt_idx p + 1)) p
         else show_text (-1) [] p)
      else if Suc (pt_selected p) < length (pt_filtered p) then p\<lparr>pt_selected := Suc (pt_selected p)\<rparr> else p)"

text \<open>Enter: the command that is handed to the session screen.\<close>

definition run_selected :: "palette \<Rightarrow> string option \<times> palette" where
  "run_selected p =
     (if pt_filtered p = [] then (None, p)
      else let v = strip (pt_value p);
               cmd = (if contains '' '' v then v else pt_filtered p ! pt_selected p)
           in (Some cmd, p\<lparr>pt_history := push_history cmd (pt_history p)\<rparr>))"

inductive palette_reach :: "palette \<Rightarrow> bool" where
  palette_open: "palette_reach (open_palette partial history)"
| palette_type: "palette_reach p \<Longrightarrow> palette_reach (filter_changed v p)"
| palette_key_up: "palette_reach p \<Longrightarrow> palette_reach (palette_up p)"
| palette_key_down: "palette_reach p \<Longrightarrow> palette_reach (palette_down p)"
| palette_run: "palette_reach p \<Longrightarrow> palette_reach (snd (run_selected p))"

text \<open>The list always shows what the text selects, and the selection lies in it.\<close>

definition palette_ok :: "palette \<Rightarrow> bool" where
  "palette_ok p \<longleftrightarrow>
     pt_filtered p = matching (pt_value p) \<and>
     (pt_filtered p = [] \<or> pt_selected p < length (pt_filtered p))"

lemma show_text_ok: "palette_ok (show_text i v p)"
  by (auto simp: palette_ok_def show_text_def apply_filter_def)

lemma palette_up_cases:
  "(\<exists>i v. palette_up p = show_text i v p) \<or> (\<exists>n. n \<le> pt_selected p \<and> palette_up p = p\<lparr>pt_selected := n\<rparr>)"
proof (cases "strip (pt_value p) = [] \<and> pt_history p \<noteq> []")
  case True
  then show ?thesis unfolding palette_up_def Let_def by auto
next
  case False
  then have "palette_up p = p\<lparr>pt_selected := pt_selected p - 1\<rparr>" unfolding palette_up_def by auto
  then show ?thesis by (meson diff_le_self)
qed

lemma palette_down_cases:
  "(\<exists>i v. palette_down p = show_text i v p) \<or> palette_down p = p \<or>
   (Suc (pt_selected p) < length (pt_filtered p) \<and> palette_down p = p\<lparr>pt_selected := Suc (pt_selected p)\<rparr>)"
  unfolding palette_down_def by auto

lemma palette_reach_ok: "palette_reach p \<Longrightarrow> palette_ok p"
proof (induction rule: palette_reach.induct)
  case (palette_open partial history)
  show ?case by (auto simp: palette_ok_def open_palette_def apply_filter_def Let_def)
next
  case (palette_key_up p)
  then show ?case using palette_up_cases [of p] show_text_ok
    by (elim disjE exE conjE) (simp, auto simp: palette_ok_def)
next
  case (palette_key_down p)
  then show ?case using palette_down_cases [of p] show_text_ok
    by (elim disjE exE conjE) (simp, simp, simp add: palette_ok_def)
qed (auto simp: filter_changed_def show_text_ok, auto simp: palette_ok_def run_selected_def Let_def)

lemma palette_names_plain: "n \<in> set palette_names \<Longrightarrow> CHR '' '' \<notin> set (lower n)"
proof -
  have "list_all (\<lambda>n. CHR '' '' \<notin> set (lower n)) palette_names" by code_simp
  then show "n \<in> set palette_names \<Longrightarrow> ?thesis" by (simp add: list_all_iff)
qed

lemma strip_lower: "strip (lower s) = lower (strip s)"
proof -
  have sp: "py_space (lower_char c) = py_space c" for c
  proof (cases c)
    case (Char b0 b1 b2 b3 b4 b5 b6 b7)
    have "\<not> py_space (Char b0 b1 b2 b3 b4 x True b7)" for x by (simp add: py_space_def)
    then show ?thesis unfolding Char by (cases b6) simp_all
  qed
  have "dropWhile py_space (map lower_char xs) = map lower_char (dropWhile py_space xs)" for xs
    using sp by (simp add: dropWhile_map o_def)
  then show ?thesis by (simp add: strip_def lstrip_def rstrip_def lower_def rev_map)
qed

text \<open>C38: the palette runs bare names only.  In every reachable state, where the list has been filtered by the text
  now shown, the command that Enter hands over is one of
  the listed names: with arguments typed after a name, no name starts with the text, the list is empty
  and Enter does nothing, although the palette is documented to run what was typed with arguments.\<close>

theorem palette_runs_bare_names:
  assumes "palette_reach p"
  shows "set_option (fst (run_selected p)) \<subseteq> set palette_names \<and>
    (contains '' '' (strip (pt_value p)) \<longrightarrow> fst (run_selected p) = None)"
proof -
  have ok: "palette_ok p" using assms by (rule palette_reach_ok)
  have sp: "pt_filtered p = []" if "contains '' '' (strip (pt_value p))"
  proof -
    have blank: "CHR '' '' \<in> set (strip (pt_value p))"
      using that set_mono_sublist by (force simp: contains_sublist)
    moreover have "lower_char (CHR '' '') = CHR '' ''" by code_simp
    ultimately have in_lower: "CHR '' '' \<in> set (lower (strip (pt_value p)))" by (force simp: lower_def)
    have "\<not> fuzzy_match (pt_value p) n" if "n \<in> set palette_names" for n
      using palette_names_plain [OF that] in_lower set_mono_prefix
      by (auto simp: fuzzy_match_def strip_lower)
    moreover have "strip (pt_value p) \<noteq> []" using blank by auto
    ultimately show ?thesis using ok by (simp add: palette_ok_def matching_def filter_empty_conv)
  qed
  moreover have "pt_filtered p ! pt_selected p \<in> set palette_names" if "pt_filtered p \<noteq> []"
  proof -
    have "set (pt_filtered p) \<subseteq> set palette_names" using ok by (auto simp: palette_ok_def matching_def)
    moreover have "pt_selected p < length (pt_filtered p)" using ok that by (auto simp: palette_ok_def)
    ultimately show ?thesis using nth_mem by blast
  qed
  ultimately show ?thesis by (auto simp: run_selected_def Let_def)
qed

theorem palette_runs_bare_names_witness:
  "fst (run_selected (filter_changed ''architect add a cache'' (open_palette ''arch'' []))) = None \<and>
   fst (run_selected (open_palette ''arch'' [])) = Some ''architect''"
proof -
  have "palette_reach (filter_changed ''architect add a cache'' (open_palette ''arch'' []))"
    by (intro palette_reach.intros)
  moreover have "contains '' '' (strip (pt_value (filter_changed ''architect add a cache'' (open_palette ''arch'' []))))"
    by code_simp
  ultimately have "fst (run_selected (filter_changed ''architect add a cache'' (open_palette ''arch'' []))) = None"
    using palette_runs_bare_names by blast
  moreover have "fst (run_selected (open_palette ''arch'' [])) = Some ''architect''" by code_simp
  ultimately show ?thesis by simp
qed

end
