(* ===== verification/Tui_Screens.thy ===== *)
theory Tui_Screens
  imports Tui_Service Tui_Input
begin

text \<open>
  What the chat screen (\<open>tui/tui/screens/chat.py\<close>) and the session screen (\<open>tui/tui/screens/session.py\<close>)
  do besides drawing: the conversation that is sent to the orchestrator, the choice of role and
  model, the input line of a session, the streams it starts and the loop over the WebSocket.
  Starting a task of the event loop counts as running it to its end.
\<close>

section \<open>The chat screen\<close>

definition chat_roles :: "string list" where
  "chat_roles = [''architect'', ''coder'', ''reviewer'', ''tester'', ''documenter'', ''general'']"

record chat =
  ct_role :: string
  ct_model :: json
  ct_history :: "(string \<times> string) list" \<comment> \<open>role and content\<close>
  ct_streaming :: bool
  ct_tokens :: nat

text \<open>\<open>j[k]\<close> of a decoded value.\<close>

definition json_at :: "json \<Rightarrow> string \<Rightarrow> json result" where
  "json_at j k = bind_result (obj_of j) (\<lambda>d. case map_of d k of None \<Rightarrow> Inl (KeyError k) | Some v \<Rightarrow> Inr v)"

definition chat_init :: "'w tui_env \<Rightarrow> chat \<Rightarrow> 'w \<Rightarrow> chat \<times> 'w" where
  "chat_init E c w =
     (case tc_models_for_role (tv_client E) (ct_role c) w of
        (Inl _, w1) \<Rightarrow> (c\<lparr>ct_model := JStr ''orchestrator''\<rparr>, w1)
      | (Inr ms, w1) \<Rightarrow>
          if \<not> truthy ms then (c, w1)
          else (case bind_result (item0 ms) (\<lambda>m. json_at m ''name'') of
                  Inl _ \<Rightarrow> (c\<lparr>ct_model := JStr ''orchestrator''\<rparr>, w1) | Inr v \<Rightarrow> (c\<lparr>ct_model := v\<rparr>, w1)))"

fun place :: "'a \<Rightarrow> 'a list \<Rightarrow> nat option" where
  "place x [] = None"
| "place x (y # ys) = (if x = y then Some 0 else map_option Suc (place x ys))"

definition cycle_role :: "chat \<Rightarrow> chat" where
  "cycle_role c =
     (let i = (case place (ct_role c) chat_roles of Some i \<Rightarrow> i | None \<Rightarrow> 0)
      in c\<lparr>ct_role := chat_roles ! ((i + 1) mod length chat_roles)\<rparr>)"

text \<open>The next model of the role; an unknown one is followed by the first, an error changes nothing.\<close>

definition cycle_model :: "'w tui_env \<Rightarrow> chat \<Rightarrow> 'w \<Rightarrow> chat \<times> 'w" where
  "cycle_model E c w =
     (case tc_models_for_role (tv_client E) (ct_role c) w of
        (Inl _, w1) \<Rightarrow> (c, w1)
      | (Inr ms, w1) \<Rightarrow>
          if \<not> truthy ms then (c, w1)
          else (case bind_result (py_iter ms) (each (\<lambda>m. json_at m ''name'')) of
                  Inl _ \<Rightarrow> (c, w1)
                | Inr names \<Rightarrow>
                    (let k = (case place (ct_model c) names of Some i \<Rightarrow> i + 1 | None \<Rightarrow> 0)
                     in (c\<lparr>ct_model := names ! (k mod length names)\<rparr>, w1))))"

definition turn_message :: "string \<times> string \<Rightarrow> json" where
  "turn_message t = (case t of (role, content) \<Rightarrow> JObj [(''role'', JStr role), (''content'', JStr content)])"

text \<open>\<open>full_response += token\<close> until a token is no text.\<close>

fun gather_text :: "json list \<Rightarrow> string" where
  "gather_text (JStr x # xs) = x @ gather_text xs"
| "gather_text _ = []"

text \<open>One message: the whole history goes to the server, and the answer, if there is any, is appended.\<close>

definition chat_send :: "(json list \<Rightarrow> json \<Rightarrow> 'w \<Rightarrow> string result list \<times> 'w) \<Rightarrow> string \<Rightarrow> chat \<Rightarrow> 'w \<Rightarrow> chat \<times> 'w" where
  "chat_send server t c w =
     (let h = ct_history c @ [(''user'', t)] in
      case server (map turn_message h) (ct_model c) w of (ls, w1) \<Rightarrow>
        let full = gather_text (fst (chat_stream ls))
        in (c\<lparr>ct_history := (if full = [] then h else h @ [(''assistant'', full)]), ct_streaming := False,
              ct_tokens := ct_tokens c + length full\<rparr>, w1))"

definition chat_submit :: "(json list \<Rightarrow> json \<Rightarrow> 'w \<Rightarrow> string result list \<times> 'w) \<Rightarrow> string \<Rightarrow> chat \<Rightarrow> 'w \<Rightarrow> chat \<times> 'w" where
  "chat_submit server v c w =
     (if strip v = [] \<or> ct_streaming c then (c, w) else chat_send server (strip v) c w)"

section \<open>The session screen\<close>

datatype opened = Open_Model_Config | Open_Palette string | Open_Help

record screen =
  sn_history :: "string list"
  sn_streamed :: "string list" \<comment> \<open>agents whose stream was started\<close>
  sn_opened :: "opened list"

definition start_stream :: "string \<Rightarrow> screen \<Rightarrow> screen" where
  "start_stream aid sn = (if aid \<in> set (sn_streamed sn) then sn else sn\<lparr>sn_streamed := sn_streamed sn @ [aid]\<rparr>)"

text \<open>\<open>len(result) > 60\<close> needs a sized value.\<close>

definition sized :: "json \<Rightarrow> unit result" where
  "sized j = (case j of JStr _ \<Rightarrow> Inr () | JList _ \<Rightarrow> Inr () | JObj _ \<Rightarrow> Inr ()
     | _ \<Rightarrow> Inl (TypeError (''object of type '' @ type_name j @ '' has no len()'')))"

text \<open>What the screen does with the result of a command.\<close>

definition use_result :: "'w tui_env \<Rightarrow> string \<Rightarrow> string \<Rightarrow> json \<Rightarrow> screen \<Rightarrow> tui \<Rightarrow> 'w \<Rightarrow> unit result \<times> screen \<times> tui" where
  "use_result E cmd first r sn t w =
     (if r = JStr ''__open_model_config__'' then (Inr (), sn\<lparr>sn_opened := sn_opened sn @ [Open_Model_Config]\<rparr>, t)
      else if r = JStr ''__open_command_palette__'' then (Inr (), sn\<lparr>sn_opened := sn_opened sn @ [Open_Palette cmd]\<rparr>, t)
      else if r = JStr ''__open_help__'' then (Inr (), sn\<lparr>sn_opened := sn_opened sn @ [Open_Help]\<rparr>, t)
      else if truthy r then
        (case sized r of
           Inl e \<Rightarrow> (Inl e, sn, t)
         | Inr _ \<Rightarrow> (Inr (), sn, add_log E (JStr ''system'') (CHR ''/'' # first) r w t))
      else (Inr (), sn, t))"

definition handle_input :: "'w tui_env \<Rightarrow> string \<Rightarrow> screen \<Rightarrow> tui \<Rightarrow> 'w \<Rightarrow> unit result \<times> screen \<times> tui \<times> 'w" where
  "handle_input E v sn t w =
     (if startswith v ''/'' then
        (let cmd = strip (tl v) in
         case split_ws cmd of
           [] \<Rightarrow> (Inl (OtherError ''list index out of range''), sn, t, w)
         | first # _ \<Rightarrow>
             (case handle_inline_command E cmd t w of (r, t1, w1) \<Rightarrow>
                case use_result E cmd first r sn t1 w1 of
                  (Inl e, sn1, t2) \<Rightarrow> (Inl e, sn1, t2, w1)
                | (Inr _, sn1, t2) \<Rightarrow> (Inr (), sn1\<lparr>sn_history := push_history cmd (sn_history sn1)\<rparr>, t2, w1)))
      else
        (case svc_send_message E v t w of
           (Inl e, t1, w1) \<Rightarrow> (Inl e, sn, t1, w1)
         | (Inr _, t1, w1) \<Rightarrow>
             (Inr (), (case tu_session t1 of None \<Rightarrow> sn
                       | Some s \<Rightarrow> fold start_stream (map ai_id (active_agents s)) sn), t1, w1)))"

definition input_submitted :: "'w tui_env \<Rightarrow> string \<Rightarrow> screen \<Rightarrow> tui \<Rightarrow> 'w \<Rightarrow> unit result \<times> screen \<times> tui \<times> 'w" where
  "input_submitted E v sn t w =
     (if strip v = [] then (Inr (), sn, t, w) else handle_input E (strip v) sn t w)"

text \<open>
  The loop over the WebSocket.  A round is the list of messages of one connection; the generator of
  the client ends quietly when the connection is refused or lost, and only an exception of the
  handler makes the loop sleep, for three seconds, before it connects again.
\<close>

fun handle_frames :: "(real \<Rightarrow> string) \<Rightarrow> real \<Rightarrow> json list \<Rightarrow> tui \<Rightarrow> unit result \<times> tui" where
  "handle_frames fr now [] t = (Inr (), t)"
| "handle_frames fr now (ev # evs) t =
     (case handle_ws_event fr now ev t of (Inl e, t1) \<Rightarrow> (Inl e, t1) | (Inr _, t1) \<Rightarrow> handle_frames fr now evs t1)"

fun ws_loop :: "(real \<Rightarrow> string) \<Rightarrow> real \<Rightarrow> string list list \<Rightarrow> tui \<Rightarrow> nat list \<times> tui" where
  "ws_loop fr now [] t = ([], t)"
| "ws_loop fr now (msgs # rounds) t =
     (case handle_frames fr now (stream_session_events msgs) t of (r, t1) \<Rightarrow>
        case ws_loop fr now rounds t1 of (sleeps, t2) \<Rightarrow>
          ((case r of Inl _ \<Rightarrow> [3] | Inr _ \<Rightarrow> [0]) @ sleeps, t2))"

text \<open>The keys d and ctrl+c.\<close>

definition toggle_sidebar :: "store \<Rightarrow> tui \<Rightarrow> store \<times> tui" where
  "toggle_sidebar S t = (case toggle_dag t of (b, t1) \<Rightarrow> (save_ui_state None None None (Some b) S, t1))"

fun interrupt_all :: "'w tui_env \<Rightarrow> string list \<Rightarrow> 'w \<Rightarrow> 'w" where
  "interrupt_all E [] w = w"
| "interrupt_all E (aid # aids) w =
     interrupt_all E aids (snd (tc_send_message (tv_client E) aid ''__interrupt__'' ''system'' w))"

definition cancel_active_agents :: "'w tui_env \<Rightarrow> tui \<Rightarrow> 'w \<Rightarrow> 'w" where
  "cancel_active_agents E t w = (case tu_session t of None \<Rightarrow> w
     | Some s \<Rightarrow> interrupt_all E (map ai_id (running_agents s)) w)"

section \<open>Properties\<close>

text \<open>A slash alone raises out of the handler instead of opening the palette.\<close>

lemma slash_alone_raises:
  "input_submitted E '' / '' sn t w = (Inl (OtherError ''list index out of range''), sn, t, w)"
proof -
  have "strip '' / '' = ''/''" "split_ws (strip [])= []" by code_simp+
  then show ?thesis by (simp add: input_submitted_def handle_input_def Let_def)
qed

text \<open>An orchestrator that refuses connections is asked again without any pause.\<close>

lemma refused_connections_spin: "ws_loop fr now (replicate n []) t = (replicate n 0, t)"
  by (induction n) (simp_all add: stream_session_events_def map_filter_def)

text \<open>An agent's stream is started at most once.\<close>

lemma start_streams_once:
  "distinct (sn_streamed sn) \<Longrightarrow> distinct (sn_streamed (fold start_stream aids sn)) \<and>
     set (sn_streamed (fold start_stream aids sn)) = set (sn_streamed sn) \<union> set aids"
  by (induction aids arbitrary: sn) (auto simp: start_stream_def)

end
