(* ===== verification/Tui_Forms.thy ===== *)
theory Tui_Forms
  imports Tui_Theme Tui_Screens
begin

text \<open>
  The forms of the terminal interface and its navigation: \<open>widgets/model_panel.py\<close>, \<open>screens/model_config.py\<close>,
  \<open>screens/new_project.py\<close>, \<open>screens/new_session.py\<close>, \<open>screens/project.py\<close>, \<open>screens/launcher.py\<close> and the
  screen router of \<open>app.py\<close>.  A form is what it shows as its status, whether it is busy, and
  the navigation it has asked for.  Starting a task of the event loop counts as running it to its end.
  The theorems show which models a panel can hand over and that the launcher always opens a project
  of its list.
\<close>

section \<open>The screen router\<close>

datatype target =
    Show_Launcher | Show_Project json | Show_New_Project | Show_New_Session json | Show_Session json json
  | Show_Chat json | Show_Logs | Show_Model_Config json | Show_Palette json json | Show_Help

datatype nav = Push target | Pop | Exit

text \<open>\<open>kwargs[k]\<close>.\<close>

definition kwarg :: "json dict \<Rightarrow> string \<Rightarrow> json result" where
  "kwarg kw k = (case map_of kw k of None \<Rightarrow> Inl (KeyError k) | Some v \<Rightarrow> Inr v)"

definition push_screen :: "string \<Rightarrow> json dict \<Rightarrow> target result" where
  "push_screen name kw =
     (if name = ''launcher'' then Inr Show_Launcher
      else if name = ''project'' then map_sum id Show_Project (kwarg kw ''project_id'')
      else if name = ''new_project'' then Inr Show_New_Project
      else if name = ''new_session'' then map_sum id Show_New_Session (kwarg kw ''project_id'')
      else if name = ''session'' then
        bind_result (kwarg kw ''project_id'') (\<lambda>p. map_sum id (Show_Session p) (kwarg kw ''session_id''))
      else if name = ''chat'' then Inr (Show_Chat (get_or kw ''role'' (JStr ''coder'')))
      else if name = ''logs'' then Inr Show_Logs
      else if name = ''model_config'' then map_sum id Show_Model_Config (kwarg kw ''session_id'')
      else if name = ''command_palette'' then
        Inr (Show_Palette (get_or kw ''partial'' (JStr [])) (get_or kw ''command_history'' JNull))
      else if name = ''help'' then Inr Show_Help
      else Inl (ValueError (''Unknown screen: '' @ py_repr name)))"

text \<open>The callback of the connection supervisor.\<close>

definition on_connection_change :: "string \<Rightarrow> tui \<Rightarrow> tui" where
  "on_connection_change status t = set_connection status t"

section \<open>Forms\<close>

record form =
  fm_status :: string
  fm_busy :: bool
  fm_nav :: "nav list"

definition new_form :: form where "new_form = \<lparr>fm_status = [], fm_busy = False, fm_nav = []\<rparr>"

definition says :: "string \<Rightarrow> form \<Rightarrow> form" where "says s f = f\<lparr>fm_status := s\<rparr>"

definition goes :: "nav list \<Rightarrow> form \<Rightarrow> form" where "goes ns f = f\<lparr>fm_nav := fm_nav f @ ns\<rparr>"

text \<open>\<open>str(e)\<close>, and the line that shows it.\<close>

definition called_text :: "client_error \<Rightarrow> string" where
  "called_text e = (case e of Conn m \<Rightarrow> m | Unexpected x \<Rightarrow> exc_str x)"

definition fail_line :: "string \<Rightarrow> string" where "fail_line msg = paint ERROR (sym_cross @ ''  '' @ msg)"
definition done_line :: "string \<Rightarrow> string" where "done_line msg = paint SUCCESS (sym_tick @ ''  '' @ msg)"

section \<open>New project\<close>

definition check_git :: "git_host \<Rightarrow> string \<Rightarrow> string option" where
  "check_git G path =
     (if path = [] then None
      else let info = detect_repo G path in
        if gr_is_repo info
        then Some (''  '' @ paint GREEN sym_tick @ '' ''
               @ paint OVERLAY0 (''git repo detected  branch: '' @ paint BLUE (gr_branch info)))
        else Some (''  '' @ paint OVERLAY0 ''not a git repo''))"

definition np_missing :: "string \<Rightarrow> string \<Rightarrow> string \<Rightarrow> string option" where
  "np_missing name workspace tsk =
     (if name = [] then Some ''Project name is required''
      else if workspace = [] then Some ''Workspace path is required''
      else if tsk = [] then Some ''First task is required'' else None)"

text \<open>The button \<open>Create & Start\<close>.  The creating form is not busy any more when the button's task has ended.\<close>

definition np_create :: "'w tui_env \<Rightarrow> string \<Rightarrow> string \<Rightarrow> string \<Rightarrow> string \<Rightarrow> json dict \<Rightarrow> form \<Rightarrow> store \<Rightarrow> 'w
    \<Rightarrow> form \<times> store \<times> 'w" where
  "np_create E hex8 name workspace tsk models f S w =
     (if fm_busy f then (f, S, w)
      else case np_missing (strip name) (strip workspace) (strip tsk) of
        Some msg \<Rightarrow> (says (paint ERROR msg) f, S, w)
      | None \<Rightarrow>
          (case create_project_svc E hex8 (strip name) (strip workspace) (strip tsk)
                  (if models = [] then None else Some models) S w of
             (Inl e, S1, w1) \<Rightarrow> (says (fail_line (called_text e)) f, S1, w1)
           | (Inr (pid, sid), S1, w1) \<Rightarrow>
               (goes [Push (Show_Session (JStr pid) (JStr sid))] (says (done_line ''Project created'') f),
                save_ui_state (Some pid) (Some sid) None None S1, w1)))"

section \<open>New session\<close>

definition ns_start :: "'w tui_env \<Rightarrow> string \<Rightarrow> string \<Rightarrow> form \<Rightarrow> store \<Rightarrow> 'w \<Rightarrow> form \<times> store \<times> 'w" where
  "ns_start E pid tsk f S w =
     (if fm_busy f then (f, S, w)
      else if strip tsk = [] then (says (paint ERROR ''Task is required'') f, S, w)
      else case new_session E pid (strip tsk) None S w of
        (Inl e, S1, w1) \<Rightarrow> (says (fail_line (called_text e)) f, S1, w1)
      | (Inr sid, S1, w1) \<Rightarrow>
          (goes [Pop, Push (Show_Session (JStr pid) (JStr sid))]
             (says (paint SKY (sym_left @ ''  Creating session'' @ ellipsis)) f),
           save_ui_state None (Some sid) None None S1, w1))"

definition ns_key :: "'w tui_env \<Rightarrow> string \<Rightarrow> string \<Rightarrow> string \<Rightarrow> form \<Rightarrow> store \<Rightarrow> 'w \<Rightarrow> form \<times> store \<times> 'w" where
  "ns_key E pid tsk k f S w =
     (if k = ''escape'' then (goes [Pop] f, S, w)
      else if k = ''enter'' then ns_start E pid tsk f S w else (f, S, w))"

section \<open>The model panel\<close>

definition panel_roles :: "string list" where
  "panel_roles = [''architect'', ''coder'', ''reviewer'', ''tester'', ''documenter'']"

text \<open>An option of a role: what is shown and the name.\<close>

type_synonym panel_option = "string \<times> json"

record panel =
  mp_current :: "json dict"
  mp_options :: "panel_option list dict"
  mp_chosen :: "json option dict" \<comment> \<open>nothing when the selection was cleared\<close>
  mp_loaded :: bool

text \<open>\<open>v // 1024\<close>.\<close>

definition context_k :: "(real \<Rightarrow> string) \<Rightarrow> json \<Rightarrow> string result" where
  "context_k fr v = (case v of
     JInt n \<Rightarrow> Inr (int_str (n div 1024))
   | JBool b \<Rightarrow> Inr ''0''
   | JFloat x \<Rightarrow> Inr (fr (of_int \<lfloor>x / 1024\<rfloor>))
   | _ \<Rightarrow> Inl (TypeError (''unsupported operand type(s) for //: '' @ type_name v @ '' and int'')))"

definition panel_option_of :: "(real \<Rightarrow> string) \<Rightarrow> json \<Rightarrow> panel_option result" where
  "panel_option_of fr m =
     bind_result (json_at m ''name'') (\<lambda>name.
     bind_result (json_get m ''on_disk'' JNull) (\<lambda>disk.
     bind_result (json_get m ''context_length'' (JInt 0)) (\<lambda>ctx.
     bind_result (context_k fr ctx) (\<lambda>k.
       Inr (py_str fr name @ ''  '' @ (if truthy disk then sym_tick else sym_ring) @ ''  '' @ k @ ''k ctx'', name)))))"

definition options_of :: "'w client_env \<Rightarrow> string \<Rightarrow> 'w \<Rightarrow> panel_option list \<times> 'w" where
  "options_of C role w =
     (case tc_models_for_role C role w of
        (Inl e, w1) \<Rightarrow> ([], w1)
      | (Inr ms, w1) \<Rightarrow>
          ((case bind_result (py_iter ms) (each (panel_option_of (cl_fr C))) of Inl e \<Rightarrow> [] | Inr os \<Rightarrow> os), w1))"

fun load_options :: "'w client_env \<Rightarrow> string list \<Rightarrow> 'w \<Rightarrow> panel_option list dict \<times> 'w" where
  "load_options C [] w = ([], w)"
| "load_options C (r # rs) w =
     (case options_of C r w of (os, w1) \<Rightarrow> case load_options C rs w1 of (d, w2) \<Rightarrow> ((r, os) # d, w2))"

definition offered :: "panel \<Rightarrow> string \<Rightarrow> json list" where
  "offered p r = map snd (get_or (mp_options p) r [])"

definition initial_choice :: "panel \<Rightarrow> string \<Rightarrow> json option" where
  "initial_choice p r =
     (let cur = get_or (mp_current p) r (JStr []) in
      if cur \<in> set (offered p r) then Some cur else Some (hd (offered p r)))"

definition load_models :: "'w client_env \<Rightarrow> json dict \<Rightarrow> 'w \<Rightarrow> panel \<times> 'w" where
  "load_models C current w =
     (case load_options C panel_roles w of (os, w1) \<Rightarrow>
        let p = \<lparr>mp_current = current, mp_options = os, mp_chosen = [], mp_loaded = True\<rparr>
        in (p\<lparr>mp_chosen := map (\<lambda>r. (r, initial_choice p r)) (filter (\<lambda>r. offered p r \<noteq> []) panel_roles)\<rparr>, w1))"

text \<open>The user takes an option of a role, or clears the selection.\<close>

inductive panel_reach :: "'w client_env \<Rightarrow> json dict \<Rightarrow> panel \<Rightarrow> bool" for C :: "'w client_env" and current :: "json dict" where
  panel_open: "load_models C current w = (p, w1) \<Longrightarrow> panel_reach C current p"
| panel_choose: "panel_reach C current p \<Longrightarrow> v \<in> set (offered p r) \<Longrightarrow>
    panel_reach C current (p\<lparr>mp_chosen := dict_set (mp_chosen p) r (Some v)\<rparr>)"
| panel_clear: "panel_reach C current p \<Longrightarrow> offered p r \<noteq> [] \<Longrightarrow>
    panel_reach C current (p\<lparr>mp_chosen := dict_set (mp_chosen p) r None\<rparr>)"

definition role_choice :: "(real \<Rightarrow> string) \<Rightarrow> panel \<Rightarrow> string \<Rightarrow> json option" where
  "role_choice fr p r = (case map_of (mp_chosen p) r of
     Some (Some v) \<Rightarrow> if truthy v then Some (JStr (py_str fr v)) else None
   | Some None \<Rightarrow> None
   | None \<Rightarrow> map_of (mp_current p) r)"

definition panel_apply :: "(real \<Rightarrow> string) \<Rightarrow> panel \<Rightarrow> json dict option" where
  "panel_apply fr p = (if \<not> mp_loaded p then None
     else Some (List.map_filter (\<lambda>r. map_option (Pair r) (role_choice fr p r)) panel_roles))"

section \<open>Model configuration of a session\<close>

definition current_models :: "tui \<Rightarrow> json" where
  "current_models t = (case tu_session t of None \<Rightarrow> JObj [] | Some s \<Rightarrow> ts_models s)"

definition update_models :: "json dict \<Rightarrow> tui_session \<Rightarrow> unit result \<times> tui_session" where
  "update_models ms s = (case ts_models s of
     JObj d \<Rightarrow> (Inr (), s\<lparr>ts_models := JObj (dict_update d ms)\<rparr>)
   | v \<Rightarrow> (Inl (attr_error v ''update''), s))"

definition mc_apply :: "'w tui_env \<Rightarrow> string \<Rightarrow> json dict \<Rightarrow> form \<Rightarrow> tui \<Rightarrow> 'w \<Rightarrow> unit result \<times> form \<times> tui \<times> 'w" where
  "mc_apply E sid models f t w =
     (if fm_busy f then (Inr (), f, t, w)
      else case tc_configure_models (tv_client E) sid models w of
        (Inl (Conn m), w1) \<Rightarrow> (Inr (), says (fail_line m) f, t, w1)
      | (Inl (Unexpected e), w1) \<Rightarrow> (Inl e, says (paint SKY (sym_left @ ''  Applying'' @ ellipsis)) f, t, w1)
      | (Inr _, w1) \<Rightarrow>
          (case on_session (update_models models) t of
             (Inl e, t1) \<Rightarrow> (Inl e, says (paint SKY (sym_left @ ''  Applying'' @ ellipsis)) f, t1, w1)
           | (Inr _, t1) \<Rightarrow> (Inr (), goes [Pop] (says (done_line ''Models updated'') f), t1, w1)))"

section \<open>Launcher\<close>

record launcher =
  ln_projects :: "local_project list"
  ln_index :: nat
  ln_nav :: "nav list"

definition load_projects :: "store \<Rightarrow> launcher" where
  "load_projects S = \<lparr>ln_projects = list_projects S, ln_index = 0, ln_nav = []\<rparr>"

text \<open>The cards of the list, of which one is marked.\<close>

definition project_rows :: "launcher \<Rightarrow> (local_project \<times> bool) list" where
  "project_rows l = map (\<lambda>(i, p). (p, i = ln_index l)) (enumerate 0 (ln_projects l))"

definition ln_goes :: "nav list \<Rightarrow> launcher \<Rightarrow> launcher" where "ln_goes ns l = l\<lparr>ln_nav := ln_nav l @ ns\<rparr>"

definition save_project_id :: "json \<Rightarrow> store \<Rightarrow> store" where
  "save_project_id i S = save_prefs_file
     (if i = JNull then S else S\<lparr>so_prefs := (so_prefs S)\<lparr>up_project := i\<rparr>\<rparr>)"

definition open_project :: "json \<Rightarrow> launcher \<times> store \<Rightarrow> launcher \<times> store" where
  "open_project i x = (case x of (l, S) \<Rightarrow> (ln_goes [Push (Show_Project i)] l, save_project_id i S))"

text \<open>A key, with whether a button has the focus and the role selected for a chat.\<close>

definition launcher_key :: "bool \<Rightarrow> string \<Rightarrow> string \<Rightarrow> launcher \<times> store \<Rightarrow> launcher \<times> store" where
  "launcher_key on_button role k x = (case x of (l, S) \<Rightarrow>
     if k \<in> {''up'', ''k''} then (if 0 < ln_index l then (l\<lparr>ln_index := ln_index l - 1\<rparr>, S) else (l, S))
     else if k \<in> {''down'', ''j''} then
       (if int (ln_index l) < int (length (ln_projects l)) - 1 then (l\<lparr>ln_index := ln_index l + 1\<rparr>, S) else (l, S))
     else if k = ''enter'' then
       (if on_button \<or> ln_projects l = [] then (l, S)
        else open_project (lp_id (ln_projects l ! ln_index l)) (l, S))
     else if k = ''n'' then (ln_goes [Push Show_New_Project] l, S)
     else if k = ''c'' then (ln_goes [Push (Show_Chat (JStr role))] l, S)
     else if k \<in> {''q'', ''ctrl+q''} then (ln_goes [Exit] l, S)
     else (l, S))"

text \<open>The three texts that are filled in after the start; an exception leaves a text as it is.\<close>

definition connection_line :: "'w client_env \<Rightarrow> 'w \<Rightarrow> string \<times> 'w" where
  "connection_line C w =
     (case tc_health C w of
        (Inl (Conn m), w1) \<Rightarrow> (paint RED sym_cross @ ''  ''
            @ paint RED (''orchestrator unreachable '' @ em_dash @ '' '' @ cl_base C), w1)
      | (Inl (Unexpected e), w1) \<Rightarrow> ([], w1)
      | (Inr j, w1) \<Rightarrow>
          ((case (json_get j ''version'' (JStr ''?''), json_get j ''profile'' (JStr ''?'')) of
              (Inr v, Inr pr) \<Rightarrow> paint GREEN sym_dot @ ''  ''
                @ paint OVERLAY0 (cl_base C @ ''  '' @ sym_middot @ ''  '' @ py_str (cl_fr C) pr @ ''  '' @ sym_middot
                    @ ''  v'' @ py_str (cl_fr C) v)
            | _ \<Rightarrow> []), w1))"

definition default_model_line :: "'w client_env \<Rightarrow> 'w \<Rightarrow> string \<times> 'w" where
  "default_model_line C w =
     (case tc_models_for_role C ''coder'' w of
        (Inl e, w1) \<Rightarrow> ([], w1)
      | (Inr ms, w1) \<Rightarrow>
          ((if \<not> truthy ms then []
            else case bind_result (item0 ms) (\<lambda>m. json_at m ''name'') of
              Inl e \<Rightarrow> []
            | Inr v \<Rightarrow> paint OVERLAY0 ''Default model:'' @ '' '' @ paint OVERLAY1 (py_str (cl_fr C) v)), w1))"

definition orphan_line :: "(real \<Rightarrow> string) \<Rightarrow> json \<Rightarrow> string result" where
  "orphan_line fr s =
     bind_result (obj_of s) (\<lambda>d.
     bind_result (truncate_value 40 (get_or d ''task'' (JStr []))) (\<lambda>tsk.
     bind_result (id_field d ''session_id'') (\<lambda>sid.
       Inr (''  '' @ paint YELLOW sym_left @ ''  '' @ paint TEXT (py_str fr tsk) @ ''  ''
            @ paint OVERLAY0 (take 12 sid @ ellipsis)))))"

text \<open>Rows are mounted one by one until one raises.\<close>

fun mounted :: "('a \<Rightarrow> 'b result) \<Rightarrow> 'a list \<Rightarrow> 'b list" where
  "mounted f [] = []"
| "mounted f (x # xs) = (case f x of Inl e \<Rightarrow> [] | Inr y \<Rightarrow> y # mounted f xs)"

definition orphan_rows :: "'w tui_env \<Rightarrow> store \<Rightarrow> 'w \<Rightarrow> string list \<times> 'w" where
  "orphan_rows E S w =
     (case tc_list_sessions (tv_client E) (Some ''active'') w of
        (Inl e, w1) \<Rightarrow> ([], w1)
      | (Inr active, w1) \<Rightarrow>
          ((case bind_result (known_sessions (list_projects S)) (\<lambda>known.
                   bind_result (py_iter active) (unknown_sessions known)) of
              Inl e \<Rightarrow> []
            | Inr orphans \<Rightarrow> mounted (orphan_line (cl_fr (tv_client E))) (take 5 orphans)), w1))"

section \<open>Project screen\<close>

record project_view =
  pv_header :: string
  pv_workspace :: string
  pv_sessions :: "json list"
  pv_stats :: string

definition active_count :: "json list \<Rightarrow> nat" where
  "active_count ss = length (filter (\<lambda>s. case s of JObj d \<Rightarrow> get_or d ''status'' JNull = JStr ''active'' | _ \<Rightarrow> False) ss)"

definition project_header :: "(real \<Rightarrow> string) \<Rightarrow> string \<Rightarrow> project_state \<Rightarrow> string result" where
  "project_header fr home p =
     bind_result (path_value home 40 (pj_workspace p)) (\<lambda>path.
       Inr (paint (bold BLUE) (py_str fr (pj_name p)) @ ''  '' @ paint OVERLAY0 (py_str fr path)
            @ ''  '' @ paint BLUE ''[config]'' @ ''  '' @ paint OVERLAY0 (''['' @ [CHR 0x98] @ '' back]'')))"

definition workspace_info :: "(real \<Rightarrow> string) \<Rightarrow> git_host \<Rightarrow> project_state \<Rightarrow> string result" where
  "workspace_info fr G p = (case pj_workspace p of
     JStr ws \<Rightarrow> Inr (join [nl]
       [paint OVERLAY0 ''Path:   '' @ paint TEXT ws, paint OVERLAY0 ''Branch: '' @ paint BLUE (short_status (detect_repo G ws))])
   | _ \<Rightarrow> Inl (TypeError ''expected str, bytes or os.PathLike object''))"

definition stats_line :: "json list \<Rightarrow> string" where
  "stats_line ss = paint OVERLAY0 ''Sessions: '' @ paint TEXT (nat_str (length ss)) @ ''  ''
     @ paint OVERLAY0 ''Active: '' @ paint GREEN (nat_str (active_count ss))"

definition project_mount :: "'w tui_env \<Rightarrow> git_host \<Rightarrow> string \<Rightarrow> string \<Rightarrow> store \<Rightarrow> tui \<Rightarrow> 'w
    \<Rightarrow> project_view called \<times> store \<times> tui \<times> 'w" where
  "project_mount E G home pid S t w =
     (case load_project G (tv_now E w) pid S t of
        (Inl e, S1, t1) \<Rightarrow> (Inl (Unexpected e), S1, t1, w)
      | (Inr False, S1, t1) \<Rightarrow>
          (Inr \<lparr>pv_header = paint RED ''Project not found'', pv_workspace = [], pv_sessions = [], pv_stats = []\<rparr>, S1, t1, w)
      | (Inr True, S1, t1) \<Rightarrow>
          (case tu_project t1 of
             None \<Rightarrow> (Inl (Unexpected (OtherError [])), S1, t1, w)
           | Some p \<Rightarrow>
               (case bind_result (project_header (cl_fr (tv_client E)) home p) (\<lambda>h.
                       bind_result (workspace_info (cl_fr (tv_client E)) G p) (\<lambda>i. Inr (h, i))) of
                  Inl e \<Rightarrow> (Inl (Unexpected e), S1, t1, w)
                | Inr (h, i) \<Rightarrow>
                    (case get_project_sessions E pid S1 w of
                       (Inl e, w1) \<Rightarrow> (Inl e, S1, t1, w1)
                     | (Inr ss, w1) \<Rightarrow>
                         (Inr \<lparr>pv_header = h, pv_workspace = i, pv_sessions = take 10 ss, pv_stats = stats_line ss\<rparr>,
                          S1, t1, w1)))))"

definition index_line :: "'w client_env \<Rightarrow> 'w \<Rightarrow> string \<times> 'w" where
  "index_line C w =
     (case tc_index_codebase C w of
        (Inl e, w1) \<Rightarrow> (paint ERROR (sym_cross @ ''  Index failed: '' @ called_text e), w1)
      | (Inr r, w1) \<Rightarrow>
          ((case bind_result (json_get r ''files_indexed'' (JInt 0)) (\<lambda>n.
                   bind_result (json_get r ''files_unchanged'' (JInt 0)) (\<lambda>u.
                   bind_result (json_get r ''chunks'' (JInt 0)) (\<lambda>c. Inr (n, u, c)))) of
              Inl e \<Rightarrow> paint ERROR (sym_cross @ ''  Index failed: '' @ exc_str e)
            | Inr (n, u, c) \<Rightarrow>
                (let f = py_str (cl_fr C) in
                 done_line (''Indexed '' @ f n @ '' files  ('' @ f u @ '' unchanged)  '' @ f c @ '' chunks''))), w1))"

datatype project_action = Go nav | Index

definition project_key :: "string \<Rightarrow> string \<Rightarrow> project_action option" where
  "project_key pid k =
     (if k = ''escape'' then Some (Go Pop)
      else if k = ''n'' then Some (Go (Push (Show_New_Session (JStr pid))))
      else if k = ''i'' then Some Index else None)"

definition session_selected :: "string \<Rightarrow> json \<Rightarrow> nav list" where
  "session_selected pid sid = (if truthy sid then [Push (Show_Session (JStr pid) sid)] else [])"

section \<open>Which models a panel hands over\<close>

lemma get_or_map_filter: "get_or (map (\<lambda>r. (r, f r)) rs) r dflt = (if r \<in> set rs then f r else dflt)"
  by (induction rs) (auto simp: get_or_def)

lemma map_of_choices: "map_of (map (\<lambda>r. (r, f r)) rs) r = (if r \<in> set rs then Some (f r) else None)"
  by (induction rs) auto

lemma load_options_roles: "load_options C rs w = (d, w1) \<Longrightarrow> map fst d = rs"
  by (induction rs arbitrary: w d) (auto split: prod.splits)

lemma hd_map_in: "xs \<noteq> [] \<Longrightarrow> hd (map f xs) \<in> f ` set xs"
  by (cases xs) simp_all

definition panel_ok :: "json dict \<Rightarrow> panel \<Rightarrow> bool" where
  "panel_ok current p \<longleftrightarrow> mp_loaded p \<and> mp_current p = current \<and>
     (\<forall>r v. map_of (mp_chosen p) r = Some (Some v) \<longrightarrow> v \<in> set (offered p r)) \<and>
     (\<forall>r\<in>set panel_roles. map_of (mp_chosen p) r = None \<longleftrightarrow> offered p r = [])"

lemma panel_reach_ok: "panel_reach C current p \<Longrightarrow> panel_ok current p"
proof (induction rule: panel_reach.induct)
  case (panel_open w p w1)
  then obtain os where "load_options C panel_roles w = (os, w1)"
    and p: "p = \<lparr>mp_current = current, mp_options = os,
      mp_chosen = map (\<lambda>r. (r, initial_choice \<lparr>mp_current = current, mp_options = os, mp_chosen = [], mp_loaded = True\<rparr> r))
        (filter (\<lambda>r. map snd (get_or os r []) \<noteq> []) panel_roles), mp_loaded = True\<rparr>"
    by (auto simp: load_models_def Let_def offered_def split: prod.splits)
  show ?case
    unfolding panel_ok_def p
    by (auto simp: map_of_choices offered_def initial_choice_def Let_def hd_map_in split: if_splits)
next
  case (panel_choose p v r)
  then have "offered p r \<noteq> []" by auto
  then show ?case using panel_choose by (auto simp: panel_ok_def map_of_dict_set offered_def)
next
  case (panel_clear p r)
  then show ?case by (auto simp: panel_ok_def map_of_dict_set offered_def)
qed

text \<open>Only offered models are assigned: whatever the user does, a model that the panel hands over is one that the
  server offers for the role, or the current one of a role for which nothing is offered.\<close>

theorem panel_assigns_offered:
  assumes "panel_reach C current p" "panel_apply fr p = Some ms" "(r, v) \<in> set ms"
  shows "r \<in> set panel_roles \<and>
    (if offered p r = [] then map_of current r = Some v else v \<in> (JStr \<circ> py_str fr) ` set (offered p r))"
proof -
  have ok: "panel_ok current p" using assms(1) by (rule panel_reach_ok)
  have r: "r \<in> set panel_roles" and v: "role_choice fr p r = Some v"
    using assms(2,3) by (auto simp: panel_apply_def map_filter_def split: if_splits)
  then show ?thesis
    using ok by (auto simp: panel_ok_def role_choice_def split: option.splits if_splits)
qed

definition offering :: "json list \<Rightarrow> unit client_env" where
  "offering ms = \<lparr>cl_base = [], cl_connected = True,
     cl_get = (\<lambda>path ps w. (Inr \<lparr>hr_status = 200,
       hr_body = json_dumps (\<lambda>_. []) (JObj [(''models'', JList (if ps = [(''role'', ''coder'')] then ms else []))])\<rparr>, w)),
     cl_post = (\<lambda>path body w. (Inl (OtherError []), w)), cl_fr = (\<lambda>_. [])\<rparr>"

lemma offering_options:
  assumes "plain_json (JList ms)"
  shows "options_of (offering ms) r w =
    ((case each (panel_option_of (\<lambda>_. [])) (if r = ''coder'' then ms else []) of Inl e \<Rightarrow> [] | Inr os \<Rightarrow> os), w)"
proof -
  have "plain_json (JObj [(''models'', JList (if r = ''coder'' then ms else []))])" using assms by simp
  then show ?thesis
    by (simp add: options_of_def tc_models_for_role_def get_call_def offering_def list_of_def raise_for_status_def
        reply_json_def json_loads_dumps json_get_def as_dict_def get_or_def py_iter_def map_filter_def
        del: json_dumps.simps)
qed

text \<open>A current model that is not offered any more is replaced by the first that is, without a choice of the user.\<close>

definition swapped_panel :: panel where
  "swapped_panel = fst (load_models (offering [JObj [(''name'', JStr ''new'')]]) [(''coder'', JStr ''old''), (''tester'', JStr ''t'')] ())"

theorem panel_assigns_offered_witness:
  "panel_apply (\<lambda>_. []) swapped_panel = Some [(''coder'', JStr ''new''), (''tester'', JStr ''t'')] \<and>
   JStr ''new'' \<in> (JStr \<circ> py_str (\<lambda>_. [])) ` set (offered swapped_panel ''coder'')"
proof -
  let ?m = "JObj [(''name'', JStr ''new'')]"
  have o: "panel_option_of (\<lambda>_. []) ?m = Inr (''new  '' @ sym_ring @ ''  0k ctx'', JStr ''new'')" by code_simp
  have l: "load_models (offering [?m]) [(''coder'', JStr ''old''), (''tester'', JStr ''t'')] () = (swapped_panel, ())"
    by (simp add: swapped_panel_def prod_eq_iff)
  have "load_options (offering [?m]) panel_roles () =
      (map (\<lambda>r. (r, if r = ''coder'' then [(''new  '' @ sym_ring @ ''  0k ctx'', JStr ''new'')] else [])) panel_roles, ())"
    by (simp add: panel_roles_def offering_options o)
  then have s: "panel_apply (\<lambda>_. []) swapped_panel = Some [(''coder'', JStr ''new''), (''tester'', JStr ''t'')]"
    "offered swapped_panel ''coder'' = [JStr ''new'']"
    by (simp_all add: swapped_panel_def load_models_def Let_def panel_apply_def role_choice_def initial_choice_def
        offered_def get_or_def panel_roles_def map_filter_def)
  from panel_open [OF l] panel_assigns_offered [of _ _ _ "\<lambda>_. []", OF _ s(1), of _ _ "''coder''" "JStr ''new''"] s
  show ?thesis by fastforce
qed

section \<open>The launcher opens a project of its list\<close>

definition launcher_ok :: "store \<Rightarrow> launcher \<Rightarrow> bool" where
  "launcher_ok S l \<longleftrightarrow> ln_projects l = list_projects S \<and>
     (ln_index l < length (ln_projects l) \<or> ln_projects l = [] \<and> ln_index l = 0) \<and>
     (\<forall>i. Push (Show_Project i) \<in> set (ln_nav l) \<longrightarrow> i \<in> lp_id ` set (list_projects S))"

lemma launcher_moves:
  assumes "launcher_ok S l"
  shows "launcher_ok S (l\<lparr>ln_index := ln_index l - 1\<rparr>)"
    "int (ln_index l) < int (length (ln_projects l)) - 1 \<Longrightarrow> launcher_ok S (l\<lparr>ln_index := ln_index l + 1\<rparr>)"
    "ln_projects l \<noteq> [] \<Longrightarrow> launcher_ok S (ln_goes [Push (Show_Project (lp_id (ln_projects l ! ln_index l)))] l)"
    "\<forall>i. n \<noteq> Push (Show_Project i) \<Longrightarrow> launcher_ok S (ln_goes [n] l)"
  using assms by (auto simp: launcher_ok_def ln_goes_def)

lemma fst_if: "(c \<Longrightarrow> P (fst a)) \<Longrightarrow> (\<not> c \<Longrightarrow> P (fst b)) \<Longrightarrow> P (fst (if c then a else b))"
  by simp

lemma launcher_key_ok: "launcher_ok S l \<Longrightarrow> launcher_ok S (fst (launcher_key b role k (l, S1)))"
  unfolding launcher_key_def prod.case open_project_def
  by (intro fst_if [where P = "launcher_ok S"]) (simp_all add: launcher_moves launcher_moves(1,2) [simplified])

text \<open>Whatever keys are pressed, the marked project exists when there is one, and only projects of the list are opened.\<close>

lemma launcher_opens_listed:
  "launcher_ok S (fst (fold (\<lambda>(b, role, k). launcher_key b role k) ks (load_projects S, S)))"
proof -
  have "launcher_ok S (fst x) \<Longrightarrow> launcher_ok S (fst (fold (\<lambda>(b, role, k). launcher_key b role k) ks x))" for x
  proof (induction ks arbitrary: x)
    case (Cons k ks)
    obtain b role key where k: "k = (b, role, key)" by (cases k)
    have "launcher_ok S (fst (launcher_key b role key x))"
      using launcher_key_ok [OF Cons.prems] by (metis prod.collapse)
    then show ?case using Cons.IH by (simp add: k)
  qed simp
  moreover have "launcher_ok S (load_projects S)" by (auto simp: launcher_ok_def load_projects_def)
  ultimately show ?thesis by simp
qed

text \<open>The launcher repeats the search of the project service for sessions without a project; both give the same ones.\<close>

lemma launcher_orphans_agree:
  assumes "find_orphan_sessions E S w = (Inr rs, w1)"
  shows "orphan_rows E S w = (mounted (orphan_line (cl_fr (tv_client E))) (take 5 rs), w1)"
proof (cases "fst (tc_list_sessions (tv_client E) (Some ''active'') w)")
  case (Inl e)
  then show ?thesis using assms
    by (cases e) (auto simp: find_orphan_sessions_def orphan_rows_def split: prod.splits)
next
  case (Inr active)
  then obtain ss known where "tc_list_sessions (tv_client E) (Some ''active'') w = (Inr active, w1)"
    "py_iter active = Inr ss" "known_sessions (list_projects S) = Inr known" "unknown_sessions known ss = Inr rs"
    using assms by (auto simp: find_orphan_sessions_def lift_called_def split: prod.splits sum.splits)
  then show ?thesis by (simp add: orphan_rows_def)
qed

section \<open>Connection, router and preferences\<close>

text \<open>Through its callback the interface always shows the status of the supervisor.\<close>

lemma connection_shown:
  "ui_connection (tu_ui (fold on_connection_change (sv_notices (supervise_all ps)) initial_tui)) = sv_status (supervise_all ps)"
proof (induction ps rule: rev_induct)
  case Nil show ?case by (simp add: supervise_all_def new_supervisor_def initial_tui_def initial_ui_def)
next
  case (snoc p ps)
  have set_status: "ui_connection (tu_ui (fold on_connection_change (sv_notices (set_sv_status v s)) initial_tui)) = v"
    if "ui_connection (tu_ui (fold on_connection_change (sv_notices s) initial_tui)) = sv_status s" for v s
    using that by (simp add: set_sv_status_def on_connection_change_def set_connection_def)
  have kept: "sv_notices (sleep n s) = sv_notices s" for n s by (simp add: sleep_def)
  show ?case
    using snoc by (cases p) (auto simp: supervise_all_snoc Let_def kept set_status)
qed

text \<open>The calls of the screens are calls the router knows.\<close>

lemma router_knows_screens [simp]:
  "push_screen ''session'' [(''project_id'', p), (''session_id'', s)] = Inr (Show_Session p s)"
  "push_screen ''project'' [(''project_id'', p)] = Inr (Show_Project p)"
  "push_screen ''new_session'' [(''project_id'', p)] = Inr (Show_New_Session p)"
  "push_screen ''model_config'' [(''session_id'', s)] = Inr (Show_Model_Config s)"
  "push_screen ''chat'' [(''role'', r)] = Inr (Show_Chat r)"
  "push_screen ''new_project'' [] = Inr Show_New_Project"
  "push_screen ''logs'' [] = Inr Show_Logs" "push_screen ''help'' [] = Inr Show_Help"
  by (simp_all add: push_screen_def kwarg_def get_or_def)

text \<open>The stored preferences, which the screens keep writing, never decide what the program shows first.\<close>

lemma preferences_not_restored:
  "initial_screen A (S\<lparr>so_prefs := u\<rparr>) = initial_screen A S"
proof -
  have "list_projects (S\<lparr>so_prefs := u\<rparr>) = list_projects S" by (simp add: list_projects_def)
  then have "resolve_project A (S\<lparr>so_prefs := u\<rparr>) = resolve_project A S"
    by (simp add: resolve_project_def project_of_session_def split: option.split)
  then show ?thesis by (simp add: initial_screen_def)
qed

text \<open>A form that is not filled in asks nobody, and a created project is the one the preferences name.\<close>

lemma incomplete_project_form:
  "strip name = [] \<or> strip ws = [] \<or> strip tsk = [] \<Longrightarrow> snd (np_create E h name ws tsk ms f S w) = (S, w)"
  by (auto simp: np_create_def np_missing_def)

lemma saved_ids: "so_prefs (save_ui_state (Some p) (Some s) None None S) =
    (so_prefs S)\<lparr>up_project := JStr p, up_session := JStr s\<rparr>"
  by (simp add: save_ui_state_def save_prefs_file_def kept_def Let_def)

lemma created_project_preferred:
  assumes "np_create E h name ws tsk ms f S w = (f1, S1, w1)"
    "Push (Show_Session (JStr pid) (JStr sid)) \<in> set (fm_nav f1)" "fm_nav f = []"
  shows "up_project (so_prefs S1) = JStr pid \<and> up_session (so_prefs S1) = JStr sid"
  using assms
  by (auto simp: np_create_def goes_def says_def saved_ids split: if_splits option.splits prod.splits sum.splits)

end
