(* ===== verification/Tui_Props.thy ===== *)
theory Tui_Props
  imports Tui_Service Executor_Client Api_Chat
begin

text \<open>
  Properties of the terminal interface and of its composition with the orchestrator: the state
  stays in order under every operation of the service, events published by an agent arrive as
  changes of the state, and messages and commands that get lost on the way.
\<close>

section \<open>Every operation keeps the state in order\<close>

text \<open>
  Who may receive a text typed into the input bar: after \<open>@target\<close> the agent with that id or one with that role,
  otherwise the architect, and only in a session without an architect an agent that is running.
\<close>

definition addressed :: "string \<Rightarrow> tui_session \<Rightarrow> string \<Rightarrow> agent_info \<Rightarrow> string \<Rightarrow> bool" where
  "addressed raw s aid a message \<longleftrightarrow> (case at_target (strip raw) of
     Some (hint, rest) \<Rightarrow> message = strip rest \<and> message \<noteq> [] \<and> (aid = hint \<or> ai_role a = JStr hint)
   | None \<Rightarrow> message = strip raw \<and> (aid = ''architect'' \<or> ai_role a = JStr ''architect'' \<or>
       ai_status a = JStr ''running'' \<and>
       list_all (\<lambda>(i, b). i \<noteq> ''architect'' \<and> ai_role b \<noteq> JStr ''architect'') (ts_agents s)))"

text \<open>Sending a text is one request to the message endpoint of that agent, logged when it is accepted.\<close>

definition posts_message :: "'w tui_env \<Rightarrow> string \<Rightarrow> string \<Rightarrow> tui \<Rightarrow> 'w \<Rightarrow> (unit, 'w) act \<Rightarrow> bool" where
  "posts_message E aid message t w x \<longleftrightarrow>
     (case post_call (tv_client E) (''/v1/agents/'' @ aid @ ''/message'')
             [(''message'', JStr message), (''sender'', JStr ''user'')] w of
        (Inr _, w1) \<Rightarrow> \<exists>entry. x = (Inr (), add_log E (JStr ''user'') ''message'' (JStr entry) w1 t, w1)
      | (Inl _, w1) \<Rightarrow> x = (Inr (), t, w1))"

lemma deliver_posts: "posts_message E aid m t w (deliver E aid m entry t w)"
proof -
  obtain r w1 where p: "post_call (tv_client E) (''/v1/agents/'' @ aid @ ''/message'')
      [(''message'', JStr m), (''sender'', JStr ''user'')] w = (r, w1)" by fastforce
  show ?thesis
  proof (cases r)
    case (Inl e)
    then obtain x where "e = Conn x" using post_call_error p by (metis fst_conv)
    then show ?thesis using Inl p by (simp add: posts_message_def deliver_def tc_send_message_def guarded_def)
  next
    case (Inr j)
    then show ?thesis using p by (auto simp: posts_message_def deliver_def tc_send_message_def guarded_def)
  qed
qed

lemma posts_message_world:
  "posts_message E aid m t w x \<Longrightarrow> snd (snd x) = snd (post_call (tv_client E) (''/v1/agents/'' @ aid @ ''/message'')
     [(''message'', JStr m), (''sender'', JStr ''user'')] w)"
  by (auto simp: posts_message_def split: prod.splits sum.splits)

lemma registered_agent:
  assumes "tui_ok t" "tu_session t = Some s" "(k, a) \<in> set (ts_agents s)"
  shows "map_of (ts_agents s) (ai_id a) = Some a"
proof -
  have "map_of (ts_agents s) k = Some a" using assms by (simp add: tui_ok_def session_ok_def)
  moreover from this have "ai_id a = k" using assms(1,2) by (auto simp: tui_ok_def session_ok_def)
  ultimately show ?thesis by simp
qed

lemma resolve_agent_by_role:
  assumes "tui_ok t" "tu_session t = Some s" "resolve_agent hint t = Some aid"
  shows "\<exists>a. map_of (ts_agents s) aid = Some a \<and> (aid = hint \<or> ai_role a = JStr hint)"
proof (cases "hint \<in> fst ` set (ts_agents s)")
  case True
  then have "aid = hint" "map_of (ts_agents s) hint \<noteq> None"
    using assms(2,3) by (simp_all add: resolve_agent_def map_of_eq_None_iff)
  then show ?thesis by auto
next
  case False
  define xs where "xs = (let by_role = filter (\<lambda>a. ai_role a = JStr hint) (dict_values (ts_agents s));
    running = filter (\<lambda>a. ai_status a = JStr ''running'') by_role in if running \<noteq> [] then running else by_role)"
  have xs: "xs \<noteq> []" "aid = ai_id (hd xs)" "set xs \<subseteq> {a \<in> set (dict_values (ts_agents s)). ai_role a = JStr hint}"
    using False assms(2,3) by (auto simp: xs_def resolve_agent_def Let_def split: if_splits)
  have "hd xs \<in> {a \<in> set (dict_values (ts_agents s)). ai_role a = JStr hint}"
    by (rule subsetD [OF xs(3) hd_in_set [OF xs(1)]])
  then obtain k where "(k, hd xs) \<in> set (ts_agents s)" "ai_role (hd xs) = JStr hint"
    by (auto simp: dict_values_def)
  then show ?thesis using registered_agent [OF assms(1,2)] xs(2) by blast
qed

lemma resolve_agent_None:
  assumes "tu_session t = Some s" "resolve_agent hint t = None"
  shows "list_all (\<lambda>(i, b). i \<noteq> hint \<and> ai_role b \<noteq> JStr hint) (ts_agents s)"
proof -
  have "hint \<notin> fst ` set (ts_agents s)" "filter (\<lambda>a. ai_role a = JStr hint) (dict_values (ts_agents s)) = []"
    using assms by (auto simp: resolve_agent_def Let_def split: if_splits)
  then show ?thesis by (auto simp: list_all_iff dict_values_def filter_empty_conv rev_image_eqI)
qed

lemma svc_send_message_routed:
  assumes "tui_ok t"
  shows "svc_send_message E raw t w = (Inr (), t, w) \<or> (\<exists>s aid a m. tu_session t = Some s \<and>
    map_of (ts_agents s) aid = Some a \<and> addressed raw s aid a m \<and>
    posts_message E aid m t w (svc_send_message E raw t w))"
proof (cases "tu_session t")
  case None
  then show ?thesis by (simp add: svc_send_message_def)
next
  case s: (Some s)
  show ?thesis
  proof (cases "at_target (strip raw)")
    case (Some hr)
    obtain hint rest where hr: "hr = (hint, rest)" by fastforce
    show ?thesis
    proof (cases "strip rest = [] \<or> resolve_agent hint t = None")
      case True
      then show ?thesis using s Some hr by (auto simp: svc_send_message_def Let_def)
    next
      case False
      then obtain aid where aid: "resolve_agent hint t = Some aid" "strip rest \<noteq> []" by auto
      obtain a where "map_of (ts_agents s) aid = Some a" "addressed raw s aid a (strip rest)"
        using resolve_agent_by_role [OF assms s aid(1)] aid(2) Some hr by (auto simp: addressed_def)
      moreover have "svc_send_message E raw t w = deliver E aid (strip rest) (CHR 0x40 # hint @ '': '' @ strip rest) t w"
        using s Some hr aid by (simp add: svc_send_message_def Let_def)
      ultimately show ?thesis using s deliver_posts by metis
    qed
  next
    case None
    show ?thesis
    proof (cases "resolve_agent ''architect'' t")
      case (Some aid)
      obtain a where "map_of (ts_agents s) aid = Some a" "addressed raw s aid a (strip raw)"
        using resolve_agent_by_role [OF assms s Some] None by (auto simp: addressed_def)
      moreover have "svc_send_message E raw t w = deliver E aid (strip raw) (strip raw) t w"
        using s None Some by (simp add: svc_send_message_def Let_def)
      ultimately show ?thesis using s deliver_posts by metis
    next
      case no: None
      show ?thesis
      proof (cases "running_agents s")
        case Nil
        then show ?thesis using s None no by (simp add: svc_send_message_def Let_def)
      next
        case (Cons a as)
        then have "a \<in> set (running_agents s)" by simp
        then have "a \<in> set (dict_values (ts_agents s))" "ai_status a = JStr ''running''"
          by (simp_all add: running_agents_def)
        then have "map_of (ts_agents s) (ai_id a) = Some a" "addressed raw s (ai_id a) a (strip raw)"
          using registered_agent [OF assms s] None resolve_agent_None [OF s no]
          by (auto simp: dict_values_def addressed_def)
        moreover have "svc_send_message E raw t w = deliver E (ai_id a) (strip raw) (strip raw) t w"
          using s None no Cons by (simp add: svc_send_message_def Let_def)
        ultimately show ?thesis using s deliver_posts by metis
      qed
    qed
  qed
qed

text \<open>C34: whatever the server answers, whatever the user types and whatever events arrive, in every order, the
  state of the interface stays within its bounds: at most ten notifications and five hundred log
  entries, no two agents, tasks or patches with one id, the patch counter right.  In every such state
  sending a text typed into the input bar does nothing at all or is one request to the message endpoint of an agent
  the session holds: the one the text names by id or role, the architect when it names none,
  or, in a session without an architect, a running agent.  Commands such as \<open>/kill\<close>, which carry an id as
  typed, are not messages and not covered.\<close>

theorem tui_service_invariant:
  assumes "svc_reach E t w0"
  shows "length (ui_notes (tu_ui t)) \<le> 10 \<and>
    (case tu_session t of
       None \<Rightarrow> svc_send_message E raw t w = (Inr (), t, w)
     | Some s \<Rightarrow> length (ts_log s) \<le> 500 \<and> distinct (map fst (ts_agents s)) \<and> distinct (map fst (ts_tasks s)) \<and>
         distinct (map fst (ts_patches s)) \<and> ts_patch_count s = applied_count (ts_patches s) \<and>
         (svc_send_message E raw t w = (Inr (), t, w) \<or>
          (\<exists>aid a m. map_of (ts_agents s) aid = Some a \<and> addressed raw s aid a m \<and>
             posts_message E aid m t w (svc_send_message E raw t w))))"
proof -
  have ok: "tui_ok t" using assms by (rule svc_reach_ok)
  show ?thesis
  proof (cases "tu_session t")
    case None
    then show ?thesis using ok by (simp add: tui_ok_def svc_send_message_def)
  next
    case (Some s)
    then show ?thesis using ok svc_send_message_routed [OF ok, of E raw w] by (auto simp: tui_ok_def session_ok_def)
  qed
qed

section \<open>Commands\<close>

definition server_commands :: "string list" where
  "server_commands = [''architect'', ''execute'', ''status'', ''index'', ''memory'', ''review'', ''test'', ''debate'',
     ''learn'', ''spawn'', ''kill'', ''end'']"

text \<open>What a command of the input bar can do.  Only \<open>/end\<close> changes the state, and it clears the session
  whatever the server answers; a command outside the known ones never reaches the server.\<close>

theorem inline_command_effects:
  "fst (snd (handle_inline_command E cmd t w)) = (if command_name cmd = ''end'' then clear_session t else t) \<and>
   (snd (snd (handle_inline_command E cmd t w)) = w \<or> command_name cmd \<in> set server_commands)"
proof -
  have "snd (served_inline E s name args w) = w \<or> name \<in> set server_commands" for s name args
    by (simp add: served_inline_def Let_def server_commands_def)
  note served = this
  have e: "''end'' \<in> set server_commands" by (simp add: server_commands_def)
  have "snd (snd (handle_inline_command E cmd t w)) = w \<or> command_name cmd \<in> set server_commands"
  proof (cases "tu_session t")
    case (Some s)
    then show ?thesis
      using served [of s "command_name cmd" "command_args cmd"] e
      by (cases "command_name cmd = ''end''") (auto simp: handle_inline_command_def split: sum.split prod.split)
  qed (simp add: handle_inline_command_def)
  with handle_inline_state [of E cmd t w] show ?thesis by blast
qed

section \<open>Events of the agents\<close>

lemma work_complete_state:
  assumes "tu_session t = Some s" "map_of (ts_agents s) aid = Some a" "aid \<noteq> []"
  shows "handle_ws_event fr now (event_json \<lparr>ev_type = Work_Complete, ev_session = sid, ev_agent = Some aid,
        ev_payload = work_complete_payload g content i n latency, ev_ts = ts\<rparr>) t =
    (Inr ([''dag-sidebar'', pane_id aid] @ (if i = 0 \<and> n = 0 then [] else [''header-bar''])),
     t\<lparr>tu_session := Some (s\<lparr>
       ts_agents := dict_set (ts_agents s) aid (a\<lparr>ai_status := JStr ''done''\<rparr>),
       ts_tokens := ts_tokens s + i + n,
       ts_log := (let l = ts_log s @ [\<lparr>le_ts = now, le_source = JStr aid, le_type = ''work_complete'',
                      le_content = JStr (take 200 content)\<rparr>] in drop (length l - 500) l)\<rparr>)\<rparr>)"
proof -
  have k: "known_agent s (JStr aid) = Inr (Some aid)"
    using assms(2,3) by (auto simp: known_agent_def dom_map_of_conv_image_fst [symmetric])
  let ?s1 = "log_event now (JStr aid) ''work_complete'' (JStr (take 200 content)) (mark_agent aid ''done'' s)"
  have f: "agent_finished now (JStr aid) ''done'' ''work_complete'' ''result_preview'' (JObj (work_complete_payload g content i n latency)) s
      = (Inr [''dag-sidebar'', pane_id aid], ?s1)"
    using assms(3) by (simp add: agent_finished_def k json_get_def as_dict_def work_complete_payload_def get_or_def json_or_def)
  have c: "json_get (JObj (work_complete_payload g content i n latency)) ''tokens_in'' (JInt 0) = Inr (JInt i)"
      "json_get (JObj (work_complete_payload g content i n latency)) ''tokens_out'' (JInt 0) = Inr (JInt n)"
    by (simp_all add: json_get_def as_dict_def work_complete_payload_def get_or_def)
  have "on_work_complete now (JStr aid) (JObj (work_complete_payload g content i n latency)) s =
      (Inr ([''dag-sidebar'', pane_id aid] @ (if i = 0 \<and> n = 0 then [] else [''header-bar''])),
       if i = 0 \<and> n = 0 then ?s1 else add_tokens (i + n) ?s1)"
    by (simp add: on_work_complete_def f c add_counts_def int_of_json_def)
  moreover have "(if i = 0 \<and> n = 0 then ?s1 else add_tokens (i + n) ?s1) = s\<lparr>
       ts_agents := dict_set (ts_agents s) aid (a\<lparr>ai_status := JStr ''done''\<rparr>),
       ts_tokens := ts_tokens s + i + n,
       ts_log := (let l = ts_log s @ [\<lparr>le_ts = now, le_source = JStr aid, le_type = ''work_complete'',
                      le_content = JStr (take 200 content)\<rparr>] in drop (length l - 500) l)\<rparr>"
    using assms(2) by (simp add: log_event_def mark_agent_def add_tokens_def Let_def)
  ultimately show ?thesis using assms(1)
    by (simp add: handle_ws_event_def event_json_def as_dict_def session_event_def get_or_def Let_def)
qed

lemma work_complete_effect:
  assumes "tu_session t = Some s" "map_of (ts_agents s) aid = Some a" "aid \<noteq> []"
  shows "\<exists>ids s1. handle_ws_event fr now (event_json \<lparr>ev_type = Work_Complete, ev_session = sid, ev_agent = Some aid,
        ev_payload = work_complete_payload g content i n latency, ev_ts = ts\<rparr>) t = (Inr ids, t\<lparr>tu_session := Some s1\<rparr>) \<and>
     map_of (ts_agents s1) = (map_of (ts_agents s))(aid \<mapsto> a\<lparr>ai_status := JStr ''done''\<rparr>) \<and>
     ts_tokens s1 = ts_tokens s + i + n \<and> ts_tasks s1 = ts_tasks s \<and> ts_patches s1 = ts_patches s \<and>
     last (ts_log s1) = \<lparr>le_ts = now, le_source = JStr aid, le_type = ''work_complete'', le_content = JStr (take 200 content)\<rparr>"
  unfolding work_complete_state [OF assms] by (intro exI conjI, rule refl) (simp_all add: Let_def last_drop)

text \<open>C35: what an agent publishes arrives.  The event of a finished run, sent as the frame of the WebSocket, sets
  the agent of the session to done, adds its tokens to the counter and appends one entry with the
  beginning of the answer to the log, of which the last five hundred entries are kept.  Nothing else of the
  session or the interface changes, and the panes told to redraw are the sidebar, the pane of the agent and,
  when there are tokens, the header.\<close>

theorem work_complete_arrives:
  assumes "tu_session t = Some s" "map_of (ts_agents s) aid = Some a" "aid \<noteq> []"
  shows "handle_ws_event fr now (event_json \<lparr>ev_type = Work_Complete, ev_session = sid, ev_agent = Some aid,
        ev_payload = work_complete_payload g content i n latency, ev_ts = ts\<rparr>) t =
    (Inr ([''dag-sidebar'', pane_id aid] @ (if i = 0 \<and> n = 0 then [] else [''header-bar''])),
     t\<lparr>tu_session := Some (s\<lparr>
       ts_agents := dict_set (ts_agents s) aid (a\<lparr>ai_status := JStr ''done''\<rparr>),
       ts_tokens := ts_tokens s + i + n,
       ts_log := (let l = ts_log s @ [\<lparr>le_ts = now, le_source = JStr aid, le_type = ''work_complete'',
                      le_content = JStr (take 200 content)\<rparr>] in drop (length l - 500) l)\<rparr>)\<rparr>)"
  by (rule work_complete_state [OF assms])

definition shown_agent :: "string \<Rightarrow> string \<Rightarrow> string \<Rightarrow> json dict" where
  "shown_agent aid role st = [(''agent_id'', JStr aid), (''role'', JStr role), (''status'', JStr st), (''session_id'', JStr ''s'')]"

text \<open>A session with an architect that has finished and a coder that runs.\<close>

definition two_agents :: tui where
  "two_agents = snd (tui_step (Tui_Agent 0 (shown_agent ''c'' ''coder'' ''running''))
     (snd (tui_step (Tui_Agent 0 (shown_agent ''a'' ''architect'' ''done''))
       (init_session 0 ''s'' (JStr ''t'') (JObj []) initial_tui))))"

definition quiet_env :: "(string \<Rightarrow> json \<Rightarrow> 'w \<Rightarrow> http_reply result \<times> 'w) \<Rightarrow> 'w tui_env" where
  "quiet_env post = \<lparr>tv_client = \<lparr>cl_base = [], cl_connected = True,
     cl_get = (\<lambda>path ps w. (Inl (OtherError ''refused''), w)), cl_post = post, cl_fr = (\<lambda>_. [])\<rparr>, tv_now = (\<lambda>_. 0)\<rparr>"

lemma two_agents_reach: "svc_reach E two_agents w"
proof -
  have step: "svc_reach E (snd (tui_step oper t)) w" if "svc_reach E t w" for oper t
    by (rule svc_go [OF that, of "Ui_Step oper"]) simp
  have "svc_reach E (init_session 0 ''s'' (JStr ''t'') (JObj []) initial_tui) w"
    using step [OF svc_start, of "Tui_Init 0 ''s'' (JStr ''t'') (JObj [])"] by simp
  from step [OF step [OF this]] show ?thesis unfolding two_agents_def .
qed

lemma two_agents_session:
  "\<exists>s. tu_session two_agents = Some s \<and> map fst (ts_agents s) = [''a'', ''c''] \<and>
     map ai_status (dict_values (ts_agents s)) = [JStr ''done'', JStr ''running''] \<and> ts_tokens s = 0 \<and> ts_log s = []"
  by (simp add: two_agents_def on_session_def init_session_def upsert_agent_def shown_agent_def id_field_def get_or_def
      dict_values_def)

lemma two_agents_resolve: "resolve_agent ''architect'' two_agents = Some ''a''"
  by (simp add: two_agents_def on_session_def init_session_def upsert_agent_def shown_agent_def id_field_def get_or_def
      dict_values_def resolve_agent_def)

theorem tui_service_invariant_witness:
  "\<exists>s aid a. tu_session two_agents = Some s \<and> map_of (ts_agents s) aid = Some a \<and>
     addressed ''@coder use tabs'' s aid a ''use tabs'' \<and>
     snd (snd (svc_send_message (quiet_env (\<lambda>path _ w. (Inr \<lparr>hr_status = 200, hr_body = ''{}''\<rparr>, w @ [path])))
       ''@coder use tabs'' two_agents [])) = [''/v1/agents/'' @ aid @ ''/message'']"
proof -
  let ?E = "quiet_env (\<lambda>path _ w. (Inr \<lparr>hr_status = 200, hr_body = ''{}''\<rparr>, w @ [path]))"
  obtain s where s: "tu_session two_agents = Some s" using two_agents_session by blast
  have posts: "snd (post_call (tv_client ?E) path body []) = [path]" for path body
    by (simp add: quiet_env_def post_call_def)
  have "at_target (strip ''@coder use tabs'') = Some (''coder'', ''use tabs'')" "strip ''use tabs'' = ''use tabs''"
    by code_simp+
  note target = this
  have "snd (snd (svc_send_message ?E ''@coder use tabs'' two_agents [])) \<noteq> []"
  proof -
    have "resolve_agent ''coder'' two_agents = Some ''c''"
      by (simp add: two_agents_def on_session_def init_session_def upsert_agent_def shown_agent_def id_field_def get_or_def
          dict_values_def resolve_agent_def)
    then have "svc_send_message ?E ''@coder use tabs'' two_agents [] =
        deliver ?E ''c'' ''use tabs'' (CHR 0x40 # ''coder'' @ '': '' @ ''use tabs'') two_agents []"
      using s target by (simp add: svc_send_message_def Let_def)
    moreover have "snd (snd (deliver ?E aid m e t [])) \<noteq> []" for aid m e t
      unfolding posts_message_world [OF deliver_posts] posts by simp
    ultimately show ?thesis by (simp only: not_False_eq_True)
  qed
  then have "svc_send_message ?E ''@coder use tabs'' two_agents [] \<noteq> (Inr (), two_agents, [])" by auto
  then obtain aid a m where a: "map_of (ts_agents s) aid = Some a" "addressed ''@coder use tabs'' s aid a m"
      "posts_message ?E aid m two_agents [] (svc_send_message ?E ''@coder use tabs'' two_agents [])"
    using tui_service_invariant [OF two_agents_reach [of ?E "[]"], of "''@coder use tabs''" "[]"] s by auto
  have m: "m = ''use tabs''" using a(2) target by (simp add: addressed_def)
  have "snd (snd (svc_send_message ?E ''@coder use tabs'' two_agents [])) = [''/v1/agents/'' @ aid @ ''/message'']"
    using posts_message_world [OF a(3)] posts by simp
  with s a m show ?thesis by blast
qed

theorem work_complete_arrives_witness:
  "\<exists>s a. tu_session two_agents = Some s \<and> map_of (ts_agents s) ''c'' = Some a \<and>
     handle_ws_event (\<lambda>_. []) 1 (event_json \<lparr>ev_type = Work_Complete, ev_session = ''s'', ev_agent = Some ''c'',
        ev_payload = work_complete_payload busy_agent ''done'' 3 4 0, ev_ts = 1\<rparr>) two_agents =
       (Inr [''dag-sidebar'', pane_id ''c'', ''header-bar''], two_agents\<lparr>tu_session := Some (s\<lparr>
          ts_agents := dict_set (ts_agents s) ''c'' (a\<lparr>ai_status := JStr ''done''\<rparr>), ts_tokens := 7,
          ts_log := [\<lparr>le_ts = 1, le_source = JStr ''c'', le_type = ''work_complete'', le_content = JStr ''done''\<rparr>]\<rparr>)\<rparr>)"
proof -
  obtain s where both: "tu_session two_agents = Some s \<and> map fst (ts_agents s) = [''a'', ''c''] \<and>
     map ai_status (dict_values (ts_agents s)) = [JStr ''done'', JStr ''running''] \<and> ts_tokens s = 0 \<and> ts_log s = []"
    using two_agents_session ..
  then have s: "tu_session two_agents = Some s" "map fst (ts_agents s) = [''a'', ''c'']" "ts_tokens s = 0" "ts_log s = []"
    by simp_all
  from s(2) have "''c'' \<in> set (map fst (ts_agents s))" by simp
  then have "map_of (ts_agents s) ''c'' \<noteq> None" by (simp add: map_of_eq_None_iff)
  then obtain a where a: "map_of (ts_agents s) ''c'' = Some a" by blast
  from work_complete_arrives [OF s(1) a, of "\<lambda>_. []" 1 "''s''" busy_agent "''done''" 3 4 0 1] s a
  show ?thesis by (simp add: Let_def)
qed

section \<open>Messages that get lost\<close>

text \<open>The orchestrator's message endpoint behind the client.\<close>

definition route_post :: "string \<Rightarrow> json \<Rightarrow> agents \<Rightarrow> http_reply result \<times> agents" where
  "route_post path body ags =
     (if startswith path ''/v1/agents/'' \<and> suffix ''/message'' path then
        (case agent_message_ep (take (length path - 19) (drop 11 path)) (str_field body ''message'' []) ags of
           (r, ags1) \<Rightarrow> (Inr (http_answer r), ags1))
      else (Inr (http_error (HTTPException 404 ''Not Found'')), ags))"

lemma route_message:
  "route_post (''/v1/agents/'' @ aid @ ''/message'') body ags =
     (case agent_message_ep aid (str_field body ''message'' []) ags of (r, ags1) \<Rightarrow> (Inr (http_answer r), ags1))"
proof -
  have "take (length (''/v1/agents/'' @ aid @ ''/message'') - 19) (drop 11 (''/v1/agents/'' @ aid @ ''/message'')) = aid"
    by simp
  moreover have "suffix ''/message'' (''/v1/agents/'' @ aid @ ''/message'')" by (simp add: suffix_def)
  ultimately show ?thesis by (simp only: route_post_def) (simp add: route_post_def prefix_def)
qed

text \<open>C39: a message without a target can get lost.  It is sent to the agent that \<open>resolve_agent\<close> picks for the
  name architect whenever the session holds one; when that agent has ended on the server, the orchestrator refuses the message, the refusal is
  only logged, and nothing shows in the event log, whatever other agents are running.\<close>

theorem ended_architect_swallows:
  assumes "cl_connected (tv_client E)" "cl_post (tv_client E) = route_post"
    and "tu_session t = Some s" "at_target (strip raw) = None" "resolve_agent ''architect'' t = Some aid"
    and "map_of ags aid = Some a" "terminal (ag_status a)"
  shows "svc_send_message E raw t ags = (Inr (), t, ags)"
proof -
  have "agent_message_ep aid m ags = (Inl (HTTPException 409 (''Agent '' @ py_repr aid @ '' is in terminal state (''
      @ agent_state_str (ag_status a) @ '') and cannot receive messages'')), ags)" for m
    using assms(6,7) by (simp add: agent_message_ep_def Agent_Manager.send_message_def)
  then have "\<exists>m. tc_send_message (tv_client E) aid (strip raw) ''user'' ags = (Inl (Conn m), ags)"
    using assms(1,2) route_message [of aid _ ags]
    by (simp add: tc_send_message_def post_call_def http_answer_def http_error_def raise_for_status_def del: append.simps)
  then obtain m where "tc_send_message (tv_client E) aid (strip raw) ''user'' ags = (Inl (Conn m), ags)" ..
  then have "deliver E aid (strip raw) (strip raw) t ags = (Inr (), t, ags)"
    by (simp add: deliver_def guarded_def)
  then show ?thesis using assms(3-5) by (simp add: svc_send_message_def Let_def)
qed

definition ended_agent :: agent where
  "ended_agent = busy_agent\<lparr>ag_id := ''a'', ag_role := ''architect'', ag_status := Agent_Done, ag_inbox := []\<rparr>"

theorem ended_architect_swallows_witness:
  "map ai_status (case tu_session two_agents of None \<Rightarrow> [] | Some s \<Rightarrow> running_agents s) = [JStr ''running''] \<and>
   svc_send_message (quiet_env route_post) ''use tabs'' two_agents [(''a'', ended_agent), (''c'', busy_agent)] =
     (Inr (), two_agents, [(''a'', ended_agent), (''c'', busy_agent)])"
proof -
  obtain s where "tu_session two_agents = Some s \<and> map fst (ts_agents s) = [''a'', ''c''] \<and>
     map ai_status (dict_values (ts_agents s)) = [JStr ''done'', JStr ''running''] \<and> ts_tokens s = 0 \<and> ts_log s = []"
    using two_agents_session ..
  then have s: "tu_session two_agents = Some s"
      "map ai_status (dict_values (ts_agents s)) = [JStr ''done'', JStr ''running'']" by simp_all
  have "at_target (strip ''use tabs'') = None" by code_simp
  moreover have "terminal (ag_status ended_agent)" by (simp add: ended_agent_def terminal_def)
  ultimately have "svc_send_message (quiet_env route_post) ''use tabs'' two_agents [(''a'', ended_agent), (''c'', busy_agent)] =
     (Inr (), two_agents, [(''a'', ended_agent), (''c'', busy_agent)])"
    using ended_architect_swallows [OF _ _ s(1) _ two_agents_resolve, of "quiet_env route_post" "''use tabs''"
      "[(''a'', ended_agent), (''c'', busy_agent)]" ended_agent] by (simp add: quiet_env_def)
  moreover have "map ai_status (running_agents s) = filter (\<lambda>v. v = JStr ''running'') (map ai_status (dict_values (ts_agents s)))"
    by (simp add: running_agents_def filter_map o_def)
  ultimately show ?thesis using s by simp
qed

section \<open>Commands in the chat\<close>

lemma sse_data_object: "sse_data (CHR ''{'' # r) = None"
proof -
  have "lstrip (CHR ''{'' # r) = CHR ''{'' # r" by (simp add: lstrip_def py_space_def)
  moreover obtain bs where "CHR ''{'' # r = rstrip (CHR ''{'' # r) @ bs" using rstrip_decomp by blast
  ultimately have "strip (CHR ''{'' # r) = [] \<or> (\<exists>u. strip (CHR ''{'' # r) = CHR ''{'' # u)"
    by (cases "rstrip (CHR ''{'' # r)") (auto simp: strip_def)
  then show ?thesis by (auto simp: sse_data_def Let_def)
qed

text \<open>C40: the answer to a command is not shown in the chat.  The orchestrator answers a chat message that is a
  command with one JSON document, also when a stream was asked for, and the client, which reads only
  data lines, yields no text for it and no error.\<close>

theorem chat_command_shows_nothing:
  assumes "parse (ap_uuid A w) (map flatten_message (rq_messages rq)) = Some c"
    and "chat_completions A rq s w = Some (Inr x, s1, w1)"
  shows "\<exists>d. x = RawDict d \<and> chat_stream [Inr (json_dumps fr (JObj d))] = ([], None)"
proof -
  obtain d where x: "x = RawDict d"
    using assms by (auto simp: chat_completions_def)
  obtain r where "json_dumps fr (JObj d) = CHR ''{'' # r" by (cases "d = []") simp_all
  then show ?thesis using x sse_data_object by simp
qed

definition status_request :: chat_request where
  "status_request = \<lparr>rq_model = ''m'', rq_messages = [\<lparr>msg_role = ''user'', msg_content = CText ''/status'', msg_name = None\<rparr>],
     rq_stream = True, rq_temperature = None, rq_max_tokens = None, rq_top_p = None, rq_extra = []\<rparr>"

theorem chat_command_shows_nothing_witness:
  "\<forall>A s w. \<exists>d. chat_completions A status_request s w = Some (Inr (RawDict d), s, w) \<and>
     chat_stream [Inr (json_dumps (\<lambda>_. []) (JObj d))] = ([], None)"
proof (intro allI)
  fix A :: "'w app" and s :: app_state and w :: 'w
  have m: "match_command commands ''/status'' = Some (''status'', [])" "strip ''/status'' = ''/status''" by code_simp+
  have "map flatten_message (rq_messages status_request) = rq_messages status_request"
    by (simp add: status_request_def flatten_message_def)
  then have p: "parse (ap_uuid A w) (map flatten_message (rq_messages status_request)) = Some (parsed (ap_uuid A w) ''status'' [])"
    by (simp add: status_request_def parse_def extract_text_def m)
  then have "chat_completions A status_request s w = Some (Inr (RawDict (make_response A (status_text A s w) ''orchestrator'' w)), s, w)"
    by (simp add: chat_completions_def handle_command_def parsed_def)
  with chat_command_shows_nothing [OF p this, of "\<lambda>_. []"]
  show "\<exists>d. chat_completions A status_request s w = Some (Inr (RawDict d), s, w) \<and>
     chat_stream [Inr (json_dumps (\<lambda>_. []) (JObj d))] = ([], None)" by auto
qed

end
