(* ===== verification/Tui_Form_Props.thy ===== *)
theory Tui_Form_Props
  imports Tui_Forms Tui_Props
begin

text \<open>
  The model configuration screen in front of the orchestrator: the request goes through the client to
  the endpoint and the session manager, whose state is in Redis.  The theorem shows that the screen and
  the stored session agree on the models after every attempt, accepted or refused.
\<close>

section \<open>Configuring models through the session manager\<close>

context session_host
begin

lemma configure_reads:
  assumes "sessions_ok (sess_view w)" "read_state E sid w = Some s"
  obtains s1 w1 where "configure_models E sid models w = (s1, w1)" "read_state E sid w1 = Some s1"
    "ss_models s1 = dict_update (ss_models s) models"
proof -
  let ?w = "hset_all R (models_key sid) models w" and ?s = "s\<lparr>ss_models := dict_update (ss_models s) models\<rparr>"
  note H = hset_all_ok [OF assms(1), of sid models]
  have s: "ss_id s = sid" "db w (state_key sid) = Some (RStr (state_json s))"
    using read_state_id [OF sessions_ok_typed [OF assms(1)] assms(2)] by simp_all
  then have r: "read_state E sid ?w = Some s" using H read_state_view [of ?w sid] by simp
  obtain s1 w1 where ws: "write_state E ?s ?w = (s1, w1)" by fastforce
  have pre: "sessions_typed (db ?w)" "\<And>x. x \<noteq> ss_id ?s \<Longrightarrow> in_sync x (sess_view ?w)" using H s by auto
  show thesis
  proof
    show "configure_models E sid models w = (s1, w1)" using r ws by (simp add: configure_models_def env_redis Let_def)
    show "read_state E sid w1 = Some s1" using read_after_write [OF pre ws] s by simp
    show "ss_models s1 = dict_update (ss_models s) models" using write_state_view [OF pre ws] by simp
  qed
qed

end

section \<open>The endpoint behind the client\<close>

definition texts :: "string dict \<Rightarrow> json dict" where "texts d = map (\<lambda>(k, v). (k, JStr v)) d"

fun text_items :: "json dict \<Rightarrow> string dict" where
  "text_items [] = []"
| "text_items ((k, JStr v) # d) = (k, v) # text_items d"
| "text_items (_ # d) = text_items d"

definition route_configure :: "config \<Rightarrow> 'w session_env \<Rightarrow> registry \<Rightarrow> string \<Rightarrow> json \<Rightarrow> 'w
    \<Rightarrow> http_reply result \<times> 'w" where
  "route_configure C SE g path body w =
     (if path = ''/v1/session/configure'' then
        (case session_configure_ep C SE g
            (case body_field body ''session_id'' of Some (JStr s) \<Rightarrow> Some s | _ \<Rightarrow> None)
            (case body_field body ''models'' of Some (JObj d) \<Rightarrow> Some (text_items d) | _ \<Rightarrow> None) w of
           (r, w1) \<Rightarrow> (Inr (http_answer r), w1))
      else (Inr (http_error (HTTPException 404 ''Not Found'')), w))"

lemma text_items_texts [simp]: "text_items (texts d) = d"
  by (induction d) (auto simp: texts_def)

lemma keys_texts [simp]: "map fst (texts d) = map fst d"
  by (auto simp: texts_def)

lemma texts_set: "texts (dict_set d k v) = dict_set (texts d) k (JStr v)"
  by (induction d k v rule: dict_set.induct) (simp_all add: texts_def)

lemma texts_update: "texts (dict_update d e) = dict_update (texts d) (texts e)"
proof (induction e arbitrary: d)
  case Nil show ?case by (simp add: dict_update_def texts_def)
next
  case (Cons kv e)
  then show ?case by (cases kv) (simp add: dict_update_def texts_def flip: texts_set [unfolded texts_def])
qed

lemma distinct_update: "distinct (map fst d) \<Longrightarrow> distinct (map fst (dict_update d e))"
  by (induction e arbitrary: d) (auto simp: dict_update_def split: prod.splits)

text \<open>What the client makes of the two kinds of answers.\<close>

lemma refused_configure:
  assumes "cl_connected X" "cl_post X = route_configure C SE g"
    and "session_configure_ep C SE g (Some sid) (Some new) w = (Inl (HTTPException 400 m), w)"
  shows "\<exists>e. tc_configure_models X sid (texts new) w = (Inl (Conn e), w)"
  using assms by (simp add: tc_configure_models_def post_call_def route_configure_def body_field_def http_answer_def
      http_error_def raise_for_status_def)

lemma accepted_configure:
  assumes "cl_connected X" "cl_post X = route_configure C SE g"
    and "session_configure_ep C SE g (Some sid) (Some new) w = (Inr d, w1)" "plain_json (JObj d)"
  shows "tc_configure_models X sid (texts new) w = (Inr (JObj d), w1)"
  using assms(1-3) json_loads_dumps [OF assms(4), of "\<lambda>_. []"]
  by (simp add: tc_configure_models_def post_call_def route_configure_def body_field_def http_answer_def
      raise_for_status_def reply_json_def del: json_dumps.simps)

section \<open>The screen and the stored session agree\<close>

text \<open>C36: the interface never shows other models than the orchestrator uses.  When the models shown for a session are
  the stored ones, they still are after applying a choice of models: an accepted one is merged the same
  way on both sides and closes the screen, a refused one changes neither and leaves it open.\<close>

theorem configured_models_agree:
  assumes "session_host R db ttl SE" "sessions_ok (db w, ttl w)" "read_state SE sid w = Some st"
    and "cl_connected (tv_client E)" "cl_post (tv_client E) = route_configure C SE g"
    and "tu_session t = Some s" "ts_models s = JObj (texts (ss_models st))"
    and "distinct (map fst (ss_models st))" "\<not> fm_busy f"
  shows "\<exists>f1 t1 w1 s1 st1. mc_apply E sid (texts new) f t w = (Inr (), f1, t1, w1) \<and>
    tu_session t1 = Some s1 \<and> read_state SE sid w1 = Some st1 \<and> ts_models s1 = JObj (texts (ss_models st1)) \<and>
    (if fm_nav f1 = fm_nav f then t1 = t \<and> w1 = w
     else fm_nav f1 = fm_nav f @ [Pop] \<and> ss_models st1 = dict_update (ss_models st) new)"
proof (cases "new = [] \<or> unknown_models g new \<noteq> []")
  case True
  then have "\<exists>m. session_configure_ep C SE g (Some sid) (Some new) w = (Inl (HTTPException 400 m), w)"
    by (cases "new = []") (simp_all add: session_configure_ep_def given_def bad_models_error_def)
  then obtain m where "session_configure_ep C SE g (Some sid) (Some new) w = (Inl (HTTPException 400 m), w)" ..
  from refused_configure [OF assms(4,5) this] obtain e
    where "tc_configure_models (tv_client E) sid (texts new) w = (Inl (Conn e), w)" ..
  then have "mc_apply E sid (texts new) f t w = (Inr (), says (fail_line e) f, t, w)"
    using assms(9) by (simp add: mc_apply_def)
  moreover have "fm_nav (says (fail_line e) f) = fm_nav f" by (simp add: says_def)
  ultimately show ?thesis using assms(3,6,7) by auto
next
  case False
  obtain st1 w1 where c: "configure_models SE sid new w = (st1, w1)" "read_state SE sid w1 = Some st1"
    "ss_models st1 = dict_update (ss_models st) new"
    using session_host.configure_reads [OF assms(1-3)] by blast
  define d where "d = [(''session_id'', JStr sid), (''models'', JObj (texts (ss_models st1))),
    (''configured'', JBool True), (''ttl_seconds'', JInt (limit C ''SESSION_TTL''))]"
  have "distinct (map fst (ss_models st1))" using assms(8) distinct_update c(3) by simp
  then have plain: "plain_json (JObj d)" by (simp add: d_def list_all_iff texts_def split_beta comp_def)
  have "session_configure_ep C SE g (Some sid) (Some new) w = (Inr d, w1)"
    using False c(1) by (simp add: session_configure_ep_def given_def d_def texts_def)
  from accepted_configure [OF assms(4,5) this plain]
  have "mc_apply E sid (texts new) f t w =
      (Inr (), goes [Pop] (says (done_line ''Models updated'') f),
       t\<lparr>tu_session := Some (s\<lparr>ts_models := JObj (dict_update (texts (ss_models st)) (texts new))\<rparr>)\<rparr>, w1)"
    using assms(6,7,9) by (simp add: mc_apply_def on_session_def update_models_def)
  moreover have "fm_nav (goes [Pop] (says (done_line ''Models updated'') f)) = fm_nav f @ [Pop]"
    by (simp add: goes_def says_def)
  ultimately show ?thesis using c(2,3) by (auto simp: texts_update)
qed

definition started :: mem where
  "started = run_op demo_sessions (Op_Create ''t'' (Some ''s'') [(''coder'', ''m'')] []) []"

definition showing :: tui where
  "showing = init_session 0 ''s'' (JStr ''t'') (JObj [(''coder'', JStr ''m'')]) initial_tui"

theorem configured_models_agree_witness:
  "\<forall>C g. \<exists>f1 t1 w1 s1 st1.
     mc_apply (quiet_env (route_configure C demo_sessions g)) ''s'' (texts [(''tester'', ''n'')]) new_form showing started =
       (Inr (), f1, t1, w1) \<and>
     tu_session t1 = Some s1 \<and> read_state demo_sessions ''s'' w1 = Some st1 \<and> ts_models s1 = JObj (texts (ss_models st1))"
proof (intro allI)
  fix C :: config and g :: registry
  have "sess_reach demo_sessions [] started" unfolding started_def by (intro sess_step sess_start)
  then have ok: "sessions_ok (mem_db started, mem_ttl started)"
    using demo_host.reach_ok sessions_ok_empty by blast
  have "map_option ss_models (read_state demo_sessions ''s'' started) = Some [(''coder'', ''m'')]" by code_simp
  then obtain st where st: "read_state demo_sessions ''s'' started = Some st" "ss_models st = [(''coder'', ''m'')]"
    by auto
  obtain s where s: "tu_session showing = Some s" "ts_models s = JObj (texts (ss_models st))"
    by (simp add: showing_def init_session_def texts_def st json_or_def)
  have "distinct (map fst (ss_models st))" "\<not> fm_busy new_form" by (simp_all add: st new_form_def)
  from configured_models_agree [OF demo_host.session_host_axioms ok st(1) _ _ s this, of
      "quiet_env (route_configure C demo_sessions g)" C g "[(''tester'', ''n'')]"]
  show "\<exists>f1 t1 w1 s1 st1.
     mc_apply (quiet_env (route_configure C demo_sessions g)) ''s'' (texts [(''tester'', ''n'')]) new_form showing started =
       (Inr (), f1, t1, w1) \<and>
     tu_session t1 = Some s1 \<and> read_state demo_sessions ''s'' w1 = Some st1 \<and> ts_models s1 = JObj (texts (ss_models st1))"
    by (auto simp: quiet_env_def)
qed

end
