(* ===== verification/Tui_Log.thy ===== *)
theory Tui_Log
  imports Tui_Form_Props
begin

text \<open>
  What the session and chat screens write into their conversation logs, what the command palette,
  the input bar, the event log (\<open>screens/logs.py\<close>) and the help screen (\<open>screens/help.py\<close>) show, and the keys of
  the two main screens.  A log is the list of the texts handed to its \<open>write\<close>.  The theorems show that a finished
  agent is announced once, and which documented keys no screen handles.
\<close>

section \<open>The log of a session\<close>

text \<open>Texts are written one by one until computing one raises.\<close>

definition writes :: "string result list \<Rightarrow> unit result \<times> string list" where
  "writes xs = (case find (\<lambda>x. \<exists>e. x = Inl e) xs of Some (Inl e) \<Rightarrow> Inl e | _ \<Rightarrow> Inr (), mounted id xs)"

definition system_line :: "string \<Rightarrow> string" where "system_line m = paint OVERLAY0 m"

definition user_lines :: "string \<Rightarrow> string list" where
  "user_lines txt = [[], paint (bold BLUE) ''You'' @ ''  '' @ rule_line 46, ''  '' @ paint TEXT txt, []]"

definition agent_header :: "(real \<Rightarrow> string) \<Rightarrow> json \<Rightarrow> json \<Rightarrow> string result" where
  "agent_header fr role model =
     bind_result (role_color role) (\<lambda>rc.
     bind_result (case role of JStr r \<Rightarrow> Inr (upper r) | v \<Rightarrow> Inl (attr_error v ''upper'')) (\<lambda>name.
       Inr (paint (bold rc) name @ (if truthy model then ''  '' @ paint OVERLAY0 (py_str fr model) else [])
            @ ''  '' @ rule_line 46)))"

text \<open>\<open>f"{x/1000:.1f}"\<close>.\<close>

definition seconds :: "(real \<Rightarrow> string) \<Rightarrow> json \<Rightarrow> string result" where
  "seconds f1 ms = (case ms of
     JInt n \<Rightarrow> Inr (f1 (of_int n / 1000)) | JFloat x \<Rightarrow> Inr (f1 (x / 1000)) | JBool b \<Rightarrow> Inr (f1 (of_bool b / 1000))
   | _ \<Rightarrow> Inl (TypeError (''unsupported operand type(s) for /: '' @ type_name ms @ '' and int'')))"

definition agent_done :: "(real \<Rightarrow> string) \<Rightarrow> (real \<Rightarrow> string) \<Rightarrow> json \<Rightarrow> json \<Rightarrow> json \<Rightarrow> string result" where
  "agent_done fr f1 role tokens ms =
     bind_result (seconds f1 ms) (\<lambda>secs.
       Inr ([nl] @ ''  '' @ paint OVERLAY0 (sym_tick @ '' '' @ py_str fr role @ '' done  '' @ py_str fr tokens @ '' tokens  ''
              @ secs @ ''s'') @ [nl]))"

text \<open>\<open>", ".join(v[:n])\<close>.\<close>

definition joined_prefix :: "nat \<Rightarrow> json \<Rightarrow> string result" where
  "joined_prefix n v = (case v of
     JStr s \<Rightarrow> Inr (join '', '' (map (\<lambda>c. [c]) (take n s)))
   | JList xs \<Rightarrow> bind_result (each (\<lambda>x. case x of JStr s \<Rightarrow> Inr s
        | _ \<Rightarrow> Inl (TypeError (''sequence item: expected str instance, '' @ type_name x @ '' found''))) (take n xs))
       (\<lambda>ss. Inr (join '', '' ss))
   | _ \<Rightarrow> Inl (TypeError ([CHR 0x27] @ type_name v @ [CHR 0x27] @ '' object is not subscriptable'')))"

definition patch_line_of :: "(real \<Rightarrow> string) \<Rightarrow> json \<Rightarrow> json \<Rightarrow> string result" where
  "patch_line_of fr files pid =
     bind_result (joined_prefix 3 files) (\<lambda>fs.
     bind_result (slice_to 10 pid) (\<lambda>p.
       Inr (''  '' @ paint GREEN (sym_tick @ '' patch applied'') @ ''  '' @ paint OVERLAY1 fs @ ''  ''
            @ paint OVERLAY0 (py_str fr p))))"

definition test_line :: "(real \<Rightarrow> string) \<Rightarrow> json \<Rightarrow> json \<Rightarrow> string" where
  "test_line fr summary passed =
     ''  '' @ paint (if truthy passed then GREEN else RED)
       ((if truthy passed then sym_tick else sym_cross) @ '' tests: '' @ py_str fr summary)"

text \<open>The lines of a finished agent whose stream was not shown.\<close>

definition completed_lines :: "(real \<Rightarrow> string) \<Rightarrow> (real \<Rightarrow> string) \<Rightarrow> agent_info \<Rightarrow> json dict \<Rightarrow> string result list" where
  "completed_lines fr f1 a p =
     (let preview = get_or p ''result_preview'' (JStr []) in
      [agent_header fr (ai_role a) (json_or (ai_model a) (JStr []))]
      @ (if truthy preview then [Inr (''  '' @ py_str fr preview)] else [])
      @ [agent_done fr f1 (ai_role a) (get_or p ''tokens_out'' (JInt 0)) (get_or p ''latency_ms'' (JInt 0))])"

definition shown_agent_of :: "json \<Rightarrow> string list \<Rightarrow> tui \<Rightarrow> agent_info option result" where
  "shown_agent_of aid streamed t = (case aid of
     JStr i \<Rightarrow> Inr (if i = [] \<or> i \<in> set streamed then None
       else (case tu_session t of None \<Rightarrow> None | Some s \<Rightarrow> map_of (ts_agents s) i))
   | JList (_ # _) \<Rightarrow> Inl (TypeError ''unhashable type: list'')
   | JObj (_ # _) \<Rightarrow> Inl (TypeError ''unhashable type: dict'')
   | _ \<Rightarrow> Inr None)"

text \<open>The payload is used by the branch of the type only.\<close>

definition event_lines :: "(real \<Rightarrow> string) \<Rightarrow> (real \<Rightarrow> string) \<Rightarrow> string list \<Rightarrow> json dict \<Rightarrow> tui \<Rightarrow> string result list" where
  "event_lines fr f1 streamed ev t =
     (let ty = get_or ev ''type'' (JStr []); payload = get_or ev ''payload'' (JObj []);
          p = as_dict payload; with_payload = (\<lambda>f. case p of Inl e \<Rightarrow> [Inl e] | Inr d \<Rightarrow> f d)
      in if ty = JStr ''work_complete'' then
           (case shown_agent_of (get_or ev ''agent_id'' (JStr [])) streamed t of
              Inl e \<Rightarrow> [Inl e] | Inr None \<Rightarrow> [] | Inr (Some a) \<Rightarrow> with_payload (completed_lines fr f1 a))
         else if ty = JStr ''work_failed'' then
           with_payload (\<lambda>d. [Inr ([nl] @ ''  '' @ paint RED (sym_cross @ '' '' @ py_str fr (get_or d ''role'' (JStr ''agent''))
              @ '' failed: '' @ py_str fr (get_or d ''error'' (JStr ''unknown error''))) @ [nl])])
         else if ty = JStr ''patch_applied'' then
           with_payload (\<lambda>d. [patch_line_of fr (get_or d ''files'' (JList [])) (get_or d ''patch_id'' (JStr []))])
         else if ty = JStr ''test_result'' then
           with_payload (\<lambda>d. [Inr (test_line fr (get_or d ''summary'' (JStr [])) (get_or d ''passed'' (JBool False)))])
         else if ty = JStr ''status'' then
           with_payload (\<lambda>d. if get_or d ''lifecycle'' JNull = JStr ''ended'' then [Inr (system_line ''Session ended.'')] else [])
         else [])"

text \<open>The handler of the screen: first the service changes the state, then the log is written.\<close>

definition screen_event :: "(real \<Rightarrow> string) \<Rightarrow> (real \<Rightarrow> string) \<Rightarrow> real \<Rightarrow> string list \<Rightarrow> json \<Rightarrow> tui \<Rightarrow> string list
    \<Rightarrow> unit result \<times> tui \<times> string list" where
  "screen_event fr f1 now streamed ev t lg =
     (case as_dict ev of
        Inl e \<Rightarrow> (Inl e, t, lg)
      | Inr d \<Rightarrow>
          (case handle_ws_event fr now ev t of
             (Inl e, t1) \<Rightarrow> (Inl e, t1, lg)
           | (Inr _, t1) \<Rightarrow> (case writes (event_lines fr f1 streamed d t1) of (r, ls) \<Rightarrow> (r, t1, lg @ ls))))"

text \<open>The stream of an agent: every token counts and is written, then the line that ends it.\<close>

definition stream_agent :: "(real \<Rightarrow> string) \<Rightarrow> (real \<Rightarrow> string) \<Rightarrow> json \<Rightarrow> string list \<Rightarrow> real \<Rightarrow> tui \<Rightarrow> string list
    \<Rightarrow> unit result \<times> tui \<times> string list" where
  "stream_agent fr f1 role tokens elapsed t lg =
     (case writes (map Inr tokens @ [agent_done fr f1 role (JInt (int (length tokens))) (JFloat elapsed)]) of
        (r, ls) \<Rightarrow> (r, snd (on_session (\<lambda>s. (Inr (), fold (\<lambda>_. add_tokens 1) tokens s)) t), lg @ ls))"

definition start_stream_log :: "(real \<Rightarrow> string) \<Rightarrow> string \<Rightarrow> json \<Rightarrow> json \<Rightarrow> screen \<Rightarrow> string list \<Rightarrow> unit result \<times> screen \<times> string list" where
  "start_stream_log fr aid role model sn lg =
     (if aid \<in> set (sn_streamed sn) then (Inr (), sn, lg)
      else (case writes [agent_header fr role model] of (r, ls) \<Rightarrow> (r, start_stream aid sn, lg @ ls)))"

definition session_mount :: "'w tui_env \<Rightarrow> string \<Rightarrow> store \<Rightarrow> tui \<Rightarrow> 'w \<Rightarrow> unit result \<times> bool \<times> store \<times> tui \<times> 'w" where
  "session_mount E sid S t w =
     (case load_session E sid t w of
        (Inl e, t1, w1) \<Rightarrow> (Inl e, True, S, t1, w1)
      | (Inr _, t1, w1) \<Rightarrow>
          (Inr (), ui_dag_open (tu_ui t1), save_ui_state None (Some sid) (Some ''session'') None S, t1, w1))"

text \<open>One round of the refresh loop: a call that raises ends the round.\<close>

definition refresh_round :: "'w tui_env \<Rightarrow> string \<Rightarrow> tui \<Rightarrow> 'w \<Rightarrow> tui \<times> 'w" where
  "refresh_round E sid t w =
     (case refresh_tasks E sid t w of
        (Inl e, t1, w1) \<Rightarrow> (t1, w1)
      | (Inr _, t1, w1) \<Rightarrow> (case refresh_agents E sid t1 w1 of (r, t2, w2) \<Rightarrow> (t2, w2)))"

text \<open>A command run from the palette: what is shown, and what goes to the log.\<close>

definition cmd_output :: "string \<Rightarrow> string" where "cmd_output txt = paint OVERLAY0 sym_angle @ '' '' @ txt"

definition run_cmd_and_show :: "'w tui_env \<Rightarrow> string \<Rightarrow> tui \<Rightarrow> string list \<Rightarrow> 'w
    \<Rightarrow> json result \<times> string option \<times> string list \<times> tui \<times> 'w" where
  "run_cmd_and_show E cmd t lg w =
     (case handle_inline_command E cmd t w of (r, t1, w1) \<Rightarrow>
        if \<not> truthy r then (Inr r, None, lg, t1, w1)
        else case r of
          JStr x \<Rightarrow> if startswith x ''__'' then (Inr r, None, lg, t1, w1)
             else (Inr r, Some (cmd_output x), (if length x > 60 then lg @ [system_line x] else lg), t1, w1)
        | _ \<Rightarrow> (Inl (attr_error r ''startswith''), None, lg, t1, w1))"

section \<open>Keys\<close>

datatype key_action =
    Toggle_Sidebar | Cancel_Agents | Cycle_Role | Cycle_Model | Do_Nav nav

definition screen_key :: "string \<Rightarrow> string \<Rightarrow> bool \<Rightarrow> string \<Rightarrow> key_action option" where
  "screen_key pid sid typing k =
     (if k = ''d'' \<and> \<not> typing then Some Toggle_Sidebar
      else if k = ''l'' \<and> \<not> typing then Some (Do_Nav (Push Show_Logs))
      else if k = ''m'' \<and> \<not> typing then Some (Do_Nav (Push (Show_Model_Config (JStr sid))))
      else if k = ''question_mark'' \<and> \<not> typing then Some (Do_Nav (Push Show_Help))
      else if k = ''n'' \<and> \<not> typing then Some (Do_Nav (Push (Show_New_Session (JStr pid))))
      else if k = ''p'' \<and> \<not> typing then Some (Do_Nav (Push (Show_Project (JStr pid))))
      else if k = ''f'' \<and> \<not> typing then None
      else if k = ''ctrl+c'' then Some Cancel_Agents
      else if k = ''ctrl+q'' then Some (Do_Nav Exit)
      else if k = ''escape'' \<and> \<not> typing then Some (Do_Nav (Push (Show_Project (JStr pid))))
      else None)"

definition chat_key :: "bool \<Rightarrow> string \<Rightarrow> key_action option" where
  "chat_key typing k =
     (if k = ''r'' \<and> \<not> typing then Some Cycle_Role
      else if k = ''m'' \<and> \<not> typing then Some Cycle_Model
      else if k = ''escape'' then Some (Do_Nav Pop)
      else if k = ''ctrl+q'' then Some (Do_Nav Exit) else None)"

section \<open>The chat log\<close>

definition role_line :: "string \<Rightarrow> string" where
  "role_line role = paint (bold (get_or ROLE_COLORS role LAVENDER)) (upper role) @ ''  '' @ rule_line 46"

definition turn_lines :: "string \<Rightarrow> string \<times> string \<Rightarrow> string list" where
  "turn_lines role m = (case m of (r, content) \<Rightarrow>
     if r = ''user'' then user_lines content
     else if r = ''assistant'' then [role_line role, ''  '' @ content, []] else [])"

definition redraw_history :: "string \<Rightarrow> (string \<times> string) list \<Rightarrow> string list" where
  "redraw_history role h =
     system_line (paint OVERLAY0 ''r=role  m=model  Esc=back'')
     # concat (map (turn_lines role) (butlast h))
     @ (if h = [] then [] else if fst (last h) = ''user'' then turn_lines role (last h) else [])"

text \<open>The tokens that could be added to the answer, and whether one could not.\<close>

fun text_prefix :: "json list \<Rightarrow> string list" where
  "text_prefix (JStr x # xs) = x # text_prefix xs"
| "text_prefix _ = []"

definition chat_error_line :: "json list \<Rightarrow> client_error option \<Rightarrow> string list" where
  "chat_error_line xs err =
     (case drop (length (text_prefix xs)) xs of
        x # _ \<Rightarrow> [[nl] @ ''  '' @ paint ERROR (sym_cross @ '' Error: can only concatenate str (not '' @ [CHR 0x22]
           @ type_name x @ [CHR 0x22] @ '') to str'')]
      | [] \<Rightarrow> (case err of
            None \<Rightarrow> []
          | Some (Conn m) \<Rightarrow> [[nl] @ ''  '' @ paint ERROR (sym_cross @ '' Connection error: '' @ m)]
          | Some (Unexpected e) \<Rightarrow> [[nl] @ ''  '' @ paint ERROR (sym_cross @ '' Error: '' @ exc_str e)]))"

text \<open>The log while a message is sent: with the first token the log is drawn anew.\<close>

definition chat_log :: "string \<Rightarrow> (string \<times> string) list \<Rightarrow> string \<Rightarrow> json list \<times> client_error option \<Rightarrow> string list \<Rightarrow> string list" where
  "chat_log role h txt ans lg = (case ans of (xs, err) \<Rightarrow>
     (if xs = []
      then lg @ user_lines txt @ [role_line role, ''  '' @ paint SKY (sym_left @ ''  thinking'' @ ellipsis)]
      else redraw_history role (h @ [(''user'', txt)]) @ [role_line role] @ text_prefix xs)
     @ chat_error_line xs err @ [[]])"

definition chat_mount :: "'w tui_env \<Rightarrow> string \<Rightarrow> chat \<Rightarrow> store \<Rightarrow> string list \<Rightarrow> 'w \<Rightarrow> chat \<times> store \<times> string list \<times> 'w" where
  "chat_mount E hex8 c S lg w =
     (case chat_init E c w of (c1, w1) \<Rightarrow>
        (c1,
         save_projects (S\<lparr>so_chats := take 20 (\<lparr>ch_id = JStr (''chat-'' @ hex8), ch_role = JStr (ct_role c1),
           ch_model = ct_model c1, ch_url = JStr (cl_base (tv_client E)), ch_started = JFloat (tv_now E w1)\<rparr> # so_chats S)\<rparr>),
         lg @ [system_line (''Connected '' @ sym_middot @ '' '' @ paint (get_or ROLE_COLORS (ct_role c1) LAVENDER) (ct_role c1)
           @ '' '' @ sym_middot @ '' ''
           @ paint OVERLAY1 (py_str (cl_fr (tv_client E)) (json_or (ct_model c1) (JStr ''default''))) @ ''  ''
           @ paint OVERLAY0 ''r=role  m=model  Esc=back'')], w1))"

section \<open>The event log, the palette, the input hint and the help\<close>

text \<open>\<open>f"{v:<n}"\<close> of any value.\<close>

definition pad_any :: "(real \<Rightarrow> string) \<Rightarrow> nat \<Rightarrow> json \<Rightarrow> string result" where
  "pad_any fr n v = (case v of
     JInt i \<Rightarrow> Inr (ljust n (int_str i)) | JFloat x \<Rightarrow> Inr (ljust n (fr x)) | JBool b \<Rightarrow> Inr (ljust n (if b then ''1'' else ''0''))
   | _ \<Rightarrow> pad_value n v)"

definition log_view_line :: "(real \<Rightarrow> string) \<Rightarrow> (real \<Rightarrow> string) \<Rightarrow> log_entry \<Rightarrow> string result" where
  "log_view_line fr date ev =
     bind_result (pad_any fr 12 (le_source ev)) (\<lambda>src.
     bind_result (slice_to 120 (le_content ev)) (\<lambda>content.
       Inr (paint OVERLAY0 (date (le_ts ev)) @ ''  ''
            @ paint (case le_source ev of JStr s \<Rightarrow> if s \<in> set panel_roles then get_or ROLE_COLORS s LAVENDER else OVERLAY0
                | _ \<Rightarrow> OVERLAY0) src @ ''  ''
            @ paint BLUE (ljust 16 (le_type ev)) @ ''  '' @ paint TEXT (py_str fr content))))"

definition log_view :: "(real \<Rightarrow> string) \<Rightarrow> (real \<Rightarrow> string) \<Rightarrow> tui \<Rightarrow> string list" where
  "log_view fr date t =
     (case tu_session t of
        None \<Rightarrow> [paint OVERLAY0 ''No events yet in this session.'']
      | Some s \<Rightarrow> if ts_log s = [] then [paint OVERLAY0 ''No events yet in this session.'']
          else mounted (log_view_line fr date) (ts_log s))"

text \<open>Names, arguments and descriptions of the palette.\<close>

definition palette_commands :: "(string \<times> string \<times> string) list" where
  "palette_commands = [
     (''architect'', ''<task>'', ''Generate implementation plan''),
     (''execute'', [], ''Execute the task queue (DAG)''),
     (''review'', ''<text>'', ''Review code or a plan''),
     (''test'', ''<task>'', ''Write tests for a task''),
     (''debate'', ''<topic>'', ''Architect vs Reviewer debate (opt-in)''),
     (''memory'', ''<query>'', ''Search past session memories''),
     (''spawn'', ''<role>'', ''Spawn a specific agent role''),
     (''kill'', ''<agent_id>'', ''Send interrupt to running agent''),
     (''model'', [], ''Open model configuration overlay''),
     (''index'', [], ''Re-index the codebase (AST-aware)''),
     (''status'', [], ''Show system status inline''),
     (''learn'', [], ''Extract reusable skill from session''),
     (''end'', [], ''End this session with a summary''),
     (''help'', [], ''Open keybinding reference'')]"

definition palette_row :: "bool \<Rightarrow> string \<Rightarrow> string" where
  "palette_row marked name = (case get_or palette_commands name ([], []) of (args, desc) \<Rightarrow>
     (if marked then paint (bold MAUVE) ''>'' @ '' '' else ''  '')
     @ paint (bold (if marked then BLUE else TEXT)) (CHR ''/'' # name)
     @ paint OVERLAY1 (ljust 16 (if args = [] then [] else CHR '' '' # args)) @ ''  '' @ paint OVERLAY0 desc)"

definition render_list :: "palette \<Rightarrow> string" where
  "render_list p =
     (if pt_filtered p = [] then paint OVERLAY0 ''No matching commands''
      else join [nl] (map (\<lambda>(i, n). palette_row (i = pt_selected p) n) (enumerate 0 (pt_filtered p))))"

definition input_hint :: "string \<Rightarrow> string" where
  "input_hint v =
     (if startswith v ''@'' then paint BLUE ''@'' @ paint TEXT ''agent'' @ ''  '' @ paint OVERLAY0 ''route to specific agent''
      else if startswith v ''/'' then paint MAUVE ''/'' @ paint TEXT ''command'' @ ''  ''
        @ paint OVERLAY0 (join ('' '' @ sym_middot @ '' '') [''architect'', ''execute'', ''status'', ''index'' @ ellipsis])
      else paint OVERLAY0 ''>'' @ ''  '' @ paint OVERLAY0 ''@agent  /commands'')"

definition help_sections :: "(string \<times> (string \<times> string) list) list" where
  "help_sections = [
     (''Global'', [(''Ctrl+Q'', ''Quit AICAF''), (''?'', ''Open this help screen'')]),
     (''Session'', [(''Tab'', ''Cycle focus between agent panes''), (''f'', ''Follow: focus the first running agent''),
        (''d'', ''Toggle DAG sidebar''), (''l'', ''Open event log viewer''), (''m'', ''Open model configuration overlay''),
        (''/'', ''Open command palette''), (''Ctrl+C'', ''Send interrupt to focused agent''),
        (''n'', ''New session in same project''), (''p'', ''Go to project screen'')]),
     (''Chat'', [(''r'', ''Cycle agent role''), (''m'', ''Cycle available models for current role''),
        (''p'', ''Return to launcher''), (''/'', ''Command palette'')]),
     (''Launcher'', [(arrow_up @ '' / k'', ''Move selection up''), (arrow_down @ '' / j'', ''Move selection down''),
        (''Enter'', ''Open selected project''), (''n'', ''Create new project''), (''c'', ''Open quick chat''), (''q'', ''Quit'')]),
     (''Project'', [(''Enter'', ''Open selected session''), (''n'', ''New session''), (''i'', ''Re-index codebase''),
        (''Esc'', ''Go back'')]),
     (''Command Palette'', [(arrow_up @ '' / '' @ arrow_down, ''Navigate commands''), (''Enter'', ''Execute selected command''),
        (''Esc'', ''Dismiss'')]),
     (''Input Bar'', [(''@role'', ''Route message to agent by role (e.g. @coder)''),
        (''@id'', ''Route message to specific agent by ID''), (arrow_up @ '' / '' @ arrow_down, ''Cycle command history'')])]"

definition help_lines :: "string list" where
  "help_lines = concat (map (\<lambda>(heading, bindings).
     ([nl] @ paint (bold OVERLAY1) heading @ [nl] @ rule_line 50)
     # map (\<lambda>(key, desc). ''  '' @ paint (bold BLUE) (ljust 18 key) @ ''  '' @ paint TEXT desc) bindings) help_sections)"

section \<open>What the logs show\<close>

lemma mounted_Inr: "mounted id (map Inr xs) = xs"
  by (induction xs) simp_all

lemma mounted_append: "\<not> list_ex (\<lambda>x. \<exists>e. x = Inl e) xs \<Longrightarrow> mounted id (xs @ ys) = mounted id xs @ mounted id ys"
  by (induction xs) (auto split: sum.splits)

text \<open>A stream writes the tokens in order, counts each, and ends with one line.\<close>

lemma stream_agent_shows:
  "tu_session t = Some s \<Longrightarrow>
   stream_agent fr f1 role tokens elapsed t lg =
     (Inr (), t\<lparr>tu_session := Some (s\<lparr>ts_tokens := ts_tokens s + int (length tokens)\<rparr>)\<rparr>,
      lg @ tokens @ [[nl] @ ''  '' @ paint OVERLAY0 (sym_tick @ '' '' @ py_str fr role @ '' done  ''
        @ int_str (int (length tokens)) @ '' tokens  '' @ f1 (elapsed / 1000) @ ''s'') @ [nl]])"
proof -
  assume s: "tu_session t = Some s"
  have c: "fold (\<lambda>_. add_tokens 1) tokens u = u\<lparr>ts_tokens := ts_tokens u + int (length tokens)\<rparr>" for u
    by (induction tokens arbitrary: u) (simp_all add: add_tokens_def)
  have n: "\<not> list_ex (\<lambda>x. \<exists>e. x = Inl e) (map Inr tokens)" by (simp add: list_ex_iff)
  have f: "find (\<lambda>x. \<exists>e. x = Inl e) (map Inr tokens @ [Inr z]) = None" for z
    by (auto simp: find_None_iff)
  show ?thesis
    by (simp add: stream_agent_def writes_def agent_done_def seconds_def mounted_append [OF n] mounted_Inr f s c on_session_def)
qed

text \<open>An agent whose stream was shown is not announced again when its completion event arrives.\<close>

lemma announced_once:
  "get_or ev ''type'' (JStr []) = JStr ''work_complete'' \<Longrightarrow> get_or ev ''agent_id'' (JStr []) = JStr i \<Longrightarrow>
   i \<in> set streamed \<Longrightarrow> event_lines fr f1 streamed ev t = []"
  by (simp add: event_lines_def shown_agent_of_def Let_def)

text \<open>The tokens of an agent are counted twice: the screen adds one for each token it streams, and the completion event
  adds the counts of the orchestrator once more.\<close>

theorem tokens_counted_twice:
  assumes "tu_session t = Some s" "map_of (ts_agents s) aid = Some a" "aid \<noteq> []" "aid \<in> set streamed"
    and "stream_agent fr f1 role tokens elapsed t lg = (r, t1, lg1)"
  shows "\<exists>t2 s2. screen_event fr f1 now streamed (event_json \<lparr>ev_type = Work_Complete, ev_session = sid, ev_agent = Some aid,
        ev_payload = work_complete_payload g content i n latency, ev_ts = ts\<rparr>) t1 lg1 = (Inr (), t2, lg1) \<and>
     tu_session t2 = Some s2 \<and> ts_tokens s2 = ts_tokens s + int (length tokens) + i + n"
proof -
  let ?s1 = "s\<lparr>ts_tokens := ts_tokens s + int (length tokens)\<rparr>"
  let ?ev = "event_json \<lparr>ev_type = Work_Complete, ev_session = sid, ev_agent = Some aid,
        ev_payload = work_complete_payload g content i n latency, ev_ts = ts\<rparr>"
  have t1: "tu_session t1 = Some ?s1" using assms(5) stream_agent_shows [OF assms(1)] by auto
  have a1: "map_of (ts_agents ?s1) aid = Some a" using assms(2) by simp
  obtain ids s2 where e: "handle_ws_event fr now ?ev t1 = (Inr ids, t1\<lparr>tu_session := Some s2\<rparr>)"
    "ts_tokens s2 = ts_tokens ?s1 + i + n"
    using work_complete_effect [OF t1 a1 assms(3), of fr now sid g content i n latency ts] by (elim exE conjE) (rule that)
  obtain d where d: "?ev = JObj d" "get_or d ''type'' (JStr []) = JStr ''work_complete''"
    "get_or d ''agent_id'' (JStr []) = JStr aid"
    by (simp add: event_json_def get_or_def)
  have "event_lines fr f1 streamed d u = []" for u using announced_once [OF d(2,3) assms(4)] .
  then have "screen_event fr f1 now streamed ?ev t1 lg1 = (Inr (), t1\<lparr>tu_session := Some s2\<rparr>, lg1)"
    using e(1) by (simp add: screen_event_def as_dict_def d(1) writes_def)
  then show ?thesis using e(2) by simp
qed

text \<open>Redrawing the chat labels the earlier answers with the role chosen last.\<close>

lemma redraw_relabels:
  "redraw_history ''tester'' [(''user'', q), (''assistant'', a), (''user'', q2)] =
     system_line (paint OVERLAY0 ''r=role  m=model  Esc=back'') #
     user_lines q @ [role_line ''tester'', ''  '' @ a, []] @ user_lines q2"
  by (simp add: redraw_history_def turn_lines_def)

text \<open>The palette draws the commands it filters.\<close>

lemma palette_commands_names: "map fst palette_commands = palette_names"
  by (simp add: palette_commands_def palette_names_def)

section \<open>Documented keys\<close>

text \<open>The name of a key on the help screen, as the library calls it.\<close>

definition key_name :: "string \<Rightarrow> string" where
  "key_name k = get_or [(''?'', ''question_mark''), (''/'', ''slash''), (''Ctrl+Q'', ''ctrl+q''), (''Ctrl+C'', ''ctrl+c''),
     (''Esc'', ''escape''), (''Enter'', ''enter''), (''Tab'', ''tab'')] k k"

definition documented :: "string \<Rightarrow> string list" where
  "documented heading = map fst (get_or help_sections heading [])"

definition footer_keys :: "string \<Rightarrow> string list" where
  "footer_keys screen_name = map fst (get_or HINTS screen_name [])"

text \<open>Keys that are documented and do nothing.  With the focus outside the input line, the session screen has no
  action for the documented keys Tab, f and the slash, and the chat screen none for p and the slash, which its
  footer shows as well; all other documented keys of the two screens act.\<close>

theorem dead_keys:
  "filter (\<lambda>k. screen_key pid sid False (key_name k) = None) (documented ''Global'' @ documented ''Session'') = [''Tab'', ''f'', ''/''] \<and>
   filter (\<lambda>k. chat_key False (key_name k) = None) (documented ''Chat'') = [''p'', ''/''] \<and>
   filter (\<lambda>k. chat_key False (key_name k) = None) (footer_keys ''chat'') = [''/'', ''p''] \<and>
   (\<forall>k. chat_key True k \<noteq> None \<longleftrightarrow> k = ''escape'' \<or> k = ''ctrl+q'')"
  by (auto simp: documented_def footer_keys_def help_sections_def HINTS_def get_or_def key_name_def screen_key_def chat_key_def)

end
