(* ===== verification/Spec2Isabelle.thy ===== *)
theory Spec2Isabelle
  imports Utils Task_Props Patch_Props Agent_Bus Agent_Props Metrics Routing_Props Session_Props Ast_Indexer Memory_Props Session_Hooks
    Command_Parser Debate Skill_Loader Executor_Client Executor_Start File_Watcher
    Api_Props Tui_Form_Props Tui_Log
begin

text \<open>
  The AI coding agent factory runs language-model agents on a code base.  It consists of three
  programs, and this development models the logic of each:

  \<^item> the orchestrator (\<open>src/orchestrator\<close>), an HTTP server that keeps sessions, plans,
    agents, patches and memories, with Redis, ChromaDB and model servers behind it;
  \<^item> the executor (\<open>src/executor\<close>), a service that runs commands and applies patches inside
    the workspace, called by the orchestrator only;
  \<^item> the terminal interface (\<open>src/tui\<close>), a client of the orchestrator that follows a session
    over a WebSocket.

  A request enters through \<open>main.py\<close>, which guards it and calls a component.  A plan becomes
  task records in Redis; executing it spawns agents in dependency order; the answer of an agent
  carries diffs; these are queued as patches, checked for conflicts and handed to the executor.
  Agents publish events on a bus, which the WebSocket endpoint sends to the interface.

  \<^bold>\<open>Conventions.\<close>  A dataclass is a \<open>record\<close>, an enum a \<open>datatype\<close>, a dict an association list in
  insertion order, an untyped value a \<open>json\<close>.  A call that may raise returns \<open>exn + 'a\<close>, \<open>Inl\<close>
  for the exception.  Python integers are \<open>int\<close> or \<open>nat\<close>, as they are unbounded; floats that
  are only compared or added are reals.  Everything outside the repository (Redis, ChromaDB,
  HTTP, \<open>git\<close>, the file system, processes, clock, fresh ids, HMAC, hashes) is a record of
  functions on a world of type \<open>'w\<close> that the model threads through its calls.  What the
  code relies on of such a service is a locale, stated over a view of the world and interpreted
  on a reference instance that the witnesses run: \<open>redis_server\<close> (\<open>Redis\<close>), \<open>task_host\<close>
  (\<open>Task_Exec\<close>), \<open>session_host\<close> (\<open>Session_Manager\<close>), \<open>memory_host\<close> (\<open>Memory_Props\<close>) and
  \<open>record_file\<close> (\<open>Fine_Tune\<close>).  Coroutines and threads that run side by side interleave through
  an arbitrary function or list of steps, over which the theorems quantify.

  \<^bold>\<open>Grain of the steps.\<close>  Interleaved are the coroutines of a batch of tasks, the subscriber of an agent's stream,
  the activities of the file watcher, and the enqueue calls of \<open>Patch_Props\<close>.  Elsewhere an
  operation of one component is one step, although the source awaits Redis or files inside it: the update of a
  task's status with the propagation of a failure, the enqueuing of several diffs of one answer, the writes of
  \<open>create_session\<close> and \<open>configure_models\<close>.  An agent enters the registry of the model when its run has ended; what
  others see of a running agent is modelled on registries that hold one.  The cancellation of a
  coroutine from outside is not modelled.  A task has its role and description: the endpoint that loads plans does
  not check them, and a task without them makes \<open>_run_single_task\<close> raise after it took the lease.  In the
  command palette a change of the text and the filtering it triggers are one step.

  \<^bold>\<open>Shared vocabulary.\<close>  \<open>Prelude\<close> holds results, JSON values and dicts, \<open>Py_Str\<close> the
  operations of \<open>str\<close>, \<open>Py_Re\<close> a backtracking matcher for \<open>re\<close> with the language of
  anchor-free patterns, \<open>Py_Json\<close> the decoder and encoder of \<open>json\<close>, \<open>Redis\<close> the commands
  of the server.

  \<^bold>\<open>Orchestrator.\<close>
  \<^item> \<open>Utils\<close>: \<open>utils.py\<close>.  The sanitizer leaves no injection pattern; extracted diffs are pieces of
    the answer.
  \<^item> \<open>Task_Dag\<close>, \<open>Task_Queue\<close>, \<open>Task_Plan\<close>, \<open>Task_Exec\<close>, \<open>Task_Props\<close>: \<open>task_queue.py\<close>.  Kahn's
    algorithm accepts exactly the acyclic plans; every Redis operation implements an operation on
    abstract plans (\<open>plan_at\<close>); execution ends for every interleaving, in dependency order.
  \<^item> \<open>Patch_Queue\<close>, \<open>Patch_Props\<close>: \<open>patch_queue.py\<close> over a store of shared patch objects: the sandbox before
    the live workspace, enqueue calls that overlap (\<open>enq_step\<close>, of which an uninterrupted \<open>enqueue\<close> is
    a run), and the loop of test and fix, counted by the calls it makes.
  \<^item> \<open>Agent_Bus\<close>: \<open>agent_bus.py\<close> and \<open>models.py\<close>: delivery through bounded queues.
  \<^item> \<open>Metrics\<close>, \<open>Config\<close>, \<open>Model_Registry\<close>: \<open>metrics.py\<close>, \<open>config.py\<close>, \<open>model_registry.py\<close>.
  \<^item> \<open>Agent_Manager\<close>, \<open>Agent_Props\<close>: \<open>agent_manager.py\<close>.  What a run streams and how it settles.
  \<^item> \<open>Routing\<close>, \<open>Routing_Props\<close>: \<open>routing_policy.py\<close>, \<open>router.py\<close>, \<open>gateway.py\<close>.
  \<^item> \<open>Session_Manager\<close>, \<open>Session_Props\<close>: \<open>session_manager.py\<close>: both keys of a session expire
    together in every reachable state, a session reads back as created.
  \<^item> \<open>Ast_Indexer\<close>, \<open>Memory\<close>, \<open>Memory_Props\<close>: \<open>ast_indexer.py\<close>, \<open>memory_manager.py\<close>: no line is
    lost by chunking, what the collections hold.
  \<^item> \<open>Context\<close>: \<open>context_manager.py\<close>: the prompt stays within the token budget.
  \<^item> \<open>Session_Hooks\<close>, \<open>Fine_Tune\<close>, \<open>Skill_Loader\<close>, \<open>Debate\<close>, \<open>Command_Parser\<close>: the files of
    these names.
  \<^item> \<open>Executor_Client\<close>: \<open>executor_client.py\<close>, and its composition with the executor and the
    patch queue.
  \<^item> \<open>File_Watcher\<close>: \<open>file_watcher.py\<close> as a step relation.
  \<^item> \<open>Webhook\<close>: \<open>webhook_handler.py\<close>.
  \<^item> \<open>Api_Sessions\<close>, \<open>Api_Work\<close>, \<open>Api_Chat\<close>, \<open>Api_Props\<close>: the endpoints of \<open>main.py\<close> on top of
    all components, and what a client sees of a plan it loads and executes.

  \<^bold>\<open>Executor.\<close>  \<open>Executor\<close>: \<open>executor/main.py\<close>: only allowed commands run, in checked
  directories, and only files inside the workspace are handed out (a file of a sibling directory whose name
  continues that of the workspace is read before it is refused).  \<open>Executor_Start\<close>: the start of the
  service and the limits of child processes, and the cache of parsers of \<open>ast_indexer.py\<close>.

  \<^bold>\<open>Terminal interface\<close> (\<open>src/tui/tui\<close>).
  \<^item> \<open>Tui_State\<close>, \<open>Tui_Client\<close>, \<open>Tui_Store\<close>: \<open>state.py\<close>, \<open>client.py\<close>, \<open>store.py\<close>.
  \<^item> \<open>Tui_Service\<close>, \<open>Tui_Props\<close>: \<open>services/session_service.py\<close>, the invariant of the state under
    all its operations, and its composition with the orchestrator's events and endpoints.
  \<^item> \<open>Tui_Project\<close>: \<open>services/project_service.py\<close>, \<open>utils/git.py\<close> and the start in \<open>main.py\<close>
    and \<open>app.py\<close>.
  \<^item> \<open>Tui_Layout\<close>: \<open>layout/session_layout.py\<close>, \<open>utils/format.py\<close>.
  \<^item> \<open>Tui_Input\<close>: \<open>widgets/input_bar.py\<close>, \<open>screens/command_palette.py\<close>.
  \<^item> \<open>Tui_Screens\<close>: \<open>screens/chat.py\<close>, \<open>screens/session.py\<close>: input, streams and loops.
  \<^item> \<open>Tui_Theme\<close>: \<open>theme.py\<close> and the markup of the widgets; the stream buffer of a pane loses nothing.
  \<^item> \<open>Tui_Forms\<close>, \<open>Tui_Form_Props\<close>: launcher, project, new project, new session, model configuration and the
    router of \<open>app.py\<close>; what the screens and the orchestrator hold for the models of a session agrees.
  \<^item> \<open>Tui_Log\<close>: the logs that \<open>screens/session.py\<close> and \<open>screens/chat.py\<close> write, their keys, \<open>screens/logs.py\<close>,
    \<open>screens/help.py\<close>, the drawn palette and the hint of the input bar.

  \<^bold>\<open>Loops and fuel.\<close>  Loops are structural or have a measure, with two exceptions.  The loop of
  \<open>execute_plan\<close>, which need not end in general, takes fuel and returns \<open>None\<close> when it is
  used up; the number of tasks plus one is proved to be enough.  The JSON decoder takes the
  length of the document as fuel, which bounds its nesting.

  \<^bold>\<open>Characters.\<close>  A character is a code point below 256.  The code points above that occur in the
  sources only inside fixed labels, and each stands as one control character: dash 0x97,
  ellipsis 0x83, warning sign 0x8E 0x8F, check mark 0x8D, tick 0x9E, arrows 0x8C, 0x86, 0x87 and
  0x98, blocks 0x89 and 0x8A, and the symbols named in \<open>Tui_Theme\<close>.

  \<^bold>\<open>Not modelled.\<close>  The start-up wiring of the orchestrator's \<open>lifespan\<close>, the accessors of its
  singletons, and what FastAPI and pydantic do before an endpoint is called; logging; the semaphore of
  the executor client; starting and stopping threads; of the terminal interface the construction of
  widgets, style sheets, focus, scrolling, delays, the life cycle of the framework and the argument
  parser; the PowerShell launcher, the Markdown prompts and the deployment files.  They contain no
  logic of the program, belong to a framework, or are not in its language.
\<close>

end
